(* ===== verification/Prelude.thy ===== *)
theory Prelude
  imports Complex_Main "HOL-Library.State_Monad"
begin

text \<open>
  Shared ground of the development: the weakest-precondition reading of the library's state
  monad, in which every effectful operation of the operator is written, and the helpers for
  Go strings and integers that several components use.

  An operation of type \<open>('s, 'a) state\<close> is deterministic and total; \<open>wp m Q s\<close> says that
  running \<open>m\<close> from \<open>s\<close> ends in a value and a state that satisfy \<open>Q\<close>. The collection
  \<open>wp_simps\<close> rewrites \<open>wp\<close> of a compound operation into conditions on its parts.
\<close>

named_theorems wp_simps \<open>weakest preconditions of compound operations\<close>

subsection \<open>Weakest preconditions\<close>

definition wp :: "('s, 'a) state \<Rightarrow> ('a \<Rightarrow> 's \<Rightarrow> bool) \<Rightarrow> 's \<Rightarrow> bool" where
  "wp m Q s = (case run_state m s of (a, t) \<Rightarrow> Q a t)"

lemma wp_return [wp_simps]: "wp (State_Monad.return a) Q s = Q a s"
  by (simp add: wp_def)

lemma wp_bind [wp_simps]: "wp (State_Monad.bind m f) Q s = wp m (\<lambda>a. wp (f a) Q) s"
  by (simp add: wp_def split: prod.splits)

lemma wp_get [wp_simps]: "wp State_Monad.get Q s = Q s s"
  by (simp add: wp_def)

lemma wp_set [wp_simps]: "wp (State_Monad.set t) Q s = Q () t"
  by (simp add: wp_def)

lemma wp_update [wp_simps]: "wp (State_Monad.update f) Q s = Q () (f s)"
  by (simp add: wp_def State_Monad.update_def)

lemma wp_if [wp_simps]:
  "wp (if b then m else n) Q s = (if b then wp m Q s else wp n Q s)"
  by simp

lemma wp_case_sum [wp_simps]:
  "wp (case r of Inl e \<Rightarrow> f e | Inr a \<Rightarrow> g a) Q s
     = (case r of Inl e \<Rightarrow> wp (f e) Q s | Inr a \<Rightarrow> wp (g a) Q s)"
  by (cases r) simp_all

lemma wp_case_option [wp_simps]:
  "wp (case r of None \<Rightarrow> m | Some a \<Rightarrow> g a) Q s
     = (case r of None \<Rightarrow> wp m Q s | Some a \<Rightarrow> wp (g a) Q s)"
  by (cases r) simp_all

lemma wp_case_list [wp_simps]:
  "wp (case r of [] \<Rightarrow> m | x # xs \<Rightarrow> g x xs) Q s
     = (case r of [] \<Rightarrow> wp m Q s | x # xs \<Rightarrow> wp (g x xs) Q s)"
  by (cases r) simp_all

lemma wp_case_prod [wp_simps]:
  "wp (case p of (a, b) \<Rightarrow> f a b) Q s = (case p of (a, b) \<Rightarrow> wp (f a b) Q s)"
  by (cases p) simp

lemma wp_Let [wp_simps]: "wp (Let x f) Q s = (let y = x in wp (f y) Q s)"
  by simp

lemma wp_mono: "wp m Q s \<Longrightarrow> (\<And>a t. Q a t \<Longrightarrow> R a t) \<Longrightarrow> wp m R s"
  by (auto simp: wp_def)

lemma wp_conj: "wp m Q s \<Longrightarrow> wp m R s \<Longrightarrow> wp m (\<lambda>a t. Q a t \<and> R a t) s"
  by (auto simp: wp_def)

lemma wp_run: "wp m Q s \<Longrightarrow> run_state m s = (a, t) \<Longrightarrow> Q a t"
  by (simp add: wp_def)

lemma wp_fst_snd: "wp m Q s = Q (fst (run_state m s)) (snd (run_state m s))"
  by (simp add: wp_def split: prod.splits)

subsection \<open>Go strings and integers\<close>

text \<open>A Go string is a sequence of bytes: a \<open>char list\<close>. A \<open>time.Duration\<close> is a count of
  nanoseconds that the operator only compares with zero and passes on.\<close>

type_synonym duration = int

definition second :: duration where
  "second = 1000000000"

text \<open>\<open>strconv.Itoa\<close> and \<open>%d\<close>: decimal digits with a sign.\<close>

fun digits_of :: "nat \<Rightarrow> string" where
  "digits_of n =
     (if n < 10 then [char_of (48 + n)] else digits_of (n div 10) @ [char_of (48 + n mod 10)])"

declare digits_of.simps [simp del]

definition itoa :: "int \<Rightarrow> string" where
  "itoa i = (if i < 0 then ''-'' @ digits_of (nat (- i)) else digits_of (nat i))"

text \<open>\<open>strings.Join\<close>.\<close>

fun strings_Join :: "string list \<Rightarrow> string \<Rightarrow> string" where
  "strings_Join [] sep = []"
| "strings_Join [x] sep = x"
| "strings_Join (x # y # xs) sep = x @ sep @ strings_Join (y # xs) sep"

text \<open>\<open>strings.HasPrefix s p\<close>.\<close>

fun strings_HasPrefix :: "string \<Rightarrow> string \<Rightarrow> bool" where
  "strings_HasPrefix s [] = True"
| "strings_HasPrefix [] (c # p) = False"
| "strings_HasPrefix (d # s) (c # p) = (d = c \<and> strings_HasPrefix s p)"

lemma strings_HasPrefix_iff: "strings_HasPrefix s p \<longleftrightarrow> (\<exists>r. s = p @ r)"
  by (induction s p rule: strings_HasPrefix.induct) auto

text \<open>Byte ranges such as \<open>'a' <= c && c <= 'z'\<close>.\<close>

definition char_in :: "char \<Rightarrow> char \<Rightarrow> char \<Rightarrow> bool" where
  "char_in lo hi c \<longleftrightarrow> (of_char lo :: nat) \<le> of_char c \<and> (of_char c :: nat) \<le> of_char hi"

text \<open>\<open>strings.TrimSpace\<close> on the ASCII white space it removes (tab, newline, vertical tab,
  form feed, carriage return, space).\<close>

definition is_space :: "char \<Rightarrow> bool" where
  "is_space c \<longleftrightarrow> c \<in> {char_of (9::nat), char_of (10::nat), char_of (11::nat),
     char_of (12::nat), char_of (13::nat), CHR '' ''}"

definition strings_TrimSpace :: "string \<Rightarrow> string" where
  "strings_TrimSpace s = rev (dropWhile is_space (rev (dropWhile is_space s)))"

lemma dropWhile_snoc_kept: "\<not> P x \<Longrightarrow> dropWhile P (xs @ [x]) = dropWhile P xs @ [x]"
  by (induction xs) auto

lemma TrimSpace_ends:
  "strings_TrimSpace s = [] \<or>
     (\<not> is_space (hd (strings_TrimSpace s)) \<and> \<not> is_space (last (strings_TrimSpace s)))"
proof -
  define t where "t = dropWhile is_space s"
  define u where "u = dropWhile is_space (rev t)"
  have trim: "strings_TrimSpace s = rev u" by (simp add: strings_TrimSpace_def t_def u_def)
  show ?thesis
  proof (cases u)
    case Nil
    then show ?thesis by (simp add: trim)
  next
    case (Cons c u')
    then have c: "\<not> is_space c"
      using hd_dropWhile [of is_space "rev t"] by (simp add: u_def)
    obtain pre where pre: "rev t = pre @ u"
      using takeWhile_dropWhile_id [of is_space "rev t"] by (metis u_def)
    then have t: "t = rev u @ rev pre" by (metis rev_append rev_rev_ident)
    have "rev u \<noteq> []" using Cons by simp
    with t have "t \<noteq> []" and "hd t = hd (rev u)" by auto
    then have "\<not> is_space (hd (rev u))"
      using hd_dropWhile [of is_space s] by (simp add: t_def)
    moreover have "last (rev u) = c" using Cons by simp
    ultimately show ?thesis using c by (simp add: trim)
  qed
qed

lemma TrimSpace_idem [simp]: "strings_TrimSpace (strings_TrimSpace s) = strings_TrimSpace s"
proof -
  define r where "r = strings_TrimSpace s"
  have ends: "r = [] \<or> (\<not> is_space (hd r) \<and> \<not> is_space (last r))"
    using TrimSpace_ends [of s] by (simp add: r_def)
  have front: "dropWhile is_space r = r" using ends by (cases r) auto
  have rear: "dropWhile is_space (rev r) = rev r"
    using ends by (cases r rule: rev_cases) auto
  show ?thesis unfolding r_def [symmetric]
    by (simp add: strings_TrimSpace_def [of r] front rear)
qed

subsection \<open>Lists\<close>

lemma list_all_filter_iff: "list_all P xs \<longleftrightarrow> filter (\<lambda>x. \<not> P x) xs = []"
  by (induction xs) auto

lemma find_None_iff_all: "List.find P xs = None \<longleftrightarrow> (\<forall>x \<in> set xs. \<not> P x)"
  by (auto simp: find_None_iff)

end
