(* ===== verification/Errors.thy ===== *)
theory Errors
  imports Prelude
begin

text \<open>
  The package \<open>internal/errors\<close>: the error value every component returns, its coarse reason,
  the predicates the reconcilers branch on, and the classification of HTTP answers.

  A Go \<open>error\<close> is a tree: a \<open>*Base\<close> of this package, an error of \<open>fmt.Errorf\<close> with \<open>%w\<close>
  around another one, or a foreign error that wraps nothing of interest. The nil error is
  \<open>None\<close> of the option type, so a function returning \<open>error\<close> returns \<open>go_error option\<close> and one
  returning \<open>(T, error)\<close> returns \<open>go_error + T\<close>.
\<close>

subsection \<open>Reasons and codes\<close>

datatype Reason =
    ReasonUnknown
  | ReasonInvalidInput
  | ReasonUnauthorized
  | ReasonForbidden
  | ReasonNotFound
  | ReasonAlreadyExists
  | ReasonTooManyRequests
  | ReasonInternal
  | ReasonUnreachable

fun Retryable :: "Reason \<Rightarrow> bool" where
  "Retryable r =
     (case r of
        ReasonInvalidInput \<Rightarrow> False
      | ReasonUnauthorized \<Rightarrow> False
      | ReasonForbidden \<Rightarrow> False
      | ReasonAlreadyExists \<Rightarrow> False
      | _ \<Rightarrow> True)"

datatype Code = Code (code_String: string)

definition CodeUnknown :: Code where
  "CodeUnknown = Code ''Unknown''"

definition NewCode :: "string \<Rightarrow> Code" where
  "NewCode s = Code s"

subsection \<open>The error value\<close>

datatype Base =
    Base (base_reason: Reason) (base_code: Code) (base_message: string)
      (base_cause: "go_error option")
and go_error =
    BaseErr Base
  | WrapErr string go_error
  | PlainErr string

fun Error :: "go_error \<Rightarrow> string" where
  "Error (BaseErr (Base r c m None)) = m"
| "Error (BaseErr (Base r c m (Some e))) = m @ '': '' @ Error e"
| "Error (WrapErr m e) = m"
| "Error (PlainErr m) = m"

definition WithCode :: "Base \<Rightarrow> Code \<Rightarrow> Base" where
  "WithCode b code = Base (base_reason b) code (base_message b) (base_cause b)"

definition errors_New :: "Reason \<Rightarrow> string \<Rightarrow> Base" where
  "errors_New reason message = Base reason CodeUnknown message None"

definition errors_Wrap :: "go_error \<Rightarrow> Reason \<Rightarrow> string \<Rightarrow> Base" where
  "errors_Wrap cause reason message = Base reason CodeUnknown message (Some cause)"

text \<open>\<open>fmt.Errorf\<close> with a text and a final \<open>%w\<close>: the wrapped error's text ends the message.\<close>

definition Errorf_w :: "string \<Rightarrow> go_error \<Rightarrow> go_error" where
  "Errorf_w txtm e = WrapErr (txtm @ Error e) e"

subsection \<open>Walking the chain\<close>

text \<open>\<open>errors.As\<close> with a \<open>*Base\<close> target: the first \<open>Base\<close> met from the outside in.\<close>

fun errors_As :: "go_error \<Rightarrow> Base option" where
  "errors_As (BaseErr b) = Some b"
| "errors_As (WrapErr m e) = errors_As e"
| "errors_As (PlainErr m) = None"

definition ReasonForError :: "go_error option \<Rightarrow> Reason" where
  "ReasonForError err =
     (case err of
        None \<Rightarrow> ReasonUnknown
      | Some e \<Rightarrow> (case errors_As e of Some b \<Rightarrow> base_reason b | None \<Rightarrow> ReasonUnknown))"

definition IsNotFound :: "go_error option \<Rightarrow> bool" where
  "IsNotFound err \<longleftrightarrow> ReasonForError err = ReasonNotFound"

definition IsAlreadyExists :: "go_error option \<Rightarrow> bool" where
  "IsAlreadyExists err \<longleftrightarrow> ReasonForError err = ReasonAlreadyExists"

definition IsUnauthorized :: "go_error option \<Rightarrow> bool" where
  "IsUnauthorized err \<longleftrightarrow> ReasonForError err = ReasonUnauthorized"

definition IsForbidden :: "go_error option \<Rightarrow> bool" where
  "IsForbidden err \<longleftrightarrow> ReasonForError err = ReasonForbidden"

definition IsUnreachable :: "go_error option \<Rightarrow> bool" where
  "IsUnreachable err \<longleftrightarrow> ReasonForError err = ReasonUnreachable"

definition IsRetryable :: "go_error option \<Rightarrow> bool" where
  "IsRetryable err \<longleftrightarrow> err \<noteq> None \<and> Retryable (ReasonForError err)"

lemmas error_predicates = IsNotFound_def IsAlreadyExists_def IsUnauthorized_def IsForbidden_def
  IsUnreachable_def IsRetryable_def

subsection \<open>Classifying an HTTP answer\<close>

text \<open>\<open>cmpct\<close> is \<open>json.Compact\<close>: \<open>None\<close> when the body is not JSON. A nil body and an empty one
  are both the empty string.\<close>

definition http_detail :: "(string \<Rightarrow> string option) \<Rightarrow> string \<Rightarrow> string" where
  "http_detail cmpct body =
     (if body = [] then []
      else (case cmpct body of Some c \<Rightarrow> '': '' @ c | None \<Rightarrow> []))"

definition NewFromHTTPResponse ::
  "(string \<Rightarrow> string option) \<Rightarrow> int \<Rightarrow> string \<Rightarrow> Base option" where
  "NewFromHTTPResponse cmpct status body =
     (let newf = (\<lambda>reason txtm.
            Some (errors_New reason
              (txtm @ '' (HTTP '' @ itoa status @ '')'' @ http_detail cmpct body)))
      in if 200 \<le> status \<and> status < 300 then None
         else if status = 400 then newf ReasonInvalidInput ''the server rejected the request''
         else if status = 401 then newf ReasonUnauthorized ''the server rejected the credential''
         else if status = 403 then newf ReasonForbidden ''the server rejected the credential''
         else if status = 404 then newf ReasonNotFound ''the server could not find the object''
         else if status = 409 then newf ReasonAlreadyExists ''the server reported a conflict''
         else if status = 429 then newf ReasonTooManyRequests ''the server asked to back off''
         else if 500 \<le> status then newf ReasonInternal ''the server returned an internal error''
         else newf ReasonUnknown ''the server returned an unexpected status'')"

definition http_error :: "(string \<Rightarrow> string option) \<Rightarrow> int \<Rightarrow> string \<Rightarrow> go_error option" where
  "http_error cmpct status body = map_option BaseErr (NewFromHTTPResponse cmpct status body)"

subsection \<open>Facts about the chain and the classifier\<close>

lemma As_Errorf_w [simp]: "errors_As (Errorf_w m e) = errors_As e"
  by (simp add: Errorf_w_def)

lemma As_WithCode [simp]: "errors_As (BaseErr (WithCode b c)) = Some (WithCode b c)"
  by simp

lemma WithCode_sel [simp]:
  "base_reason (WithCode b c) = base_reason b"
  "base_code (WithCode b c) = c"
  "base_message (WithCode b c) = base_message b"
  "base_cause (WithCode b c) = base_cause b"
  by (simp_all add: WithCode_def)

lemma errors_New_sel [simp]:
  "base_reason (errors_New r m) = r"
  "base_code (errors_New r m) = CodeUnknown"
  "base_message (errors_New r m) = m"
  "base_cause (errors_New r m) = None"
  by (simp_all add: errors_New_def)

lemma ReasonForError_Base [simp]: "ReasonForError (Some (BaseErr b)) = base_reason b"
  by (simp add: ReasonForError_def)

lemma ReasonForError_Errorf_w [simp]:
  "ReasonForError (Some (Errorf_w m e)) = ReasonForError (Some e)"
  by (simp add: ReasonForError_def)

lemma http_error_None_iff:
  "http_error cmpct status body = None \<longleftrightarrow> 200 \<le> status \<and> status < 300"
  by (simp add: http_error_def NewFromHTTPResponse_def Let_def)

lemma http_error_reason:
  assumes "http_error cmpct status body = Some e"
  shows "ReasonForError (Some e) =
    (if status = 400 then ReasonInvalidInput
     else if status = 401 then ReasonUnauthorized
     else if status = 403 then ReasonForbidden
     else if status = 404 then ReasonNotFound
     else if status = 409 then ReasonAlreadyExists
     else if status = 429 then ReasonTooManyRequests
     else if 500 \<le> status then ReasonInternal
     else ReasonUnknown)"
  using assms
  by (auto simp: http_error_def NewFromHTTPResponse_def Let_def split: if_splits)

end
