(* ===== verification/Api.thy ===== *)
theory Api
  imports Errors "HOL-Library.Finite_Map"
begin

text \<open>
  The API types shared by every kind (\<open>api/resources/v1alpha1/core.go\<close>,
  \<open>providerconfig_types.go\<close>, \<open>clusterproviderconfig_types.go\<close>) and the parts of
  \<open>metav1.ObjectMeta\<close> and \<open>metav1.Condition\<close> the operator reads or writes. A pointer that may be
  nil is an \<open>option\<close>, a Go map a HOL map, or a finite map where maps are compared; a nil map and
  an empty one are the same value.
\<close>

subsection \<open>core.go\<close>

definition AnnotationCreateAttempt :: string where
  "AnnotationCreateAttempt = ''resources.signoz.io/create-attempt''"

definition AnnotationSigNozResourceID :: string where
  "AnnotationSigNozResourceID = ''resources.signoz.io/signoz-resource-id''"

definition ResourceFinalizer :: string where
  "ResourceFinalizer = ''resources.signoz.io/finalizer''"

type_synonym ReclaimPolicy = string

definition ReclaimDelete :: ReclaimPolicy where
  "ReclaimDelete = ''Delete''"

definition ReclaimOrphan :: ReclaimPolicy where
  "ReclaimOrphan = ''Orphan''"

record ProviderConfigRef =
  ref_Name :: string
  ref_Kind :: string

record CoreSpec =
  cs_ProviderConfigRef :: ProviderConfigRef
  cs_Interval :: "duration option"
  cs_RetryInterval :: "duration option"
  cs_Timeout :: "duration option"
  cs_Suspend :: bool
  cs_ReclaimPolicy :: ReclaimPolicy

record SigNozResource =
  sr_ID :: "string option"

datatype ConditionStatus = ConditionTrue | ConditionFalse | ConditionUnknown

record Condition =
  c_Type :: string
  c_Status :: ConditionStatus
  c_ObservedGeneration :: int
  c_LastTransitionTime :: int
  c_Reason :: string
  c_Message :: string

record CoreStatus =
  st_Conditions :: "Condition list"
  st_SigNozResource :: "SigNozResource option"
  st_ObservedGeneration :: int
  st_ObservedHash :: string
  st_ReconciledAt :: int

definition GetIDFromSigNozResource :: "SigNozResource option \<Rightarrow> go_error + string" where
  "GetIDFromSigNozResource resourceMetadata =
     (case resourceMetadata of
        None \<Rightarrow> Inl (PlainErr ''signozResource carries no id'')
      | Some r \<Rightarrow>
          (case sr_ID r of
             None \<Rightarrow> Inl (PlainErr ''signozResource carries no id'')
           | Some i \<Rightarrow>
               if i = [] then Inl (PlainErr ''signozResource carries no id'') else Inr i))"

fun GetIDsFromSigNozResources :: "SigNozResource list \<Rightarrow> string list" where
  "GetIDsFromSigNozResources [] = []"
| "GetIDsFromSigNozResources (r # rs) =
     (case GetIDFromSigNozResource (Some r) of
        Inr i \<Rightarrow> i # GetIDsFromSigNozResources rs
      | Inl _ \<Rightarrow> GetIDsFromSigNozResources rs)"

subsection \<open>Object metadata\<close>

text \<open>\<open>om_DeletionTimestamp\<close> is \<open>None\<close> while the object is not being deleted.\<close>

record ObjectMeta =
  om_Name :: string
  om_Namespace :: string
  om_Generation :: int
  om_DeletionTimestamp :: "int option"
  om_Finalizers :: "string list"
  om_Annotations :: "string \<rightharpoonup> string"

record ObjectKey =
  key_Namespace :: string
  key_Name :: string

text \<open>\<open>client.ObjectKey.String\<close>: namespace, slash, name.\<close>

definition key_String :: "ObjectKey \<Rightarrow> string" where
  "key_String k = key_Namespace k @ ''/'' @ key_Name k"

subsection \<open>The custom resource of a mirrored kind\<close>

text \<open>The typed payload \<open>'t\<close> is the kind's \<open>ObjectSpec\<close>; the template sets one of the two forms.\<close>

record 't ObjectTemplate =
  tmpl_Spec :: "'t option"
  tmpl_JSONSpec :: "string option"

record 't resource =
  o_Meta :: ObjectMeta
  o_CoreSpec :: CoreSpec
  o_Template :: "'t ObjectTemplate"
  o_CoreStatus :: CoreStatus

subsection \<open>providerconfig_types.go\<close>

record KeySelector =
  sel_Name :: string
  sel_Key :: string

record ValueSource =
  vs_SecretKeyRef :: "KeySelector option"
  vs_ConfigMapKeyRef :: "KeySelector option"

record Endpoint =
  ep_Value :: string
  ep_ValueFrom :: "ValueSource option"

record HeaderAuth =
  ha_Name :: string
  ha_Scheme :: string
  ha_Value :: string
  ha_ValueFrom :: "ValueSource option"

record Authentication =
  au_Header :: "HeaderAuth option"

record TLSConfig =
  tls_InsecureSkipVerify :: bool
  tls_CASecretRef :: "KeySelector option"

record ProviderConfigSpec =
  pcs_Endpoint :: Endpoint
  pcs_Auth :: Authentication
  pcs_TLS :: "TLSConfig option"

datatype RefKind = RefKindSecret | RefKindConfigMap

record ProviderConfigStatus =
  pst_Conditions :: "Condition list"
  pst_ObservedGeneration :: int
  pst_ObservedRefVersions :: "(RefKind, (string, string) fmap) fmap"

record ProviderConfig =
  pc_Meta :: ObjectMeta
  pc_Spec :: ProviderConfigSpec
  pc_Status :: ProviderConfigStatus

definition ValueSources :: "ProviderConfigSpec \<Rightarrow> ValueSource option list" where
  "ValueSources s =
     [ep_ValueFrom (pcs_Endpoint s)]
     @ (case au_Header (pcs_Auth s) of None \<Rightarrow> [] | Some h \<Rightarrow> [ha_ValueFrom h])
     @ (case pcs_TLS s of
          None \<Rightarrow> []
        | Some t \<Rightarrow>
            (case tls_CASecretRef t of
               None \<Rightarrow> []
             | Some r \<Rightarrow> [Some \<lparr>vs_SecretKeyRef = Some r, vs_ConfigMapKeyRef = None\<rparr>]))"

text \<open>The names are a set in Go; ranging over it visits each name once, in some order. The
  model keeps the order in which the names are first met.\<close>

definition SecretNames :: "ProviderConfigSpec \<Rightarrow> string list" where
  "SecretNames s =
     foldl (\<lambda>names src.
        case Option.bind src vs_SecretKeyRef of
          Some r \<Rightarrow> if sel_Name r \<noteq> [] \<and> sel_Name r \<notin> set names then names @ [sel_Name r] else names
        | None \<Rightarrow> names) [] (ValueSources s)"

definition ConfigMapNames :: "ProviderConfigSpec \<Rightarrow> string list" where
  "ConfigMapNames s =
     foldl (\<lambda>names src.
        case Option.bind src vs_ConfigMapKeyRef of
          Some r \<Rightarrow> if sel_Name r \<noteq> [] \<and> sel_Name r \<notin> set names then names @ [sel_Name r] else names
        | None \<Rightarrow> names) [] (ValueSources s)"

subsection \<open>Facts\<close>

lemma GetID_Inr_iff [simp]:
  "GetIDFromSigNozResource m = Inr i \<longleftrightarrow> (\<exists>r. m = Some r \<and> sr_ID r = Some i \<and> i \<noteq> [])"
  by (auto simp: GetIDFromSigNozResource_def split: option.splits if_splits)

lemma GetID_None [simp]: "\<exists>e. GetIDFromSigNozResource None = Inl e"
  by (simp add: GetIDFromSigNozResource_def)

lemma GetIDs_map:
  "GetIDsFromSigNozResources rs =
     map (\<lambda>r. the (sr_ID r)) (filter (\<lambda>r. sr_ID r \<noteq> None \<and> sr_ID r \<noteq> Some []) rs)"
  by (induction rs) (auto simp: GetIDFromSigNozResource_def split: option.splits)

lemma ref_names_fold_distinct:
  "distinct acc \<Longrightarrow> distinct (foldl (\<lambda>names src. case sel src of
      Some r \<Rightarrow> if sel_Name r \<noteq> [] \<and> sel_Name r \<notin> set names then names @ [sel_Name r] else names
    | None \<Rightarrow> names) acc srcs)"
  by (induction srcs arbitrary: acc) (auto split: option.splits)

lemma ref_names_fold_set:
  "set (foldl (\<lambda>names src. case sel src of
      Some r \<Rightarrow> if sel_Name r \<noteq> [] \<and> sel_Name r \<notin> set names then names @ [sel_Name r] else names
    | None \<Rightarrow> names) acc srcs)
   = set acc \<union> {sel_Name r | r src. src \<in> set srcs \<and> sel src = Some r \<and> sel_Name r \<noteq> []}"
  by (induction srcs arbitrary: acc) (auto split: option.splits)

lemma SecretNames_distinct [simp]: "distinct (SecretNames s)"
  unfolding SecretNames_def by (rule ref_names_fold_distinct) simp

lemma ConfigMapNames_distinct [simp]: "distinct (ConfigMapNames s)"
  unfolding ConfigMapNames_def by (rule ref_names_fold_distinct) simp

lemma SecretNames_iff:
  "n \<in> set (SecretNames s) \<longleftrightarrow> n \<noteq> [] \<and>
     (\<exists>v r. Some v \<in> set (ValueSources s) \<and> vs_SecretKeyRef v = Some r \<and> sel_Name r = n)"
  by (auto simp: SecretNames_def ref_names_fold_set bind_eq_Some_conv)

lemma ConfigMapNames_iff:
  "n \<in> set (ConfigMapNames s) \<longleftrightarrow> n \<noteq> [] \<and>
     (\<exists>v r. Some v \<in> set (ValueSources s) \<and> vs_ConfigMapKeyRef v = Some r \<and> sel_Name r = n)"
  by (auto simp: ConfigMapNames_def ref_names_fold_set bind_eq_Some_conv)

end
