(* ===== verification/Json.thy ===== *)
theory Json
  imports Errors "HOL-Library.Word"
begin

text \<open>
  JSON values as the operator sees them (\<open>any\<close> after \<open>json.Unmarshal\<close> or
  \<open>gjson.Result.Value\<close>), and the record \<open>libs\<close> of the text-level functions the operator calls:
  the JSON codec, \<open>gjson\<close>, \<open>go-cmp\<close>, SHA-256, URL handling and quoting. None of these is code of
  the repository: they are arguments of every definition that uses them, and the locales below
  name the documented behaviour some results rest on.

  A JSON number becomes a Go \<open>float64\<close>; the model keeps the rational it denotes (JSON has
  neither NaN nor infinities), the decoder being where rounding happens. An object is an
  association list without repeated keys; \<open>map_of\<close> reads it.
\<close>

datatype json =
    JNull
  | JBool bool
  | JNum rat
  | JStr string
  | JArr "json list"
  | JObj "(string \<times> json) list"

text \<open>The steps of a \<open>cmp.Path\<close>: the root, the type assertions \<open>go-cmp\<close> inserts under \<open>any\<close>,
  a map entry with the values of both sides, and a slice element with both indices
  (\<open>-1\<close> on the side that lacks it).\<close>

datatype cmp_step =
    RootStep
  | TypeAssertion
  | MapIndex string "json option" "json option"
  | SliceIndex int int

type_synonym cmp_path = "cmp_step list"

text \<open>Addresses: the parts of a \<open>net/url.URL\<close> the operator reads.\<close>

record url =
  url_Scheme :: string
  url_Host :: string
  url_EscapedPath :: string
  url_RawQuery :: string

record libs =
  json_Unmarshal :: "string \<Rightarrow> go_error + json"
  json_Marshal :: "json \<Rightarrow> go_error + string"
  json_UnmarshalTypeError :: "json \<Rightarrow> string \<Rightarrow> go_error"
  json_Compact :: "string \<Rightarrow> string option"
  json_Decode :: "string \<Rightarrow> (string \<times> string) option"
  sha256_hex :: "string \<Rightarrow> string"
  gjson_ParseBytes :: "string \<Rightarrow> json option"
  gjson_GetBytes :: "string \<Rightarrow> string \<Rightarrow> json option"
  gjson_Get :: "json \<Rightarrow> string \<Rightarrow> json option"
  gjson_String :: "json \<Rightarrow> string"
  gjson_Int :: "json \<Rightarrow> 64 word"
  cmp_Report :: "(cmp_path \<Rightarrow> bool) \<Rightarrow> json \<Rightarrow> json \<Rightarrow> (cmp_path \<times> bool) list"
  cmp_Equal :: "(cmp_path \<Rightarrow> bool) \<Rightarrow> json \<Rightarrow> json \<Rightarrow> bool"
  strconv_Quote :: "string \<Rightarrow> string"
  strings_EqualFold :: "string \<Rightarrow> string \<Rightarrow> bool"
  url_Parse :: "string \<Rightarrow> go_error + url"
  url_JoinPath :: "url \<Rightarrow> string \<Rightarrow> url"
  url_String :: "url \<Rightarrow> string"
  url_Redacted :: "url \<Rightarrow> string"
  url_QueryEscape :: "string \<Rightarrow> string"
  http_NewRequest :: "string \<Rightarrow> string \<Rightarrow> go_error option"
  pem_Append :: "string \<Rightarrow> bool"
  format_RFC3339 :: "int \<Rightarrow> string"

subsection \<open>Results of gjson\<close>

text \<open>A \<open>gjson.Result\<close> is the value it holds, \<open>None\<close> when the path does not exist.\<close>

definition res_Value :: "json option \<Rightarrow> json" where
  "res_Value r = (case r of None \<Rightarrow> JNull | Some v \<Rightarrow> v)"

definition res_String :: "libs \<Rightarrow> json option \<Rightarrow> string" where
  "res_String L r = (case r of None \<Rightarrow> [] | Some v \<Rightarrow> gjson_String L v)"

definition res_Get :: "libs \<Rightarrow> json option \<Rightarrow> string \<Rightarrow> json option" where
  "res_Get L r path = (case r of None \<Rightarrow> None | Some v \<Rightarrow> gjson_Get L v path)"

definition res_Int :: "libs \<Rightarrow> json option \<Rightarrow> 64 word" where
  "res_Int L r = (case r of None \<Rightarrow> 0 | Some v \<Rightarrow> gjson_Int L v)"

fun is_array :: "json option \<Rightarrow> bool" where
  "is_array (Some (JArr xs)) = True"
| "is_array r = False"

text \<open>\<open>Result.Array\<close>: the elements of an array, nothing for a missing or null value, and a
  one-element list for any other value.\<close>

fun res_Array :: "json option \<Rightarrow> json list" where
  "res_Array None = []"
| "res_Array (Some JNull) = []"
| "res_Array (Some (JArr xs)) = xs"
| "res_Array (Some v) = [v]"

subsection \<open>Documented behaviour of gjson\<close>

text \<open>A plain key holds none of the characters the path syntax gives a meaning to.\<close>

definition plain_key :: "string \<Rightarrow> bool" where
  "plain_key k \<longleftrightarrow> k \<noteq> [] \<and> list_all (\<lambda>c. c \<notin> set (CHR 0x5C # ''.*?|#@!{}[]()=<>%~'')) k"

locale gjson_lib =
  fixes L :: libs
  assumes get_plain: "plain_key k \<Longrightarrow> gjson_Get L (JObj kvs) k = map_of kvs k"
    and get_nested: "plain_key k \<Longrightarrow>
      gjson_Get L (JObj kvs) (k @ ''.'' @ p) = Option.bind (map_of kvs k) (\<lambda>v. gjson_Get L v p)"
    and get_scalar: "\<nexists>kvs. v = JObj kvs \<Longrightarrow> \<nexists>xs. v = JArr xs \<Longrightarrow> gjson_Get L v p = None"
    and string_str: "gjson_String L (JStr s) = s"
    and string_null: "gjson_String L JNull = []"
    and bytes_parse: "gjson_ParseBytes L raw = Some v \<Longrightarrow> gjson_GetBytes L raw p = gjson_Get L v p"

end
