(* ===== verification/World.thy ===== *)
theory World
  imports Api Json
begin

text \<open>
  The outside of the operator: the Kubernetes API server, the SigNoz backend and the clock.
  Their state is an opaque \<open>'w\<close>; the records \<open>ports\<close> and \<open>reader\<close> hold one function per call the
  code makes. A reconcile pass is a state transformer over \<open>sys\<close>, the object being reconciled
  (mutated in place by the Go code through a pointer), the outside, and the list of the calls
  issued so far, oldest first. Results about which calls a pass issues, and in what order,
  hold for every outside.

  The record \<open>klib\<close> holds the pure helpers of apimachinery and controller-runtime the operator
  calls on finalizers, condition lists and statuses, and the locale \<open>kube_lib\<close> what they document.
\<close>

subsection \<open>Contexts and HTTP messages\<close>

text \<open>A \<open>context.Context\<close> is the chain of derivations it was built by.\<close>

datatype ctx =
    Background
  | WithTimeout ctx duration
  | WithoutCancel ctx

fun ctx_timeouts :: "ctx \<Rightarrow> duration list" where
  "ctx_timeouts Background = []"
| "ctx_timeouts (WithTimeout c d) = d # ctx_timeouts c"
| "ctx_timeouts (WithoutCancel c) = []"

record http_request =
  rq_Method :: string
  rq_URL :: string
  rq_Header :: "string \<rightharpoonup> string"
  rq_Body :: "string option"

text \<open>\<open>rs_Body\<close> is what the body delivers before its end, or before the read error.\<close>

record http_response =
  rs_StatusCode :: int
  rs_Body :: string
  rs_ReadErr :: "go_error option"

record tls_Config =
  tc_InsecureSkipVerify :: bool
  tc_RootCAs :: "string option"

subsection \<open>Calls\<close>

text \<open>\<open>GvkKind\<close> carries the name of a mirrored kind.\<close>

datatype gvk = GvkSecret | GvkConfigMap | GvkProviderConfig | GvkClusterProviderConfig | GvkKind string

text \<open>A write records the object sent and whether it succeeded; an HTTP call the status of its
  answer, \<open>None\<close> when none came.\<close>

datatype 'o event =
    EvUpdate ctx 'o bool
  | EvPatch ctx 'o 'o bool
  | EvStatusUpdate ctx 'o bool
  | EvGet gvk ObjectKey bool
  | EvHTTP ctx http_request "int option"

record ('o, 'w) sys =
  obj :: 'o
  env :: 'w
  events :: "'o event list"

record ('o, 'w) ports =
  kube_Update :: "ctx \<Rightarrow> 'o \<Rightarrow> 'w \<Rightarrow> (go_error + 'o) \<times> 'w"
  kube_Patch :: "ctx \<Rightarrow> 'o \<Rightarrow> 'o \<Rightarrow> 'w \<Rightarrow> (go_error + 'o) \<times> 'w"
  kube_StatusUpdate :: "ctx \<Rightarrow> 'o \<Rightarrow> 'w \<Rightarrow> (go_error + 'o) \<times> 'w"
  http_Do :: "tls_Config option \<Rightarrow> ctx \<Rightarrow> http_request \<Rightarrow> 'w \<Rightarrow> (go_error + http_response) \<times> 'w"
  p_Now :: "'w \<Rightarrow> int"

record Secret =
  sec_Data :: "string \<rightharpoonup> string"
  sec_ResourceVersion :: string

record ConfigMap =
  cm_Data :: "string \<rightharpoonup> string"
  cm_ResourceVersion :: string

record 'w reader =
  rd_Secret :: "ctx \<Rightarrow> ObjectKey \<Rightarrow> 'w \<Rightarrow> (go_error + Secret) \<times> 'w"
  rd_ConfigMap :: "ctx \<Rightarrow> ObjectKey \<Rightarrow> 'w \<Rightarrow> (go_error + ConfigMap) \<times> 'w"
  rd_ProviderConfig :: "ctx \<Rightarrow> ObjectKey \<Rightarrow> 'w \<Rightarrow> (go_error + ProviderConfig) \<times> 'w"
  rd_ClusterProviderConfig :: "ctx \<Rightarrow> ObjectKey \<Rightarrow> 'w \<Rightarrow> (go_error + ProviderConfig) \<times> 'w"
  rd_IsNotFound :: "go_error \<Rightarrow> bool"

text \<open>\<open>ctrl.Result\<close>; a handler returns it with an error, \<open>None\<close> when nil.\<close>

record ctrl_Result =
  rr_RequeueAfter :: duration

definition no_requeue :: ctrl_Result where
  "no_requeue = \<lparr>rr_RequeueAfter = 0\<rparr>"

definition requeue_after :: "duration \<Rightarrow> ctrl_Result" where
  "requeue_after d = \<lparr>rr_RequeueAfter = d\<rparr>"

lemma ctrl_Result_sel [simp]:
  "rr_RequeueAfter no_requeue = 0" "rr_RequeueAfter (requeue_after d) = d"
  by (simp_all add: no_requeue_def requeue_after_def)

subsection \<open>Issuing a call\<close>

text \<open>A successful write overwrites the object in memory with the server's answer; a failed one
  leaves it as the code set it.\<close>

definition after_write :: "(go_error + 'o) \<Rightarrow> 'o \<Rightarrow> 'o" where
  "after_write r o' = (case r of Inl _ \<Rightarrow> o' | Inr a \<Rightarrow> a)"

definition succeeded :: "(go_error + 'a) \<Rightarrow> bool" where
  "succeeded r = (case r of Inl _ \<Rightarrow> False | Inr _ \<Rightarrow> True)"

definition to_error :: "(go_error + 'a) \<Rightarrow> go_error option" where
  "to_error r = (case r of Inl e \<Rightarrow> Some e | Inr _ \<Rightarrow> None)"

definition client_Update :: "('o, 'w) ports \<Rightarrow> ctx \<Rightarrow> (('o, 'w) sys, go_error option) state" where
  "client_Update P ctx = do {
     s \<leftarrow> State_Monad.get;
     let (r, w) = kube_Update P ctx (obj s) (env s);
     State_Monad.set (s\<lparr>obj := after_write r (obj s), env := w,
       events := events s @ [EvUpdate ctx (obj s) (succeeded r)]\<rparr>);
     State_Monad.return (to_error r)
   }"

text \<open>\<open>client.Patch\<close> with \<open>client.MergeFrom base\<close>: only what differs from \<open>base\<close> is sent.\<close>

definition client_Patch :: "('o, 'w) ports \<Rightarrow> ctx \<Rightarrow> 'o \<Rightarrow> (('o, 'w) sys, go_error option) state" where
  "client_Patch P ctx base = do {
     s \<leftarrow> State_Monad.get;
     let (r, w) = kube_Patch P ctx base (obj s) (env s);
     State_Monad.set (s\<lparr>obj := after_write r (obj s), env := w,
       events := events s @ [EvPatch ctx base (obj s) (succeeded r)]\<rparr>);
     State_Monad.return (to_error r)
   }"

definition client_StatusUpdate :: "('o, 'w) ports \<Rightarrow> ctx \<Rightarrow> (('o, 'w) sys, go_error option) state" where
  "client_StatusUpdate P ctx = do {
     s \<leftarrow> State_Monad.get;
     let (r, w) = kube_StatusUpdate P ctx (obj s) (env s);
     State_Monad.set (s\<lparr>obj := after_write r (obj s), env := w,
       events := events s @ [EvStatusUpdate ctx (obj s) (succeeded r)]\<rparr>);
     State_Monad.return (to_error r)
   }"

definition answer_status :: "(go_error + http_response) \<Rightarrow> int option" where
  "answer_status r = (case r of Inl _ \<Rightarrow> None | Inr resp \<Rightarrow> Some (rs_StatusCode resp))"

definition http_call :: "('o, 'w) ports \<Rightarrow> tls_Config option \<Rightarrow> ctx \<Rightarrow> http_request
    \<Rightarrow> (('o, 'w) sys, go_error + http_response) state" where
  "http_call P tls ctx req = do {
     s \<leftarrow> State_Monad.get;
     let (r, w) = http_Do P tls ctx req (env s);
     State_Monad.set (s\<lparr>env := w, events := events s @ [EvHTTP ctx req (answer_status r)]\<rparr>);
     State_Monad.return r
   }"

definition reader_get :: "(ctx \<Rightarrow> ObjectKey \<Rightarrow> 'w \<Rightarrow> (go_error + 'a) \<times> 'w) \<Rightarrow> gvk \<Rightarrow> ctx \<Rightarrow> ObjectKey
    \<Rightarrow> (('o, 'w) sys, go_error + 'a) state" where
  "reader_get get kind ctx key = do {
     s \<leftarrow> State_Monad.get;
     let (r, w) = get ctx key (env s);
     State_Monad.set (s\<lparr>env := w, events := events s @ [EvGet kind key (succeeded r)]\<rparr>);
     State_Monad.return r
   }"

definition time_Now :: "('o, 'w) ports \<Rightarrow> (('o, 'w) sys, int) state" where
  "time_Now P = do { s \<leftarrow> State_Monad.get; State_Monad.return (p_Now P (env s)) }"

definition get_obj :: "(('o, 'w) sys, 'o) state" where
  "get_obj = do { s \<leftarrow> State_Monad.get; State_Monad.return (obj s) }"

definition modify_obj :: "('o \<Rightarrow> 'o) \<Rightarrow> (('o, 'w) sys, unit) state" where
  "modify_obj f = State_Monad.update (\<lambda>s. s\<lparr>obj := f (obj s)\<rparr>)"

lemma succeeded_simps [simp]: "\<not> succeeded (Inl e)" "succeeded (Inr a)"
  by (simp_all add: succeeded_def)

lemma to_error_simps [simp]: "to_error (Inl e) = Some e" "to_error (Inr a) = None"
  by (simp_all add: to_error_def)

lemma to_error_None_iff [simp]: "to_error r = None \<longleftrightarrow> succeeded r"
  by (cases r) simp_all

lemma after_write_simps [simp]: "after_write (Inl e) o' = o'" "after_write (Inr a) o' = a"
  by (simp_all add: after_write_def)

lemma answer_status_simps [simp]:
  "answer_status (Inl e) = None" "answer_status (Inr resp) = Some (rs_StatusCode resp)"
  by (simp_all add: answer_status_def)

text \<open>Weakest preconditions of the calls.\<close>

lemma wp_client_Update [wp_simps]:
  "wp (client_Update P ctx) Q s =
     (case kube_Update P ctx (obj s) (env s) of (r, w) \<Rightarrow>
        Q (to_error r) (s\<lparr>obj := after_write r (obj s), env := w,
          events := events s @ [EvUpdate ctx (obj s) (succeeded r)]\<rparr>))"
  by (simp add: client_Update_def wp_simps Let_def)

lemma wp_client_Patch [wp_simps]:
  "wp (client_Patch P ctx base) Q s =
     (case kube_Patch P ctx base (obj s) (env s) of (r, w) \<Rightarrow>
        Q (to_error r) (s\<lparr>obj := after_write r (obj s), env := w,
          events := events s @ [EvPatch ctx base (obj s) (succeeded r)]\<rparr>))"
  by (simp add: client_Patch_def wp_simps Let_def)

lemma wp_client_StatusUpdate [wp_simps]:
  "wp (client_StatusUpdate P ctx) Q s =
     (case kube_StatusUpdate P ctx (obj s) (env s) of (r, w) \<Rightarrow>
        Q (to_error r) (s\<lparr>obj := after_write r (obj s), env := w,
          events := events s @ [EvStatusUpdate ctx (obj s) (succeeded r)]\<rparr>))"
  by (simp add: client_StatusUpdate_def wp_simps Let_def)

lemma wp_http_call [wp_simps]:
  "wp (http_call P tls ctx req) Q s =
     (case http_Do P tls ctx req (env s) of (r, w) \<Rightarrow>
        Q r (s\<lparr>env := w, events := events s @ [EvHTTP ctx req (answer_status r)]\<rparr>))"
  by (simp add: http_call_def wp_simps Let_def)

lemma wp_reader_get [wp_simps]:
  "wp (reader_get get kind ctx key) Q s =
     (case get ctx key (env s) of (r, w) \<Rightarrow>
        Q r (s\<lparr>env := w, events := events s @ [EvGet kind key (succeeded r)]\<rparr>))"
  by (simp add: reader_get_def wp_simps Let_def)

lemma wp_time_Now [wp_simps]: "wp (time_Now P) Q s = Q (p_Now P (env s)) s"
  by (simp add: time_Now_def wp_simps)

lemma wp_get_obj [wp_simps]: "wp get_obj Q s = Q (obj s) s"
  by (simp add: get_obj_def wp_simps)

lemma wp_modify_obj [wp_simps]: "wp (modify_obj f) Q s = Q () (s\<lparr>obj := f (obj s)\<rparr>)"
  by (simp add: modify_obj_def wp_simps)

subsection \<open>The helpers of apimachinery and controller-runtime\<close>

record klib =
  AddFinalizer :: "string list \<Rightarrow> string \<Rightarrow> string list \<times> bool"
  RemoveFinalizer :: "string list \<Rightarrow> string \<Rightarrow> string list \<times> bool"
  ContainsFinalizer :: "string list \<Rightarrow> string \<Rightarrow> bool"
  SetStatusCondition :: "int \<Rightarrow> Condition list \<Rightarrow> Condition \<Rightarrow> Condition list"
  RemoveStatusCondition :: "Condition list \<Rightarrow> string \<Rightarrow> Condition list"
  DeepEqual_CoreStatus :: "CoreStatus \<Rightarrow> CoreStatus \<Rightarrow> bool"
  DeepEqual_PCStatus :: "ProviderConfigStatus \<Rightarrow> ProviderConfigStatus \<Rightarrow> bool"

definition find_cond :: "Condition list \<Rightarrow> string \<Rightarrow> Condition option" where
  "find_cond cs t = List.find (\<lambda>c. c_Type c = t) cs"

text \<open>Two conditions say the same when they differ at most in their transition time.\<close>

definition same_report :: "Condition \<Rightarrow> Condition \<Rightarrow> bool" where
  "same_report c d \<longleftrightarrow> c_Type c = c_Type d \<and> c_Status c = c_Status d
     \<and> c_ObservedGeneration c = c_ObservedGeneration d \<and> c_Reason c = c_Reason d
     \<and> c_Message c = c_Message d"

locale kube_lib =
  fixes K :: klib
  assumes contains_finalizer: "ContainsFinalizer K fs f \<longleftrightarrow> f \<in> set fs"
    and add_finalizer: "AddFinalizer K fs f = (if f \<in> set fs then (fs, False) else (fs @ [f], True))"
    and remove_finalizer: "RemoveFinalizer K fs f = (filter (\<lambda>g. g \<noteq> f) fs, f \<in> set fs)"
    and set_condition_find: "\<exists>d. find_cond (SetStatusCondition K t cs c) (c_Type c) = Some d
      \<and> same_report d c
      \<and> (\<forall>e. find_cond cs (c_Type c) = Some e \<and> c_Status e = c_Status c
            \<longrightarrow> c_LastTransitionTime d = c_LastTransitionTime e)"
    and set_condition_other: "ty \<noteq> c_Type c \<Longrightarrow>
      find_cond (SetStatusCondition K t cs c) ty = find_cond cs ty"
    and set_condition_same: "find_cond cs (c_Type c) = Some e \<Longrightarrow> same_report e c \<Longrightarrow>
      SetStatusCondition K t cs c = cs"
    and remove_condition_find: "find_cond (RemoveStatusCondition K cs ty) ty = None"
    and remove_condition_other: "ty \<noteq> ty' \<Longrightarrow>
      find_cond (RemoveStatusCondition K cs ty') ty = find_cond cs ty"
    and remove_condition_none: "find_cond cs ty = None \<Longrightarrow> RemoveStatusCondition K cs ty = cs"
    and deep_equal: "DeepEqual_CoreStatus K a b \<longleftrightarrow> a = b"
    and deep_equal_pc: "DeepEqual_PCStatus K p q \<longleftrightarrow> p = q"

end
