(* ===== verification/Trace.thy ===== *)
theory Trace
  imports World
begin

text \<open>
  Reasoning about the calls an operation issues. \<open>trace_sat T m\<close> says that, from every state,
  \<open>m\<close> appends to the list of calls a segment that satisfies \<open>T\<close>; \<open>emits A m\<close> is the special case
  where every call of the segment satisfies \<open>A\<close>. The rules compose along the structure of an
  operation, so a property of a whole handler follows from those of the calls it makes.
\<close>

named_theorems trace_intros \<open>rules that decompose an operation\<close>

definition trace_sat :: "('o event list \<Rightarrow> bool) \<Rightarrow> (('o, 'w) sys, 'a) state \<Rightarrow> bool" where
  "trace_sat T m \<longleftrightarrow> (\<forall>s. wp m (\<lambda>_ t. \<exists>es. events t = events s @ es \<and> T es) s)"

definition emits :: "('o event \<Rightarrow> bool) \<Rightarrow> (('o, 'w) sys, 'a) state \<Rightarrow> bool" where
  "emits A m \<longleftrightarrow> trace_sat (list_all A) m"

definition keeps_obj :: "(('o, 'w) sys, 'a) state \<Rightarrow> bool" where
  "keeps_obj m \<longleftrightarrow> (\<forall>s. wp m (\<lambda>_ t. obj t = obj s) s)"

subsection \<open>Composition\<close>

lemma trace_satD: "trace_sat T m \<Longrightarrow> wp m (\<lambda>_ t. \<exists>es. events t = events s @ es \<and> T es) s"
  by (simp add: trace_sat_def)

lemma emitsD: "emits A m \<Longrightarrow> wp m (\<lambda>_ t. \<exists>es. events t = events s @ es \<and> list_all A es) s"
  by (simp add: emits_def trace_sat_def)

lemma trace_sat_mono: "trace_sat T m \<Longrightarrow> (\<And>es. T es \<Longrightarrow> U es) \<Longrightarrow> trace_sat U m"
  unfolding trace_sat_def by (blast intro: wp_mono)

lemma emits_mono: "emits A m \<Longrightarrow> (\<And>e. A e \<Longrightarrow> B e) \<Longrightarrow> emits B m"
  unfolding emits_def by (erule trace_sat_mono) (auto simp: list_all_iff)

lemma emits_trace_sat: "emits A m \<Longrightarrow> (\<And>es. list_all A es \<Longrightarrow> T es) \<Longrightarrow> trace_sat T m"
  unfolding emits_def by (rule trace_sat_mono)

lemma trace_sat_bind:
  fixes m :: "(('o, 'w) sys, 'a) state" and f :: "'a \<Rightarrow> (('o, 'w) sys, 'b) state"
  assumes "trace_sat T m" and "\<And>a. trace_sat U (f a)"
    and "\<And>es es'. T es \<Longrightarrow> U es' \<Longrightarrow> V (es @ es')"
  shows "trace_sat V (State_Monad.bind m f)"
  unfolding trace_sat_def wp_bind
proof
  fix s :: "('o, 'w) sys"
  show "wp m (\<lambda>a. wp (f a) (\<lambda>_ t. \<exists>es. events t = events s @ es \<and> V es)) s"
  proof (rule wp_mono [OF trace_satD [OF assms(1)]])
    fix a and t :: "('o, 'w) sys"
    assume "\<exists>es. events t = events s @ es \<and> T es"
    then obtain es where es: "events t = events s @ es" "T es" by blast
    show "wp (f a) (\<lambda>_ t. \<exists>es. events t = events s @ es \<and> V es) t"
      by (rule wp_mono [OF trace_satD [OF assms(2)]]) (use es assms(3) in fastforce)
  qed
qed

lemma emits_bind [trace_intros]:
  "emits A m \<Longrightarrow> (\<And>a. emits A (f a)) \<Longrightarrow> emits A (State_Monad.bind m f)"
  unfolding emits_def by (rule trace_sat_bind [where T = "list_all A" and U = "list_all A"]) auto

lemma emits_pure:
  "(\<And>s. wp m (\<lambda>_ t. events t = events s) s) \<Longrightarrow> emits A m"
  unfolding emits_def trace_sat_def
  by (intro allI, rule wp_mono, assumption) simp

lemma emits_return [trace_intros]: "emits A (State_Monad.return a)"
  by (rule emits_pure) (simp add: wp_simps)

lemma emits_get [trace_intros]: "emits A State_Monad.get"
  by (rule emits_pure) (simp add: wp_simps)

lemma emits_get_obj [trace_intros]: "emits A get_obj"
  by (rule emits_pure) (simp add: wp_simps)

lemma emits_modify_obj [trace_intros]: "emits A (modify_obj f)"
  by (rule emits_pure) (simp add: wp_simps)

lemma emits_time_Now [trace_intros]: "emits A (time_Now P)"
  by (rule emits_pure) (simp add: wp_simps)

lemma emits_if [trace_intros]: "(b \<Longrightarrow> emits A m) \<Longrightarrow> (\<not> b \<Longrightarrow> emits A n) \<Longrightarrow> emits A (if b then m else n)"
  by simp

lemma emits_case_sum [trace_intros]:
  "(\<And>e. emits A (f e)) \<Longrightarrow> (\<And>a. emits A (g a)) \<Longrightarrow>
     emits A (case r of Inl e \<Rightarrow> f e | Inr a \<Rightarrow> g a)"
  by (cases r) simp_all

lemma emits_case_option [trace_intros]:
  "emits A m \<Longrightarrow> (\<And>a. emits A (g a)) \<Longrightarrow>
     emits A (case r of None \<Rightarrow> m | Some a \<Rightarrow> g a)"
  by (cases r) simp_all

lemma emits_case_list [trace_intros]:
  "emits A m \<Longrightarrow> (\<And>x xs. emits A (g x xs)) \<Longrightarrow>
     emits A (case r of [] \<Rightarrow> m | x # xs \<Rightarrow> g x xs)"
  by (cases r) simp_all

lemma emits_case_prod [trace_intros]:
  "(\<And>a b. emits A (f a b)) \<Longrightarrow> emits A (case p of (a, b) \<Rightarrow> f a b)"
  by (cases p) simp

lemma emits_Let [trace_intros]: "(\<And>x. emits A (f x)) \<Longrightarrow> emits A (Let y f)"
  by simp

lemma trace_sat_single:
  "(\<And>s. wp m (\<lambda>_ t. \<exists>e. events t = events s @ [e] \<and> T [e]) s) \<Longrightarrow> trace_sat T m"
  unfolding trace_sat_def by (blast intro: wp_mono)

lemma emits_call:
  "(\<And>s. wp m (\<lambda>_ t. \<exists>e. events t = events s @ [e] \<and> A e) s) \<Longrightarrow> emits A m"
  unfolding emits_def trace_sat_def by (intro allI, rule wp_mono, assumption) auto

lemma emits_client_Update [trace_intros]:
  "(\<And>o' b. A (EvUpdate ctx o' b)) \<Longrightarrow> emits A (client_Update P ctx)"
  by (rule emits_call) (simp add: wp_simps split: prod.split)

lemma emits_client_Patch [trace_intros]:
  "(\<And>o' b. A (EvPatch ctx base o' b)) \<Longrightarrow> emits A (client_Patch P ctx base)"
  by (rule emits_call) (simp add: wp_simps split: prod.split)

lemma emits_client_StatusUpdate [trace_intros]:
  "(\<And>o' b. A (EvStatusUpdate ctx o' b)) \<Longrightarrow> emits A (client_StatusUpdate P ctx)"
  by (rule emits_call) (simp add: wp_simps split: prod.split)

lemma emits_http_call [trace_intros]:
  "(\<And>st. A (EvHTTP ctx req st)) \<Longrightarrow> emits A (http_call P tls ctx req)"
  by (rule emits_call) (simp add: wp_simps split: prod.split)

lemma emits_reader_get [trace_intros]:
  "(\<And>b. A (EvGet kind key b)) \<Longrightarrow> emits A (reader_get get kind ctx key)"
  by (rule emits_call) (simp add: wp_simps split: prod.split)

subsection \<open>Operations that leave the object alone\<close>

lemma keeps_objD: "keeps_obj m \<Longrightarrow> wp m (\<lambda>_ t. obj t = obj s) s"
  by (simp add: keeps_obj_def)

lemma keeps_obj_bind [trace_intros]:
  assumes "keeps_obj m" and "\<And>a. keeps_obj (f a)"
  shows "keeps_obj (State_Monad.bind m f)"
  unfolding keeps_obj_def wp_bind
proof
  fix s
  show "wp m (\<lambda>a. wp (f a) (\<lambda>_ t. obj t = obj s)) s"
    by (rule wp_mono [OF keeps_objD [OF assms(1)]], rule wp_mono [OF keeps_objD [OF assms(2)]]) simp
qed

lemma keeps_obj_return [trace_intros]: "keeps_obj (State_Monad.return a)"
  by (simp add: keeps_obj_def wp_simps)

lemma keeps_obj_get [trace_intros]: "keeps_obj State_Monad.get"
  by (simp add: keeps_obj_def wp_simps)

lemma keeps_obj_get_obj [trace_intros]: "keeps_obj get_obj"
  by (simp add: keeps_obj_def wp_simps)

lemma keeps_obj_time_Now [trace_intros]: "keeps_obj (time_Now P)"
  by (simp add: keeps_obj_def wp_simps)

lemma keeps_obj_if [trace_intros]:
  "(b \<Longrightarrow> keeps_obj m) \<Longrightarrow> (\<not> b \<Longrightarrow> keeps_obj n) \<Longrightarrow> keeps_obj (if b then m else n)"
  by simp

lemma keeps_obj_case_sum [trace_intros]:
  "(\<And>e. keeps_obj (f e)) \<Longrightarrow> (\<And>a. keeps_obj (g a)) \<Longrightarrow>
     keeps_obj (case r of Inl e \<Rightarrow> f e | Inr a \<Rightarrow> g a)"
  by (cases r) simp_all

lemma keeps_obj_case_option [trace_intros]:
  "keeps_obj m \<Longrightarrow> (\<And>a. keeps_obj (g a)) \<Longrightarrow>
     keeps_obj (case r of None \<Rightarrow> m | Some a \<Rightarrow> g a)"
  by (cases r) simp_all

lemma keeps_obj_case_prod [trace_intros]:
  "(\<And>a b. keeps_obj (f a b)) \<Longrightarrow> keeps_obj (case p of (a, b) \<Rightarrow> f a b)"
  by (cases p) simp

lemma keeps_obj_Let [trace_intros]: "(\<And>x. keeps_obj (f x)) \<Longrightarrow> keeps_obj (Let y f)"
  by simp

lemma keeps_obj_http_call [trace_intros]: "keeps_obj (http_call P tls ctx req)"
  by (simp add: keeps_obj_def wp_simps split: prod.split)

lemma keeps_obj_reader_get [trace_intros]: "keeps_obj (reader_get get kind ctx key)"
  by (simp add: keeps_obj_def wp_simps split: prod.split)

text \<open>Both at once: the object is kept and every call satisfies \<open>A\<close>.\<close>

lemma wp_quiet:
  assumes "emits A m" and "keeps_obj m"
  shows "wp m (\<lambda>_ t. obj t = obj s \<and> (\<exists>es. events t = events s @ es \<and> list_all A es)) s"
  using wp_conj [OF keeps_objD [OF assms(2)] emitsD [OF assms(1)]] .

subsection \<open>Segments that are not uniform\<close>

lemma trace_sat_return: "T [] \<Longrightarrow> trace_sat T (State_Monad.return a)"
  by (simp add: trace_sat_def wp_simps)

lemma trace_sat_if:
  "(b \<Longrightarrow> trace_sat T m) \<Longrightarrow> (\<not> b \<Longrightarrow> trace_sat T n) \<Longrightarrow> trace_sat T (if b then m else n)"
  by simp

lemma trace_sat_case_sum:
  "(\<And>e. trace_sat T (f e)) \<Longrightarrow> (\<And>a. trace_sat T (g a)) \<Longrightarrow>
     trace_sat T (case r of Inl e \<Rightarrow> f e | Inr a \<Rightarrow> g a)"
  by (cases r) simp_all

lemma trace_sat_case_option:
  "trace_sat T m \<Longrightarrow> (\<And>a. trace_sat T (g a)) \<Longrightarrow> trace_sat T (case r of None \<Rightarrow> m | Some a \<Rightarrow> g a)"
  by (cases r) simp_all

lemma trace_sat_case_list:
  "trace_sat T m \<Longrightarrow> (\<And>x xs. trace_sat T (g x xs)) \<Longrightarrow>
     trace_sat T (case r of [] \<Rightarrow> m | x # xs \<Rightarrow> g x xs)"
  by (cases r) simp_all

lemma trace_sat_case_prod: "(\<And>a b. trace_sat T (f a b)) \<Longrightarrow> trace_sat T (case p of (a, b) \<Rightarrow> f a b)"
  by (cases p) simp

lemma trace_sat_Let: "(\<And>x. trace_sat T (f x)) \<Longrightarrow> trace_sat T (Let y f)"
  by simp

lemmas trace_sat_cases = trace_sat_return trace_sat_if trace_sat_case_sum trace_sat_case_option
  trace_sat_case_list trace_sat_case_prod trace_sat_Let

text \<open>A property of segments that calls of class \<open>A\<close> before or after leave true.\<close>

definition absorbs_before :: "('o event \<Rightarrow> bool) \<Rightarrow> ('o event list \<Rightarrow> bool) \<Rightarrow> bool" where
  "absorbs_before A T \<longleftrightarrow> (\<forall>es es'. list_all A es \<longrightarrow> T es' \<longrightarrow> T (es @ es'))"

definition absorbs_after :: "('o event \<Rightarrow> bool) \<Rightarrow> ('o event list \<Rightarrow> bool) \<Rightarrow> bool" where
  "absorbs_after A T \<longleftrightarrow> (\<forall>es es'. T es \<longrightarrow> list_all A es' \<longrightarrow> T (es @ es'))"

lemma trace_sat_after:
  assumes "absorbs_before A T" and "emits A m" and "\<And>a. trace_sat T (f a)"
  shows "trace_sat T (State_Monad.bind m f)"
  by (rule trace_sat_bind [where T = "list_all A" and U = T])
     (use assms in \<open>simp_all add: emits_def absorbs_before_def\<close>)

lemma trace_sat_before:
  assumes "absorbs_after A T" and "trace_sat T m" and "\<And>a. emits A (f a)"
  shows "trace_sat T (State_Monad.bind m f)"
  by (rule trace_sat_bind [where T = T and U = "list_all A"])
     (use assms in \<open>simp_all add: emits_def absorbs_after_def\<close>)

text \<open>An operation followed by one whose segment does not depend on the first one's result.\<close>

lemma wp_then_emits:
  fixes m :: "(('o, 'w) sys, 'a) state"
  assumes "wp m (\<lambda>a t. \<exists>es. events t = events s @ es \<and> T es) s" and "\<And>a. emits A (f a)"
    and "\<And>es es'. T es \<Longrightarrow> list_all A es' \<Longrightarrow> U (es @ es')"
  shows "wp (State_Monad.bind m f) (\<lambda>_ t. \<exists>es. events t = events s @ es \<and> U es) s"
  unfolding wp_bind
proof (rule wp_mono [OF assms(1)])
  fix a and t :: "('o, 'w) sys"
  assume "\<exists>es. events t = events s @ es \<and> T es"
  then obtain es where es: "events t = events s @ es" "T es" by blast
  show "wp (f a) (\<lambda>_ t. \<exists>es. events t = events s @ es \<and> U es) t"
    by (rule wp_mono [OF emitsD [OF assms(2)]]) (use es assms(3) in fastforce)
qed

end
