(* ===== verification/Client.thy ===== *)
theory Client
  imports Trace
begin

text \<open>
  The HTTP client (\<open>internal/clients/signoz.go\<close>) and the resolved provider configuration it is
  built from (\<open>internal/providerconfig/resolved.go\<close>). \<open>Exchange\<close> sends one request and hands
  back the status code and a body that is JSON or nothing, the nil message being the empty
  string.
\<close>

subsection \<open>resolved.go\<close>

record ResolvedHeaderAuthentication =
  rh_Name :: string
  rh_Scheme :: string
  rh_Value :: string

record ResolvedAuthentication =
  ra_Header :: "ResolvedHeaderAuthentication option"

text \<open>A certificate pool is the PEM bundle it was filled from.\<close>

record ResolvedTLSConfig =
  rt_InsecureSkipVerify :: bool
  rt_CAPool :: "string option"

record ResolvedProviderConfigSpec =
  rp_Endpoint :: url
  rp_Auth :: ResolvedAuthentication
  rp_TLS :: "ResolvedTLSConfig option"

definition ResolvedHeaderAuthentication_String :: "ResolvedHeaderAuthentication \<Rightarrow> string" where
  "ResolvedHeaderAuthentication_String a =
     ''ResolvedHeaderAuthentication{name: '' @ rh_Name a @ '', value: [REDACTED]}''"

definition ResolvedProviderConfigSpec_String :: "libs \<Rightarrow> ResolvedProviderConfigSpec \<Rightarrow> string" where
  "ResolvedProviderConfigSpec_String L c =
     (let endpoint = url_Redacted L (rp_Endpoint c);
          header = (case ra_Header (rp_Auth c) of None \<Rightarrow> [] | Some h \<Rightarrow> rh_Name h)
      in ''ResolvedProviderConfigSpec{endpoint: '' @ endpoint @ '', header: '' @ header
           @ '', value: [REDACTED]}'')"

text \<open>\<open>http.Header.Set\<close> stores the value under the canonical form of the name: first letter and
  every letter after a hyphen in upper case, the others in lower case, provided the name is a
  token.\<close>

definition upper_char :: "char \<Rightarrow> char" where
  "upper_char c = (if char_in (CHR ''a'') (CHR ''z'') c then char_of (of_char c - 32 :: nat) else c)"

definition lower_char :: "char \<Rightarrow> char" where
  "lower_char c = (if char_in (CHR ''A'') (CHR ''Z'') c then char_of (of_char c + 32 :: nat) else c)"

definition token_char :: "char \<Rightarrow> bool" where
  "token_char c \<longleftrightarrow> (char_in (CHR ''a'') (CHR ''z'') c) \<or> (char_in (CHR ''A'') (CHR ''Z'') c)
     \<or> (char_in (CHR ''0'') (CHR ''9'') c) \<or> c \<in> set (CHR 0x27 # CHR 0x60 # ''!#$%&*+-.^_|~'')"

fun canonical_from :: "bool \<Rightarrow> string \<Rightarrow> string" where
  "canonical_from upper [] = []"
| "canonical_from upper (c # cs) =
     (if upper then upper_char c else lower_char c) # canonical_from (c = CHR ''-'') cs"

definition CanonicalHeaderKey :: "string \<Rightarrow> string" where
  "CanonicalHeaderKey s = (if list_all token_char s then canonical_from True s else s)"

definition Header_Set :: "(string \<rightharpoonup> string) \<Rightarrow> string \<Rightarrow> string \<Rightarrow> (string \<rightharpoonup> string)" where
  "Header_Set h name v = h(CanonicalHeaderKey name \<mapsto> v)"

definition SetAuthHeader :: "ResolvedProviderConfigSpec \<Rightarrow> (string \<rightharpoonup> string) \<Rightarrow> (string \<rightharpoonup> string)" where
  "SetAuthHeader c h =
     (case ra_Header (rp_Auth c) of
        None \<Rightarrow> h
      | Some header \<Rightarrow>
          (let value = rh_Value header;
               value = (if rh_Scheme header \<noteq> [] then rh_Scheme header @ '' '' @ value else value)
           in Header_Set h (rh_Name header) value))"

definition TLSClientConfig :: "ResolvedProviderConfigSpec \<Rightarrow> tls_Config option" where
  "TLSClientConfig c =
     (case rp_TLS c of
        None \<Rightarrow> None
      | Some t \<Rightarrow>
          if \<not> rt_InsecureSkipVerify t \<and> rt_CAPool t = None then None
          else Some \<lparr>tc_InsecureSkipVerify = rt_InsecureSkipVerify t, tc_RootCAs = rt_CAPool t\<rparr>)"

subsection \<open>signoz.go\<close>

definition maxResponseBody :: nat where
  "maxResponseBody = 64 * 2 ^ 20"

text \<open>The version is set at link time; \<open>dev\<close> is what the source declares.\<close>

definition build_Version :: string where
  "build_Version = ''dev''"

definition userAgent :: string where
  "userAgent = ''signoz-operator/'' @ build_Version"

text \<open>The transport's TLS configuration is the default one when \<open>sc_tls\<close> is \<open>None\<close>.\<close>

record signoz_client =
  sc_resolved :: ResolvedProviderConfigSpec
  sc_tls :: "tls_Config option"

definition clients_New :: "ResolvedProviderConfigSpec \<Rightarrow> signoz_client" where
  "clients_New resolved = \<lparr>sc_resolved = resolved, sc_tls = TLSClientConfig resolved\<rparr>"

definition snippet :: "string \<Rightarrow> string" where
  "snippet body =
     (let trimmed = (if length body > 200 then take 200 body else body)
      in map (\<lambda>b. if b = char_of (10::nat) \<or> b = char_of (13::nat) \<or> b = char_of (9::nat)
                  then CHR '' '' else b) trimmed)"

text \<open>\<open>Decoder.More\<close>: another byte that closes no array or object follows, white space aside.\<close>

definition json_space :: "char \<Rightarrow> bool" where
  "json_space c \<longleftrightarrow> c \<in> {CHR '' '', char_of (9::nat), char_of (10::nat), char_of (13::nat)}"

definition decoder_More :: "string \<Rightarrow> bool" where
  "decoder_More rest =
     (case dropWhile json_space rest of
        [] \<Rightarrow> False
      | c # _ \<Rightarrow> c \<noteq> CHR '']'' \<and> c \<noteq> CHR ''}'')"

text \<open>\<open>Decode(&data) == nil && !More()\<close>, with the raw value it stored.\<close>

definition decode_single :: "libs \<Rightarrow> string \<Rightarrow> string option" where
  "decode_single L seen =
     (case json_Decode L seen of
        None \<Rightarrow> None
      | Some (data, rest) \<Rightarrow> if decoder_More rest then None else Some data)"

text \<open>The request, or why it could not be built.\<close>

definition build_request :: "libs \<Rightarrow> signoz_client \<Rightarrow> string \<Rightarrow> string \<Rightarrow> string option
    \<Rightarrow> go_error + http_request" where
  "build_request L c method path body =
     (case url_Parse L path of
        Inl err \<Rightarrow> Inl (BaseErr (errors_Wrap err ReasonInvalidInput ''could not build the request URL''))
      | Inr ref \<Rightarrow>
          (let target = (url_JoinPath L (rp_Endpoint (sc_resolved c)) (url_EscapedPath ref))
                          \<lparr>url_RawQuery := url_RawQuery ref\<rparr>
           in case http_NewRequest L method (url_String L target) of
                Some err \<Rightarrow> Inl (BaseErr (errors_Wrap err ReasonInvalidInput ''could not build the request''))
              | None \<Rightarrow>
                  (let h = SetAuthHeader (sc_resolved c) Map.empty;
                       h = Header_Set h ''User-Agent'' userAgent;
                       h = (if body \<noteq> None then Header_Set h ''Content-Type'' ''application/json'' else h)
                   in Inr \<lparr>rq_Method = method, rq_URL = url_String L target, rq_Header = h, rq_Body = body\<rparr>)))"

text \<open>What the caller gets of an answer. The body is read up to one byte past the cap; a read
  error beyond that point is never met.\<close>

definition read_response :: "libs \<Rightarrow> http_response \<Rightarrow> go_error + int \<times> string" where
  "read_response L resp =
     (let seen = take (maxResponseBody + 1) (rs_Body resp);
          valid = decode_single L seen;
          status = rs_StatusCode resp
      in case (if length (rs_Body resp) \<le> maxResponseBody then rs_ReadErr resp else None) of
           Some err \<Rightarrow> Inl (BaseErr (errors_Wrap err ReasonUnreachable ''could not read the response body''))
         | None \<Rightarrow>
             if length seen > maxResponseBody then
               Inl (BaseErr (errors_New ReasonUnreachable
                 (''the server returned a response body over the '' @ itoa (int maxResponseBody) @ '' byte limit'')))
             else if length seen = 0 then Inr (status, [])
             else (case valid of
                 Some data \<Rightarrow> Inr (status, data)
               | None \<Rightarrow>
                   if status \<ge> 200 \<and> status < 300 then
                     Inl (BaseErr (errors_New ReasonUnreachable
                       (''the server returned a success status (HTTP '' @ itoa status
                         @ '') with a non-JSON body: '' @ snippet seen)))
                   else (case json_Marshal L (JObj [(''response'', JStr (snippet seen))]) of
                           Inl _ \<Rightarrow> Inr (status, [])
                         | Inr wrapped \<Rightarrow> Inr (status, wrapped))))"

definition Exchange :: "('o, 'w) ports \<Rightarrow> libs \<Rightarrow> signoz_client \<Rightarrow> ctx \<Rightarrow> string \<Rightarrow> string \<Rightarrow> string option
    \<Rightarrow> (('o, 'w) sys, go_error + int \<times> string) state" where
  "Exchange P L c ctx method path body =
     (case build_request L c method path body of
        Inl err \<Rightarrow> State_Monad.return (Inl err)
      | Inr req \<Rightarrow> do {
          r \<leftarrow> http_call P (sc_tls c) ctx req;
          State_Monad.return
            (case r of
               Inl err \<Rightarrow> Inl (BaseErr (errors_Wrap err ReasonUnreachable ''could not reach SigNoz''))
             | Inr resp \<Rightarrow> read_response L resp)
        })"

subsection \<open>The calls of an exchange\<close>

text \<open>An exchange issues at most one call, with the method and body it was given, over the
  context it was given.\<close>

definition http_event :: "ctx \<Rightarrow> string \<Rightarrow> 'o event \<Rightarrow> bool" where
  "http_event ctx method e \<longleftrightarrow> (\<exists>req st. e = EvHTTP ctx req st \<and> rq_Method req = method)"

definition at_most_one :: "('o event \<Rightarrow> bool) \<Rightarrow> 'o event list \<Rightarrow> bool" where
  "at_most_one A es \<longleftrightarrow> es = [] \<or> (\<exists>e. es = [e] \<and> A e)"

lemma build_request_method:
  "build_request L c method path body = Inr req \<Longrightarrow> rq_Method req = method \<and> rq_Body req = body"
  by (auto simp: build_request_def Let_def split: sum.splits option.splits)

lemma Exchange_calls: "trace_sat (at_most_one (http_event ctx method)) (Exchange P L c ctx method path body)"
  by (auto simp: trace_sat_def Exchange_def wp_simps at_most_one_def http_event_def
        dest: build_request_method split: sum.split prod.split)

lemma emits_Exchange [trace_intros]:
  "(\<And>e. http_event ctx method e \<Longrightarrow> A e) \<Longrightarrow> emits A (Exchange P L c ctx method path body)"
  unfolding emits_def
  by (rule trace_sat_mono [OF Exchange_calls]) (auto simp: at_most_one_def)

lemma keeps_obj_Exchange [trace_intros]: "keeps_obj (Exchange P L c ctx method path body)"
  unfolding Exchange_def by (intro trace_intros)

lemma wp_Exchange:
  "wp (Exchange P L c ctx method path body) Q s =
     (case build_request L c method path body of
        Inl err \<Rightarrow> Q (Inl err) s
      | Inr req \<Rightarrow>
          (case http_Do P (sc_tls c) ctx req (env s) of (r, w) \<Rightarrow>
             Q (case r of
                  Inl err \<Rightarrow> Inl (BaseErr (errors_Wrap err ReasonUnreachable ''could not reach SigNoz''))
                | Inr resp \<Rightarrow> read_response L resp)
               (s\<lparr>env := w, events := events s @ [EvHTTP ctx req (answer_status r)]\<rparr>)))"
  by (simp add: Exchange_def wp_simps split: sum.split)

text \<open>The same with the length compared as an integer: what evaluation uses.\<close>

lemma read_response_code [code]:
  "read_response L resp =
     (if int (length (rs_Body resp)) \<le> 67108864 then
        (case rs_ReadErr resp of
           Some err \<Rightarrow> Inl (BaseErr (errors_Wrap err ReasonUnreachable ''could not read the response body''))
         | None \<Rightarrow>
             if rs_Body resp = [] then Inr (rs_StatusCode resp, [])
             else (case decode_single L (rs_Body resp) of
                 Some data \<Rightarrow> Inr (rs_StatusCode resp, data)
               | None \<Rightarrow>
                   if rs_StatusCode resp \<ge> 200 \<and> rs_StatusCode resp < 300 then
                     Inl (BaseErr (errors_New ReasonUnreachable
                       (''the server returned a success status (HTTP '' @ itoa (rs_StatusCode resp)
                         @ '') with a non-JSON body: '' @ snippet (rs_Body resp))))
                   else (case json_Marshal L (JObj [(''response'', JStr (snippet (rs_Body resp)))]) of
                           Inl _ \<Rightarrow> Inr (rs_StatusCode resp, [])
                         | Inr wrapped \<Rightarrow> Inr (rs_StatusCode resp, wrapped))))
      else Inl (BaseErr (errors_New ReasonUnreachable
             (''the server returned a response body over the '' @ itoa 67108864 @ '' byte limit''))))"
proof -
  have fits: "int (length (rs_Body resp)) \<le> 67108864 \<longleftrightarrow> length (rs_Body resp) \<le> maxResponseBody"
    and limit: "itoa 67108864 = itoa (int maxResponseBody)"
    by (simp_all add: maxResponseBody_def)
  show ?thesis
    unfolding fits limit
    by (cases "length (rs_Body resp) \<le> maxResponseBody")
       (auto simp: read_response_def Let_def split: option.split sum.split)
qed

lemma read_response_status: "read_response L resp = Inr (st, body) \<Longrightarrow> st = rs_StatusCode resp"
  by (auto simp: read_response_def Let_def split: option.splits if_splits sum.splits)

text \<open>An answer handed to the caller is the answer to the one call issued.\<close>

definition answered :: "ctx \<Rightarrow> string \<Rightarrow> int \<Rightarrow> 'o event \<Rightarrow> bool" where
  "answered ctx method st e \<longleftrightarrow> (\<exists>req. e = EvHTTP ctx req (Some st) \<and> rq_Method req = method)"

lemma Exchange_answered:
  "wp (Exchange P L c ctx method path body) (\<lambda>r t. \<forall>st data. r = Inr (st, data) \<longrightarrow>
     (\<exists>e. events t = events s @ [e] \<and> answered ctx method st e)) s"
  by (auto simp: wp_Exchange answered_def dest: build_request_method read_response_status
      split: sum.split prod.split)

end
