(* ===== verification/Resolver.thy ===== *)
theory Resolver
  imports Client "HOL-Library.AList"
begin

text \<open>
  Resolving a provider configuration (\<open>internal/providerconfig/resolver.go\<close>,
  \<open>resolvers/cache.go\<close>, \<open>resolvers/cached_resolver.go\<close>): reading the Secrets and ConfigMaps a spec
  refers to, at most once each, and building the endpoint, the credential and the trust from
  them. The cache lives for one \<open>Resolve\<close> call; here it is passed along explicitly.
\<close>

subsection \<open>reason.go and resolver.go\<close>

definition CodeSpecInvalid :: Code where "CodeSpecInvalid = NewCode ''SpecInvalid''"
definition CodeEndpointInvalid :: Code where "CodeEndpointInvalid = NewCode ''EndpointInvalid''"
definition CodeSecretNotFound :: Code where "CodeSecretNotFound = NewCode ''SecretNotFound''"
definition CodeConfigMapNotFound :: Code where "CodeConfigMapNotFound = NewCode ''ConfigMapNotFound''"
definition CodeKeyNotFound :: Code where "CodeKeyNotFound = NewCode ''KeyNotFound''"
definition CodeValueEmpty :: Code where "CodeValueEmpty = NewCode ''ValueEmpty''"
definition CodeCABundleInvalid :: Code where "CodeCABundleInvalid = NewCode ''CABundleInvalid''"
definition CodeReferenceReadFailed :: Code where
  "CodeReferenceReadFailed = NewCode ''ReferenceReadFailed''"

lemmas code_defs = CodeSpecInvalid_def CodeEndpointInvalid_def CodeSecretNotFound_def
  CodeConfigMapNotFound_def CodeKeyNotFound_def CodeValueEmpty_def CodeCABundleInvalid_def
  CodeReferenceReadFailed_def NewCode_def CodeUnknown_def

definition DefaultHeaderName :: string where
  "DefaultHeaderName = ''SIGNOZ-API-KEY''"

type_synonym ref_versions = "RefKind \<Rightarrow> (ObjectKey \<times> string) list"

record ('o, 'w) Resolver =
  rs_Resolve :: "ctx \<Rightarrow> string \<Rightarrow> ProviderConfigSpec
    \<Rightarrow> (('o, 'w) sys, (go_error + ResolvedProviderConfigSpec) \<times> ref_versions) state"
  rs_ResolveRef :: "ctx \<Rightarrow> ProviderConfigRef \<Rightarrow> string \<Rightarrow> string
    \<Rightarrow> (('o, 'w) sys, go_error + ResolvedProviderConfigSpec) state"

subsection \<open>cache.go: state\<close>

record cache =
  ca_namespace :: string
  ca_secrets :: "ObjectKey \<rightharpoonup> Secret"
  ca_configMaps :: "ObjectKey \<rightharpoonup> ConfigMap"
  ca_errs :: "RefKind \<Rightarrow> (ObjectKey \<rightharpoonup> go_error)"
  ca_versions :: ref_versions

definition cache_fail :: "RefKind \<Rightarrow> ObjectKey \<Rightarrow> go_error \<Rightarrow> cache \<Rightarrow> go_error \<times> cache" where
  "cache_fail kind objectKey err c =
     (err, c\<lparr>ca_errs := (ca_errs c)(kind := (ca_errs c kind)(objectKey \<mapsto> err))\<rparr>)"

definition cache_observe :: "RefKind \<Rightarrow> ObjectKey \<Rightarrow> string \<Rightarrow> cache \<Rightarrow> cache" where
  "cache_observe kind objectKey version c =
     c\<lparr>ca_versions := (ca_versions c)(kind := AList.update objectKey version (ca_versions c kind))\<rparr>"

text \<open>An operation on the cache, and what follows it when it succeeds: the pattern
  \<open>x, err := m(); if err != nil { return err }\<close>.\<close>

type_synonym ('o, 'w, 'a) cache_op = "cache \<Rightarrow> (('o, 'w) sys, (go_error + 'a) \<times> cache) state"

definition cache_return :: "'a \<Rightarrow> ('o, 'w, 'a) cache_op" where
  "cache_return a c = State_Monad.return (Inr a, c)"

definition cache_error :: "go_error \<Rightarrow> ('o, 'w, 'a) cache_op" where
  "cache_error e c = State_Monad.return (Inl e, c)"

definition cache_then :: "('o, 'w, 'a) cache_op \<Rightarrow> (go_error \<Rightarrow> go_error) \<Rightarrow> ('a \<Rightarrow> ('o, 'w, 'b) cache_op)
    \<Rightarrow> ('o, 'w, 'b) cache_op" where
  "cache_then m wrap f c = do {
     (r, c') \<leftarrow> m c;
     case r of Inl e \<Rightarrow> State_Monad.return (Inl (wrap e), c') | Inr a \<Rightarrow> f a c'
   }"

definition path_wrap :: "string \<Rightarrow> go_error \<Rightarrow> go_error" where
  "path_wrap path err = Errorf_w (path @ '': '') err"

definition resolve_error :: "Reason \<Rightarrow> string \<Rightarrow> Code \<Rightarrow> go_error" where
  "resolve_error reason message code = BaseErr (WithCode (errors_New reason message) code)"

subsection \<open>cache.go: reads\<close>

definition cache_secret :: "libs \<Rightarrow> 'w reader \<Rightarrow> ctx \<Rightarrow> ObjectKey \<Rightarrow> ('o, 'w, Secret) cache_op" where
  "cache_secret L R ctx objectKey c =
     (case ca_errs c RefKindSecret objectKey of
        Some err \<Rightarrow> State_Monad.return (Inl err, c)
      | None \<Rightarrow>
          (case ca_secrets c objectKey of
             Some secret \<Rightarrow> State_Monad.return (Inr secret, c)
           | None \<Rightarrow> do {
               r \<leftarrow> reader_get (rd_Secret R) GvkSecret ctx objectKey;
               case r of
                 Inl err \<Rightarrow>
                   (let resolveErr = resolve_error ReasonInternal
                          (''could not read Secret '' @ strconv_Quote L (key_Name objectKey)
                            @ '' in namespace '' @ strconv_Quote L (key_Namespace objectKey)
                            @ '': '' @ Error err) CodeReferenceReadFailed;
                        resolveErr = (if rd_IsNotFound R err then
                          resolve_error ReasonNotFound
                            (''Secret '' @ strconv_Quote L (key_Name objectKey)
                              @ '' not found in namespace '' @ strconv_Quote L (key_Namespace objectKey))
                            CodeSecretNotFound
                          else resolveErr);
                        (e, c') = cache_fail RefKindSecret objectKey resolveErr c
                    in State_Monad.return (Inl e, c'))
               | Inr secret \<Rightarrow>
                   State_Monad.return (Inr secret,
                     cache_observe RefKindSecret objectKey (sec_ResourceVersion secret)
                       (c\<lparr>ca_secrets := (ca_secrets c)(objectKey \<mapsto> secret)\<rparr>))
             }))"

definition cache_configMap :: "libs \<Rightarrow> 'w reader \<Rightarrow> ctx \<Rightarrow> ObjectKey \<Rightarrow> ('o, 'w, ConfigMap) cache_op" where
  "cache_configMap L R ctx objectKey c =
     (case ca_errs c RefKindConfigMap objectKey of
        Some err \<Rightarrow> State_Monad.return (Inl err, c)
      | None \<Rightarrow>
          (case ca_configMaps c objectKey of
             Some configMap \<Rightarrow> State_Monad.return (Inr configMap, c)
           | None \<Rightarrow> do {
               r \<leftarrow> reader_get (rd_ConfigMap R) GvkConfigMap ctx objectKey;
               case r of
                 Inl err \<Rightarrow>
                   (let resolveErr = resolve_error ReasonInternal
                          (''could not read ConfigMap '' @ strconv_Quote L (key_Name objectKey)
                            @ '' in namespace '' @ strconv_Quote L (key_Namespace objectKey)
                            @ '': '' @ Error err) CodeReferenceReadFailed;
                        resolveErr = (if rd_IsNotFound R err then
                          resolve_error ReasonNotFound
                            (''ConfigMap '' @ strconv_Quote L (key_Name objectKey)
                              @ '' not found in namespace '' @ strconv_Quote L (key_Namespace objectKey))
                            CodeConfigMapNotFound
                          else resolveErr);
                        (e, c') = cache_fail RefKindConfigMap objectKey resolveErr c
                    in State_Monad.return (Inl e, c'))
               | Inr configMap \<Rightarrow>
                   State_Monad.return (Inr configMap,
                     cache_observe RefKindConfigMap objectKey (cm_ResourceVersion configMap)
                       (c\<lparr>ca_configMaps := (ca_configMaps c)(objectKey \<mapsto> configMap)\<rparr>))
             }))"

definition cache_key :: "cache \<Rightarrow> string \<Rightarrow> ObjectKey" where
  "cache_key c name = \<lparr>key_Namespace = ca_namespace c, key_Name = name\<rparr>"

text \<open>\<open>value\<close>: inline or from a reference, with the surrounding white space removed.\<close>

definition cache_value :: "libs \<Rightarrow> 'w reader \<Rightarrow> ctx \<Rightarrow> string \<Rightarrow> string \<Rightarrow> ValueSource option
    \<Rightarrow> ('o, 'w, string) cache_op" where
  "cache_value L R ctx path inline from c =
     (case from of
        None \<Rightarrow>
          if inline = [] then
            cache_error (resolve_error ReasonInvalidInput
              (path @ '': set exactly one of value or valueFrom'') CodeSpecInvalid) c
          else cache_return (strings_TrimSpace inline) c
      | Some src \<Rightarrow>
          (case vs_SecretKeyRef src of
             Some ref \<Rightarrow>
               (let fieldPath = path @ ''.valueFrom.secretKeyRef''
                in cache_then (cache_secret L R ctx (cache_key c (sel_Name ref))) (path_wrap fieldPath)
                     (\<lambda>secret. case sec_Data secret (sel_Key ref) of
                        None \<Rightarrow> cache_error (resolve_error ReasonNotFound
                          (fieldPath @ '': Secret '' @ strconv_Quote L (sel_Name ref) @ '' has no key ''
                            @ strconv_Quote L (sel_Key ref)) CodeKeyNotFound)
                      | Some v \<Rightarrow> cache_return (strings_TrimSpace v)) c)
           | None \<Rightarrow>
               (case vs_ConfigMapKeyRef src of
                  Some ref \<Rightarrow>
                    (let fieldPath = path @ ''.valueFrom.configMapKeyRef''
                     in cache_then (cache_configMap L R ctx (cache_key c (sel_Name ref))) (path_wrap fieldPath)
                          (\<lambda>configMap. case cm_Data configMap (sel_Key ref) of
                             None \<Rightarrow> cache_error (resolve_error ReasonNotFound
                               (fieldPath @ '': ConfigMap '' @ strconv_Quote L (sel_Name ref) @ '' has no key ''
                                 @ strconv_Quote L (sel_Key ref)) CodeKeyNotFound)
                           | Some v \<Rightarrow> cache_return (strings_TrimSpace v)) c)
                | None \<Rightarrow> cache_error (resolve_error ReasonInvalidInput
                    (path @ ''.valueFrom: set exactly one of secretKeyRef or configMapKeyRef'')
                    CodeSpecInvalid) c)))"

definition cache_endpoint :: "libs \<Rightarrow> 'w reader \<Rightarrow> ctx \<Rightarrow> ProviderConfigSpec \<Rightarrow> ('o, 'w, url) cache_op" where
  "cache_endpoint L R ctx spec =
     cache_then (cache_value L R ctx ''spec.endpoint'' (ep_Value (pcs_Endpoint spec)) (ep_ValueFrom (pcs_Endpoint spec)))
       id (\<lambda>raw.
         case url_Parse L raw of
           Inl parseErr \<Rightarrow> cache_error (resolve_error ReasonInvalidInput
             ''spec.endpoint: value is not a valid URL'' CodeEndpointInvalid)
         | Inr endpoint \<Rightarrow>
             if url_Scheme endpoint \<noteq> ''http'' \<and> url_Scheme endpoint \<noteq> ''https'' then
               cache_error (resolve_error ReasonInvalidInput
                 ''spec.endpoint: URL scheme must be http or https'' CodeEndpointInvalid)
             else if url_Host endpoint = [] then
               cache_error (resolve_error ReasonInvalidInput
                 ''spec.endpoint: URL has no host'' CodeEndpointInvalid)
             else cache_return endpoint)"

definition cache_authentication :: "libs \<Rightarrow> 'w reader \<Rightarrow> ctx \<Rightarrow> Authentication
    \<Rightarrow> ('o, 'w, ResolvedAuthentication) cache_op" where
  "cache_authentication L R ctx auth =
     (case au_Header auth of
        None \<Rightarrow> cache_error (resolve_error ReasonInvalidInput
          ''spec.auth: no authentication method set'' CodeSpecInvalid)
      | Some header \<Rightarrow>
          cache_then (cache_value L R ctx ''spec.auth.header'' (ha_Value header) (ha_ValueFrom header)) id
            (\<lambda>value.
               if value = [] then cache_error (resolve_error ReasonInvalidInput
                 ''spec.auth.header: credential resolved to an empty value'' CodeValueEmpty)
               else
                 (let name = (if ha_Name header = [] then DefaultHeaderName else ha_Name header)
                  in cache_return \<lparr>ra_Header = Some
                       \<lparr>rh_Name = name, rh_Scheme = ha_Scheme header, rh_Value = value\<rparr>\<rparr>)))"

definition cache_trust :: "libs \<Rightarrow> 'w reader \<Rightarrow> ctx \<Rightarrow> TLSConfig option
    \<Rightarrow> ('o, 'w, ResolvedTLSConfig option) cache_op" where
  "cache_trust L R ctx config c =
     (case config of
        None \<Rightarrow> cache_return None c
      | Some cfg \<Rightarrow>
          (let resolved = \<lparr>rt_InsecureSkipVerify = tls_InsecureSkipVerify cfg, rt_CAPool = None\<rparr>
           in case tls_CASecretRef cfg of
                None \<Rightarrow> cache_return (Some resolved) c
              | Some ref \<Rightarrow>
                  cache_then (cache_secret L R ctx (cache_key c (sel_Name ref)))
                    (path_wrap ''spec.tls.caSecretRef'')
                    (\<lambda>secret. case sec_Data secret (sel_Key ref) of
                       None \<Rightarrow> cache_error (resolve_error ReasonNotFound
                         (''spec.tls.caSecretRef: Secret '' @ strconv_Quote L (sel_Name ref) @ '' has no key ''
                           @ strconv_Quote L (sel_Key ref)) CodeKeyNotFound)
                     | Some bundle \<Rightarrow>
                         if \<not> pem_Append L bundle then
                           cache_error (resolve_error ReasonInvalidInput
                             (''spec.tls.caSecretRef: Secret '' @ strconv_Quote L (sel_Name ref) @ '' key ''
                               @ strconv_Quote L (sel_Key ref) @ '' holds no PEM certificate'') CodeCABundleInvalid)
                         else cache_return (Some (resolved\<lparr>rt_CAPool := Some bundle\<rparr>))) c))"

subsection \<open>cached_resolver.go\<close>

definition empty_cache :: "string \<Rightarrow> cache" where
  "empty_cache namespace = \<lparr>ca_namespace = namespace, ca_secrets = Map.empty, ca_configMaps = Map.empty,
     ca_errs = (\<lambda>_. Map.empty), ca_versions = (\<lambda>_. [])\<rparr>"

fun warm_secrets :: "libs \<Rightarrow> 'w reader \<Rightarrow> ctx \<Rightarrow> string list \<Rightarrow> cache \<Rightarrow> (('o, 'w) sys, cache) state" where
  "warm_secrets L R ctx [] c = State_Monad.return c"
| "warm_secrets L R ctx (name # names) c = do {
     (_, c') \<leftarrow> cache_secret L R ctx (cache_key c name) c;
     warm_secrets L R ctx names c'
   }"

fun warm_configMaps :: "libs \<Rightarrow> 'w reader \<Rightarrow> ctx \<Rightarrow> string list \<Rightarrow> cache \<Rightarrow> (('o, 'w) sys, cache) state" where
  "warm_configMaps L R ctx [] c = State_Monad.return c"
| "warm_configMaps L R ctx (name # names) c = do {
     (_, c') \<leftarrow> cache_configMap L R ctx (cache_key c name) c;
     warm_configMaps L R ctx names c'
   }"

definition resolve_parts :: "libs \<Rightarrow> 'w reader \<Rightarrow> ctx \<Rightarrow> ProviderConfigSpec
    \<Rightarrow> ('o, 'w, ResolvedProviderConfigSpec) cache_op" where
  "resolve_parts L R ctx spec =
     cache_then (cache_endpoint L R ctx spec) id (\<lambda>endpoint.
     cache_then (cache_authentication L R ctx (pcs_Auth spec)) id (\<lambda>auth.
     cache_then (cache_trust L R ctx (pcs_TLS spec)) id (\<lambda>tlsConfig.
     cache_return \<lparr>rp_Endpoint = endpoint, rp_Auth = auth, rp_TLS = tlsConfig\<rparr>)))"

definition Resolve :: "libs \<Rightarrow> 'w reader \<Rightarrow> ctx \<Rightarrow> string \<Rightarrow> ProviderConfigSpec
    \<Rightarrow> (('o, 'w) sys, (go_error + ResolvedProviderConfigSpec) \<times> ref_versions) state" where
  "Resolve L R ctx namespace spec = do {
     c \<leftarrow> warm_secrets L R ctx (SecretNames spec) (empty_cache namespace);
     c \<leftarrow> warm_configMaps L R ctx (ConfigMapNames spec) c;
     (r, c) \<leftarrow> resolve_parts L R ctx spec c;
     State_Monad.return (r, ca_versions c)
   }"

definition ResolveRef :: "libs \<Rightarrow> 'w reader \<Rightarrow> ctx \<Rightarrow> ProviderConfigRef \<Rightarrow> string \<Rightarrow> string
    \<Rightarrow> (('o, 'w) sys, go_error + ResolvedProviderConfigSpec) state" where
  "ResolveRef L R ctx ref resourceNamespace operatorNamespace = do {
     found \<leftarrow>
       (if ref_Kind ref = [] \<or> ref_Kind ref = ''ProviderConfig'' then do {
          r \<leftarrow> reader_get (rd_ProviderConfig R) GvkProviderConfig ctx
                \<lparr>key_Namespace = resourceNamespace, key_Name = ref_Name ref\<rparr>;
          State_Monad.return (case r of
            Inl err \<Rightarrow> Inl (Errorf_w (''ProviderConfig '' @ strconv_Quote L (ref_Name ref)
              @ '' in namespace '' @ strconv_Quote L resourceNamespace @ '': '') err)
          | Inr config \<Rightarrow> Inr (pc_Spec config, resourceNamespace))
        } else if ref_Kind ref = ''ClusterProviderConfig'' then do {
          r \<leftarrow> reader_get (rd_ClusterProviderConfig R) GvkClusterProviderConfig ctx
                \<lparr>key_Namespace = [], key_Name = ref_Name ref\<rparr>;
          State_Monad.return (case r of
            Inl err \<Rightarrow> Inl (Errorf_w (''ClusterProviderConfig '' @ strconv_Quote L (ref_Name ref) @ '': '') err)
          | Inr config \<Rightarrow> Inr (pc_Spec config, operatorNamespace))
        } else State_Monad.return (Inl (PlainErr (''providerConfigRef.kind ''
            @ strconv_Quote L (ref_Kind ref) @ '' is not a known provider config kind''))));
     case found of
       Inl err \<Rightarrow> State_Monad.return (Inl err)
     | Inr (spec, refNamespace) \<Rightarrow> do {
         (r, _) \<leftarrow> Resolve L R ctx refNamespace spec;
         State_Monad.return (case r of
           Inl err \<Rightarrow> Inl (Errorf_w (''provider config '' @ strconv_Quote L (ref_Name ref)
             @ '' could not be resolved: '') err)
         | Inr resolved \<Rightarrow> Inr resolved)
       }
   }"

definition CachedResolver :: "libs \<Rightarrow> 'w reader \<Rightarrow> ('o, 'w) Resolver" where
  "CachedResolver L R = \<lparr>rs_Resolve = Resolve L R, rs_ResolveRef = ResolveRef L R\<rparr>"

subsection \<open>The cache invariant\<close>

text \<open>The reads of one resolution: a read of a Secret or a ConfigMap, told apart by what it
  reads.\<close>

definition reference_read :: "'o event \<Rightarrow> bool" where
  "reference_read e \<longleftrightarrow> (\<exists>key b. e = EvGet GvkSecret key b \<or> e = EvGet GvkConfigMap key b)"

fun read_of :: "'o event \<Rightarrow> (gvk \<times> ObjectKey) option" where
  "read_of (EvGet kind key b) = Some (kind, key)"
| "read_of e = None"

definition was_read :: "gvk \<Rightarrow> ObjectKey \<Rightarrow> 'o event list \<Rightarrow> bool" where
  "was_read kind key es \<longleftrightarrow> (\<exists>b. EvGet kind key b \<in> set es)"

fun gvk_of :: "RefKind \<Rightarrow> gvk" where
  "gvk_of RefKindSecret = GvkSecret"
| "gvk_of RefKindConfigMap = GvkConfigMap"

definition cached :: "cache \<Rightarrow> RefKind \<Rightarrow> ObjectKey \<Rightarrow> bool" where
  "cached c kind key \<longleftrightarrow>
     (case kind of RefKindSecret \<Rightarrow> ca_secrets c key \<noteq> None | RefKindConfigMap \<Rightarrow> ca_configMaps c key \<noteq> None)"

definition known_code :: "go_error \<Rightarrow> bool" where
  "known_code e \<longleftrightarrow> (\<exists>b. errors_As e = Some b \<and> base_code b \<in> {CodeSpecInvalid, CodeEndpointInvalid,
     CodeSecretNotFound, CodeConfigMapNotFound, CodeKeyNotFound, CodeValueEmpty, CodeCABundleInvalid,
     CodeReferenceReadFailed})"

text \<open>Relative to the reads issued so far: each reference was read at most once, a reference read
  is remembered, as a value with its version or as an error, and nothing else is.\<close>

definition cache_ok :: "cache \<Rightarrow> 'o event list \<Rightarrow> bool" where
  "cache_ok c es \<longleftrightarrow> list_all reference_read es \<and> distinct (map read_of es)
     \<and> (\<forall>kind key. was_read (gvk_of kind) key es \<longleftrightarrow> cached c kind key \<or> ca_errs c kind key \<noteq> None)
     \<and> (\<forall>kind key. EvGet (gvk_of kind) key True \<in> set es \<longleftrightarrow> cached c kind key)
     \<and> (\<forall>kind key. map_of (ca_versions c kind) key \<noteq> None \<longleftrightarrow> cached c kind key)
     \<and> (\<forall>key v. ca_secrets c key = Some v \<longrightarrow>
          map_of (ca_versions c RefKindSecret) key = Some (sec_ResourceVersion v))
     \<and> (\<forall>key v. ca_configMaps c key = Some v \<longrightarrow>
          map_of (ca_versions c RefKindConfigMap) key = Some (cm_ResourceVersion v))
     \<and> (\<forall>kind key e. ca_errs c kind key = Some e \<longrightarrow> known_code e)"

text \<open>What a cache operation started from \<open>c\<close>, \<open>es\<close> and the object \<open>x\<close> ends in.\<close>

definition cache_post :: "('a \<Rightarrow> bool) \<Rightarrow> 'o event list \<Rightarrow> 'o event list \<Rightarrow> cache \<Rightarrow> 'o
    \<Rightarrow> (go_error + 'a) \<times> cache \<Rightarrow> ('o, 'w) sys \<Rightarrow> bool" where
  "cache_post Q pre es c x rc t \<longleftrightarrow> obj t = x \<and> ca_namespace (snd rc) = ca_namespace c
     \<and> (\<exists>es'. events t = pre @ es' \<and> cache_ok (snd rc) es' \<and> set es \<subseteq> set es')
     \<and> (case fst rc of Inl e \<Rightarrow> known_code e | Inr a \<Rightarrow> Q a)"

definition cache_sound :: "('o, 'w, 'a) cache_op \<Rightarrow> ('a \<Rightarrow> bool) \<Rightarrow> bool" where
  "cache_sound m Q \<longleftrightarrow> (\<forall>c es pre s. cache_ok c es \<longrightarrow> events s = pre @ es \<longrightarrow>
     wp (m c) (cache_post Q pre es c (obj s)) s)"

lemma known_code_resolve_error [simp]:
  "code \<in> {CodeSpecInvalid, CodeEndpointInvalid, CodeSecretNotFound, CodeConfigMapNotFound,
     CodeKeyNotFound, CodeValueEmpty, CodeCABundleInvalid, CodeReferenceReadFailed} \<Longrightarrow>
   known_code (resolve_error r m code)"
  by (simp add: known_code_def resolve_error_def)

lemma known_code_path_wrap [simp]: "known_code (path_wrap p e) = known_code e"
  by (simp add: known_code_def path_wrap_def)

lemma cache_ok_empty: "cache_ok (empty_cache ns) []"
  by (simp add: cache_ok_def empty_cache_def was_read_def cached_def split: RefKind.split)

lemma cache_post_refl:
  "cache_ok c es \<Longrightarrow> events s = pre @ es \<Longrightarrow> (case r of Inl e \<Rightarrow> known_code e | Inr a \<Rightarrow> Q a) \<Longrightarrow>
     cache_post Q pre es c (obj s) (r, c) s"
  by (auto simp: cache_post_def)

lemma cache_sound_return: "Q a \<Longrightarrow> cache_sound (cache_return a) Q"
  by (auto simp: cache_sound_def cache_return_def wp_simps intro: cache_post_refl)

lemma cache_sound_error: "known_code e \<Longrightarrow> cache_sound (cache_error e) Q"
  by (auto simp: cache_sound_def cache_error_def wp_simps intro: cache_post_refl)

lemma cache_soundD:
  "cache_sound m Q \<Longrightarrow> cache_ok c es \<Longrightarrow> events s = pre @ es \<Longrightarrow>
     wp (m c) (cache_post Q pre es c (obj s)) s"
  by (simp add: cache_sound_def)

lemma cache_post_trans:
  "cache_post Q pre es' c' (obj t) rc' u \<Longrightarrow> obj t = x \<Longrightarrow> ca_namespace c' = ca_namespace c \<Longrightarrow>
     set es \<subseteq> set es' \<Longrightarrow> cache_post Q pre es c x rc' u"
  by (auto simp: cache_post_def)

lemma cache_sound_then:
  fixes m :: "('o, 'w, 'a) cache_op" and f :: "'a \<Rightarrow> ('o, 'w, 'b) cache_op"
  assumes m: "cache_sound m Q" and wrap: "\<And>e. known_code e \<Longrightarrow> known_code (wrap e)"
    and f: "\<And>a. Q a \<Longrightarrow> cache_sound (f a) R"
  shows "cache_sound (cache_then m wrap f) R"
  unfolding cache_sound_def cache_then_def wp_bind
proof (intro allI impI)
  fix c and es pre :: "'o event list" and s :: "('o, 'w) sys"
  assume ok: "cache_ok c es" and ev: "events s = pre @ es"
  show "wp (m c) (\<lambda>a. wp (case a of (r, c') \<Rightarrow> case r of Inl e \<Rightarrow> State_Monad.return (Inl (wrap e), c')
      | Inr a \<Rightarrow> f a c') (cache_post R pre es c (obj s))) s"
  proof (rule wp_mono [OF cache_soundD [OF m ok ev]])
    fix rc :: "(go_error + 'a) \<times> cache" and t :: "('o, 'w) sys"
    assume "cache_post Q pre es c (obj s) rc t"
    then obtain es' where t: "obj t = obj s" "ca_namespace (snd rc) = ca_namespace c"
      "events t = pre @ es'" "cache_ok (snd rc) es'" "set es \<subseteq> set es'"
      and r: "case fst rc of Inl e \<Rightarrow> known_code e | Inr a \<Rightarrow> Q a"
      by (auto simp: cache_post_def)
    show "wp (case rc of (r, c') \<Rightarrow> case r of Inl e \<Rightarrow> State_Monad.return (Inl (wrap e), c')
      | Inr a \<Rightarrow> f a c') (cache_post R pre es c (obj s)) t"
    proof (cases "fst rc")
      case (Inl e)
      then show ?thesis using t r wrap by (auto simp: wp_simps cache_post_def split: prod.split)
    next
      case (Inr a)
      with r have "Q a" by simp
      have "wp (f a (snd rc)) (cache_post R pre es c (obj s)) t"
        by (rule wp_mono [OF cache_soundD [OF f [OF \<open>Q a\<close>] t(4,3)]], erule cache_post_trans) (fact t)+
      then show ?thesis using Inr by (cases rc) simp
    qed
  qed
qed

text \<open>One read: a new event whose reference was not read before.\<close>

lemma was_read_snoc: "was_read k key (es @ [EvGet k' key' b]) \<longleftrightarrow> was_read k key es \<or> (k = k' \<and> key = key')"
  by (auto simp: was_read_def)

lemma read_of_iff: "read_of e = Some (k, key) \<longleftrightarrow> (\<exists>b. e = EvGet k key b)"
  by (cases e) auto

lemma fresh_read: "\<not> was_read k key es \<Longrightarrow> Some (k, key) \<notin> read_of ` set es"
  unfolding was_read_def by (metis imageE read_of_iff)

lemma cache_ok_fail:
  assumes ok: "cache_ok c es" and new: "\<not> cached c kind key" "ca_errs c kind key = None" and e: "known_code e"
  shows "cache_ok (snd (cache_fail kind key e c)) (es @ [EvGet (gvk_of kind) key False])"
proof -
  have fresh: "\<not> was_read (gvk_of kind) key es" using ok new by (auto simp: cache_ok_def)
  have inj: "gvk_of k = gvk_of k' \<longleftrightarrow> k = k'" for k k' by (cases k; cases k') auto
  have "reference_read (EvGet (gvk_of kind) key False)" by (cases kind) (auto simp: reference_read_def)
  then show ?thesis
    using ok new e fresh_read [OF fresh]
    by (auto simp: cache_ok_def cache_fail_def was_read_snoc cached_def inj split: RefKind.splits)
qed

lemma cache_ok_secret:
  assumes ok: "cache_ok c es" and new: "ca_secrets c key = None" "ca_errs c RefKindSecret key = None"
  shows "cache_ok (cache_observe RefKindSecret key (sec_ResourceVersion v) (c\<lparr>ca_secrets := (ca_secrets c)(key \<mapsto> v)\<rparr>))
    (es @ [EvGet GvkSecret key True])"
proof -
  have fresh: "\<not> was_read GvkSecret key es"
    using ok new by (auto simp: cache_ok_def cached_def dest: spec [of _ RefKindSecret])
  show ?thesis
    using ok new fresh_read [OF fresh]
    by (auto simp: cache_ok_def cache_observe_def was_read_snoc cached_def update_conv' reference_read_def
        split: RefKind.splits)
qed

lemma cache_ok_configMap:
  assumes ok: "cache_ok c es" and new: "ca_configMaps c key = None" "ca_errs c RefKindConfigMap key = None"
  shows "cache_ok (cache_observe RefKindConfigMap key (cm_ResourceVersion v)
      (c\<lparr>ca_configMaps := (ca_configMaps c)(key \<mapsto> v)\<rparr>)) (es @ [EvGet GvkConfigMap key True])"
proof -
  have fresh: "\<not> was_read GvkConfigMap key es"
    using ok new by (auto simp: cache_ok_def cached_def dest: spec [of _ RefKindConfigMap])
  show ?thesis
    using ok new fresh_read [OF fresh]
    by (auto simp: cache_ok_def cache_observe_def was_read_snoc cached_def update_conv' reference_read_def
        split: RefKind.splits)
qed

lemma cache_ok_err: "cache_ok c es \<Longrightarrow> ca_errs c kind key = Some e \<Longrightarrow> known_code e"
  by (auto simp: cache_ok_def)

text \<open>After \<open>secret\<close> or \<open>configMap\<close> the reference has been read.\<close>

lemma cache_secret_post:
  assumes ok: "cache_ok c es" and ev: "events s = pre @ es"
  shows "wp (cache_secret L R ctx key c) (\<lambda>rc t. cache_post (\<lambda>_. True) pre es c (obj s) rc t
    \<and> (\<exists>es'. events t = pre @ es' \<and> was_read GvkSecret key es')) s"
proof -
  have seen: "was_read GvkSecret key es" if "ca_errs c RefKindSecret key \<noteq> None \<or> ca_secrets c key \<noteq> None"
    using ok that by (auto simp: cache_ok_def cached_def dest: spec [of _ RefKindSecret])
  show ?thesis
    using cache_ok_secret [OF ok] cache_ok_fail [OF ok, of RefKindSecret key] cache_ok_err [OF ok] seen ev ok
    by (auto simp: cache_secret_def wp_simps cache_post_def cache_fail_def cache_observe_def cached_def was_read_snoc Let_def
        split: option.split sum.split prod.split)
qed

lemma cache_configMap_post:
  assumes ok: "cache_ok c es" and ev: "events s = pre @ es"
  shows "wp (cache_configMap L R ctx key c) (\<lambda>rc t. cache_post (\<lambda>_. True) pre es c (obj s) rc t
    \<and> (\<exists>es'. events t = pre @ es' \<and> was_read GvkConfigMap key es')) s"
proof -
  have seen: "was_read GvkConfigMap key es"
    if "ca_errs c RefKindConfigMap key \<noteq> None \<or> ca_configMaps c key \<noteq> None"
    using ok that by (auto simp: cache_ok_def cached_def dest: spec [of _ RefKindConfigMap])
  show ?thesis
    using cache_ok_configMap [OF ok] cache_ok_fail [OF ok, of RefKindConfigMap key] cache_ok_err [OF ok] seen ev ok
    by (auto simp: cache_configMap_def wp_simps cache_post_def cache_fail_def cache_observe_def cached_def was_read_snoc Let_def
        split: option.split sum.split prod.split)
qed

lemma cache_secret_sound: "cache_sound (cache_secret L R ctx key) (\<lambda>_. True)"
  by (auto simp: cache_sound_def intro: wp_mono [OF cache_secret_post])

lemma cache_configMap_sound: "cache_sound (cache_configMap L R ctx key) (\<lambda>_. True)"
  by (auto simp: cache_sound_def intro: wp_mono [OF cache_configMap_post])

text \<open>A read under the cache's own namespace.\<close>

lemma cache_sound_then_key:
  assumes "\<And>key. cache_sound (m key) Q" and "\<And>e. known_code e \<Longrightarrow> known_code (wrap e)"
    and "\<And>a. Q a \<Longrightarrow> cache_sound (f a) R"
  shows "cache_sound (\<lambda>c. cache_then (m (cache_key c n)) wrap f c) R"
  using cache_sound_then [where f = f and wrap = wrap, OF assms(1)] assms(2,3)
  unfolding cache_sound_def by blast

text \<open>A resolved value has no surrounding white space.\<close>

definition trimmed :: "string \<Rightarrow> bool" where
  "trimmed v \<longleftrightarrow> strings_TrimSpace v = v"

lemma cache_value_sound: "cache_sound (cache_value L R ctx path inline vfrom) trimmed"
proof (cases vfrom)
  case None
  then show ?thesis
    by (cases "inline = []")
       (auto simp: cache_value_def [abs_def] trimmed_def intro: cache_sound_return cache_sound_error)
next
  case (Some src)
  note sound = cache_sound_return cache_sound_error cache_sound_then_key [OF cache_secret_sound]
    cache_sound_then_key [OF cache_configMap_sound]
  show ?thesis
    by (cases "vs_SecretKeyRef src"; cases "vs_ConfigMapKeyRef src")
       (auto simp: Some cache_value_def [abs_def] Let_def trimmed_def split: option.split intro!: sound)
qed

lemma cache_endpoint_sound:
  "cache_sound (cache_endpoint L R ctx spec)
     (\<lambda>u. url_Scheme u \<in> {''http'', ''https''} \<and> url_Host u \<noteq> [])"
  unfolding cache_endpoint_def
  by (rule cache_sound_then [OF cache_value_sound])
     (auto split: sum.split intro!: cache_sound_return cache_sound_error)

text \<open>A resolved credential is a header with a name and a trimmed, non-empty value.\<close>

definition usable_auth :: "ResolvedAuthentication \<Rightarrow> bool" where
  "usable_auth a \<longleftrightarrow> (\<exists>h. ra_Header a = Some h \<and> rh_Name h \<noteq> [] \<and> rh_Value h \<noteq> [] \<and> trimmed (rh_Value h))"

lemma cache_authentication_sound: "cache_sound (cache_authentication L R ctx auth) usable_auth"
  unfolding cache_authentication_def Let_def
  by (auto split: option.split simp: usable_auth_def DefaultHeaderName_def
        intro!: cache_sound_return cache_sound_error cache_sound_then [OF cache_value_sound])

lemma cache_trust_sound:
  "cache_sound (cache_trust L R ctx config)
     (\<lambda>t. case config of
        None \<Rightarrow> t = None
      | Some cfg \<Rightarrow> (\<exists>r. t = Some r \<and> rt_InsecureSkipVerify r = tls_InsecureSkipVerify cfg
          \<and> (tls_CASecretRef cfg = None \<longrightarrow> rt_CAPool r = None)
          \<and> (tls_CASecretRef cfg \<noteq> None \<longrightarrow> (\<exists>b. rt_CAPool r = Some b \<and> pem_Append L b))))"
proof (cases config)
  case None
  then show ?thesis by (auto simp: cache_trust_def [abs_def] intro: cache_sound_return)
next
  case (Some cfg)
  note sound = cache_sound_return cache_sound_error cache_sound_then_key [OF cache_secret_sound]
  show ?thesis
    by (cases "tls_CASecretRef cfg")
       (auto simp: Some cache_trust_def [abs_def] Let_def split: option.split intro!: sound)
qed

definition usable :: "ResolvedProviderConfigSpec \<Rightarrow> bool" where
  "usable r \<longleftrightarrow> url_Scheme (rp_Endpoint r) \<in> {''http'', ''https''} \<and> url_Host (rp_Endpoint r) \<noteq> []
     \<and> usable_auth (rp_Auth r)"

lemma resolve_parts_sound: "cache_sound (resolve_parts L R ctx spec) usable"
  unfolding resolve_parts_def
  by (rule cache_sound_then [OF cache_endpoint_sound], simp,
      rule cache_sound_then [OF cache_authentication_sound], simp,
      rule cache_sound_then [OF cache_trust_sound], simp, rule cache_sound_return)
     (simp add: usable_def)

subsection \<open>A whole resolution\<close>

definition warm_post :: "gvk \<Rightarrow> string list \<Rightarrow> 'o event list \<Rightarrow> 'o event list \<Rightarrow> cache \<Rightarrow> 'o
    \<Rightarrow> cache \<Rightarrow> ('o, 'w) sys \<Rightarrow> bool" where
  "warm_post kind names pre es c x c' t \<longleftrightarrow> obj t = x \<and> ca_namespace c' = ca_namespace c
     \<and> (\<exists>es'. events t = pre @ es' \<and> cache_ok c' es' \<and> set es \<subseteq> set es'
          \<and> (\<forall>n \<in> set names. was_read kind (cache_key c n) es'))"

lemma was_read_mono: "was_read k key es \<Longrightarrow> set es \<subseteq> set es' \<Longrightarrow> was_read k key es'"
  by (auto simp: was_read_def)

lemma cache_key_cong: "ca_namespace c' = ca_namespace c \<Longrightarrow> cache_key c' n = cache_key c n"
  by (simp add: cache_key_def)

lemma warm_post_step:
  assumes "cache_post Q pre es c (obj s) (r, c') t"
    and "\<exists>es'. events t = pre @ es' \<and> was_read kind (cache_key c name) es'"
    and rec: "\<And>es'. cache_ok c' es' \<Longrightarrow> events t = pre @ es' \<Longrightarrow>
      wp m (warm_post kind names pre es' c' (obj t)) t"
  shows "wp m (warm_post kind (name # names) pre es c (obj s)) t"
proof -
  obtain es' where es': "events t = pre @ es'" "cache_ok c' es'" "set es \<subseteq> set es'"
    and ns: "ca_namespace c' = ca_namespace c" and ob: "obj t = obj s"
    and rd: "was_read kind (cache_key c name) es'"
    using assms(1,2) by (auto simp: cache_post_def)
  show ?thesis
    by (rule wp_mono [OF rec [OF es'(2,1)]])
       (use es' ns ob rd cache_key_cong [OF ns] in \<open>auto simp: warm_post_def intro: was_read_mono\<close>)
qed

lemma warm_secrets_post:
  "cache_ok c es \<Longrightarrow> events s = pre @ es \<Longrightarrow>
     wp (warm_secrets L R ctx names c) (warm_post GvkSecret names pre es c (obj s)) s"
proof (induction names arbitrary: c es s)
  case Nil
  then show ?case by (auto simp: wp_simps warm_post_def)
next
  case (Cons name names)
  show ?case unfolding warm_secrets.simps wp_bind
    by (rule wp_mono [OF cache_secret_post [OF Cons.prems]])
       (auto split: prod.split intro: warm_post_step [OF _ _ Cons.IH])
qed

lemma warm_configMaps_post:
  "cache_ok c es \<Longrightarrow> events s = pre @ es \<Longrightarrow>
     wp (warm_configMaps L R ctx names c) (warm_post GvkConfigMap names pre es c (obj s)) s"
proof (induction names arbitrary: c es s)
  case Nil
  then show ?case by (auto simp: wp_simps warm_post_def)
next
  case (Cons name names)
  show ?case unfolding warm_configMaps.simps wp_bind
    by (rule wp_mono [OF cache_configMap_post [OF Cons.prems]])
       (auto split: prod.split intro: warm_post_step [OF _ _ Cons.IH])
qed

text \<open>What one resolution did: every read is of a Secret or a ConfigMap in the namespace, none is
  repeated, every referenced name was read, the versions reported are exactly those of the reads
  that succeeded, and a failure carries one of the documented codes.\<close>

definition resolved_post :: "string \<Rightarrow> ProviderConfigSpec \<Rightarrow> 'o event list \<Rightarrow> 'o
    \<Rightarrow> (go_error + ResolvedProviderConfigSpec) \<times> ref_versions \<Rightarrow> ('o, 'w) sys \<Rightarrow> bool" where
  "resolved_post namespace spec pre x rv t \<longleftrightarrow> obj t = x \<and>
     (\<exists>es. events t = pre @ es \<and> list_all reference_read es \<and> distinct (map read_of es)
        \<and> (\<forall>n \<in> set (SecretNames spec). was_read GvkSecret \<lparr>key_Namespace = namespace, key_Name = n\<rparr> es)
        \<and> (\<forall>n \<in> set (ConfigMapNames spec). was_read GvkConfigMap \<lparr>key_Namespace = namespace, key_Name = n\<rparr> es)
        \<and> (\<forall>kind key. map_of (snd rv kind) key \<noteq> None \<longleftrightarrow> EvGet (gvk_of kind) key True \<in> set es))
     \<and> (case fst rv of Inl e \<Rightarrow> known_code e | Inr r \<Rightarrow> usable r)"

lemma cache_ok_resolved:
  assumes "cache_ok c es" and "set es0 \<subseteq> set es"
    and "\<forall>n \<in> set (SecretNames spec). was_read GvkSecret \<lparr>key_Namespace = namespace, key_Name = n\<rparr> es0"
    and "\<forall>n \<in> set (ConfigMapNames spec). was_read GvkConfigMap \<lparr>key_Namespace = namespace, key_Name = n\<rparr> es0"
    and "obj t = x" and "events t = pre @ es" and "case r of Inl e \<Rightarrow> known_code e | Inr r \<Rightarrow> usable r"
  shows "resolved_post namespace spec pre x (r, ca_versions c) t"
  using assms was_read_mono [OF _ assms(2)] by (auto simp: resolved_post_def cache_ok_def)

lemma Resolve_post:
  fixes R :: "'w reader" and s :: "('o, 'w) sys"
  shows "wp (Resolve L R ctx namespace spec) (resolved_post namespace spec (events s) (obj s)) s"
  unfolding Resolve_def wp_bind
proof (rule wp_mono [OF warm_secrets_post [OF cache_ok_empty]], simp)
  fix c1 and t1 :: "('o, 'w) sys"
  assume "warm_post GvkSecret (SecretNames spec) (events s) [] (empty_cache namespace) (obj s) c1 t1"
  then obtain es1 where 1: "obj t1 = obj s" "ca_namespace c1 = namespace" "events t1 = events s @ es1"
    "cache_ok c1 es1" "\<forall>n \<in> set (SecretNames spec). was_read GvkSecret (cache_key c1 n) es1"
    by (auto simp: warm_post_def empty_cache_def cache_key_def)
  show "wp (warm_configMaps L R ctx (ConfigMapNames spec) c1)
     (\<lambda>c. wp (resolve_parts L R ctx spec c) (\<lambda>a. wp (case a of (r, c) \<Rightarrow> State_Monad.return (r, ca_versions c))
       (resolved_post namespace spec (events s) (obj s)))) t1"
  proof (rule wp_mono [OF warm_configMaps_post [OF 1(4,3)]])
    fix c2 and t2 :: "('o, 'w) sys"
    assume "warm_post GvkConfigMap (ConfigMapNames spec) (events s) es1 c1 (obj t1) c2 t2"
    then obtain es2 where 2: "obj t2 = obj s" "ca_namespace c2 = namespace" "events t2 = events s @ es2"
      "cache_ok c2 es2" "set es1 \<subseteq> set es2"
      "\<forall>n \<in> set (ConfigMapNames spec). was_read GvkConfigMap (cache_key c2 n) es2"
      using 1 by (auto simp: warm_post_def cache_key_def)
    have sec: "\<forall>n \<in> set (SecretNames spec). was_read GvkSecret (cache_key c2 n) es2"
      using 1(5) 2(5) 1(2) 2(2) by (auto simp: cache_key_def intro: was_read_mono)
    show "wp (resolve_parts L R ctx spec c2) (\<lambda>a. wp (case a of (r, c) \<Rightarrow> State_Monad.return (r, ca_versions c))
       (resolved_post namespace spec (events s) (obj s))) t2"
      by (rule wp_mono [OF cache_soundD [OF resolve_parts_sound 2(4,3)]])
         (use 2 sec in \<open>auto simp: cache_post_def wp_simps cache_key_def split: prod.split
            intro: cache_ok_resolved\<close>)
  qed
qed

subsection \<open>The contract of a resolver\<close>

text \<open>What the reconciler relies on: resolving reads Kubernetes objects and does nothing else, and
  a resolved configuration is usable.\<close>

definition kube_read :: "'o event \<Rightarrow> bool" where
  "kube_read e \<longleftrightarrow> (\<exists>kind key b. e = EvGet kind key b)"

locale resolver_contract =
  fixes RS :: "('o, 'w) Resolver"
  assumes resolve_reads: "emits kube_read (rs_ResolveRef RS ctx ref ns ons)"
    and resolve_keeps: "keeps_obj (rs_ResolveRef RS ctx ref ns ons)"
    and resolve_usable: "wp (rs_ResolveRef RS ctx ref ns ons) (\<lambda>r _. \<forall>p. r = Inr p \<longrightarrow> usable p) s"

lemma Resolve_emits [trace_intros]: "emits kube_read (Resolve L R ctx namespace spec)"
  unfolding emits_def trace_sat_def
  by (intro allI, rule wp_mono [OF Resolve_post])
     (fastforce simp: resolved_post_def list_all_iff reference_read_def kube_read_def)

lemma Resolve_keeps [trace_intros]: "keeps_obj (Resolve L R ctx namespace spec)"
  unfolding keeps_obj_def by (intro allI, rule wp_mono [OF Resolve_post]) (simp add: resolved_post_def)

lemma ResolveRef_emits: "emits kube_read (ResolveRef L R ctx ref ns ons)"
  unfolding ResolveRef_def by (intro trace_intros) (auto simp: kube_read_def)

lemma ResolveRef_keeps: "keeps_obj (ResolveRef L R ctx ref ns ons)"
  unfolding ResolveRef_def by (intro trace_intros)

lemma wp_True: "wp m (\<lambda>_ _. True) s"
  by (simp add: wp_def split: prod.split)

lemma ResolveRef_usable:
  fixes R :: "'w reader" and s :: "('o, 'w) sys"
  shows "wp (ResolveRef L R ctx ref ns ons) (\<lambda>r _. \<forall>p. r = Inr p \<longrightarrow> usable p) s"
  unfolding ResolveRef_def wp_bind
proof (rule wp_mono [OF wp_True])
  fix found :: "go_error + ProviderConfigSpec \<times> string" and t :: "('o, 'w) sys"
  show "wp (case found of Inl err \<Rightarrow> State_Monad.return (Inl err)
     | Inr (spec, refNamespace) \<Rightarrow> do {
         (r, _) \<leftarrow> Resolve L R ctx refNamespace spec;
         State_Monad.return (case r of
           Inl err \<Rightarrow> Inl (Errorf_w (''provider config '' @ strconv_Quote L (ref_Name ref)
             @ '' could not be resolved: '') err)
         | Inr resolved \<Rightarrow> Inr resolved) }) (\<lambda>r _. \<forall>p. r = Inr p \<longrightarrow> usable p) t"
    by (cases found)
       (auto simp: wp_simps resolved_post_def split: prod.split sum.split intro!: wp_mono [OF Resolve_post])
qed

interpretation cached: resolver_contract "CachedResolver L R" for L R
  by unfold_locales (simp_all add: CachedResolver_def ResolveRef_emits ResolveRef_keeps ResolveRef_usable)

end
