(* ===== verification/Conditions.thy ===== *)
theory Conditions
  imports World
begin

text \<open>
  The package \<open>internal/resources\<close>, files \<open>condition.go\<close>, \<open>reason.go\<close> and \<open>reconciler.go\<close>: the
  verdict of a reconcile pass, the reasons it gives, and how the verdict is written onto the
  five conditions of a resource.
\<close>

subsection \<open>reconciler.go and reason.go\<close>

datatype ReconcilerOutcome =
    OutcomeSynced
  | OutcomePending
  | OutcomeRecoverable
  | OutcomeTerminal
  | OutcomeSuspended

datatype StatusReason =
    SReasonSynced
  | SReasonPending
  | SReasonCreated
  | SReasonUpdated
  | SReasonInvalidSpec
  | SReasonRejected
  | SReasonAmbiguous
  | SReasonSigNozResourceIDMismatch
  | SReasonImmutableFieldChanged
  | SReasonUnauthorized
  | SReasonProviderConfigNotReady
  | SReasonBackendError
  | SReasonBackendUnreachable
  | SReasonSuspended
  | SReasonCompareFailed

fun reason_String :: "StatusReason \<Rightarrow> string" where
  "reason_String SReasonSynced = ''Synced''"
| "reason_String SReasonPending = ''Pending''"
| "reason_String SReasonCreated = ''Created''"
| "reason_String SReasonUpdated = ''Updated''"
| "reason_String SReasonInvalidSpec = ''InvalidSpec''"
| "reason_String SReasonRejected = ''Rejected''"
| "reason_String SReasonAmbiguous = ''Ambiguous''"
| "reason_String SReasonSigNozResourceIDMismatch = ''SigNozResourceIDMismatch''"
| "reason_String SReasonImmutableFieldChanged = ''ImmutableFieldChanged''"
| "reason_String SReasonUnauthorized = ''Unauthorized''"
| "reason_String SReasonProviderConfigNotReady = ''ProviderConfigNotReady''"
| "reason_String SReasonBackendError = ''BackendError''"
| "reason_String SReasonBackendUnreachable = ''BackendUnreachable''"
| "reason_String SReasonSuspended = ''Suspended''"
| "reason_String SReasonCompareFailed = ''CompareFailed''"

subsection \<open>condition.go\<close>

record condition_kind =
  ck_s :: string
  ck_isAlwaysPresent :: bool

definition ConditionReady :: condition_kind where
  "ConditionReady = \<lparr>ck_s = ''Ready'', ck_isAlwaysPresent = True\<rparr>"

definition ConditionSynced :: condition_kind where
  "ConditionSynced = \<lparr>ck_s = ''Synced'', ck_isAlwaysPresent = True\<rparr>"

definition ConditionTerminal :: condition_kind where
  "ConditionTerminal = \<lparr>ck_s = ''Terminal'', ck_isAlwaysPresent = False\<rparr>"

definition ConditionRecoverable :: condition_kind where
  "ConditionRecoverable = \<lparr>ck_s = ''Recoverable'', ck_isAlwaysPresent = False\<rparr>"

definition ConditionSuspended :: condition_kind where
  "ConditionSuspended = \<lparr>ck_s = ''Suspended'', ck_isAlwaysPresent = False\<rparr>"

lemmas condition_kinds = ConditionReady_def ConditionSynced_def ConditionTerminal_def
  ConditionRecoverable_def ConditionSuspended_def

definition presence :: "bool \<Rightarrow> ConditionStatus" where
  "presence on = (if on then ConditionTrue else ConditionFalse)"

text \<open>\<open>t\<close> is the time \<open>meta.SetStatusCondition\<close> reads for a condition that changes.\<close>

definition apply_condition :: "klib \<Rightarrow> int \<Rightarrow> int \<Rightarrow> condition_kind \<Rightarrow> ConditionStatus \<Rightarrow> StatusReason
    \<Rightarrow> string \<Rightarrow> CoreStatus \<Rightarrow> CoreStatus" where
  "apply_condition K t generation c s reason message status =
     (if \<not> ck_isAlwaysPresent c \<and> s \<noteq> ConditionTrue
      then status\<lparr>st_Conditions := RemoveStatusCondition K (st_Conditions status) (ck_s c)\<rparr>
      else status\<lparr>st_Conditions := SetStatusCondition K t (st_Conditions status)
             \<lparr>c_Type = ck_s c, c_Status = s, c_ObservedGeneration = generation,
              c_LastTransitionTime = 0, c_Reason = reason_String reason, c_Message = message\<rparr>\<rparr>)"

definition SetConditionsOnOutcome :: "klib \<Rightarrow> int \<Rightarrow> int \<Rightarrow> ReconcilerOutcome \<Rightarrow> StatusReason
    \<Rightarrow> string \<Rightarrow> CoreStatus \<Rightarrow> CoreStatus" where
  "SetConditionsOnOutcome K t generation outcome reason message status =
     (let status = status\<lparr>st_ObservedGeneration := generation\<rparr>;
          synced = (case outcome of
                      OutcomeSynced \<Rightarrow> ConditionTrue
                    | OutcomeTerminal \<Rightarrow> ConditionFalse
                    | _ \<Rightarrow> ConditionUnknown);
          status = apply_condition K t generation ConditionSynced synced reason message status;
          status = apply_condition K t generation ConditionSuspended
                     (presence (outcome = OutcomeSuspended)) reason message status;
          status = apply_condition K t generation ConditionTerminal
                     (presence (outcome = OutcomeTerminal)) reason message status;
          status = apply_condition K t generation ConditionRecoverable
                     (presence (outcome = OutcomeRecoverable)) reason message status;
          ready = (case outcome of
                     OutcomeSynced \<Rightarrow> ConditionTrue
                   | OutcomeTerminal \<Rightarrow> ConditionFalse
                   | OutcomeSuspended \<Rightarrow> ConditionFalse
                   | _ \<Rightarrow> ConditionUnknown)
      in apply_condition K t generation ConditionReady ready reason message status)"

definition GetOutcomeAndSetConditionsOnErr :: "klib \<Rightarrow> int \<Rightarrow> int \<Rightarrow> go_error \<Rightarrow> CoreStatus
    \<Rightarrow> ReconcilerOutcome \<times> CoreStatus" where
  "GetOutcomeAndSetConditionsOnErr K t generation err status =
     (let verdict = (\<lambda>outcome reason.
            (outcome, SetConditionsOnOutcome K t generation outcome reason (Error err) status))
      in if errors_As err = None then verdict OutcomeRecoverable SReasonBackendUnreachable
         else if IsUnreachable (Some err) then verdict OutcomeRecoverable SReasonBackendUnreachable
         else if IsRetryable (Some err) then verdict OutcomeRecoverable SReasonBackendError
         else if IsUnauthorized (Some err) \<or> IsForbidden (Some err)
         then verdict OutcomeRecoverable SReasonUnauthorized
         else verdict OutcomeTerminal SReasonRejected)"

subsection \<open>What a status reports\<close>

definition reports :: "CoreStatus \<Rightarrow> condition_kind \<Rightarrow> ConditionStatus \<Rightarrow> string \<Rightarrow> string \<Rightarrow> int \<Rightarrow> bool" where
  "reports status c s reason message generation \<longleftrightarrow>
     (\<exists>d. find_cond (st_Conditions status) (ck_s c) = Some d \<and> c_Status d = s
        \<and> c_Reason d = reason \<and> c_Message d = message \<and> c_ObservedGeneration d = generation)"

definition absent :: "CoreStatus \<Rightarrow> condition_kind \<Rightarrow> bool" where
  "absent status c \<longleftrightarrow> find_cond (st_Conditions status) (ck_s c) = None"

text \<open>The status an outcome is written as: the verdict on each condition, \<open>None\<close> for one that
  is not there.\<close>

fun verdict_on :: "ReconcilerOutcome \<Rightarrow> string \<Rightarrow> ConditionStatus option" where
  "verdict_on out ty =
     (if ty = ''Synced'' then
        Some (if out = OutcomeSynced then ConditionTrue
              else if out = OutcomeTerminal then ConditionFalse else ConditionUnknown)
      else if ty = ''Ready'' then
        Some (if out = OutcomeSynced then ConditionTrue
              else if out = OutcomeTerminal \<or> out = OutcomeSuspended then ConditionFalse
              else ConditionUnknown)
      else if ty = ''Terminal'' then (if out = OutcomeTerminal then Some ConditionTrue else None)
      else if ty = ''Recoverable'' then (if out = OutcomeRecoverable then Some ConditionTrue else None)
      else if ty = ''Suspended'' then (if out = OutcomeSuspended then Some ConditionTrue else None)
      else None)"

definition shows_outcome :: "CoreStatus \<Rightarrow> ReconcilerOutcome \<Rightarrow> StatusReason \<Rightarrow> string \<Rightarrow> int \<Rightarrow> bool" where
  "shows_outcome status out reason message generation \<longleftrightarrow>
     st_ObservedGeneration status = generation \<and>
     (\<forall>c \<in> {ConditionReady, ConditionSynced, ConditionTerminal, ConditionRecoverable, ConditionSuspended}.
        case verdict_on out (ck_s c) of
          Some s \<Rightarrow> reports status c s (reason_String reason) message generation
        | None \<Rightarrow> absent status c)"

lemma apply_condition_frame [simp]:
  "st_SigNozResource (apply_condition K t g c s r m st) = st_SigNozResource st"
  "st_ObservedGeneration (apply_condition K t g c s r m st) = st_ObservedGeneration st"
  "st_ObservedHash (apply_condition K t g c s r m st) = st_ObservedHash st"
  "st_ReconciledAt (apply_condition K t g c s r m st) = st_ReconciledAt st"
  by (simp_all add: apply_condition_def)

lemma SetConditionsOnOutcome_frame [simp]:
  "st_SigNozResource (SetConditionsOnOutcome K t g out r m st) = st_SigNozResource st"
  "st_ObservedGeneration (SetConditionsOnOutcome K t g out r m st) = g"
  "st_ObservedHash (SetConditionsOnOutcome K t g out r m st) = st_ObservedHash st"
  "st_ReconciledAt (SetConditionsOnOutcome K t g out r m st) = st_ReconciledAt st"
  by (simp_all add: SetConditionsOnOutcome_def Let_def)

lemma find_cond_type: "find_cond cs ty = Some d \<Longrightarrow> c_Type d = ty"
  by (auto simp: find_cond_def find_Some_iff)

context kube_lib
begin

lemma reports_apply_same:
  "ck_isAlwaysPresent c \<or> s = ConditionTrue \<Longrightarrow>
     reports (apply_condition K t g c s r m st) c s (reason_String r) m g"
  using set_condition_find [of t "st_Conditions st"
      "\<lparr>c_Type = ck_s c, c_Status = s, c_ObservedGeneration = g, c_LastTransitionTime = 0,
        c_Reason = reason_String r, c_Message = m\<rparr>"]
  by (auto simp: apply_condition_def reports_def same_report_def)

lemma absent_apply_same:
  "\<not> ck_isAlwaysPresent c \<Longrightarrow> s \<noteq> ConditionTrue \<Longrightarrow> absent (apply_condition K t g c s r m st) c"
  by (simp add: apply_condition_def absent_def remove_condition_find)

lemma find_apply_other:
  "ck_s c \<noteq> ck_s c' \<Longrightarrow> find_cond (st_Conditions (apply_condition K t g c' s r m st)) (ck_s c)
     = find_cond (st_Conditions st) (ck_s c)"
  by (simp add: apply_condition_def set_condition_other remove_condition_other)

lemma reports_apply_other:
  "ck_s c \<noteq> ck_s c' \<Longrightarrow> reports (apply_condition K t g c' s r m st) c = reports st c"
  by (intro ext) (simp add: reports_def find_apply_other)

lemma absent_apply_other:
  "ck_s c \<noteq> ck_s c' \<Longrightarrow> absent (apply_condition K t g c' s r m st) c = absent st c"
  by (simp add: absent_def find_apply_other)

lemma ck_names [simp]:
  "ck_s ConditionReady = ''Ready''" "ck_s ConditionSynced = ''Synced''"
  "ck_s ConditionTerminal = ''Terminal''" "ck_s ConditionRecoverable = ''Recoverable''"
  "ck_s ConditionSuspended = ''Suspended''"
  "ck_isAlwaysPresent ConditionReady" "ck_isAlwaysPresent ConditionSynced"
  "\<not> ck_isAlwaysPresent ConditionTerminal" "\<not> ck_isAlwaysPresent ConditionRecoverable"
  "\<not> ck_isAlwaysPresent ConditionSuspended"
  by (simp_all add: condition_kinds)

lemma outcome_shown: "shows_outcome (SetConditionsOnOutcome K t g out r m st) out r m g"
  by (cases out)
     (simp_all add: shows_outcome_def SetConditionsOnOutcome_def Let_def presence_def
        reports_apply_other absent_apply_other reports_apply_same absent_apply_same)

text \<open>Writing the same verdict again changes nothing, so a pass that observes nothing new
  leaves the status as it was.\<close>

lemma apply_condition_stable:
  "reports st c s (reason_String r) m g \<Longrightarrow> ck_isAlwaysPresent c \<or> s = ConditionTrue \<Longrightarrow>
     apply_condition K t g c s r m st = st"
proof -
  assume "reports st c s (reason_String r) m g" and shown: "ck_isAlwaysPresent c \<or> s = ConditionTrue"
  then obtain d where d: "find_cond (st_Conditions st) (ck_s c) = Some d" "c_Status d = s"
    "c_Reason d = reason_String r" "c_Message d = m" "c_ObservedGeneration d = g"
    by (auto simp: reports_def)
  let ?c = "\<lparr>c_Type = ck_s c, c_Status = s, c_ObservedGeneration = g, c_LastTransitionTime = 0,
        c_Reason = reason_String r, c_Message = m\<rparr>"
  have "SetStatusCondition K t (st_Conditions st) ?c = st_Conditions st"
    by (rule set_condition_same [of _ ?c d]) (simp_all add: d same_report_def find_cond_type [OF d(1)])
  with shown show ?thesis by (auto simp: apply_condition_def)
qed

lemma apply_condition_stable_absent:
  "absent st c \<Longrightarrow> \<not> ck_isAlwaysPresent c \<Longrightarrow> s \<noteq> ConditionTrue \<Longrightarrow>
     apply_condition K t g c s r m st = st"
  by (simp add: apply_condition_def absent_def remove_condition_none)

lemma shown_stable:
  "shows_outcome st out r m g \<Longrightarrow> SetConditionsOnOutcome K t g out r m st = st"
  by (cases out)
     (auto simp: shows_outcome_def SetConditionsOnOutcome_def Let_def presence_def
        apply_condition_stable apply_condition_stable_absent)

end

subsection \<open>The helpers as apimachinery documents them\<close>

fun set_condition_ref :: "int \<Rightarrow> Condition list \<Rightarrow> Condition \<Rightarrow> Condition list" where
  "set_condition_ref t [] c =
     [c\<lparr>c_LastTransitionTime := if c_LastTransitionTime c = 0 then t else c_LastTransitionTime c\<rparr>]"
| "set_condition_ref t (d # ds) c =
     (if c_Type d = c_Type c
      then c\<lparr>c_LastTransitionTime :=
               if c_Status d = c_Status c then c_LastTransitionTime d
               else if c_LastTransitionTime c = 0 then t else c_LastTransitionTime c\<rparr> # ds
      else d # set_condition_ref t ds c)"

definition ref_klib :: klib where
  "ref_klib = \<lparr>
     AddFinalizer = (\<lambda>fs f. if f \<in> set fs then (fs, False) else (fs @ [f], True)),
     RemoveFinalizer = (\<lambda>fs f. (filter (\<lambda>g. g \<noteq> f) fs, f \<in> set fs)),
     ContainsFinalizer = (\<lambda>fs f. f \<in> set fs),
     SetStatusCondition = set_condition_ref,
     RemoveStatusCondition = (\<lambda>cs ty. filter (\<lambda>c. c_Type c \<noteq> ty) cs),
     DeepEqual_CoreStatus = (=),
     DeepEqual_PCStatus = (=) \<rparr>"

lemma set_condition_ref_find:
  "\<exists>d. find_cond (set_condition_ref t cs c) (c_Type c) = Some d \<and> same_report d c
     \<and> (\<forall>e. find_cond cs (c_Type c) = Some e \<and> c_Status e = c_Status c
           \<longrightarrow> c_LastTransitionTime d = c_LastTransitionTime e)"
  by (induction cs) (auto simp: find_cond_def same_report_def)

lemma set_condition_ref_other:
  "ty \<noteq> c_Type c \<Longrightarrow> find_cond (set_condition_ref t cs c) ty = find_cond cs ty"
  by (induction cs) (auto simp: find_cond_def)

lemma set_condition_ref_same:
  "find_cond cs (c_Type c) = Some e \<Longrightarrow> same_report e c \<Longrightarrow> set_condition_ref t cs c = cs"
  by (induction cs) (auto simp: find_cond_def same_report_def split: if_splits)

lemma find_filter_other: "ty \<noteq> ty' \<Longrightarrow>
    find_cond (filter (\<lambda>c. c_Type c \<noteq> ty') cs) ty = find_cond cs ty"
  by (induction cs) (auto simp: find_cond_def)

lemma find_filter_same: "find_cond (filter (\<lambda>c. c_Type c \<noteq> ty) cs) ty = None"
  by (induction cs) (auto simp: find_cond_def)

lemma filter_absent: "find_cond cs ty = None \<Longrightarrow> filter (\<lambda>c. c_Type c \<noteq> ty) cs = cs"
  by (induction cs) (auto simp: find_cond_def split: if_splits)

interpretation refk: kube_lib ref_klib
  by unfold_locales
     (simp_all add: ref_klib_def set_condition_ref_other set_condition_ref_same find_filter_other
        set_condition_ref_find find_filter_same filter_absent)

end
