(* ===== verification/JsonBody.thy ===== *)
theory JsonBody
  imports Json "HOL-Library.AList"
begin

text \<open>
  The package \<open>internal/jsonbody\<close>: rendering the desired body from whichever template form is
  set, hashing it canonically, reading fields out of it, and finding the paths on which the
  desired body and a read response diverge.
\<close>

subsection \<open>render.go and hash.go\<close>

text \<open>\<open>marshal_spec\<close> stands for \<open>json.Marshal\<close> at the kind's typed spec.\<close>

definition Render ::
  "libs \<Rightarrow> ('t \<Rightarrow> go_error + string) \<Rightarrow> 't option \<Rightarrow> string option \<Rightarrow> go_error + string" where
  "Render L marshal_spec spec jsonSpec =
     (case spec of
        Some sp \<Rightarrow> (case marshal_spec sp of Inl err \<Rightarrow> Inl err | Inr out \<Rightarrow> Inr out)
      | None \<Rightarrow>
          (case jsonSpec of
             Some raw \<Rightarrow>
               (case json_Unmarshal L raw of Inl err \<Rightarrow> Inl err | Inr _ \<Rightarrow> Inr raw)
           | None \<Rightarrow>
               Inl (BaseErr (errors_New ReasonInvalidInput
                 ''exactly one of spec or jsonSpec must be set''))))"

definition Hash :: "libs \<Rightarrow> string \<Rightarrow> go_error + string" where
  "Hash L body =
     (case json_Unmarshal L body of
        Inl err \<Rightarrow> Inl err
      | Inr value \<Rightarrow>
          (case json_Marshal L value of
             Inl err \<Rightarrow> Inl err
           | Inr canonical \<Rightarrow> Inr (sha256_hex L canonical)))"

subsection \<open>extract.go\<close>

definition ExtractString :: "libs \<Rightarrow> string \<Rightarrow> string \<Rightarrow> go_error + string" where
  "ExtractString L raw path =
     (let value = res_String L (gjson_GetBytes L raw path)
      in if value = [] then Inl (PlainErr (''no value at '' @ path)) else Inr value)"

definition ExtractFromSpecs ::
  "libs \<Rightarrow> ('t \<Rightarrow> go_error + string) \<Rightarrow> 't option \<Rightarrow> string option \<Rightarrow> string \<Rightarrow> go_error + string" where
  "ExtractFromSpecs L marshal_spec spec jsonSpec path =
     (case Render L marshal_spec spec jsonSpec of
        Inl err \<Rightarrow> Inl err
      | Inr body \<Rightarrow> ExtractString L body path)"

text \<open>The payload map is built key by key; \<open>None\<close> is the nil message of an empty payload.\<close>

definition extract_payload :: "libs \<Rightarrow> string \<Rightarrow> string list \<Rightarrow> (string \<times> json) list" where
  "extract_payload L raw flds =
     foldl (\<lambda>payload field.
        case gjson_GetBytes L raw field of
          Some v \<Rightarrow> AList.update field v payload
        | None \<Rightarrow> payload) [] flds"

definition ExtractFields :: "libs \<Rightarrow> string \<Rightarrow> string list \<Rightarrow> go_error + string option" where
  "ExtractFields L raw flds =
     (let payload = extract_payload L raw flds
      in if payload = [] then Inr None
         else (case json_Marshal L (JObj payload) of
                 Inl err \<Rightarrow> Inl err
               | Inr out \<Rightarrow> Inr (Some out)))"

subsection \<open>diff.go\<close>

fun isDeepZero :: "json \<Rightarrow> bool" where
  "isDeepZero JNull = True"
| "isDeepZero (JBool b) = (\<not> b)"
| "isDeepZero (JNum n) = (n = 0)"
| "isDeepZero (JStr s) = (s = [])"
| "isDeepZero (JArr xs) = (xs = [])"
| "isDeepZero (JObj kvs) = list_all (\<lambda>kv. isDeepZero (snd kv)) kvs"

definition ignoreZeroOnlyInY :: "cmp_path \<Rightarrow> bool" where
  "ignoreZeroOnlyInY path =
     (if path = [] then False
      else (case last path of
              MapIndex k x y \<Rightarrow>
                x = None \<and> (case y of Some v \<Rightarrow> isDeepZero v | None \<Rightarrow> False)
            | _ \<Rightarrow> False))"

definition jsonbody_Equal :: "libs \<Rightarrow> json \<Rightarrow> json \<Rightarrow> bool" where
  "jsonbody_Equal L x y = cmp_Equal L ignoreZeroOnlyInY x y"

text \<open>\<open>SliceIndex.Key\<close> is \<open>-1\<close> when the two sides are misaligned.\<close>

definition sliceKey :: "int \<Rightarrow> int \<Rightarrow> int" where
  "sliceKey xkey ykey =
     (let key = (if xkey = ykey then xkey else -1)
      in if 0 \<le> key then key else if 0 \<le> xkey then xkey else ykey)"

fun path_segments :: "cmp_path \<Rightarrow> string list" where
  "path_segments [] = []"
| "path_segments (MapIndex k x y # steps) = k # path_segments steps"
| "path_segments (SliceIndex i j # steps) = itoa (sliceKey i j) # path_segments steps"
| "path_segments (_ # steps) = path_segments steps"

definition formatPath :: "cmp_path \<Rightarrow> string" where
  "formatPath steps = strings_Join (path_segments steps) ''.''"

text \<open>The reporter appends the formatted path of every unequal leaf it is given.\<close>

fun pathReporter :: "(cmp_path \<times> bool) list \<Rightarrow> string list" where
  "pathReporter [] = []"
| "pathReporter ((steps, is_equal) # results) =
     (if \<not> is_equal then formatPath steps # pathReporter results else pathReporter results)"

definition Diff :: "libs \<Rightarrow> json \<Rightarrow> json \<Rightarrow> string list" where
  "Diff L x y = pathReporter (cmp_Report L ignoreZeroOnlyInY x y)"

definition overlaps :: "string \<Rightarrow> string \<Rightarrow> bool" where
  "overlaps x y =
     (if x = y \<or> x = [] \<or> y = [] then True
      else strings_HasPrefix x (y @ ''.'') \<or> strings_HasPrefix y (x @ ''.''))"

text \<open>A candidate is appended at its first overlapping path, then the inner loop breaks.\<close>

fun any_overlap :: "string \<Rightarrow> string list \<Rightarrow> bool" where
  "any_overlap candidate [] = False"
| "any_overlap candidate (path # x) = (if overlaps candidate path then True else any_overlap candidate x)"

fun Intersect :: "string list \<Rightarrow> string list \<Rightarrow> string list" where
  "Intersect x [] = []"
| "Intersect x (candidate # y) =
     (if any_overlap candidate x then candidate # Intersect x y else Intersect x y)"

subsection \<open>Paths and fields\<close>

lemma any_overlap_iff: "any_overlap c x \<longleftrightarrow> (\<exists>p \<in> set x. overlaps c p)"
  by (induction x) auto

lemma Intersect_filter: "Intersect x y = filter (\<lambda>c. \<exists>p \<in> set x. overlaps c p) y"
  by (induction y) (auto simp: any_overlap_iff)

lemma Intersect_Nil [simp]: "Intersect [] y = []"
  by (simp add: Intersect_filter)

text \<open>A simple key is not empty and holds no dot, so it is one segment of a path.\<close>

definition simple_key :: "string \<Rightarrow> bool" where
  "simple_key k \<longleftrightarrow> k \<noteq> [] \<and> CHR ''.'' \<notin> set k"

lemma Join_Cons: "strings_Join (k # s) sep = k \<or> (\<exists>r. strings_Join (k # s) sep = k @ sep @ r)"
  by (cases s) auto

lemma dotfree_prefix_eq:
  assumes "f @ CHR ''.'' # u = k @ CHR ''.'' # v" and "CHR ''.'' \<notin> set f" and "CHR ''.'' \<notin> set k"
  shows "f = k"
  using assms
proof (induction f arbitrary: k)
  case Nil
  then show ?case by (cases k) auto
next
  case (Cons c f)
  then show ?case by (cases k) auto
qed

lemma overlaps_field:
  assumes "simple_key f" and "simple_key k"
  shows "overlaps f (strings_Join (k # s) ''.'') \<longleftrightarrow> f = k"
proof -
  have f: "f \<noteq> []" "CHR ''.'' \<notin> set f" and k: "k \<noteq> []" "CHR ''.'' \<notin> set k"
    using assms by (auto simp: simple_key_def)
  from Join_Cons [of k s "''.''"] consider "strings_Join (k # s) ''.'' = k"
    | r where "strings_Join (k # s) ''.'' = k @ ''.'' @ r" by blast
  then show ?thesis
  proof cases
    case 1
    then show ?thesis using f k by (auto simp: overlaps_def strings_HasPrefix_iff)
  next
    case (2 r)
    then show ?thesis
      using f k by (auto simp: overlaps_def strings_HasPrefix_iff dest: dotfree_prefix_eq)
  qed
qed

subsection \<open>Drift, as a relation on values\<close>

text \<open>A value is well formed when no object in it repeats a key, as in a Go map.\<close>

fun wf_json :: "json \<Rightarrow> bool" where
  "wf_json (JArr xs) = list_all wf_json xs"
| "wf_json (JObj kvs) = (distinct (map fst kvs) \<and> list_all (\<lambda>kv. wf_json (snd kv)) kvs)"
| "wf_json _ = True"

text \<open>The specification of the comparison: every field of the desired value is present in the
  observed one without drift, and what only the observed one has is a deep zero.\<close>

fun no_drift :: "json \<Rightarrow> json \<Rightarrow> bool" where
  "no_drift (JObj xs) (JObj ys) =
     (list_all (\<lambda>kv. case map_of ys (fst kv) of Some b \<Rightarrow> no_drift (snd kv) b | None \<Rightarrow> False) xs
      \<and> list_all (\<lambda>kv. map_of xs (fst kv) = None \<longrightarrow> isDeepZero (snd kv)) ys)"
| "no_drift (JArr xs) (JArr ys) = list_all2 no_drift xs ys"
| "no_drift x y = (x = y)"

definition field_drift :: "(string \<times> json) list \<Rightarrow> (string \<times> json) list \<Rightarrow> string \<Rightarrow> bool" where
  "field_drift xs ys k =
     (case map_of xs k of
        Some a \<Rightarrow> (case map_of ys k of Some b \<Rightarrow> \<not> no_drift a b | None \<Rightarrow> True)
      | None \<Rightarrow> (case map_of ys k of Some b \<Rightarrow> \<not> isDeepZero b | None \<Rightarrow> False))"

lemma wf_json_field: "wf_json (JObj kvs) \<Longrightarrow> map_of kvs k = Some v \<Longrightarrow> wf_json v"
  by (auto simp: list_all_iff dest!: map_of_SomeD)

lemma no_drift_objects:
  assumes "distinct (map fst xs)" and "distinct (map fst ys)"
  shows "no_drift (JObj xs) (JObj ys) \<longleftrightarrow> (\<forall>k. \<not> field_drift xs ys k)"
proof
  assume nd: "no_drift (JObj xs) (JObj ys)"
  show "\<forall>k. \<not> field_drift xs ys k"
  proof
    fix k
    show "\<not> field_drift xs ys k"
      using nd by (fastforce simp: field_drift_def list_all_iff split: option.splits dest: map_of_SomeD)
  qed
next
  assume nf: "\<forall>k. \<not> field_drift xs ys k"
  have "case map_of ys k of Some b \<Rightarrow> no_drift a b | None \<Rightarrow> False" if "(k, a) \<in> set xs" for k a
    using spec [OF nf, of k] that assms(1)
    by (auto simp: field_drift_def map_of_is_SomeI split: option.splits)
  moreover have "isDeepZero b" if "(k, b) \<in> set ys" and "map_of xs k = None" for k b
    using spec [OF nf, of k] that assms(2)
    by (auto simp: field_drift_def map_of_is_SomeI split: option.splits)
  ultimately show "no_drift (JObj xs) (JObj ys)" by (auto simp: list_all_iff)
qed

subsection \<open>Documented behaviour of go-cmp\<close>

text \<open>\<open>cmp.FilterPath\<close> with a filter on the last step only, and the segments of the paths
  reported unequal.\<close>

definition last_filter :: "(cmp_step \<Rightarrow> bool) \<Rightarrow> cmp_path \<Rightarrow> bool" where
  "last_filter g p \<longleftrightarrow> p \<noteq> [] \<and> g (last p)"

definition unequal_segs :: "(cmp_path \<times> bool) list \<Rightarrow> string list set" where
  "unequal_segs rs = {path_segments q | q. (q, False) \<in> set rs}"

lemma pathReporter_set:
  "set (pathReporter rs) = (\<lambda>s. strings_Join s ''.'') ` unequal_segs rs"
  by (induction rs rule: pathReporter.induct) (auto simp: unequal_segs_def formatPath_def)

text \<open>The filter of the package, as a filter on the last step.\<close>

definition zero_step :: "cmp_step \<Rightarrow> bool" where
  "zero_step st = ignoreZeroOnlyInY [st]"

lemma ignoreZeroOnlyInY_last: "ignoreZeroOnlyInY = last_filter zero_step"
  by (rule ext) (auto simp: ignoreZeroOnlyInY_def last_filter_def zero_step_def)

lemma zero_step_MapIndex:
  "zero_step (MapIndex k x y) \<longleftrightarrow> x = None \<and> (\<exists>v. y = Some v \<and> isDeepZero v)"
  by (cases y) (auto simp: zero_step_def ignoreZeroOnlyInY_def)

lemma zero_step_SliceIndex: "\<not> zero_step (SliceIndex i j)"
  by (simp add: zero_step_def ignoreZeroOnlyInY_def)

text \<open>What \<open>go-cmp\<close> documents on values made of maps, slices and scalars: a comparison holds when
  no reported leaf is unequal; maps are compared entry by entry, an entry missing on one side
  being an unequal leaf unless the filter ignores it; slices are equal when they have the same
  length and equal elements; anything else is compared with \<open>==\<close>.\<close>

locale go_cmp =
  fixes report :: "(cmp_path \<Rightarrow> bool) \<Rightarrow> json \<Rightarrow> json \<Rightarrow> (cmp_path \<times> bool) list"
    and equal :: "(cmp_path \<Rightarrow> bool) \<Rightarrow> json \<Rightarrow> json \<Rightarrow> bool"
  assumes equal_report: "equal f x y \<longleftrightarrow> list_all snd (report f x y)"
    and report_objects: "distinct (map fst xs) \<Longrightarrow> distinct (map fst ys) \<Longrightarrow>
      unequal_segs (report (last_filter g) (JObj xs) (JObj ys)) =
        {k # s | k s. (map_of xs k \<noteq> None \<or> map_of ys k \<noteq> None)
           \<and> \<not> g (MapIndex k (map_of xs k) (map_of ys k))
           \<and> (case (map_of xs k, map_of ys k) of
                (Some a, Some b) \<Rightarrow> s \<in> unequal_segs (report (last_filter g) a b)
              | _ \<Rightarrow> s = [])}"
    and report_arrays: "(\<And>i j. \<not> g (SliceIndex i j)) \<Longrightarrow>
      unequal_segs (report (last_filter g) (JArr us) (JArr vs)) = {} \<longleftrightarrow>
        list_all2 (\<lambda>a b. unequal_segs (report (last_filter g) a b) = {}) us vs"
    and report_leaves: "(\<nexists>o1 o2. x = JObj o1 \<and> y = JObj o2) \<Longrightarrow> (\<nexists>a1 a2. x = JArr a1 \<and> y = JArr a2) \<Longrightarrow>
      unequal_segs (report (last_filter g) x y) = (if x = y then {} else {[]})"
begin

abbreviation segs :: "json \<Rightarrow> json \<Rightarrow> string list set" where
  "segs x y \<equiv> unequal_segs (report ignoreZeroOnlyInY x y)"

lemma segs_objects:
  assumes "distinct (map fst xs)" and "distinct (map fst ys)"
  shows "k # s \<in> segs (JObj xs) (JObj ys) \<longleftrightarrow>
    (case (map_of xs k, map_of ys k) of
       (Some a, Some b) \<Rightarrow> s \<in> segs a b
     | (Some a, None) \<Rightarrow> s = []
     | (None, Some b) \<Rightarrow> s = [] \<and> \<not> isDeepZero b
     | (None, None) \<Rightarrow> False)"
    and "[] \<notin> segs (JObj xs) (JObj ys)"
  unfolding ignoreZeroOnlyInY_last report_objects [OF assms]
  by (auto simp: zero_step_MapIndex split: option.splits)

lemma segs_empty_iff: "wf_json x \<Longrightarrow> wf_json y \<Longrightarrow> segs x y = {} \<longleftrightarrow> no_drift x y"
proof (induction x y rule: no_drift.induct)
  case (1 xs ys)
  have dx: "distinct (map fst xs)" and dy: "distinct (map fst ys)" using "1.prems" by auto
  have sub: "segs a b = {} \<longleftrightarrow> no_drift a b"
    if "map_of xs k = Some a" and "map_of ys k = Some b" for k a b
    using "1.IH" [of "(k, a)" b] "1.prems" that by (auto simp: wf_json_field dest: map_of_SomeD)
  have entry: "(\<forall>s. k # s \<notin> segs (JObj xs) (JObj ys)) \<longleftrightarrow> \<not> field_drift xs ys k" for k
    using sub [of k] by (auto simp: segs_objects(1) [OF dx dy] field_drift_def split: option.splits)
  have "segs (JObj xs) (JObj ys) = {} \<longleftrightarrow> (\<forall>k s. k # s \<notin> segs (JObj xs) (JObj ys))"
    using segs_objects(2) [OF dx dy] by (metis all_not_in_conv neq_Nil_conv)
  also have "\<dots> \<longleftrightarrow> no_drift (JObj xs) (JObj ys)"
    by (simp only: entry no_drift_objects [OF dx dy])
  finally show ?case .
next
  case (2 xs ys)
  have "segs (JArr xs) (JArr ys) = {} \<longleftrightarrow> list_all2 (\<lambda>a b. segs a b = {}) xs ys"
    unfolding ignoreZeroOnlyInY_last by (rule report_arrays) (rule zero_step_SliceIndex)
  also have "\<dots> \<longleftrightarrow> list_all2 no_drift xs ys"
    using "2.IH" "2.prems"
    by (intro list.rel_cong refl) (auto simp: list_all_iff)
  finally show ?case by simp
qed (auto simp: ignoreZeroOnlyInY_last report_leaves)

text \<open>The paths \<open>Diff\<close> reports are exactly the formatted unequal leaves.\<close>

lemma pathReporter_empty_iff:
  "pathReporter (report ignoreZeroOnlyInY x y) = [] \<longleftrightarrow> segs x y = {}"
  using pathReporter_set [of "report ignoreZeroOnlyInY x y"] by (metis image_is_empty set_empty)

lemma reported_field_iff:
  assumes "wf_json (JObj xs)" and "wf_json (JObj ys)"
    and "\<And>k. map_of xs k \<noteq> None \<or> map_of ys k \<noteq> None \<Longrightarrow> simple_key k" and "simple_key f"
  shows "(\<exists>p \<in> set (pathReporter (report ignoreZeroOnlyInY (JObj xs) (JObj ys))). overlaps f p)
    \<longleftrightarrow> field_drift xs ys f"
proof -
  have dx: "distinct (map fst xs)" and dy: "distinct (map fst ys)" using assms(1,2) by auto
  note in_segs = segs_objects(1) [OF dx dy]
  have sub: "segs a b = {} \<longleftrightarrow> no_drift a b"
    if "map_of xs k = Some a" and "map_of ys k = Some b" for k a b
    using segs_empty_iff wf_json_field [OF assms(1)] wf_json_field [OF assms(2)] that by blast
  have key: "simple_key k" if "k # s \<in> segs (JObj xs) (JObj ys)" for k s
    using that assms(3) [of k] by (auto simp: in_segs split: option.splits)
  have "(\<exists>p \<in> set (pathReporter (report ignoreZeroOnlyInY (JObj xs) (JObj ys))). overlaps f p)
    \<longleftrightarrow> (\<exists>k s. k # s \<in> segs (JObj xs) (JObj ys) \<and> overlaps f (strings_Join (k # s) ''.''))"
    using segs_objects(2) [OF dx dy]
    by (simp add: pathReporter_set) (metis neq_Nil_conv)
  also have "\<dots> \<longleftrightarrow> (\<exists>s. f # s \<in> segs (JObj xs) (JObj ys))"
    using overlaps_field [OF assms(4) key] by blast
  also have "\<dots> \<longleftrightarrow> field_drift xs ys f"
    using sub [of f] by (auto simp: in_segs field_drift_def split: option.splits)
  finally show ?thesis .
qed

end

end
