(* ===== verification/Objects.thy ===== *)
theory Objects
  imports Api JsonBody
begin

text \<open>
  The interface \<open>resources.Object\<close> (\<open>internal/resources/object.go\<close>) as a record of methods over the
  object template, and the method bodies every generated kind shares
  (\<open>internal/resources/objects/zz_generated_*_object.go\<close>): the ten files differ only in the
  collection path, the identity path, the two field lists and the typed spec. The methods that
  return parts of the custom resource (\<open>K8sObject\<close>, \<open>GetCoreSpec\<close>, \<open>GetCoreStatus\<close>) are the fields
  of the record \<open>resource\<close>.

  A \<open>json.RawMessage\<close> is its bytes; the nil message of an empty answer is the empty string, and
  the nil payload of \<open>ToUpdate\<close>, which the transport tests for, is \<open>None\<close>.
\<close>

subsection \<open>object.go\<close>

record CompareResult =
  cr_UpdatableFields :: "string list"
  cr_ImmutableFields :: "string list"

record 't Object =
  m_Identity :: "'t ObjectTemplate \<Rightarrow> go_error + string"
  m_Body :: "'t ObjectTemplate \<Rightarrow> go_error + string"
  m_Hash :: "'t ObjectTemplate \<Rightarrow> go_error + string"
  m_ToSigNozResource :: "string \<Rightarrow> go_error + SigNozResource"
  m_ToUpdate :: "'t ObjectTemplate \<Rightarrow> go_error + string option"
  m_UpdatableFields :: "string list"
  m_ImmutableFields :: "string list"
  m_Compare :: "'t ObjectTemplate \<Rightarrow> string \<Rightarrow> go_error + CompareResult"
  m_CreateMethodAndPath :: "string \<times> string"
  m_UpdateMethodAndPath :: "SigNozResource option \<Rightarrow> string \<times> string"
  m_ReadMethodAndPath :: "SigNozResource option \<Rightarrow> string \<times> string"
  m_DeleteMethodAndPath :: "SigNozResource option \<Rightarrow> string \<times> string"

subsection \<open>The generated method bodies\<close>

definition object_Body :: "libs \<Rightarrow> ('t \<Rightarrow> go_error + string) \<Rightarrow> 't ObjectTemplate \<Rightarrow> go_error + string" where
  "object_Body L ms t = Render L ms (tmpl_Spec t) (tmpl_JSONSpec t)"

definition object_Identity ::
  "libs \<Rightarrow> ('t \<Rightarrow> go_error + string) \<Rightarrow> string \<Rightarrow> 't ObjectTemplate \<Rightarrow> go_error + string" where
  "object_Identity L ms path t = ExtractFromSpecs L ms (tmpl_Spec t) (tmpl_JSONSpec t) path"

definition object_Hash :: "libs \<Rightarrow> ('t \<Rightarrow> go_error + string) \<Rightarrow> 't ObjectTemplate \<Rightarrow> go_error + string" where
  "object_Hash L ms t =
     (case object_Body L ms t of Inl err \<Rightarrow> Inl err | Inr body \<Rightarrow> Hash L body)"

definition object_ToSigNozResource :: "libs \<Rightarrow> string \<Rightarrow> go_error + SigNozResource" where
  "object_ToSigNozResource L response =
     (case ExtractString L response ''data.id'' of
        Inl err \<Rightarrow> Inl err
      | Inr i \<Rightarrow> Inr \<lparr>sr_ID = Some i\<rparr>)"

definition object_ToUpdate ::
  "libs \<Rightarrow> ('t \<Rightarrow> go_error + string) \<Rightarrow> string list \<Rightarrow> 't ObjectTemplate \<Rightarrow> go_error + string option" where
  "object_ToUpdate L ms updatable t =
     (case object_Body L ms t of Inl err \<Rightarrow> Inl err | Inr body \<Rightarrow> ExtractFields L body updatable)"

definition object_Compare :: "libs \<Rightarrow> ('t \<Rightarrow> go_error + string) \<Rightarrow> string list \<Rightarrow> string list
    \<Rightarrow> 't ObjectTemplate \<Rightarrow> string \<Rightarrow> go_error + CompareResult" where
  "object_Compare L ms updatable immutable t response =
     (case object_Body L ms t of
        Inl err \<Rightarrow> Inl err
      | Inr body \<Rightarrow>
          (let paths = Diff L (res_Value (gjson_ParseBytes L body))
                         (res_Value (gjson_GetBytes L response ''data''))
           in Inr \<lparr>cr_UpdatableFields = Intersect paths updatable,
                   cr_ImmutableFields = Intersect paths immutable\<rparr>))"

text \<open>The id of a resource that has none is the empty string, the error being dropped.\<close>

definition id_or_empty :: "SigNozResource option \<Rightarrow> string" where
  "id_or_empty m = (case GetIDFromSigNozResource m of Inl _ \<Rightarrow> [] | Inr i \<Rightarrow> i)"

definition object_of :: "libs \<Rightarrow> ('t \<Rightarrow> go_error + string) \<Rightarrow> string \<Rightarrow> string \<Rightarrow> string list \<Rightarrow> string list
    \<Rightarrow> 't Object" where
  "object_of L ms collectionPath identityPath updatable immutable = \<lparr>
     m_Identity = object_Identity L ms identityPath,
     m_Body = object_Body L ms,
     m_Hash = object_Hash L ms,
     m_ToSigNozResource = object_ToSigNozResource L,
     m_ToUpdate = object_ToUpdate L ms updatable,
     m_UpdatableFields = updatable,
     m_ImmutableFields = immutable,
     m_Compare = object_Compare L ms updatable immutable,
     m_CreateMethodAndPath = (''POST'', collectionPath),
     m_UpdateMethodAndPath = (\<lambda>m. (''PUT'', collectionPath @ ''/'' @ id_or_empty m)),
     m_ReadMethodAndPath = (\<lambda>m. (''GET'', collectionPath @ ''/'' @ id_or_empty m)),
     m_DeleteMethodAndPath = (\<lambda>m. (''DELETE'', collectionPath @ ''/'' @ id_or_empty m)) \<rparr>"

subsection \<open>The ten kinds\<close>

text \<open>\<open>ms\<close> is \<open>json.Marshal\<close> at the kind's typed spec.\<close>

definition UserObject :: "libs \<Rightarrow> ('t \<Rightarrow> go_error + string) \<Rightarrow> 't Object" where
  "UserObject L ms = object_of L ms ''/api/v2/users'' ''email'' [''displayName''] [''email'']"

definition AuthDomainObject :: "libs \<Rightarrow> ('t \<Rightarrow> go_error + string) \<Rightarrow> 't Object" where
  "AuthDomainObject L ms = object_of L ms ''/api/v2/auth_domains'' ''name''
     [''config'', ''enabled'', ''roleMapping''] [''name'']"

definition DashboardObject :: "libs \<Rightarrow> ('t \<Rightarrow> go_error + string) \<Rightarrow> 't Object" where
  "DashboardObject L ms = object_of L ms ''/api/v2/dashboards'' ''name''
     [''image'', ''name'', ''schemaVersion'', ''spec'', ''tags''] []"

definition SavedViewObject :: "libs \<Rightarrow> ('t \<Rightarrow> go_error + string) \<Rightarrow> 't Object" where
  "SavedViewObject L ms = object_of L ms ''/api/v2/saved_views'' ''name''
     [''schemaVersion'', ''source'', ''spec''] [''name'']"

definition PlannedMaintenanceObject :: "libs \<Rightarrow> ('t \<Rightarrow> go_error + string) \<Rightarrow> 't Object" where
  "PlannedMaintenanceObject L ms = object_of L ms ''/api/v1/downtime_schedules'' ''name''
     [''alertIds'', ''description'', ''name'', ''schedule'', ''scope''] []"

definition RoleObject :: "libs \<Rightarrow> ('t \<Rightarrow> go_error + string) \<Rightarrow> 't Object" where
  "RoleObject L ms = object_of L ms ''/api/v1/roles'' ''name''
     [''description'', ''transactionGroups''] [''name'']"

definition RoutePolicyObject :: "libs \<Rightarrow> ('t \<Rightarrow> go_error + string) \<Rightarrow> 't Object" where
  "RoutePolicyObject L ms = object_of L ms ''/api/v1/route_policies'' ''name''
     [''channels'', ''description'', ''expression'', ''kind'', ''name'', ''tags''] []"

definition RuleObject :: "libs \<Rightarrow> ('t \<Rightarrow> go_error + string) \<Rightarrow> 't Object" where
  "RuleObject L ms = object_of L ms ''/api/v2/rules'' ''alert''
     [''alert'', ''alertType'', ''annotations'', ''condition'', ''description'', ''disabled'',
      ''evaluation'', ''labels'', ''notificationSettings'', ''ruleType'', ''schemaVersion''] []"

definition ServiceAccountObject :: "libs \<Rightarrow> ('t \<Rightarrow> go_error + string) \<Rightarrow> 't Object" where
  "ServiceAccountObject L ms = object_of L ms ''/api/v1/service_accounts'' ''name'' [''name''] []"

definition NotificationChannelObject :: "libs \<Rightarrow> ('t \<Rightarrow> go_error + string) \<Rightarrow> 't Object" where
  "NotificationChannelObject L ms = object_of L ms ''/api/v2/notification_channels'' ''name''
     [''config''] [''displayName'', ''name'']"

lemmas kind_defs = UserObject_def AuthDomainObject_def DashboardObject_def SavedViewObject_def
  PlannedMaintenanceObject_def RoleObject_def RoutePolicyObject_def RuleObject_def
  ServiceAccountObject_def NotificationChannelObject_def

subsection \<open>The contract of a kind\<close>

text \<open>What the transport and the reconciler rely on: each operation uses its own HTTP method, the
  identity, the hash and the update payload are read off the body alone, an id taken from a
  create answer is never empty, and no field is both updatable and immutable.\<close>

locale object_contract =
  fixes M :: "'t Object"
  assumes create_method: "fst (m_CreateMethodAndPath M) = ''POST''"
    and update_method: "fst (m_UpdateMethodAndPath M r) = ''PUT''"
    and read_method: "fst (m_ReadMethodAndPath M r) = ''GET''"
    and delete_method: "fst (m_DeleteMethodAndPath M r) = ''DELETE''"
    and update_addresses_id: "GetIDFromSigNozResource r = Inr i \<Longrightarrow>
      snd (m_UpdateMethodAndPath M r) = snd (m_CreateMethodAndPath M) @ ''/'' @ i"
    and read_addresses_id: "GetIDFromSigNozResource r = Inr i \<Longrightarrow>
      snd (m_ReadMethodAndPath M r) = snd (m_CreateMethodAndPath M) @ ''/'' @ i"
    and delete_addresses_id: "GetIDFromSigNozResource r = Inr i \<Longrightarrow>
      snd (m_DeleteMethodAndPath M r) = snd (m_CreateMethodAndPath M) @ ''/'' @ i"
    and created_id: "m_ToSigNozResource M resp = Inr res \<Longrightarrow>
      \<exists>i. GetIDFromSigNozResource (Some res) = Inr i"
    and hash_of_body: "m_Body M t = m_Body M t' \<Longrightarrow> m_Hash M t = m_Hash M t'"
    and identity_of_body: "m_Body M t = m_Body M t' \<Longrightarrow> m_Identity M t = m_Identity M t'"
    and update_of_body: "m_Body M t = m_Body M t' \<Longrightarrow> m_ToUpdate M t = m_ToUpdate M t'"
    and compare_of_body: "m_Body M t = m_Body M t' \<Longrightarrow> m_Compare M t resp = m_Compare M t' resp"
    and fields_disjoint: "set (m_UpdatableFields M) \<inter> set (m_ImmutableFields M) = {}"

lemma id_or_empty_Inr: "GetIDFromSigNozResource r = Inr i \<Longrightarrow> id_or_empty r = i"
  by (simp add: id_or_empty_def del: GetID_Inr_iff)

lemma object_of_contract:
  assumes "set updatable \<inter> set immutable = {}"
  shows "object_contract (object_of L ms coll idp updatable immutable)"
  using assms
  by unfold_locales
     (auto simp: object_of_def id_or_empty_Inr object_Hash_def object_ToUpdate_def object_Compare_def
        object_Identity_def object_Body_def ExtractFromSpecs_def object_ToSigNozResource_def
        ExtractString_def GetIDFromSigNozResource_def Let_def simp del: GetID_Inr_iff
        split: sum.splits if_splits)

interpretation user_kind: object_contract "UserObject L ms" for L ms
  unfolding kind_defs by (rule object_of_contract) simp

interpretation authdomain_kind: object_contract "AuthDomainObject L ms" for L ms
  unfolding kind_defs by (rule object_of_contract) simp

interpretation dashboard_kind: object_contract "DashboardObject L ms" for L ms
  unfolding kind_defs by (rule object_of_contract) simp

interpretation savedview_kind: object_contract "SavedViewObject L ms" for L ms
  unfolding kind_defs by (rule object_of_contract) simp

interpretation plannedmaintenance_kind: object_contract "PlannedMaintenanceObject L ms" for L ms
  unfolding kind_defs by (rule object_of_contract) simp

interpretation role_kind: object_contract "RoleObject L ms" for L ms
  unfolding kind_defs by (rule object_of_contract) simp

interpretation routepolicy_kind: object_contract "RoutePolicyObject L ms" for L ms
  unfolding kind_defs by (rule object_of_contract) simp

interpretation rule_kind: object_contract "RuleObject L ms" for L ms
  unfolding kind_defs by (rule object_of_contract) simp

interpretation serviceaccount_kind: object_contract "ServiceAccountObject L ms" for L ms
  unfolding kind_defs by (rule object_of_contract) simp

interpretation notificationchannel_kind: object_contract "NotificationChannelObject L ms" for L ms
  unfolding kind_defs by (rule object_of_contract) simp

subsection \<open>Every kind\<close>

datatype Kind =
    User | AuthDomain | Dashboard | SavedView | PlannedMaintenance
  | Role | RoutePolicy | Rule | ServiceAccount | NotificationChannel

fun object_for :: "Kind \<Rightarrow> libs \<Rightarrow> ('t \<Rightarrow> go_error + string) \<Rightarrow> 't Object" where
  "object_for User L ms = UserObject L ms"
| "object_for AuthDomain L ms = AuthDomainObject L ms"
| "object_for Dashboard L ms = DashboardObject L ms"
| "object_for SavedView L ms = SavedViewObject L ms"
| "object_for PlannedMaintenance L ms = PlannedMaintenanceObject L ms"
| "object_for Role L ms = RoleObject L ms"
| "object_for RoutePolicy L ms = RoutePolicyObject L ms"
| "object_for Rule L ms = RuleObject L ms"
| "object_for ServiceAccount L ms = ServiceAccountObject L ms"
| "object_for NotificationChannel L ms = NotificationChannelObject L ms"

lemma object_for_contract: "object_contract (object_for kind L ms)"
  by (cases kind)
     (simp_all add: user_kind.object_contract_axioms savedview_kind.object_contract_axioms
        authdomain_kind.object_contract_axioms plannedmaintenance_kind.object_contract_axioms
        role_kind.object_contract_axioms routepolicy_kind.object_contract_axioms
        rule_kind.object_contract_axioms serviceaccount_kind.object_contract_axioms
        dashboard_kind.object_contract_axioms notificationchannel_kind.object_contract_axioms)

lemma object_for_eq:
  "\<exists>coll idp upd imm. object_for kind L ms = object_of L ms coll idp upd imm
     \<and> list_all simple_key upd \<and> list_all simple_key imm"
  by (cases kind) (simp_all only: object_for.simps kind_defs; intro exI conjI; (rule refl)?; simp add: simple_key_def)+

end
