(* ===== verification/Adapters.thy ===== *)
theory Adapters
  imports Client Objects
begin

text \<open>
  The adapters (\<open>internal/resources/adapter.go\<close>, \<open>internal/resources/adapters\<close>): how each kind is
  created, read, updated, deleted and looked up by identity in SigNoz. \<open>commonTransport\<close> serves
  every kind; the ten adapters differ in \<open>Find\<close>.

  The Go methods receive the object; here they receive its methods \<open>M\<close> and read the custom
  resource from the state.
\<close>

subsection \<open>adapter.go\<close>

record ('t, 'w) Adapter =
  ad_Find :: "'t Object \<Rightarrow> signoz_client \<Rightarrow> ctx \<Rightarrow> (('t resource, 'w) sys, go_error + SigNozResource list) state"
  ad_Create :: "'t Object \<Rightarrow> signoz_client \<Rightarrow> ctx \<Rightarrow> (('t resource, 'w) sys, go_error + SigNozResource) state"
  ad_Read :: "'t Object \<Rightarrow> signoz_client \<Rightarrow> ctx \<Rightarrow> SigNozResource option
    \<Rightarrow> (('t resource, 'w) sys, go_error + string) state"
  ad_Update :: "'t Object \<Rightarrow> signoz_client \<Rightarrow> ctx \<Rightarrow> SigNozResource option
    \<Rightarrow> (('t resource, 'w) sys, go_error option) state"
  ad_Delete :: "'t Object \<Rightarrow> signoz_client \<Rightarrow> ctx \<Rightarrow> SigNozResource option
    \<Rightarrow> (('t resource, 'w) sys, go_error option) state"

subsection \<open>common_transport.go\<close>

definition Transport_Create :: "('t resource, 'w) ports \<Rightarrow> libs \<Rightarrow> 't Object \<Rightarrow> signoz_client \<Rightarrow> ctx
    \<Rightarrow> (('t resource, 'w) sys, go_error + SigNozResource) state" where
  "Transport_Create P L M c ctx = do {
     o' \<leftarrow> get_obj;
     case m_Body M (o_Template o') of
       Inl err \<Rightarrow> State_Monad.return (Inl err)
     | Inr body \<Rightarrow> do {
         r \<leftarrow> Exchange P L c ctx (fst (m_CreateMethodAndPath M)) (snd (m_CreateMethodAndPath M)) (Some body);
         State_Monad.return (case r of
           Inl err \<Rightarrow> Inl err
         | Inr (status, result) \<Rightarrow>
             (case http_error (json_Compact L) status result of
                Some err \<Rightarrow> Inl err
              | None \<Rightarrow>
                  (case m_ToSigNozResource M result of Inl err \<Rightarrow> Inl err | Inr resource \<Rightarrow> Inr resource)))
       }
   }"

definition Transport_Read :: "('t resource, 'w) ports \<Rightarrow> libs \<Rightarrow> 't Object \<Rightarrow> signoz_client \<Rightarrow> ctx
    \<Rightarrow> SigNozResource option \<Rightarrow> (('t resource, 'w) sys, go_error + string) state" where
  "Transport_Read P L M c ctx resourceMetadata = do {
     r \<leftarrow> Exchange P L c ctx (fst (m_ReadMethodAndPath M resourceMetadata))
           (snd (m_ReadMethodAndPath M resourceMetadata)) None;
     State_Monad.return (case r of
       Inl err \<Rightarrow> Inl err
     | Inr (status, result) \<Rightarrow>
         (case http_error (json_Compact L) status result of Some err \<Rightarrow> Inl err | None \<Rightarrow> Inr result))
   }"

definition Transport_Update :: "('t resource, 'w) ports \<Rightarrow> libs \<Rightarrow> 't Object \<Rightarrow> signoz_client \<Rightarrow> ctx
    \<Rightarrow> SigNozResource option \<Rightarrow> (('t resource, 'w) sys, go_error option) state" where
  "Transport_Update P L M c ctx resourceMetadata = do {
     o' \<leftarrow> get_obj;
     case m_ToUpdate M (o_Template o') of
       Inl err \<Rightarrow> State_Monad.return (Some err)
     | Inr None \<Rightarrow> State_Monad.return None
     | Inr (Some payload) \<Rightarrow> do {
         r \<leftarrow> Exchange P L c ctx (fst (m_UpdateMethodAndPath M resourceMetadata))
               (snd (m_UpdateMethodAndPath M resourceMetadata)) (Some payload);
         State_Monad.return (case r of
           Inl err \<Rightarrow> Some err
         | Inr (status, result) \<Rightarrow> http_error (json_Compact L) status result)
       }
   }"

definition Transport_Delete :: "('t resource, 'w) ports \<Rightarrow> libs \<Rightarrow> 't Object \<Rightarrow> signoz_client \<Rightarrow> ctx
    \<Rightarrow> SigNozResource option \<Rightarrow> (('t resource, 'w) sys, go_error option) state" where
  "Transport_Delete P L M c ctx resourceMetadata = do {
     r \<leftarrow> Exchange P L c ctx (fst (m_DeleteMethodAndPath M resourceMetadata))
           (snd (m_DeleteMethodAndPath M resourceMetadata)) None;
     State_Monad.return (case r of
       Inl err \<Rightarrow> Some err
     | Inr (status, result) \<Rightarrow> http_error (json_Compact L) status result)
   }"

subsection \<open>common_find.go\<close>

definition find_error :: "string \<Rightarrow> go_error" where
  "find_error message = BaseErr (errors_New ReasonInternal message)"

text \<open>The loop over the entries of a list: an entry whose field holds the identity must carry an
  id.\<close>

fun match_entries :: "libs \<Rightarrow> string \<Rightarrow> string \<Rightarrow> json list \<Rightarrow> go_error + SigNozResource list" where
  "match_entries L field identity [] = Inr []"
| "match_entries L field identity (entry # entries) =
     (if res_String L (gjson_Get L entry field) \<noteq> identity then match_entries L field identity entries
      else
        (let i = res_String L (gjson_Get L entry ''id'')
         in if i = [] then Inl (find_error ''find: list entry carries no id'')
            else (case match_entries L field identity entries of
                    Inl err \<Rightarrow> Inl err
                  | Inr matches \<Rightarrow> Inr (\<lparr>sr_ID = Some i\<rparr> # matches))))"

definition findByField :: "('t resource, 'w) ports \<Rightarrow> libs \<Rightarrow> 't Object \<Rightarrow> signoz_client \<Rightarrow> ctx \<Rightarrow> string \<Rightarrow> string
    \<Rightarrow> (('t resource, 'w) sys, go_error + SigNozResource list) state" where
  "findByField P L M c ctx path field = do {
     o' \<leftarrow> get_obj;
     case m_Identity M (o_Template o') of
       Inl err \<Rightarrow> State_Monad.return (Inl err)
     | Inr identity \<Rightarrow> do {
         r \<leftarrow> Exchange P L c ctx ''GET'' path None;
         State_Monad.return (case r of
           Inl err \<Rightarrow> Inl err
         | Inr (status, result) \<Rightarrow>
             (case http_error (json_Compact L) status result of
                Some err \<Rightarrow> Inl err
              | None \<Rightarrow>
                  (let data = gjson_GetBytes L result ''data''
                   in if data = None \<or> \<not> is_array data
                      then Inl (find_error ''find: response carries no data list'')
                      else match_entries L field identity (res_Array data))))
       }
   }"

definition findPageLimit :: int where
  "findPageLimit = 100"

definition page_path :: "string \<Rightarrow> int \<Rightarrow> string" where
  "page_path path offset = path @ ''?limit='' @ itoa findPageLimit @ ''&offset='' @ itoa offset"

text \<open>One page of the walk: its entries and the total it claims.\<close>

definition read_page :: "libs \<Rightarrow> string \<Rightarrow> string \<Rightarrow> go_error + json list \<times> 64 word" where
  "read_page L listKey result =
     (let data = gjson_GetBytes L result ''data''
      in if data = None then Inl (find_error ''find: response carries no data'')
         else
           (let lst = res_Get L data listKey
            in if lst \<noteq> None \<and> \<not> is_array lst
               then Inl (find_error (''find: could not parse '' @ listKey @ '' list''))
               else Inr (res_Array lst, res_Int L (res_Get L data ''total''))))"

text \<open>The walk. The total is a signed 64-bit number and the offset grows by the page limit while it
  is below the total, so the walk ends after fewer than \<open>2 ^ 63 / 100 + 1\<close> pages; up to there the
  offset, kept here as an integer, does not wrap.\<close>

lemma sint_below: "sint (w :: 64 word) < 2 ^ 63"
  using sint_lt [of w] by simp

function walk_pages :: "('t resource, 'w) ports \<Rightarrow> libs \<Rightarrow> signoz_client \<Rightarrow> ctx \<Rightarrow> string \<Rightarrow> string \<Rightarrow> string
    \<Rightarrow> SigNozResource list \<Rightarrow> int \<Rightarrow> (('t resource, 'w) sys, go_error + SigNozResource list) state" where
  "walk_pages P L c ctx path listKey identity matches offset = do {
     r \<leftarrow> Exchange P L c ctx ''GET'' (page_path path offset) None;
     case r of
       Inl err \<Rightarrow> State_Monad.return (Inl err)
     | Inr (status, result) \<Rightarrow>
         (case http_error (json_Compact L) status result of
            Some err \<Rightarrow> State_Monad.return (Inl err)
          | None \<Rightarrow>
              (case read_page L listKey result of
                 Inl err \<Rightarrow> State_Monad.return (Inl err)
               | Inr (entries, count) \<Rightarrow>
                   (case match_entries L ''name'' identity entries of
                      Inl err \<Rightarrow> State_Monad.return (Inl err)
                    | Inr found \<Rightarrow>
                        if entries = [] \<or> offset + int (length entries) \<ge> sint count
                        then State_Monad.return (Inr (matches @ found))
                        else walk_pages P L c ctx path listKey identity (matches @ found) (offset + findPageLimit))))
   }"
  by pat_completeness auto
termination
  by (relation "measure (\<lambda>(_, _, _, _, _, _, _, _, offset). nat (2 ^ 63 - offset))")
     (auto simp: findPageLimit_def not_le dest: less_trans [OF _ sint_below])

declare walk_pages.simps [simp del]

definition findByPage :: "('t resource, 'w) ports \<Rightarrow> libs \<Rightarrow> 't Object \<Rightarrow> signoz_client \<Rightarrow> ctx \<Rightarrow> string \<Rightarrow> string
    \<Rightarrow> (('t resource, 'w) sys, go_error + SigNozResource list) state" where
  "findByPage P L M c ctx path listKey = do {
     o' \<leftarrow> get_obj;
     case m_Identity M (o_Template o') of
       Inl err \<Rightarrow> State_Monad.return (Inl err)
     | Inr identity \<Rightarrow> walk_pages P L c ctx path listKey identity [] 0
   }"

subsection \<open>Decoding a list of two-field structs\<close>

text \<open>\<open>json.Unmarshal\<close> into \<open>[]struct{ID string; Name string}\<close>: a key sets the field whose name it
  matches up to case, a null leaves a field as it is, and any other type is an error.\<close>

fun decode_fields :: "libs \<Rightarrow> string \<Rightarrow> string \<Rightarrow> (string \<times> json) list \<Rightarrow> string \<times> string \<Rightarrow> go_error + string \<times> string" where
  "decode_fields L n1 n2 [] acc = Inr acc"
| "decode_fields L n1 n2 ((k, v) # kvs) (a, b) =
     (if strings_EqualFold L k n1 then
        (case v of
           JStr str \<Rightarrow> decode_fields L n1 n2 kvs (str, b)
         | JNull \<Rightarrow> decode_fields L n1 n2 kvs (a, b)
         | _ \<Rightarrow> Inl (json_UnmarshalTypeError L v n1))
      else if strings_EqualFold L k n2 then
        (case v of
           JStr str \<Rightarrow> decode_fields L n1 n2 kvs (a, str)
         | JNull \<Rightarrow> decode_fields L n1 n2 kvs (a, b)
         | _ \<Rightarrow> Inl (json_UnmarshalTypeError L v n2))
      else decode_fields L n1 n2 kvs (a, b))"

fun decode_structs :: "libs \<Rightarrow> string \<Rightarrow> string \<Rightarrow> json list \<Rightarrow> go_error + (string \<times> string) list" where
  "decode_structs L n1 n2 [] = Inr []"
| "decode_structs L n1 n2 (v # vs) =
     (case (case v of
              JObj kvs \<Rightarrow> decode_fields L n1 n2 kvs ([], [])
            | JNull \<Rightarrow> Inr ([], [])
            | _ \<Rightarrow> Inl (json_UnmarshalTypeError L v [])) of
        Inl err \<Rightarrow> Inl err
      | Inr p \<Rightarrow> (case decode_structs L n1 n2 vs of Inl err \<Rightarrow> Inl err | Inr ps \<Rightarrow> Inr (p # ps)))"

definition decode_list :: "libs \<Rightarrow> string \<Rightarrow> string \<Rightarrow> json \<Rightarrow> go_error + (string \<times> string) list" where
  "decode_list L n1 n2 v =
     (case v of
        JArr vs \<Rightarrow> decode_structs L n1 n2 vs
      | JNull \<Rightarrow> Inr []
      | _ \<Rightarrow> Inl (json_UnmarshalTypeError L v []))"

subsection \<open>user_adapter.go and savedview_adapter.go\<close>

definition UserAdapter_Find :: "('t resource, 'w) ports \<Rightarrow> libs \<Rightarrow> 't Object \<Rightarrow> signoz_client \<Rightarrow> ctx
    \<Rightarrow> (('t resource, 'w) sys, go_error + SigNozResource list) state" where
  "UserAdapter_Find P L M c ctx = do {
     o' \<leftarrow> get_obj;
     case m_Identity M (o_Template o') of
       Inl err \<Rightarrow> State_Monad.return (Inl err)
     | Inr identity \<Rightarrow> do {
         r \<leftarrow> Exchange P L c ctx ''GET'' ''/api/v2/users'' None;
         State_Monad.return (case r of
           Inl err \<Rightarrow> Inl err
         | Inr (status, result) \<Rightarrow>
             (case http_error (json_Compact L) status result of
                Some err \<Rightarrow> Inl err
              | None \<Rightarrow>
                  (case gjson_GetBytes L result ''data'' of
                     None \<Rightarrow> Inl (find_error ''find: response carries no data'')
                   | Some data \<Rightarrow>
                       (case decode_list L ''id'' ''email'' data of
                          Inl err \<Rightarrow> Inl (BaseErr (errors_Wrap err ReasonInternal ''find: could not parse user list''))
                        | Inr users \<Rightarrow>
                            Inr (map (\<lambda>(i, _). \<lparr>sr_ID = Some i\<rparr>)
                              (filter (\<lambda>(_, email). strings_EqualFold L email identity) users))))))
       }
   }"

definition SavedViewAdapter_Find :: "('t resource, 'w) ports \<Rightarrow> libs \<Rightarrow> 't Object \<Rightarrow> signoz_client \<Rightarrow> ctx
    \<Rightarrow> (('t resource, 'w) sys, go_error + SigNozResource list) state" where
  "SavedViewAdapter_Find P L M c ctx = do {
     o' \<leftarrow> get_obj;
     case m_Identity M (o_Template o') of
       Inl err \<Rightarrow> State_Monad.return (Inl err)
     | Inr identity \<Rightarrow> do {
         r \<leftarrow> Exchange P L c ctx ''GET'' (''/api/v2/saved_views?name='' @ url_QueryEscape L identity) None;
         State_Monad.return (case r of
           Inl err \<Rightarrow> Inl err
         | Inr (status, result) \<Rightarrow>
             (case http_error (json_Compact L) status result of
                Some err \<Rightarrow> Inl err
              | None \<Rightarrow>
                  (case gjson_GetBytes L result ''data'' of
                     None \<Rightarrow> Inl (find_error ''find: response carries no data'')
                   | Some data \<Rightarrow>
                       (case decode_list L ''id'' ''name'' data of
                          Inl err \<Rightarrow> Inl (BaseErr (errors_Wrap err ReasonInternal ''find: could not parse saved view list''))
                        | Inr views \<Rightarrow>
                            Inr (map (\<lambda>(i, _). \<lparr>sr_ID = Some i\<rparr>)
                              (filter (\<lambda>(_, name). name = identity) views))))))
       }
   }"

subsection \<open>The ten adapters\<close>

definition adapter_of :: "('t resource, 'w) ports \<Rightarrow> libs
    \<Rightarrow> ('t Object \<Rightarrow> signoz_client \<Rightarrow> ctx \<Rightarrow> (('t resource, 'w) sys, go_error + SigNozResource list) state)
    \<Rightarrow> ('t, 'w) Adapter" where
  "adapter_of P L finder = \<lparr>ad_Find = finder, ad_Create = Transport_Create P L, ad_Read = Transport_Read P L,
     ad_Update = Transport_Update P L, ad_Delete = Transport_Delete P L\<rparr>"

definition UserAdapter :: "('t resource, 'w) ports \<Rightarrow> libs \<Rightarrow> ('t, 'w) Adapter" where
  "UserAdapter P L = adapter_of P L (UserAdapter_Find P L)"

definition SavedViewAdapter :: "('t resource, 'w) ports \<Rightarrow> libs \<Rightarrow> ('t, 'w) Adapter" where
  "SavedViewAdapter P L = adapter_of P L (SavedViewAdapter_Find P L)"

definition AuthDomainAdapter :: "('t resource, 'w) ports \<Rightarrow> libs \<Rightarrow> ('t, 'w) Adapter" where
  "AuthDomainAdapter P L = adapter_of P L (\<lambda>M c ctx. findByField P L M c ctx ''/api/v2/auth_domains'' ''name'')"

definition PlannedMaintenanceAdapter :: "('t resource, 'w) ports \<Rightarrow> libs \<Rightarrow> ('t, 'w) Adapter" where
  "PlannedMaintenanceAdapter P L =
     adapter_of P L (\<lambda>M c ctx. findByField P L M c ctx ''/api/v1/downtime_schedules'' ''name'')"

definition RoleAdapter :: "('t resource, 'w) ports \<Rightarrow> libs \<Rightarrow> ('t, 'w) Adapter" where
  "RoleAdapter P L = adapter_of P L (\<lambda>M c ctx. findByField P L M c ctx ''/api/v1/roles'' ''name'')"

definition RoutePolicyAdapter :: "('t resource, 'w) ports \<Rightarrow> libs \<Rightarrow> ('t, 'w) Adapter" where
  "RoutePolicyAdapter P L = adapter_of P L (\<lambda>M c ctx. findByField P L M c ctx ''/api/v1/route_policies'' ''name'')"

definition RuleAdapter :: "('t resource, 'w) ports \<Rightarrow> libs \<Rightarrow> ('t, 'w) Adapter" where
  "RuleAdapter P L = adapter_of P L (\<lambda>M c ctx. findByField P L M c ctx ''/api/v2/rules'' ''alert'')"

definition ServiceAccountAdapter :: "('t resource, 'w) ports \<Rightarrow> libs \<Rightarrow> ('t, 'w) Adapter" where
  "ServiceAccountAdapter P L = adapter_of P L (\<lambda>M c ctx. findByField P L M c ctx ''/api/v1/service_accounts'' ''name'')"

definition DashboardAdapter :: "('t resource, 'w) ports \<Rightarrow> libs \<Rightarrow> ('t, 'w) Adapter" where
  "DashboardAdapter P L = adapter_of P L (\<lambda>M c ctx. findByPage P L M c ctx ''/api/v2/dashboards'' ''dashboards'')"

definition NotificationChannelAdapter :: "('t resource, 'w) ports \<Rightarrow> libs \<Rightarrow> ('t, 'w) Adapter" where
  "NotificationChannelAdapter P L =
     adapter_of P L (\<lambda>M c ctx. findByPage P L M c ctx ''/api/v2/notification_channels'' ''channels'')"

lemmas adapter_defs = UserAdapter_def SavedViewAdapter_def AuthDomainAdapter_def PlannedMaintenanceAdapter_def
  RoleAdapter_def RoutePolicyAdapter_def RuleAdapter_def ServiceAccountAdapter_def DashboardAdapter_def
  NotificationChannelAdapter_def

subsection \<open>The contract of an adapter\<close>

text \<open>A lookup that succeeds ended in a success answer; a delete counts as done only on a success
  answer or a 404.\<close>

definition confirmed_post :: "ctx \<Rightarrow> 'o event list \<Rightarrow> (go_error + 'a) \<Rightarrow> ('o, 'w) sys \<Rightarrow> bool" where
  "confirmed_post ctx pre r t \<longleftrightarrow> isl r \<or>
     (\<exists>es e st. events t = pre @ es @ [e] \<and> answered ctx ''GET'' st e \<and> 200 \<le> st \<and> st < 300)"

definition confirmed :: "(('o, 'w) sys, go_error + 'a) state \<Rightarrow> ctx \<Rightarrow> bool" where
  "confirmed m ctx \<longleftrightarrow> (\<forall>s. wp m (confirmed_post ctx (events s)) s)"

definition deleted_post :: "ctx \<Rightarrow> 'o event list \<Rightarrow> go_error option \<Rightarrow> ('o, 'w) sys \<Rightarrow> bool" where
  "deleted_post ctx pre r t \<longleftrightarrow> (r \<noteq> None \<and> \<not> IsNotFound r) \<or>
     (\<exists>e st. events t = pre @ [e] \<and> answered ctx ''DELETE'' st e \<and> (200 \<le> st \<and> st < 300 \<or> st = 404))"

definition delete_done :: "(('o, 'w) sys, go_error option) state \<Rightarrow> ctx \<Rightarrow> bool" where
  "delete_done m ctx \<longleftrightarrow> (\<forall>s. wp m (deleted_post ctx (events s)) s)"

text \<open>What the reconciler relies on, for an object that keeps its own contract: no operation
  changes the custom resource; a lookup only reads; each other operation issues at most one
  call, with its own method; a create that succeeds returns a usable id; a lookup that succeeds
  ended in a success answer, and a delete counts as done only on a success answer or a 404.\<close>

locale adapter_contract =
  fixes A :: "('t, 'w) Adapter"
  assumes find_reads: "emits (http_event ctx ''GET'') (ad_Find A M c ctx)"
    and find_keeps: "keeps_obj (ad_Find A M c ctx)"
    and create_calls: "object_contract M \<Longrightarrow>
      trace_sat (at_most_one (http_event ctx ''POST'')) (ad_Create A M c ctx)"
    and create_keeps: "keeps_obj (ad_Create A M c ctx)"
    and create_bound: "object_contract M \<Longrightarrow>
      wp (ad_Create A M c ctx) (\<lambda>r _. \<forall>m. r = Inr m \<longrightarrow> (\<exists>i. GetIDFromSigNozResource (Some m) = Inr i)) s"
    and read_calls: "object_contract M \<Longrightarrow>
      trace_sat (at_most_one (http_event ctx ''GET'')) (ad_Read A M c ctx m)"
    and read_keeps: "keeps_obj (ad_Read A M c ctx m)"
    and update_calls: "object_contract M \<Longrightarrow>
      trace_sat (at_most_one (http_event ctx ''PUT'')) (ad_Update A M c ctx m)"
    and update_keeps: "keeps_obj (ad_Update A M c ctx m)"
    and delete_calls: "object_contract M \<Longrightarrow>
      trace_sat (at_most_one (http_event ctx ''DELETE'')) (ad_Delete A M c ctx m)"
    and delete_keeps: "keeps_obj (ad_Delete A M c ctx m)"
    and find_confirmed: "confirmed (ad_Find A M c ctx) ctx"
    and delete_confirmed: "object_contract M \<Longrightarrow> delete_done (ad_Delete A M c ctx m) ctx"

lemma walk_pages_induct:
  assumes step: "\<And>matches offset. (\<And>matches'. offset < 2 ^ 63 \<Longrightarrow> Q matches' (offset + findPageLimit)) \<Longrightarrow> Q matches offset"
  shows "Q matches (offset :: int)"
proof (induction "nat (2 ^ 63 - offset)" arbitrary: matches offset rule: less_induct)
  case less
  show ?case by (rule step, rule less) (simp add: findPageLimit_def)
qed

lemma walk_guard: "\<not> (entries = [] \<or> offset + int (length entries) \<ge> sint (w :: 64 word)) \<Longrightarrow> offset < 2 ^ 63"
  using sint_below [of w] by (auto simp: not_le)

lemma walk_pages_emits: "emits (http_event ctx ''GET'') (walk_pages P L c ctx path listKey identity matches offset)"
proof (induction matches offset rule: walk_pages_induct)
  case (1 matches offset)
  show ?case
    by (subst walk_pages.simps) (intro trace_intros 1, assumption, erule walk_guard)
qed

lemma walk_pages_keeps: "keeps_obj (walk_pages P L c ctx path listKey identity matches offset)"
proof (induction matches offset rule: walk_pages_induct)
  case (1 matches offset)
  show ?case
    by (subst walk_pages.simps) (intro trace_intros 1, erule walk_guard)
qed

lemmas find_defs = findByField_def findByPage_def UserAdapter_Find_def SavedViewAdapter_Find_def

lemma finders_emit:
  "emits (http_event ctx ''GET'') (findByField P L M c ctx path field)"
  "emits (http_event ctx ''GET'') (findByPage P L M c ctx path listKey)"
  "emits (http_event ctx ''GET'') (UserAdapter_Find P L M c ctx)"
  "emits (http_event ctx ''GET'') (SavedViewAdapter_Find P L M c ctx)"
  unfolding find_defs by (intro trace_intros walk_pages_emits, assumption?)+

lemma finders_keep:
  "keeps_obj (findByField P L M c ctx path field)" "keeps_obj (findByPage P L M c ctx path listKey)"
  "keeps_obj (UserAdapter_Find P L M c ctx)" "keeps_obj (SavedViewAdapter_Find P L M c ctx)"
  unfolding find_defs by (intro trace_intros walk_pages_keeps)+

text \<open>The transport's operations issue what their exchange issues.\<close>

lemma trace_sat_exchange_then:
  "trace_sat T m \<Longrightarrow> trace_sat T (do { r \<leftarrow> m; State_Monad.return (f r) })"
  unfolding trace_sat_def wp_bind by (blast intro: wp_mono wp_return [THEN iffD2])

lemma trace_sat_nothing: "T [] \<Longrightarrow> trace_sat T (State_Monad.return a)"
  by (simp add: trace_sat_def wp_simps)

lemma trace_sat_get_obj: "(\<And>x. trace_sat T (f x)) \<Longrightarrow> trace_sat T (do { x \<leftarrow> get_obj; f x })"
  by (simp add: trace_sat_def wp_simps)

lemma at_most_one_Nil [simp]: "at_most_one A []"
  by (simp add: at_most_one_def)

lemmas transport_defs = Transport_Create_def Transport_Read_def Transport_Update_def Transport_Delete_def

lemma transport_keeps:
  "keeps_obj (Transport_Create P L M c ctx)" "keeps_obj (Transport_Read P L M c ctx m)"
  "keeps_obj (Transport_Update P L M c ctx m)" "keeps_obj (Transport_Delete P L M c ctx m)"
  unfolding transport_defs by (intro trace_intros)+

context object_contract
begin

lemma transport_calls:
  "trace_sat (at_most_one (http_event ctx ''POST'')) (Transport_Create P L M c ctx)"
  "trace_sat (at_most_one (http_event ctx ''GET'')) (Transport_Read P L M c ctx m)"
  "trace_sat (at_most_one (http_event ctx ''PUT'')) (Transport_Update P L M c ctx m)"
  "trace_sat (at_most_one (http_event ctx ''DELETE'')) (Transport_Delete P L M c ctx m)"
  unfolding transport_defs create_method update_method read_method delete_method
  by (auto intro!: trace_sat_get_obj trace_sat_exchange_then trace_sat_nothing Exchange_calls
      split: sum.split option.split)

lemma create_binds:
  "wp (Transport_Create P L M c ctx)
     (\<lambda>r _. \<forall>m. r = Inr m \<longrightarrow> (\<exists>i. GetIDFromSigNozResource (Some m) = Inr i)) s"
  using created_id
  by (auto simp: Transport_Create_def wp_simps wp_Exchange split: sum.split option.split prod.split simp del: GetID_Inr_iff)

end

lemma confirmed_post_Inl [simp]: "confirmed_post ctx pre (Inl e) t"
  by (simp add: confirmed_post_def)

lemma confirmed_post_answer:
  "events t = pre @ [e] \<Longrightarrow> answered ctx ''GET'' st e \<Longrightarrow> 200 \<le> st \<and> st < 300 \<Longrightarrow> confirmed_post ctx pre r t"
  unfolding confirmed_post_def by (metis append_Nil)

lemma confirmed_post_extend: "confirmed_post ctx (pre @ [e]) r t \<Longrightarrow> confirmed_post ctx pre r t"
  unfolding confirmed_post_def by (metis append.assoc)

text \<open>A lookup that decides on the answer of a last exchange, of which an error status is none.\<close>

lemma confirmed_exchange:
  fixes P :: "('o, 'w) ports"
  assumes ok: "\<And>st result a. f (Inr (st, result)) = Inr a \<Longrightarrow> 200 \<le> st \<and> st < 300" and err: "\<And>e. isl (f (Inl e))"
  shows "confirmed (do { r \<leftarrow> Exchange P L c ctx ''GET'' path body; State_Monad.return (f r) }) ctx"
  unfolding confirmed_def wp_bind
proof (intro allI, rule wp_mono [OF Exchange_answered])
  fix s t :: "('o, 'w) sys" and r :: "go_error + int \<times> string"
  assume ans: "\<forall>st data. r = Inr (st, data) \<longrightarrow> (\<exists>e. events t = events s @ [e] \<and> answered ctx ''GET'' st e)"
  have "confirmed_post ctx (events s) (f r) t"
  proof (cases "f r")
    case (Inr a)
    then obtain st data where r: "r = Inr (st, data)" using err by (metis isl_def obj_sumE prod.exhaust sum.disc(2))
    then show ?thesis using ans ok Inr by (blast intro: confirmed_post_answer)
  qed simp
  then show "wp (State_Monad.return (f r)) (confirmed_post ctx (events s)) t" by (simp add: wp_simps)
qed

lemma confirmed_get_obj: "(\<And>x. confirmed (f x) ctx) \<Longrightarrow> confirmed (do { x \<leftarrow> get_obj; f x }) ctx"
  by (simp add: confirmed_def wp_simps)

lemma confirmed_error: "confirmed (State_Monad.return (Inl e)) ctx"
  by (simp add: confirmed_def wp_simps)

lemma finders_confirmed_simple:
  "confirmed (findByField P L M c ctx path field) ctx"
  "confirmed (UserAdapter_Find P L M c ctx) ctx"
  "confirmed (SavedViewAdapter_Find P L M c ctx) ctx"
  unfolding find_defs
  by (auto intro!: confirmed_get_obj confirmed_error confirmed_exchange
      split: sum.splits option.splits simp: Let_def http_error_None_iff)

lemma walk_pages_confirmed:
  fixes P :: "('t resource, 'w) ports"
  shows "confirmed (walk_pages P L c ctx path listKey identity matches offset) ctx"
proof (induction matches offset rule: walk_pages_induct)
  case (1 matches offset)
  have "wp (walk_pages P L c ctx path listKey identity matches offset) (confirmed_post ctx (events s)) s"
    for s :: "('t resource, 'w) sys"
    unfolding walk_pages.simps [of P L c ctx path listKey identity matches offset] wp_bind
  proof (rule wp_mono [OF Exchange_answered])
    fix r :: "go_error + int \<times> string" and t :: "('t resource, 'w) sys"
    assume ans: "\<forall>st data. r = Inr (st, data) \<longrightarrow> (\<exists>e. events t = events s @ [e] \<and> answered ctx ''GET'' st e)"
    have rec: "wp (walk_pages P L c ctx path listKey identity (matches @ found) (offset + findPageLimit))
        (confirmed_post ctx (events s)) t"
      if lt: "offset < 2 ^ 63" and e: "events t = events s @ [e]" for found e
      using 1 [OF lt, of "matches @ found"] e unfolding confirmed_def
      by (metis (mono_tags, lifting) confirmed_post_extend wp_mono)
    show "wp (case r of Inl err \<Rightarrow> State_Monad.return (Inl err)
         | Inr (status, result) \<Rightarrow>
             (case http_error (json_Compact L) status result of
                Some err \<Rightarrow> State_Monad.return (Inl err)
              | None \<Rightarrow>
                  (case read_page L listKey result of
                     Inl err \<Rightarrow> State_Monad.return (Inl err)
                   | Inr (entries, count) \<Rightarrow>
                       (case match_entries L ''name'' identity entries of
                          Inl err \<Rightarrow> State_Monad.return (Inl err)
                        | Inr found \<Rightarrow>
                            if entries = [] \<or> sint count \<le> offset + int (length entries)
                            then State_Monad.return (Inr (matches @ found))
                            else walk_pages P L c ctx path listKey identity (matches @ found) (offset + findPageLimit)))))
        (confirmed_post ctx (events s)) t"
    proof (cases r)
      case (Inr p)
      obtain status result where p: "p = (status, result)" by (cases p)
      obtain e where e: "events t = events s @ [e]" "answered ctx ''GET'' status e" using ans Inr p by auto
      show ?thesis unfolding Inr p sum.case prod.case
        by (auto simp: wp_simps http_error_None_iff split: sum.split option.split prod.split
            intro: confirmed_post_answer [OF e] rec [OF walk_guard e(1)])
    qed (simp add: wp_simps)
  qed
  then show ?case by (simp add: confirmed_def)
qed

lemma findByPage_confirmed: "confirmed (findByPage P L M c ctx path listKey) ctx"
  unfolding findByPage_def
  by (auto intro!: confirmed_get_obj confirmed_error walk_pages_confirmed split: sum.split)

text \<open>Only a 404 is classified as not found, and the errors of an exchange that got no answer are
  not.\<close>

lemma Exchange_error_reason:
  "wp (Exchange P L c ctx method path body) (\<lambda>r _. \<forall>e. r = Inl e \<longrightarrow> \<not> IsNotFound (Some e)) s"
  by (auto simp: wp_Exchange build_request_def read_response_def Let_def IsNotFound_def errors_Wrap_def
      split: sum.splits prod.split option.splits if_splits)

context object_contract
begin

lemma delete_answered:
  fixes P :: "('t resource, 'b) ports"
  shows "delete_done (Transport_Delete P L M c ctx m) ctx"
  unfolding delete_done_def Transport_Delete_def delete_method wp_bind
proof (intro allI, rule wp_mono [OF wp_conj [OF Exchange_answered Exchange_error_reason]])
  fix s t :: "('t resource, 'b) sys" and r :: "go_error + int \<times> string"
  assume r: "(\<forall>st data. r = Inr (st, data) \<longrightarrow> (\<exists>e. events t = events s @ [e] \<and> answered ctx ''DELETE'' st e))
    \<and> (\<forall>e. r = Inl e \<longrightarrow> \<not> IsNotFound (Some e))"
  have "deleted_post ctx (events s) (case r of Inl err \<Rightarrow> Some err
        | Inr (status, result) \<Rightarrow> http_error (json_Compact L) status result) t"
  proof (cases r)
    case (Inl e)
    then show ?thesis using r by (simp add: deleted_post_def)
  next
    case (Inr p)
    obtain st data where p: "p = (st, data)" by (cases p)
    obtain e where e: "events t = events s @ [e]" "answered ctx ''DELETE'' st e" using r Inr p by auto
    show ?thesis
    proof (cases "http_error (json_Compact L) st data")
      case None
      then have "200 \<le> st \<and> st < 300" by (simp add: http_error_None_iff)
      with e show ?thesis unfolding deleted_post_def by blast
    next
      case (Some err)
      then have "IsNotFound (Some err) \<longrightarrow> st = 404"
        using http_error_reason [OF Some] by (auto simp: IsNotFound_def split: if_splits)
      with e Some Inr p show ?thesis unfolding deleted_post_def by auto
    qed
  qed
  then show "wp (State_Monad.return (case r of Inl err \<Rightarrow> Some err
        | Inr (status, result) \<Rightarrow> http_error (json_Compact L) status result)) (deleted_post ctx (events s)) t"
    by (simp add: wp_simps)
qed

end

lemma adapter_of_contract:
  assumes "\<And>M c ctx. emits (http_event ctx ''GET'') (finder M c ctx)" and "\<And>M c ctx. keeps_obj (finder M c ctx)"
    and "\<And>M c ctx. confirmed (finder M c ctx) ctx"
  shows "adapter_contract (adapter_of P L finder)"
  using assms
  by unfold_locales
     (simp_all add: adapter_of_def object_contract.transport_calls object_contract.create_binds transport_keeps
        object_contract.delete_answered del: GetID_Inr_iff)

interpretation user_adapter: adapter_contract "UserAdapter P L" for P L
  unfolding adapter_defs by (rule adapter_of_contract) (rule finders_emit finders_keep finders_confirmed_simple findByPage_confirmed)+

interpretation savedview_adapter: adapter_contract "SavedViewAdapter P L" for P L
  unfolding adapter_defs by (rule adapter_of_contract) (rule finders_emit finders_keep finders_confirmed_simple findByPage_confirmed)+

interpretation authdomain_adapter: adapter_contract "AuthDomainAdapter P L" for P L
  unfolding adapter_defs by (rule adapter_of_contract) (rule finders_emit finders_keep finders_confirmed_simple findByPage_confirmed)+

interpretation plannedmaintenance_adapter: adapter_contract "PlannedMaintenanceAdapter P L" for P L
  unfolding adapter_defs by (rule adapter_of_contract) (rule finders_emit finders_keep finders_confirmed_simple findByPage_confirmed)+

interpretation role_adapter: adapter_contract "RoleAdapter P L" for P L
  unfolding adapter_defs by (rule adapter_of_contract) (rule finders_emit finders_keep finders_confirmed_simple findByPage_confirmed)+

interpretation routepolicy_adapter: adapter_contract "RoutePolicyAdapter P L" for P L
  unfolding adapter_defs by (rule adapter_of_contract) (rule finders_emit finders_keep finders_confirmed_simple findByPage_confirmed)+

interpretation rule_adapter: adapter_contract "RuleAdapter P L" for P L
  unfolding adapter_defs by (rule adapter_of_contract) (rule finders_emit finders_keep finders_confirmed_simple findByPage_confirmed)+

interpretation serviceaccount_adapter: adapter_contract "ServiceAccountAdapter P L" for P L
  unfolding adapter_defs by (rule adapter_of_contract) (rule finders_emit finders_keep finders_confirmed_simple findByPage_confirmed)+

interpretation dashboard_adapter: adapter_contract "DashboardAdapter P L" for P L
  unfolding adapter_defs by (rule adapter_of_contract) (rule finders_emit finders_keep finders_confirmed_simple findByPage_confirmed)+

interpretation notificationchannel_adapter: adapter_contract "NotificationChannelAdapter P L" for P L
  unfolding adapter_defs by (rule adapter_of_contract) (rule finders_emit finders_keep finders_confirmed_simple findByPage_confirmed)+

end
