(* ===== verification/Reconciler.thy ===== *)
theory Reconciler
  imports Resolver Conditions Adapters
begin

text \<open>
  The reconciler of every mirrored kind (\<open>internal/resources/reconcilers/common_reconciler.go\<close>),
  handler by handler: a pass finalizes a deleted object, or adds the finalizer and drives the
  object in SigNoz to the spec, then records the outcome in the status.

  The custom resource is the \<open>obj\<close> field of the state, which the Go code shares by pointer: a
  value the code reads before a call (\<open>generation\<close>, \<open>hash\<close>, \<open>identity\<close>) is bound before it here
  too, and what it reads through the pointer after a call is read again.
\<close>

record ('t, 'w) commonReconciler =
  rc_client :: "('t resource, 'w) ports"
  rc_resolver :: "('t resource, 'w) Resolver"
  rc_adapter :: "('t, 'w) Adapter"
  rc_defaultInterval :: duration
  rc_defaultRetryInterval :: duration
  rc_defaultTimeout :: duration
  rc_requeueAfterOnNotFound :: duration
  rc_operatorNamespace :: string

definition NewCommonReconciler :: "('t resource, 'w) ports \<Rightarrow> ('t resource, 'w) Resolver \<Rightarrow> ('t, 'w) Adapter
    \<Rightarrow> duration \<Rightarrow> duration \<Rightarrow> duration \<Rightarrow> string \<Rightarrow> ('t, 'w) commonReconciler" where
  "NewCommonReconciler kubeClient resolver adapter interval retryInterval timeout operatorNamespace = \<lparr>
     rc_client = kubeClient, rc_resolver = resolver, rc_adapter = adapter,
     rc_defaultInterval = interval, rc_defaultRetryInterval = retryInterval, rc_defaultTimeout = timeout,
     rc_requeueAfterOnNotFound = 1 * second, rc_operatorNamespace = operatorNamespace\<rparr>"

type_synonym ('t, 'w) pass = "(('t resource, 'w) sys, ctrl_Result \<times> go_error option) state"

subsection \<open>Durations\<close>

definition positive :: "duration option \<Rightarrow> bool" where
  "positive d = (case d of None \<Rightarrow> False | Some v \<Rightarrow> v > 0)"

definition rc_timeout :: "('t, 'w) commonReconciler \<Rightarrow> 't resource \<Rightarrow> duration" where
  "rc_timeout rc o' =
     (if positive (cs_Timeout (o_CoreSpec o')) then the (cs_Timeout (o_CoreSpec o'))
      else rc_defaultTimeout rc)"

definition rc_interval :: "('t, 'w) commonReconciler \<Rightarrow> 't resource \<Rightarrow> duration" where
  "rc_interval rc o' =
     (if positive (cs_Interval (o_CoreSpec o')) then the (cs_Interval (o_CoreSpec o'))
      else rc_defaultInterval rc)"

definition rc_retryInterval :: "('t, 'w) commonReconciler \<Rightarrow> 't resource \<Rightarrow> duration" where
  "rc_retryInterval rc o' =
     (let spec = o_CoreSpec o'
      in if positive (cs_RetryInterval spec) then the (cs_RetryInterval spec)
         else if positive (cs_Interval spec) then the (cs_Interval spec)
         else if rc_defaultRetryInterval rc > 0 then rc_defaultRetryInterval rc
         else rc_defaultInterval rc)"

subsection \<open>Finalizers and annotations\<close>

definition set_finalizers :: "string list \<Rightarrow> 't resource \<Rightarrow> 't resource" where
  "set_finalizers fs o' = o'\<lparr>o_Meta := (o_Meta o')\<lparr>om_Finalizers := fs\<rparr>\<rparr>"

definition set_annotations :: "(string \<rightharpoonup> string) \<Rightarrow> 't resource \<Rightarrow> 't resource" where
  "set_annotations an o' = o'\<lparr>o_Meta := (o_Meta o')\<lparr>om_Annotations := an\<rparr>\<rparr>"

definition addFinalizer :: "('t, 'w) commonReconciler \<Rightarrow> klib \<Rightarrow> ctx
    \<Rightarrow> (('t resource, 'w) sys, go_error option) state" where
  "addFinalizer rc K ctx = do {
     o' \<leftarrow> get_obj;
     let (fs, ok) = AddFinalizer K (om_Finalizers (o_Meta o')) ResourceFinalizer;
     modify_obj (set_finalizers fs);
     if \<not> ok then State_Monad.return None else client_Update (rc_client rc) ctx
   }"

definition removeFinalizer :: "('t, 'w) commonReconciler \<Rightarrow> klib \<Rightarrow> ctx \<Rightarrow> ('t, 'w) pass" where
  "removeFinalizer rc K ctx = do {
     o' \<leftarrow> get_obj;
     let (fs, ok) = RemoveFinalizer K (om_Finalizers (o_Meta o')) ResourceFinalizer;
     modify_obj (set_finalizers fs);
     if \<not> ok then State_Monad.return (no_requeue, None)
     else do {
       err \<leftarrow> client_Update (rc_client rc) ctx;
       State_Monad.return (no_requeue, err)
     }
   }"

definition addCreateAttemptAnnotation :: "('t, 'w) commonReconciler \<Rightarrow> libs \<Rightarrow> ctx
    \<Rightarrow> (('t resource, 'w) sys, go_error option) state" where
  "addCreateAttemptAnnotation rc L ctx = do {
     base \<leftarrow> get_obj;
     now \<leftarrow> time_Now (rc_client rc);
     modify_obj (set_annotations
       ((om_Annotations (o_Meta base))(AnnotationCreateAttempt \<mapsto> format_RFC3339 L now)));
     client_Patch (rc_client rc) ctx base
   }"

definition removeCreateAttemptAnnotation :: "('t, 'w) commonReconciler \<Rightarrow> ctx
    \<Rightarrow> (('t resource, 'w) sys, go_error option) state" where
  "removeCreateAttemptAnnotation rc ctx = do {
     base \<leftarrow> get_obj;
     if om_Annotations (o_Meta base) AnnotationCreateAttempt = None then State_Monad.return None
     else do {
       modify_obj (set_annotations ((om_Annotations (o_Meta base))(AnnotationCreateAttempt := None)));
       client_Patch (rc_client rc) ctx base
     }
   }"

subsection \<open>Status\<close>

definition set_conditions :: "('t, 'w) commonReconciler \<Rightarrow> klib \<Rightarrow> int \<Rightarrow> ReconcilerOutcome \<Rightarrow> StatusReason \<Rightarrow> string
    \<Rightarrow> (('t resource, 'w) sys, unit) state" where
  "set_conditions rc K generation outcome reason message = do {
     t \<leftarrow> time_Now (rc_client rc);
     modify_obj (\<lambda>o'. o'\<lparr>o_CoreStatus :=
       SetConditionsOnOutcome K t generation outcome reason message (o_CoreStatus o')\<rparr>)
   }"

definition set_binding :: "SigNozResource option \<Rightarrow> (('t resource, 'w) sys, unit) state" where
  "set_binding m = modify_obj (\<lambda>o'. o'\<lparr>o_CoreStatus := (o_CoreStatus o')\<lparr>st_SigNozResource := m\<rparr>\<rparr>)"

definition set_hash :: "string \<Rightarrow> (('t resource, 'w) sys, unit) state" where
  "set_hash h = modify_obj (\<lambda>o'. o'\<lparr>o_CoreStatus := (o_CoreStatus o')\<lparr>st_ObservedHash := h\<rparr>\<rparr>)"

definition onAdapterError :: "('t, 'w) commonReconciler \<Rightarrow> klib \<Rightarrow> go_error \<Rightarrow> ('t, 'w) pass" where
  "onAdapterError rc K err = do {
     o' \<leftarrow> get_obj;
     t \<leftarrow> time_Now (rc_client rc);
     let (outcome, status) = GetOutcomeAndSetConditionsOnErr K t (om_Generation (o_Meta o')) err (o_CoreStatus o');
     modify_obj (\<lambda>o'. o'\<lparr>o_CoreStatus := status\<rparr>);
     if outcome = OutcomeRecoverable then State_Monad.return (requeue_after (rc_retryInterval rc o'), None)
     else State_Monad.return (no_requeue, None)
   }"

definition signozClientFor :: "('t, 'w) commonReconciler \<Rightarrow> ctx \<Rightarrow> (('t resource, 'w) sys, go_error + signoz_client) state" where
  "signozClientFor rc ctx = do {
     o' \<leftarrow> get_obj;
     r \<leftarrow> rs_ResolveRef (rc_resolver rc) ctx (cs_ProviderConfigRef (o_CoreSpec o'))
           (om_Namespace (o_Meta o')) (rc_operatorNamespace rc);
     State_Monad.return (case r of Inl err \<Rightarrow> Inl err | Inr resolved \<Rightarrow> Inr (clients_New resolved))
   }"

subsection \<open>An object with a recorded id\<close>

definition onExistingObject :: "('t, 'w) commonReconciler \<Rightarrow> libs \<Rightarrow> klib \<Rightarrow> 't Object \<Rightarrow> ctx \<Rightarrow> signoz_client
    \<Rightarrow> string \<Rightarrow> ('t, 'w) pass" where
  "onExistingObject rc L K M ctx c hash = do {
     o' \<leftarrow> get_obj;
     let generation = om_Generation (o_Meta o');
     let resourceMetadata = st_SigNozResource (o_CoreStatus o');
     remote \<leftarrow> ad_Read (rc_adapter rc) M c ctx resourceMetadata;
     case remote of
       Inl err \<Rightarrow>
         if IsNotFound (Some err) then do {
           set_binding None;
           set_hash [];
           set_conditions rc K generation OutcomePending SReasonPending
             ''The SigNoz object was not found; it will be recreated'';
           State_Monad.return (requeue_after (rc_requeueAfterOnNotFound rc), None)
         } else onAdapterError rc K err
     | Inr response \<Rightarrow> do {
         o' \<leftarrow> get_obj;
         case m_Compare M (o_Template o') response of
           Inl err \<Rightarrow> do {
             set_conditions rc K generation OutcomeTerminal SReasonCompareFailed
               (''This is likely a bug in the operator: '' @ Error err);
             State_Monad.return (no_requeue, None)
           }
         | Inr compareResult \<Rightarrow>
             if cr_ImmutableFields compareResult \<noteq> [] then do {
               set_conditions rc K generation OutcomeTerminal SReasonImmutableFieldChanged
                 (''Immutable fields changed: '' @ strings_Join (cr_ImmutableFields compareResult) '', ''
                   @ ''. For this object, fields: '' @ strings_Join (m_ImmutableFields M) '',''
                   @ '' are immutable. Revert the change, or delete and recreate the resource'');
               State_Monad.return (no_requeue, None)
             } else do {
               let isChangedByCompare = cr_UpdatableFields compareResult \<noteq> [];
               let observed = st_ObservedHash (o_CoreStatus o');
               let isChangedByHash = observed \<noteq> [] \<and> observed \<noteq> hash;
               if \<not> isChangedByCompare \<and> \<not> isChangedByHash then do {
                 set_hash hash;
                 set_conditions rc K generation OutcomeSynced SReasonSynced ''In sync with SigNoz'';
                 o' \<leftarrow> get_obj;
                 State_Monad.return (requeue_after (rc_interval rc o'), None)
               } else do {
                 uerr \<leftarrow> ad_Update (rc_adapter rc) M c ctx resourceMetadata;
                 case uerr of
                   Some err \<Rightarrow> onAdapterError rc K err
                 | None \<Rightarrow> do {
                     set_hash hash;
                     set_conditions rc K generation OutcomeSynced SReasonUpdated ''Updated in SigNoz'';
                     o' \<leftarrow> get_obj;
                     State_Monad.return (requeue_after (rc_interval rc o'), None)
                   }
               }
             }
       }
   }"

definition adopt :: "('t, 'w) commonReconciler \<Rightarrow> libs \<Rightarrow> klib \<Rightarrow> 't Object \<Rightarrow> ctx \<Rightarrow> signoz_client
    \<Rightarrow> SigNozResource \<Rightarrow> string \<Rightarrow> ('t, 'w) pass" where
  "adopt rc L K M ctx c resourceMetadata hash = do {
     perr \<leftarrow> addCreateAttemptAnnotation rc L ctx;
     case perr of
       Some err \<Rightarrow> State_Monad.return (no_requeue, Some err)
     | None \<Rightarrow> do {
         set_binding (Some resourceMetadata);
         onExistingObject rc L K M ctx c hash
       }
   }"

subsection \<open>An object without a recorded id\<close>

definition ambiguous_message :: "libs \<Rightarrow> nat \<Rightarrow> string \<Rightarrow> string list \<Rightarrow> string" where
  "ambiguous_message L count identity candidateIDs =
     ''ambiguous: '' @ itoa (int count) @ '' objects in SigNoz match identity '' @ strconv_Quote L identity
     @ '' (candidates: '' @ strings_Join candidateIDs '', '' @ ''); set annotation '' @ AnnotationSigNozResourceID
     @ '' to the id of the one to adopt''"

definition onConflict :: "('t, 'w) commonReconciler \<Rightarrow> libs \<Rightarrow> klib \<Rightarrow> 't Object \<Rightarrow> ctx \<Rightarrow> signoz_client
    \<Rightarrow> string \<Rightarrow> string \<Rightarrow> ('t, 'w) pass" where
  "onConflict rc L K M ctx c identity hash = do {
     o' \<leftarrow> get_obj;
     let generation = om_Generation (o_Meta o');
     r \<leftarrow> ad_Find (rc_adapter rc) M c ctx;
     case r of
       Inl err \<Rightarrow> onAdapterError rc K err
     | Inr candidates \<Rightarrow> do {
         let candidateIDs = GetIDsFromSigNozResources candidates;
         case candidates of
           [m] \<Rightarrow> adopt rc L K M ctx c m hash
         | [] \<Rightarrow> do {
             o' \<leftarrow> get_obj;
             set_conditions rc K generation OutcomeRecoverable SReasonBackendError
               (''SigNoz reported a conflict for identity '' @ strconv_Quote L identity
                 @ '' but no matching object was found; will retry'');
             State_Monad.return (requeue_after (rc_retryInterval rc o'), None)
           }
         | _ \<Rightarrow> do {
             set_conditions rc K generation OutcomeTerminal SReasonAmbiguous
               (ambiguous_message L (length candidates) identity candidateIDs);
             State_Monad.return (no_requeue, None)
           }
       }
   }"

text \<open>\<open>create\<close>, split at the request: what follows it depends on its result.\<close>

definition after_create :: "('t, 'w) commonReconciler \<Rightarrow> libs \<Rightarrow> klib \<Rightarrow> 't Object \<Rightarrow> ctx \<Rightarrow> signoz_client
    \<Rightarrow> string \<Rightarrow> string \<Rightarrow> int \<Rightarrow> go_error + SigNozResource \<Rightarrow> ('t, 'w) pass" where
  "after_create rc L K M ctx c identity hash generation r =
     (case r of
        Inl err \<Rightarrow>
          if IsAlreadyExists (Some err) then onConflict rc L K M ctx c identity hash
          else if \<not> IsRetryable (Some err) then do {
            rerr \<leftarrow> removeCreateAttemptAnnotation rc ctx;
            case rerr of
              Some e \<Rightarrow> State_Monad.return (no_requeue, Some e)
            | None \<Rightarrow> onAdapterError rc K err
          } else onAdapterError rc K err
      | Inr resourceMetadata \<Rightarrow> do {
          set_binding (Some resourceMetadata);
          set_hash hash;
          set_conditions rc K generation OutcomeSynced SReasonCreated ''Created in SigNoz'';
          o' \<leftarrow> get_obj;
          State_Monad.return (requeue_after (rc_interval rc o'), None)
        })"

definition create :: "('t, 'w) commonReconciler \<Rightarrow> libs \<Rightarrow> klib \<Rightarrow> 't Object \<Rightarrow> ctx \<Rightarrow> signoz_client
    \<Rightarrow> string \<Rightarrow> string \<Rightarrow> ('t, 'w) pass" where
  "create rc L K M ctx c identity hash = do {
     o' \<leftarrow> get_obj;
     let generation = om_Generation (o_Meta o');
     perr \<leftarrow> addCreateAttemptAnnotation rc L ctx;
     case perr of
       Some err \<Rightarrow> State_Monad.return (no_requeue, Some err)
     | None \<Rightarrow> do {
         r \<leftarrow> ad_Create (rc_adapter rc) M c ctx;
         after_create rc L K M ctx c identity hash generation r
       }
   }"

text \<open>The loop over the candidates stops at the first one whose id is the pinned one.\<close>

definition pinned_candidate :: "string \<Rightarrow> SigNozResource list \<Rightarrow> SigNozResource option" where
  "pinned_candidate pinned candidates =
     List.find (\<lambda>m. case GetIDFromSigNozResource (Some m) of Inr i \<Rightarrow> i = pinned | Inl _ \<Rightarrow> False) candidates"

definition pinned_id :: "'t resource \<Rightarrow> string" where
  "pinned_id o' = (case om_Annotations (o_Meta o') AnnotationSigNozResourceID of None \<Rightarrow> [] | Some v \<Rightarrow> v)"

definition onNewObject :: "('t, 'w) commonReconciler \<Rightarrow> libs \<Rightarrow> klib \<Rightarrow> 't Object \<Rightarrow> ctx \<Rightarrow> signoz_client
    \<Rightarrow> string \<Rightarrow> string \<Rightarrow> ('t, 'w) pass" where
  "onNewObject rc L K M ctx c identity hash = do {
     o' \<leftarrow> get_obj;
     let generation = om_Generation (o_Meta o');
     r \<leftarrow> ad_Find (rc_adapter rc) M c ctx;
     case r of
       Inl err \<Rightarrow> onAdapterError rc K err
     | Inr candidates \<Rightarrow> do {
         let candidateIDs = GetIDsFromSigNozResources candidates;
         o' \<leftarrow> get_obj;
         let pinned = pinned_id o';
         if pinned \<noteq> [] then
           (case pinned_candidate pinned candidates of
              Some m \<Rightarrow> adopt rc L K M ctx c m hash
            | None \<Rightarrow> do {
                let cands = (if candidateIDs \<noteq> [] then strings_Join candidateIDs '', '' else ''none'');
                set_conditions rc K generation OutcomeTerminal SReasonSigNozResourceIDMismatch
                  (''annotation '' @ AnnotationSigNozResourceID @ '': no object with id '' @ strconv_Quote L pinned
                    @ '' matches identity '' @ strconv_Quote L identity @ '' (candidates: '' @ cands @ '')'');
                State_Monad.return (no_requeue, None)
              })
         else
           (case candidates of
              [m] \<Rightarrow> adopt rc L K M ctx c m hash
            | [] \<Rightarrow> create rc L K M ctx c identity hash
            | _ \<Rightarrow> do {
                set_conditions rc K generation OutcomeTerminal SReasonAmbiguous
                  (ambiguous_message L (length candidates) identity candidateIDs);
                State_Monad.return (no_requeue, None)
              })
       }
   }"

subsection \<open>A pass over an object that is not being deleted\<close>

definition reconcile :: "('t, 'w) commonReconciler \<Rightarrow> libs \<Rightarrow> klib \<Rightarrow> 't Object \<Rightarrow> ctx \<Rightarrow> ('t, 'w) pass" where
  "reconcile rc L K M ctx = do {
     o' \<leftarrow> get_obj;
     let generation = om_Generation (o_Meta o');
     if cs_Suspend (o_CoreSpec o') then do {
       set_conditions rc K generation OutcomeSuspended SReasonSuspended
         ''reconciliation is suspended by spec.suspend'';
       State_Monad.return (no_requeue, None)
     } else
       (case m_Identity M (o_Template o') of
          Inl err \<Rightarrow> do {
            set_conditions rc K generation OutcomeTerminal SReasonInvalidSpec
              (''could not derive identity: '' @ Error err);
            State_Monad.return (no_requeue, None)
          }
        | Inr identity \<Rightarrow>
            (case m_Hash M (o_Template o') of
               Inl err \<Rightarrow> do {
                 set_conditions rc K generation OutcomeTerminal SReasonInvalidSpec
                   (''could not calculate hash: '' @ Error err);
                 State_Monad.return (no_requeue, None)
               }
             | Inr hash \<Rightarrow> do {
                 cl \<leftarrow> signozClientFor rc ctx;
                 case cl of
                   Inl err \<Rightarrow> do {
                     o' \<leftarrow> get_obj;
                     set_conditions rc K generation OutcomeRecoverable SReasonProviderConfigNotReady (Error err);
                     State_Monad.return (requeue_after (rc_retryInterval rc o'), None)
                   }
                 | Inr c \<Rightarrow> do {
                     o' \<leftarrow> get_obj;
                     case GetIDFromSigNozResource (st_SigNozResource (o_CoreStatus o')) of
                       Inl _ \<Rightarrow> onNewObject rc L K M ctx c identity hash
                     | Inr _ \<Rightarrow> do {
                         rerr \<leftarrow> removeCreateAttemptAnnotation rc ctx;
                         case rerr of
                           Some err \<Rightarrow> State_Monad.return (no_requeue, Some err)
                         | None \<Rightarrow> onExistingObject rc L K M ctx c hash
                       }
                   }
               }))
   }"

subsection \<open>A pass over a deleted object\<close>

definition reclaim :: "('t, 'w) commonReconciler \<Rightarrow> klib \<Rightarrow> 't Object \<Rightarrow> ctx \<Rightarrow> signoz_client
    \<Rightarrow> SigNozResource option \<Rightarrow> ('t, 'w) pass" where
  "reclaim rc K M ctx c resourceMetadata = do {
     err \<leftarrow> ad_Delete (rc_adapter rc) M c ctx resourceMetadata;
     if err \<noteq> None \<and> \<not> IsNotFound err then do {
       o' \<leftarrow> get_obj;
       State_Monad.return (requeue_after (rc_retryInterval rc o'), None)
     } else removeFinalizer rc K ctx
   }"

text \<open>The end of \<open>finalize\<close>: an unconfirmed create may have left an object behind, which is looked
  up by identity.\<close>

definition reclaim_found :: "('t, 'w) commonReconciler \<Rightarrow> klib \<Rightarrow> 't Object \<Rightarrow> ctx \<Rightarrow> signoz_client
    \<Rightarrow> go_error + SigNozResource list \<Rightarrow> ('t, 'w) pass" where
  "reclaim_found rc K M ctx c found =
     (case found of
        Inl ferr \<Rightarrow> do {
          o' \<leftarrow> get_obj;
          State_Monad.return (requeue_after (rc_retryInterval rc o'), None)
        }
      | Inr ms \<Rightarrow>
          (case ms of
             [] \<Rightarrow> removeFinalizer rc K ctx
           | [m] \<Rightarrow> reclaim rc K M ctx c (Some m)
           | _ \<Rightarrow> do {
               o' \<leftarrow> get_obj;
               State_Monad.return (requeue_after (rc_retryInterval rc o'), None)
             }))"

definition reclaim_by_identity :: "('t, 'w) commonReconciler \<Rightarrow> klib \<Rightarrow> 't Object \<Rightarrow> ctx \<Rightarrow> signoz_client
    \<Rightarrow> ('t, 'w) pass" where
  "reclaim_by_identity rc K M ctx c = do {
     o' \<leftarrow> get_obj;
     case m_Identity M (o_Template o') of
       Inl err \<Rightarrow> removeFinalizer rc K ctx
     | Inr identity \<Rightarrow> do {
         found \<leftarrow> ad_Find (rc_adapter rc) M c ctx;
         reclaim_found rc K M ctx c found
       }
   }"

definition finalize :: "('t, 'w) commonReconciler \<Rightarrow> klib \<Rightarrow> 't Object \<Rightarrow> ctx \<Rightarrow> ('t, 'w) pass" where
  "finalize rc K M ctx = do {
     o' \<leftarrow> get_obj;
     let resourceMetadata = st_SigNozResource (o_CoreStatus o');
     let idErr = GetIDFromSigNozResource resourceMetadata;
     if \<not> ContainsFinalizer K (om_Finalizers (o_Meta o')) ResourceFinalizer then
       State_Monad.return (no_requeue, None)
     else if cs_ReclaimPolicy (o_CoreSpec o') = ReclaimOrphan then removeFinalizer rc K ctx
     else if isl idErr \<and> om_Annotations (o_Meta o') AnnotationCreateAttempt = None then
       removeFinalizer rc K ctx
     else do {
       cl \<leftarrow> signozClientFor rc ctx;
       case cl of
         Inl err \<Rightarrow> do {
           o' \<leftarrow> get_obj;
           State_Monad.return (requeue_after (rc_retryInterval rc o'), None)
         }
       | Inr c \<Rightarrow>
           (case idErr of
              Inr _ \<Rightarrow> reclaim rc K M ctx c resourceMetadata
            | Inl _ \<Rightarrow> reclaim_by_identity rc K M ctx c)
     }
   }"

subsection \<open>A whole pass\<close>

text \<open>The context of the pass, and the part of \<open>Reconcile\<close> that follows \<open>reconcile\<close>.\<close>

definition record_status :: "('t, 'w) commonReconciler \<Rightarrow> klib \<Rightarrow> ctx \<Rightarrow> CoreStatus \<Rightarrow> ctrl_Result \<times> go_error option
    \<Rightarrow> ('t, 'w) pass" where
  "record_status rc K ctx beforeStatus r = do {
     o' \<leftarrow> get_obj;
     if \<not> DeepEqual_CoreStatus K beforeStatus (o_CoreStatus o') then do {
       now \<leftarrow> time_Now (rc_client rc);
       modify_obj (\<lambda>o'. o'\<lparr>o_CoreStatus := (o_CoreStatus o')\<lparr>st_ReconciledAt := now\<rparr>\<rparr>);
       uerr \<leftarrow> client_StatusUpdate (rc_client rc) (WithoutCancel ctx);
       case uerr of
         Some e \<Rightarrow> State_Monad.return (no_requeue, Some e)
       | None \<Rightarrow> State_Monad.return r
     } else State_Monad.return r
   }"

definition pass_ctx :: "('t, 'w) commonReconciler \<Rightarrow> 't resource \<Rightarrow> ctx \<Rightarrow> ctx" where
  "pass_ctx rc o' ctx = (if rc_timeout rc o' > 0 then WithTimeout ctx (rc_timeout rc o') else ctx)"

definition Reconcile :: "('t, 'w) commonReconciler \<Rightarrow> libs \<Rightarrow> klib \<Rightarrow> 't Object \<Rightarrow> ctx \<Rightarrow> ('t, 'w) pass" where
  "Reconcile rc L K M ctx0 = do {
     o' \<leftarrow> get_obj;
     let ctx = pass_ctx rc o' ctx0;
     if om_DeletionTimestamp (o_Meta o') \<noteq> None then finalize rc K M ctx
     else do {
       ferr \<leftarrow> addFinalizer rc K ctx;
       case ferr of
         Some err \<Rightarrow> State_Monad.return (no_requeue, Some err)
       | None \<Rightarrow> do {
           o' \<leftarrow> get_obj;
           let beforeStatus = o_CoreStatus o';
           r \<leftarrow> reconcile rc L K M ctx;
           record_status rc K ctx beforeStatus r
         }
     }
   }"

end
