(* ===== verification/Passes.thy ===== *)
theory Passes
  imports Reconciler
begin

text \<open>
  What one pass of the reconciler does, for any resolver, adapter and kind that keep their
  contracts: which calls it issues and in which order, what it leaves in the status, and when
  it asks to be run again. The locale \<open>reconciler_pass\<close> collects the contracts, and \<open>reconciler_calls\<close> those the calls depend on; the theory of the
  controllers interprets them for the ten kinds.
\<close>

subsection \<open>Classes of calls\<close>

definition sends :: "string \<Rightarrow> 'o event \<Rightarrow> bool" where
  "sends method e \<longleftrightarrow> (\<exists>ctx req st. e = EvHTTP ctx req st \<and> rq_Method req = method)"

text \<open>A patch that records a create attempt on the server.\<close>

definition write_ahead :: "'t resource event \<Rightarrow> bool" where
  "write_ahead e \<longleftrightarrow>
     (\<exists>ctx base o'. e = EvPatch ctx base o' True \<and> om_Annotations (o_Meta o') AnnotationCreateAttempt \<noteq> None)"

text \<open>At most one create request is sent, and the call right before it recorded the attempt.\<close>

definition guarded_create :: "'t resource event list \<Rightarrow> bool" where
  "guarded_create es \<longleftrightarrow> list_all (\<lambda>e. \<not> sends ''POST'' e) es \<or>
     (\<exists>before w p after. es = before @ [w, p] @ after \<and> write_ahead w \<and> sends ''POST'' p
        \<and> list_all (\<lambda>e. \<not> sends ''POST'' e) before \<and> list_all (\<lambda>e. \<not> sends ''POST'' e) after)"

lemma sends_simps [simp]:
  "sends m (EvHTTP ctx req st) \<longleftrightarrow> rq_Method req = m"
  "\<not> sends m (EvUpdate ctx o' b)" "\<not> sends m (EvPatch ctx base o' b)"
  "\<not> sends m (EvStatusUpdate ctx o' b)" "\<not> sends m (EvGet kind key b)"
  by (auto simp: sends_def)

lemma http_event_sends: "http_event ctx m e \<Longrightarrow> sends m' e \<longleftrightarrow> m' = m"
  by (auto simp: http_event_def)

lemma guarded_create_none: "list_all (\<lambda>e. \<not> sends ''POST'' e) es \<Longrightarrow> guarded_create es"
  by (simp add: guarded_create_def)

lemma guarded_createI:
  "es = before @ [w, p] @ after \<Longrightarrow> write_ahead w \<Longrightarrow> sends ''POST'' p \<Longrightarrow>
     list_all (\<lambda>e. \<not> sends ''POST'' e) before \<Longrightarrow> list_all (\<lambda>e. \<not> sends ''POST'' e) after \<Longrightarrow> guarded_create es"
  unfolding guarded_create_def by blast

lemma guarded_create_around:
  assumes "list_all (\<lambda>e. \<not> sends ''POST'' e) es" and "guarded_create es'" and "list_all (\<lambda>e. \<not> sends ''POST'' e) es''"
  shows "guarded_create (es @ es' @ es'')"
proof -
  from assms(2) consider "list_all (\<lambda>e. \<not> sends ''POST'' e) es'"
    | before w p after where "es' = before @ [w, p] @ after" "write_ahead w" "sends ''POST'' p"
      "list_all (\<lambda>e. \<not> sends ''POST'' e) before" "list_all (\<lambda>e. \<not> sends ''POST'' e) after"
    unfolding guarded_create_def by blast
  then show ?thesis
  proof cases
    case 1
    then show ?thesis using assms(1,3) by (intro guarded_create_none) simp
  next
    case 2
    show ?thesis
      by (rule guarded_createI [of _ "es @ before" w p "after @ es''"]) (use 2 assms(1,3) in simp_all)
  qed
qed

lemma guarded_create_before: "absorbs_before (\<lambda>e. \<not> sends ''POST'' e) guarded_create"
  unfolding absorbs_before_def using guarded_create_around [of _ _ "[]", simplified] by blast

lemma guarded_create_after: "absorbs_after (\<lambda>e. \<not> sends ''POST'' e) guarded_create"
  unfolding absorbs_after_def using guarded_create_around [of "[]", simplified] by blast

lemmas guarded_bind_left = trace_sat_after [OF guarded_create_before]

lemmas guarded_bind_right = trace_sat_before [OF guarded_create_after]

lemma guarded_emits: "emits (\<lambda>e. \<not> sends ''POST'' e) m \<Longrightarrow> trace_sat guarded_create m"
  by (rule emits_trace_sat) (auto intro: guarded_create_none)

lemma emits_at_most_one:
  "trace_sat (at_most_one B) m \<Longrightarrow> (\<And>e. B e \<Longrightarrow> A e) \<Longrightarrow> emits A m"
  unfolding emits_def by (erule trace_sat_mono) (auto simp: at_most_one_def)

subsection \<open>The calls of the handlers\<close>

text \<open>The calls depend on the contracts of the parts only; what is reported also on the helpers of
  apimachinery.\<close>

locale reconciler_calls =
  ad: adapter_contract "rc_adapter rc" + rs: resolver_contract "rc_resolver rc" + ob: object_contract M
  for rc :: "('t, 'w) commonReconciler" and M :: "'t Object"
begin

lemma emits_set [trace_intros]:
  "emits A (set_conditions rc K g out r m)" "emits A (set_binding b)" "emits A (set_hash h)"
  "emits A (onAdapterError rc K err)"
  unfolding set_conditions_def set_binding_def set_hash_def onAdapterError_def
  by (intro trace_intros)+

lemma emits_create_attempt [trace_intros]:
  "(\<And>base o' b. A (EvPatch ctx base o' b)) \<Longrightarrow> emits A (addCreateAttemptAnnotation rc L ctx)"
  "(\<And>base o' b. A (EvPatch ctx base o' b)) \<Longrightarrow> emits A (removeCreateAttemptAnnotation rc ctx)"
  unfolding addCreateAttemptAnnotation_def removeCreateAttemptAnnotation_def
  by (intro trace_intros; assumption?)+

lemma emits_finalizer [trace_intros]:
  "(\<And>o' b. A (EvUpdate ctx o' b)) \<Longrightarrow> emits A (addFinalizer rc K ctx)"
  "(\<And>o' b. A (EvUpdate ctx o' b)) \<Longrightarrow> emits A (removeFinalizer rc K ctx)"
  unfolding addFinalizer_def removeFinalizer_def by (intro trace_intros; assumption?)+

lemma emits_signozClientFor [trace_intros]:
  "(\<And>kind key b. A (EvGet kind key b)) \<Longrightarrow> emits A (signozClientFor rc ctx)"
  unfolding signozClientFor_def
  by (intro trace_intros emits_mono [OF rs.resolve_reads]) (auto simp: kube_read_def)

lemma emits_adapter:
  "(\<And>e. http_event ctx ''GET'' e \<Longrightarrow> A e) \<Longrightarrow> emits A (ad_Find (rc_adapter rc) M c ctx)"
  "(\<And>e. http_event ctx ''GET'' e \<Longrightarrow> A e) \<Longrightarrow> emits A (ad_Read (rc_adapter rc) M c ctx m)"
  "(\<And>e. http_event ctx ''POST'' e \<Longrightarrow> A e) \<Longrightarrow> emits A (ad_Create (rc_adapter rc) M c ctx)"
  "(\<And>e. http_event ctx ''PUT'' e \<Longrightarrow> A e) \<Longrightarrow> emits A (ad_Update (rc_adapter rc) M c ctx m)"
  "(\<And>e. http_event ctx ''DELETE'' e \<Longrightarrow> A e) \<Longrightarrow> emits A (ad_Delete (rc_adapter rc) M c ctx m)"
  using ob.object_contract_axioms
  by (auto intro: emits_mono [OF ad.find_reads] emits_at_most_one [OF ad.read_calls]
      emits_at_most_one [OF ad.create_calls] emits_at_most_one [OF ad.update_calls]
      emits_at_most_one [OF ad.delete_calls])

lemma emits_onExistingObject:
  assumes "\<And>e. http_event ctx ''GET'' e \<Longrightarrow> A e" and "\<And>e. http_event ctx ''PUT'' e \<Longrightarrow> A e"
  shows "emits A (onExistingObject rc L K M ctx c hash)"
  unfolding onExistingObject_def by (intro trace_intros emits_adapter assms; assumption)

lemma emits_adopt:
  assumes "\<And>base o' b. A (EvPatch ctx base o' b)"
    and "\<And>e. http_event ctx ''GET'' e \<Longrightarrow> A e" and "\<And>e. http_event ctx ''PUT'' e \<Longrightarrow> A e"
  shows "emits A (adopt rc L K M ctx c m hash)"
  unfolding adopt_def by (intro trace_intros emits_onExistingObject assms; assumption)

lemma emits_onConflict:
  assumes "\<And>base o' b. A (EvPatch ctx base o' b)"
    and "\<And>e. http_event ctx ''GET'' e \<Longrightarrow> A e" and "\<And>e. http_event ctx ''PUT'' e \<Longrightarrow> A e"
  shows "emits A (onConflict rc L K M ctx c identity hash)"
  unfolding onConflict_def by (intro trace_intros emits_adopt emits_adapter assms; assumption)

lemma emits_finalize:
  assumes "\<And>o' b. A (EvUpdate ctx o' b)" and "\<And>kind key b. A (EvGet kind key b)"
    and "\<And>e. http_event ctx ''GET'' e \<Longrightarrow> A e" and "\<And>e. http_event ctx ''DELETE'' e \<Longrightarrow> A e"
  shows "emits A (finalize rc K M ctx)"
  unfolding finalize_def reclaim_by_identity_def reclaim_found_def reclaim_def by (intro trace_intros emits_adapter assms; assumption)

text \<open>Nothing but \<open>create\<close> sends a create request, and it sends it right after the patch.\<close>

lemmas no_post = http_event_sends

lemma addCreateAttempt_records:
  "wp (addCreateAttemptAnnotation rc L ctx) (\<lambda>perr t. \<exists>e. events t = events s @ [e] \<and> \<not> sends ''POST'' e
     \<and> (perr = None \<longrightarrow> write_ahead e)) s"
  by (auto simp: addCreateAttemptAnnotation_def wp_simps write_ahead_def set_annotations_def split: prod.split)

lemma emits_after_create:
  assumes "\<And>base o' b. A (EvPatch ctx base o' b)"
    and "\<And>e. http_event ctx ''GET'' e \<Longrightarrow> A e" and "\<And>e. http_event ctx ''PUT'' e \<Longrightarrow> A e"
  shows "emits A (after_create rc L K M ctx c identity hash g r)"
  unfolding after_create_def by (intro trace_intros emits_onConflict assms; assumption)

lemma create_request:
  assumes w: "write_ahead w" "\<not> sends ''POST'' w"
  shows "trace_sat (\<lambda>es. guarded_create (w # es))
    (do { r \<leftarrow> ad_Create (rc_adapter rc) M c ctx; after_create rc L K M ctx c identity hash g r })"
proof (rule trace_sat_bind [OF ad.create_calls [OF ob.object_contract_axioms], where U = "list_all (\<lambda>e. \<not> sends ''POST'' e)"])
  show "trace_sat (list_all (\<lambda>e. \<not> sends ''POST'' e)) (after_create rc L K M ctx c identity hash g r)" for r
    unfolding emits_def [symmetric] by (rule emits_after_create) (simp_all add: no_post)
  show "guarded_create (w # es @ es')"
    if "at_most_one (http_event ctx ''POST'') es" and "list_all (\<lambda>e. \<not> sends ''POST'' e) es'"
    for es es' :: "'t resource event list"
    using that w guarded_createI [of _ "[]" w _ es'] guarded_create_none [of "w # es'"]
    by (auto simp: at_most_one_def no_post)
qed

lemma create_posts: "trace_sat guarded_create (create rc L K M ctx c identity hash)"
  unfolding trace_sat_def
proof
  fix s :: "('t resource, 'w) sys"
  show "wp (create rc L K M ctx c identity hash) (\<lambda>_ t. \<exists>es. events t = events s @ es \<and> guarded_create es) s"
    unfolding create_def wp_bind wp_get_obj Let_def
  proof (rule wp_mono [OF addCreateAttempt_records])
    fix perr :: "go_error option" and t :: "('t resource, 'w) sys"
    assume "\<exists>e. events t = events s @ [e] \<and> \<not> sends ''POST'' e \<and> (perr = None \<longrightarrow> write_ahead e)"
    then obtain w where w: "events t = events s @ [w]" "\<not> sends ''POST'' w" "perr = None \<longrightarrow> write_ahead w" by blast
    show "wp (case perr of Some err \<Rightarrow> State_Monad.return (no_requeue, Some err)
      | None \<Rightarrow> State_Monad.bind (ad_Create (rc_adapter rc) M c ctx)
          (after_create rc L K M ctx c identity hash (om_Generation (o_Meta (obj s)))))
      (\<lambda>_ t. \<exists>es. events t = events s @ es \<and> guarded_create es) t"
    proof (cases perr)
      case None
      then have "write_ahead w" using w by simp
      then show ?thesis unfolding None option.case
        by (rule wp_mono [OF trace_satD [OF create_request [OF _ w(2)]]]) (use w in auto)
    qed (use w in \<open>simp add: wp_simps guarded_create_none\<close>)
  qed
qed

lemma reconcile_posts: "trace_sat guarded_create (reconcile rc L K M ctx)"
  unfolding reconcile_def onNewObject_def
  by (intro trace_sat_cases guarded_bind_left create_posts trace_intros emits_adapter
        guarded_emits [OF emits_onExistingObject] guarded_emits [OF emits_adopt] guarded_create_none
        guarded_emits [OF emits_set(4)])
     (simp_all add: no_post)

lemma emits_record_status:
  "(\<And>o' b. A (EvStatusUpdate (WithoutCancel ctx) o' b)) \<Longrightarrow> emits A (record_status rc K ctx st r)"
  unfolding record_status_def by (intro trace_intros; assumption)

lemma Reconcile_trace:
  assumes "\<And>c. trace_sat T (finalize rc K M c)" and "absorbs_before A T" and "\<And>c o' b. A (EvUpdate c o' b)" and "T []"
    and "\<And>c st. trace_sat T (do { r \<leftarrow> reconcile rc L K M c; record_status rc K c st r })"
  shows "trace_sat T (Reconcile rc L K M ctx)"
  unfolding Reconcile_def
  by (intro trace_sat_get_obj trace_sat_Let trace_sat_if trace_sat_case_option trace_sat_return
      trace_sat_after [OF assms(2) emits_finalizer(1)] assms)

lemma Reconcile_posts: "trace_sat guarded_create (Reconcile rc L K M ctx)"
proof (rule Reconcile_trace [OF _ guarded_create_before])
  show "trace_sat guarded_create (finalize rc K M c)" for c
    by (rule guarded_emits, rule emits_finalize) (simp_all add: no_post)
  show "trace_sat guarded_create (do { r \<leftarrow> reconcile rc L K M c; record_status rc K c st r })" for c st
    by (rule guarded_bind_right [OF reconcile_posts], rule emits_record_status) simp
qed (simp_all add: guarded_create_none)

lemma emits_reconcile:
  assumes "\<And>base o' b. A (EvPatch ctx base o' b)" and "\<And>kind key b. A (EvGet kind key b)"
    and "\<And>m e. m \<in> {''GET'', ''PUT'', ''POST''} \<Longrightarrow> http_event ctx m e \<Longrightarrow> A e"
  shows "emits A (reconcile rc L K M ctx)"
proof -
  note http = assms(3) [of "''GET''"] assms(3) [of "''PUT''"] assms(3) [of "''POST''"]
  show ?thesis
    unfolding reconcile_def onNewObject_def create_def
    by (intro trace_intros emits_adapter emits_adopt emits_onExistingObject emits_after_create assms(1,2))
       (use http in simp_all)
qed

end

locale reconciler_pass = reconciler_calls rc M + kl: kube_lib K
  for K :: klib and rc :: "('t, 'w) commonReconciler" and M :: "'t Object"

subsection \<open>What a pass reports\<close>

fun requeue_policy :: "('t, 'w) commonReconciler \<Rightarrow> 't resource \<Rightarrow> ReconcilerOutcome \<Rightarrow> duration" where
  "requeue_policy rc o' OutcomeSynced = rc_interval rc o'"
| "requeue_policy rc o' OutcomePending = rc_requeueAfterOnNotFound rc"
| "requeue_policy rc o' OutcomeRecoverable = rc_retryInterval rc o'"
| "requeue_policy rc o' OutcomeTerminal = 0"
| "requeue_policy rc o' OutcomeSuspended = 0"

text \<open>A pass that ends without an error shows one outcome on the conditions and asks to be run
  again as that outcome says.\<close>

definition reported :: "('t, 'w) commonReconciler \<Rightarrow> ctrl_Result \<times> go_error option \<Rightarrow> ('t resource, 'w) sys \<Rightarrow> bool" where
  "reported rc r t \<longleftrightarrow> snd r \<noteq> None \<or>
     (\<exists>out reason message g. shows_outcome (o_CoreStatus (obj t)) out reason message g
        \<and> rr_RequeueAfter (fst r) = requeue_policy rc (obj t) out)"

definition always :: "('s, 'a) state \<Rightarrow> ('a \<Rightarrow> 's \<Rightarrow> bool) \<Rightarrow> bool" where
  "always m Q \<longleftrightarrow> (\<forall>s. wp m Q s)"

lemma always_bind: "(\<And>a. always (f a) Q) \<Longrightarrow> always (State_Monad.bind m f) Q"
  unfolding always_def wp_bind by (blast intro: wp_mono [OF wp_True])

lemma always_cases:
  "(b \<Longrightarrow> always m Q) \<Longrightarrow> (\<not> b \<Longrightarrow> always n Q) \<Longrightarrow> always (if b then m else n) Q"
  "(\<And>e. always (f e) Q) \<Longrightarrow> (\<And>a. always (g a) Q) \<Longrightarrow> always (case r of Inl e \<Rightarrow> f e | Inr a \<Rightarrow> g a) Q"
  "always m Q \<Longrightarrow> (\<And>a. always (h a) Q) \<Longrightarrow> always (case o' of None \<Rightarrow> m | Some a \<Rightarrow> h a) Q"
  "always m Q \<Longrightarrow> (\<And>x xs. always (k x xs) Q) \<Longrightarrow> always (case l of [] \<Rightarrow> m | x # xs \<Rightarrow> k x xs) Q"
  "(\<And>x. always (j x) Q) \<Longrightarrow> always (Let y j) Q"
  by (auto split: sum.split option.split list.split)

context reconciler_pass
begin

lemma reportedI:
  "o_CoreStatus (obj t) = SetConditionsOnOutcome K now g out r m st \<Longrightarrow>
     rr_RequeueAfter d = requeue_policy rc (obj t) out \<Longrightarrow> reported rc (d, None) t"
  unfolding reported_def using kl.outcome_shown by fastforce

lemma reported_leaves:
  "always (do { set_conditions rc K g OutcomeTerminal r m; State_Monad.return (no_requeue, None) }) (reported rc)"
  "always (do { set_conditions rc K g OutcomeSuspended r m; State_Monad.return (no_requeue, None) }) (reported rc)"
  "always (do { set_conditions rc K g OutcomePending r m;
     State_Monad.return (requeue_after (rc_requeueAfterOnNotFound rc), None) }) (reported rc)"
  "always (do { set_conditions rc K g OutcomeSynced r m; o' \<leftarrow> get_obj;
     State_Monad.return (requeue_after (rc_interval rc o'), None) }) (reported rc)"
  "always (do { o' \<leftarrow> get_obj; set_conditions rc K g OutcomeRecoverable r m;
     State_Monad.return (requeue_after (rc_retryInterval rc o'), None) }) (reported rc)"
  "always (State_Monad.return (d, Some e)) (reported rc)"
  unfolding always_def set_conditions_def
  by (auto simp: wp_simps rc_retryInterval_def reported_def [of _ "(_, Some _)"] intro!: reportedI)

lemma reported_onAdapterError: "always (onAdapterError rc K err) (reported rc)"
  unfolding always_def onAdapterError_def GetOutcomeAndSetConditionsOnErr_def
  by (auto simp: wp_simps Let_def rc_retryInterval_def intro!: reportedI)

lemmas reported_intros = reported_leaves reported_onAdapterError

lemma reported_onExistingObject: "always (onExistingObject rc L K M ctx c hash) (reported rc)"
  unfolding onExistingObject_def
  by (rule reported_intros | rule always_cases | rule always_bind)+

lemma reported_adopt: "always (adopt rc L K M ctx c m hash) (reported rc)"
  unfolding adopt_def
  by (rule reported_intros reported_onExistingObject | rule always_cases | rule always_bind)+

lemma reported_onConflict: "always (onConflict rc L K M ctx c identity hash) (reported rc)"
  unfolding onConflict_def
  by (rule reported_intros reported_adopt | rule always_cases | rule always_bind)+

lemma reported_create: "always (create rc L K M ctx c identity hash) (reported rc)"
  unfolding create_def after_create_def
  by (rule reported_intros reported_onConflict | rule always_cases | rule always_bind)+

lemma reported_onNewObject: "always (onNewObject rc L K M ctx c identity hash) (reported rc)"
  unfolding onNewObject_def
  by (rule reported_intros reported_adopt reported_create | rule always_cases | rule always_bind)+

lemma reported_reconcile: "always (reconcile rc L K M ctx) (reported rc)"
  unfolding reconcile_def
  by (rule reported_intros reported_onNewObject reported_onExistingObject | rule always_cases | rule always_bind)+

end

text \<open>The status is written last, at most once, and under a context the pass's timeout does not
  reach.\<close>

definition not_status :: "'o event \<Rightarrow> bool" where
  "not_status e \<longleftrightarrow> (\<nexists>ctx o' b. e = EvStatusUpdate ctx o' b)"

definition status_last :: "'o event list \<Rightarrow> bool" where
  "status_last es \<longleftrightarrow> list_all not_status es \<or>
     (\<exists>before ctx o' b. es = before @ [EvStatusUpdate (WithoutCancel ctx) o' b] \<and> list_all not_status before)"

lemma not_status_simps [simp]:
  "not_status (EvUpdate ctx o' b)" "not_status (EvPatch ctx base o' b)" "not_status (EvGet kind key b)"
  "http_event ctx m e \<Longrightarrow> not_status e"
  by (auto simp: not_status_def http_event_def)

lemma status_last_after: "absorbs_before not_status status_last"
  unfolding absorbs_before_def status_last_def by (metis append.assoc list_all_append)

lemma status_last_emits: "emits not_status m \<Longrightarrow> trace_sat status_last m"
  by (rule emits_trace_sat) (auto simp: status_last_def)

text \<open>The outcome is recorded: unless the pass ends in an error, the status shows it, and was
  either already showing it or has been written.\<close>

definition recorded :: "('t, 'w) commonReconciler \<Rightarrow> ctrl_Result \<times> go_error option \<Rightarrow> ('t resource, 'w) sys \<Rightarrow> bool" where
  "recorded rc r t \<longleftrightarrow> snd r \<noteq> None \<or>
     (\<exists>out reason message g o'. shows_outcome (o_CoreStatus o') out reason message g
        \<and> rr_RequeueAfter (fst r) = requeue_policy rc o' out
        \<and> (o' = obj t \<or> (\<exists>es ctx. events t = es @ [EvStatusUpdate (WithoutCancel ctx) o' True])))"

lemma shows_outcome_ReconciledAt [simp]:
  "shows_outcome (st\<lparr>st_ReconciledAt := now\<rparr>) out r m g = shows_outcome st out r m g"
  by (simp add: shows_outcome_def reports_def absent_def)

lemma requeue_policy_cong:
  "o_CoreSpec a = o_CoreSpec b \<Longrightarrow> requeue_policy rc a out = requeue_policy rc b out"
  by (cases out) (auto simp: rc_interval_def rc_retryInterval_def)

lemma record_status_last: "trace_sat status_last (record_status rc K ctx st r)"
  by (auto simp: trace_sat_def record_status_def wp_simps status_last_def split: prod.split option.split)

lemma record_status_recorded:
  assumes "reported rc r s"
  shows "wp (record_status rc K ctx st r) (recorded rc) s"
proof (cases "snd r")
  case (Some e)
  then show ?thesis by (auto simp: record_status_def wp_simps recorded_def split: prod.split option.split)
next
  case None
  then obtain out reason message g where o: "shows_outcome (o_CoreStatus (obj s)) out reason message g"
    "rr_RequeueAfter (fst r) = requeue_policy rc (obj s) out"
    using assms by (auto simp: reported_def)
  have written: "recorded rc r t"
    if "events t = es @ [EvStatusUpdate (WithoutCancel ctx) (obj s\<lparr>o_CoreStatus := (o_CoreStatus (obj s))\<lparr>st_ReconciledAt := now\<rparr>\<rparr>) True]"
    for t :: "('a resource, 'b) sys" and es now
    unfolding recorded_def
    using o that requeue_policy_cong [of "obj s\<lparr>o_CoreStatus := (o_CoreStatus (obj s))\<lparr>st_ReconciledAt := now\<rparr>\<rparr>" "obj s" rc out]
    by (intro disjI2 exI [of _ out] exI [of _ reason] exI [of _ message] exI [of _ g]
        exI [of _ "obj s\<lparr>o_CoreStatus := (o_CoreStatus (obj s))\<lparr>st_ReconciledAt := now\<rparr>\<rparr>"]) auto
  have kept: "recorded rc r s" unfolding recorded_def using o by blast
  show ?thesis
    using written kept
    by (auto simp: record_status_def wp_simps recorded_def [of _ "(_, Some _)"] split: prod.split option.split)
qed

context reconciler_calls
begin

lemma Reconcile_status_last: "trace_sat status_last (Reconcile rc L K M ctx)"
proof (rule Reconcile_trace [OF _ status_last_after])
  show "trace_sat status_last (finalize rc K M c)" for c
    by (rule status_last_emits, rule emits_finalize) simp_all
  show "trace_sat status_last (do { r \<leftarrow> reconcile rc L K M c; record_status rc K c st r })" for c st
    by (rule trace_sat_after [OF status_last_after _ record_status_last], rule emits_reconcile) simp_all
qed (simp_all add: status_last_def)

end

context reconciler_pass
begin

lemma Reconcile_recorded:
  assumes "om_DeletionTimestamp (o_Meta (obj s)) = None"
  shows "wp (Reconcile rc L K M ctx) (recorded rc) s"
proof -
  have rec: "wp (reconcile rc L K M c) (\<lambda>r. wp (record_status rc K c st r) (recorded rc)) t" for c st t
    using reported_reconcile unfolding always_def by (blast intro: wp_mono record_status_recorded)
  have "wp (case ferr of Some err \<Rightarrow> State_Monad.return (no_requeue, Some err)
      | None \<Rightarrow> do { o' \<leftarrow> get_obj; r \<leftarrow> reconcile rc L K M c;
          record_status rc K c (o_CoreStatus o') r }) (recorded rc) t" for ferr c t
    using rec by (cases ferr) (simp_all add: wp_simps recorded_def [of _ "(_, Some _)"] Let_def)
  then have "wp (do { ferr \<leftarrow> addFinalizer rc K c; case ferr of Some err \<Rightarrow> State_Monad.return (no_requeue, Some err)
      | None \<Rightarrow> do { o' \<leftarrow> get_obj; r \<leftarrow> reconcile rc L K M c;
          record_status rc K c (o_CoreStatus o') r } }) (recorded rc) s" for c
    unfolding wp_bind [of "addFinalizer rc K c"] by (rule wp_mono [OF wp_True])
  then show ?thesis using assms by (simp add: Reconcile_def wp_simps Let_def)
qed

end

subsection \<open>Deletion\<close>

text \<open>When the finalizer may go: the policy keeps the object in SigNoz; nothing was ever bound or
  attempted; the backend confirmed the deletion, or answered that the object is gone; or no id
  is recorded and either no identity can be derived or a lookup found nothing.\<close>

definition released :: "('t, 'w) commonReconciler \<Rightarrow> 't Object \<Rightarrow> ctx \<Rightarrow> 't resource \<Rightarrow> 't resource event list \<Rightarrow> bool" where
  "released rc M ctx o' es \<longleftrightarrow> cs_ReclaimPolicy (o_CoreSpec o') = ReclaimOrphan
     \<or> (isl (GetIDFromSigNozResource (st_SigNozResource (o_CoreStatus o')))
        \<and> om_Annotations (o_Meta o') AnnotationCreateAttempt = None)
     \<or> (\<exists>e \<in> set es. \<exists>st. answered ctx ''DELETE'' st e \<and> (200 \<le> st \<and> st < 300 \<or> st = 404))
     \<or> (isl (GetIDFromSigNozResource (st_SigNozResource (o_CoreStatus o')))
        \<and> (isl (m_Identity M (o_Template o'))
           \<or> (\<exists>c u. obj u = o' \<and> fst (run_state (ad_Find (rc_adapter rc) M c ctx) u) = Inr [])))"

definition not_update :: "'o event \<Rightarrow> bool" where
  "not_update e \<longleftrightarrow> (\<nexists>ctx o' b. e = EvUpdate ctx o' b)"

text \<open>An update is sent only when the object may be released.\<close>

definition safe_release :: "('t, 'w) commonReconciler \<Rightarrow> 't Object \<Rightarrow> ctx \<Rightarrow> 't resource \<Rightarrow> 't resource event list \<Rightarrow> bool" where
  "safe_release rc M ctx o' es \<longleftrightarrow> list_all not_update es \<or> released rc M ctx o' es"

lemma not_update_simps [simp]:
  "not_update (EvPatch c base o' b)" "not_update (EvGet kind key b)" "not_update (EvStatusUpdate c o' b)"
  "http_event ctx m e \<Longrightarrow> not_update e"
  by (auto simp: not_update_def http_event_def)

lemma wp_both: "wp m (\<lambda>a t. Q a t \<and> R a t) s \<longleftrightarrow> wp m Q s \<and> wp m R s"
  by (auto simp: wp_def split: prod.split)

text \<open>The value of an operation, as a fact about the state it ran from.\<close>

lemma wp_value: "wp m (\<lambda>a _. a = fst (run_state m s)) s"
  by (simp add: wp_def split: prod.split)

context reconciler_calls
begin

lemma keeps_signozClientFor: "keeps_obj (signozClientFor rc ctx)"
  unfolding signozClientFor_def by (intro trace_intros rs.resolve_keeps)

abbreviation safe_from :: "ctx \<Rightarrow> 't resource \<Rightarrow> 't resource event list \<Rightarrow> 'x \<Rightarrow> ('t resource, 'w) sys \<Rightarrow> bool" where
  "safe_from ctx o' pre \<equiv> \<lambda>_ t. \<exists>es. events t = pre @ es \<and> safe_release rc M ctx o' es"

lemma released_mono: "released rc M ctx o' es \<Longrightarrow> released rc M ctx o' (es @ es')"
  unfolding released_def by auto

lemma removeFinalizer_released:
  assumes "released rc M ctx o' es" and "events s = pre @ es"
  shows "wp (removeFinalizer rc K ctx) (safe_from ctx o' pre) s"
proof -
  have "emits (\<lambda>_. True) (removeFinalizer rc K ctx)" by (rule emits_finalizer) simp
  then show ?thesis
    by (rule wp_mono [OF emitsD])
       (use assms released_mono [OF assms(1)] in \<open>auto simp: safe_release_def\<close>)
qed

lemma reclaim_released:
  assumes "events s = pre @ es" and "list_all not_update es"
  shows "wp (reclaim rc K M ctx c m) (safe_from ctx o' pre) s"
  unfolding reclaim_def wp_bind
proof (rule wp_mono [OF wp_conj])
  show "wp (ad_Delete (rc_adapter rc) M c ctx m) (deleted_post ctx (events s)) s"
    using ad.delete_confirmed [OF ob.object_contract_axioms] by (simp add: delete_done_def)
  show "wp (ad_Delete (rc_adapter rc) M c ctx m) (\<lambda>_ t. \<exists>es. events t = events s @ es \<and> list_all not_update es) s"
    by (rule emitsD, rule emits_adapter) simp
  fix err and t :: "('t resource, 'w) sys"
  assume t: "deleted_post ctx (events s) err t \<and> (\<exists>es. events t = events s @ es \<and> list_all not_update es)"
  show "wp (if err \<noteq> None \<and> \<not> IsNotFound err
       then do { o' \<leftarrow> get_obj; State_Monad.return (requeue_after (rc_retryInterval rc o'), None) }
       else removeFinalizer rc K ctx) (safe_from ctx o' pre) t"
  proof (cases "err \<noteq> None \<and> \<not> IsNotFound err")
    case True
    then show ?thesis using t assms by (auto simp: wp_simps safe_release_def)
  next
    case False
    then obtain e st where e: "events t = events s @ [e]" "answered ctx ''DELETE'' st e"
      "200 \<le> st \<and> st < 300 \<or> st = 404" using t by (auto simp: deleted_post_def)
    then have "released rc M ctx o' (es @ [e])" unfolding released_def by fastforce
    then have "wp (removeFinalizer rc K ctx) (safe_from ctx o' pre) t"
      by (rule removeFinalizer_released) (use e assms in simp)
    then show ?thesis unfolding if_not_P [OF False] .
  qed
qed

lemma reclaim_by_identity_released:
  assumes ev: "events s = pre @ es" "list_all not_update es"
    and noid: "isl (GetIDFromSigNozResource (st_SigNozResource (o_CoreStatus (obj s))))"
  shows "wp (reclaim_by_identity rc K M ctx c) (safe_from ctx (obj s) pre) s"
proof (cases "m_Identity M (o_Template (obj s))")
  case (Inl e)
  have "wp (removeFinalizer rc K ctx) (safe_from ctx (obj s) pre) s"
    by (rule removeFinalizer_released [OF _ ev(1)]) (use noid Inl in \<open>auto simp: released_def\<close>)
  then show ?thesis using Inl by (simp add: reclaim_by_identity_def wp_simps)
next
  case (Inr i)
  have find: "wp (ad_Find (rc_adapter rc) M c ctx) (\<lambda>_ t. \<exists>es. events t = events s @ es \<and> list_all not_update es) s"
    by (rule emitsD, rule emits_adapter) simp
  have "wp (ad_Find (rc_adapter rc) M c ctx) (\<lambda>a. wp (reclaim_found rc K M ctx c a) (safe_from ctx (obj s) pre)) s"
  proof (rule wp_mono [OF wp_conj [OF wp_value find]])
    fix found and t :: "('t resource, 'w) sys"
    assume t: "found = fst (run_state (ad_Find (rc_adapter rc) M c ctx) s)
      \<and> (\<exists>es. events t = events s @ es \<and> list_all not_update es)"
    then obtain es' where es': "events t = pre @ (es @ es')" "list_all not_update (es @ es')" using ev by auto
    have none: "wp (removeFinalizer rc K ctx) (safe_from ctx (obj s) pre) t" if "found = Inr []"
      by (rule removeFinalizer_released [OF _ es'(1)]) (use that t noid in \<open>auto simp: released_def\<close>)
    show "wp (reclaim_found rc K M ctx c found) (safe_from ctx (obj s) pre) t"
      using none reclaim_released [OF es', where ctx = ctx and c = c and o' = "obj s"] es'
      by (auto simp: reclaim_found_def wp_simps safe_release_def split: sum.split list.split)
  qed
  then show ?thesis using Inr by (simp add: reclaim_by_identity_def wp_simps)
qed

lemma finalize_released: "wp (finalize rc K M ctx) (safe_from ctx (obj s) (events s)) s"
proof -
  let ?id = "GetIDFromSigNozResource (st_SigNozResource (o_CoreStatus (obj s)))"
  have free: "wp (removeFinalizer rc K ctx) (safe_from ctx (obj s) (events s)) s"
    if "cs_ReclaimPolicy (o_CoreSpec (obj s)) = ReclaimOrphan
      \<or> isl ?id \<and> om_Annotations (o_Meta (obj s)) AnnotationCreateAttempt = None"
    by (rule removeFinalizer_released [of _ _ "[]"]) (use that in \<open>auto simp: released_def\<close>)
  have client: "wp (signozClientFor rc ctx) (\<lambda>_ t. obj t = obj s \<and> (\<exists>es. events t = events s @ es \<and> list_all not_update es)) s"
    by (rule wp_quiet [OF _ keeps_signozClientFor]) (rule emits_signozClientFor, simp)
  have rest: "wp (case cl of Inl err \<Rightarrow> do { o' \<leftarrow> get_obj; State_Monad.return (requeue_after (rc_retryInterval rc o'), None) }
      | Inr c \<Rightarrow> (case ?id of Inr _ \<Rightarrow> reclaim rc K M ctx c (st_SigNozResource (o_CoreStatus (obj s)))
          | Inl _ \<Rightarrow> reclaim_by_identity rc K M ctx c)) (safe_from ctx (obj s) (events s)) t"
    if "obj t = obj s \<and> (\<exists>es. events t = events s @ es \<and> list_all not_update es)" for cl t
    using that reclaim_by_identity_released [of t] reclaim_released [of t]
    by (auto simp: wp_simps safe_release_def split: sum.split)
  have bound: "wp (do { cl \<leftarrow> signozClientFor rc ctx;
      case cl of Inl err \<Rightarrow> do { o' \<leftarrow> get_obj; State_Monad.return (requeue_after (rc_retryInterval rc o'), None) }
      | Inr c \<Rightarrow> (case ?id of Inr _ \<Rightarrow> reclaim rc K M ctx c (st_SigNozResource (o_CoreStatus (obj s)))
          | Inl _ \<Rightarrow> reclaim_by_identity rc K M ctx c) }) (safe_from ctx (obj s) (events s)) s"
    unfolding wp_bind [of "signozClientFor rc ctx"] by (rule wp_mono [OF client], rule rest)
  show ?thesis
    unfolding finalize_def wp_bind [of get_obj] wp_get_obj Let_def
    using free bound by (auto simp: wp_return safe_release_def [of _ _ _ _ "[]"])
qed

end

end
