(* ===== verification/Convergence.thy ===== *)
theory Convergence
  imports Passes
begin

text \<open>
  The branches of a pass, each from what the calls it depends on returned: the lookup of a new
  object, the read of a bound one, the comparison, the update. Then the steady state: a bound
  object that matches its spec is only read, and nothing is written.
\<close>

lemma wp_known: "run_state m s = (a, t) \<Longrightarrow> wp m Q s = Q a t"
  by (simp add: wp_def)

lemma run_events: "emits A m \<Longrightarrow> run_state m s = (a, t) \<Longrightarrow> \<exists>es. events t = events s @ es \<and> list_all A es"
  using emitsD [of A m s] by (simp add: wp_known)

lemma run_keeps: "keeps_obj m \<Longrightarrow> run_state m s = (a, t) \<Longrightarrow> obj t = obj s"
  using keeps_objD [of m s] by (simp add: wp_known)

text \<open>A call that changes neither SigNoz nor Kubernetes.\<close>

definition read_only :: "'o event \<Rightarrow> bool" where
  "read_only e \<longleftrightarrow> kube_read e \<or> sends ''GET'' e"

lemma read_only_simps [simp]:
  "read_only (EvGet kind key b)" "http_event ctx ''GET'' e \<Longrightarrow> read_only e"
  by (auto simp: read_only_def kube_read_def http_event_def)

context reconciler_pass
begin

lemma read_keeps_run: "run_state (ad_Read (rc_adapter rc) M c ctx m) s = (r, t) \<Longrightarrow> obj t = obj s"
  by (rule run_keeps [OF ad.read_keeps])

lemma find_keeps_run: "run_state (ad_Find (rc_adapter rc) M c ctx) s = (r, t) \<Longrightarrow> obj t = obj s"
  by (rule run_keeps [OF ad.find_keeps])

subsection \<open>A bound object\<close>

lemma existing_not_found:
  assumes "run_state (ad_Read (rc_adapter rc) M c ctx (st_SigNozResource (o_CoreStatus (obj s)))) s = (Inl e, t)"
    and "IsNotFound (Some e)"
  shows "wp (onExistingObject rc L K M ctx c hash) (\<lambda>r u.
    r = (requeue_after (rc_requeueAfterOnNotFound rc), None) \<and> events u = events t
    \<and> st_SigNozResource (o_CoreStatus (obj u)) = None \<and> st_ObservedHash (o_CoreStatus (obj u)) = []
    \<and> shows_outcome (o_CoreStatus (obj u)) OutcomePending SReasonPending
        ''The SigNoz object was not found; it will be recreated'' (om_Generation (o_Meta (obj s)))) s"
  using assms
  by (simp add: onExistingObject_def wp_simps wp_known [OF assms(1)] set_binding_def set_hash_def set_conditions_def
      kl.outcome_shown Let_def)

lemma existing_immutable:
  assumes "run_state (ad_Read (rc_adapter rc) M c ctx (st_SigNozResource (o_CoreStatus (obj s)))) s = (Inr resp, t)"
    and "m_Compare M (o_Template (obj s)) resp = Inr cr" and "cr_ImmutableFields cr \<noteq> []"
  shows "wp (onExistingObject rc L K M ctx c hash) (\<lambda>r u.
    r = (no_requeue, None) \<and> events u = events t
    \<and> st_SigNozResource (o_CoreStatus (obj u)) = st_SigNozResource (o_CoreStatus (obj s))
    \<and> (\<exists>m. shows_outcome (o_CoreStatus (obj u)) OutcomeTerminal SReasonImmutableFieldChanged m
        (om_Generation (o_Meta (obj s))))) s"
  using assms read_keeps_run [OF assms(1)] kl.outcome_shown
  by (fastforce simp: onExistingObject_def wp_simps wp_known [OF assms(1)] set_conditions_def Let_def)

lemma existing_synced:
  assumes "run_state (ad_Read (rc_adapter rc) M c ctx (st_SigNozResource (o_CoreStatus (obj s)))) s = (Inr resp, t)"
    and "m_Compare M (o_Template (obj s)) resp = Inr \<lparr>cr_UpdatableFields = [], cr_ImmutableFields = []\<rparr>"
    and "st_ObservedHash (o_CoreStatus (obj s)) \<in> {[], hash}"
  shows "wp (onExistingObject rc L K M ctx c hash) (\<lambda>r u.
    r = (requeue_after (rc_interval rc (obj s)), None) \<and> events u = events t
    \<and> (\<exists>now. obj u = obj s\<lparr>o_CoreStatus := SetConditionsOnOutcome K now (om_Generation (o_Meta (obj s)))
          OutcomeSynced SReasonSynced ''In sync with SigNoz'' ((o_CoreStatus (obj s))\<lparr>st_ObservedHash := hash\<rparr>)\<rparr>)) s"
  using assms read_keeps_run [OF assms(1)]
  by (auto simp: onExistingObject_def wp_simps wp_known [OF assms(1)] set_hash_def set_conditions_def rc_interval_def Let_def)

lemma existing_updated:
  assumes "run_state (ad_Read (rc_adapter rc) M c ctx (st_SigNozResource (o_CoreStatus (obj s)))) s = (Inr resp, t)"
    and "m_Compare M (o_Template (obj s)) resp = Inr cr" and "cr_ImmutableFields cr = []"
    and "cr_UpdatableFields cr \<noteq> [] \<or> st_ObservedHash (o_CoreStatus (obj s)) \<notin> {[], hash}"
    and "run_state (ad_Update (rc_adapter rc) M c ctx (st_SigNozResource (o_CoreStatus (obj s)))) t = (None, t')"
  shows "wp (onExistingObject rc L K M ctx c hash) (\<lambda>r u.
    r = (requeue_after (rc_interval rc (obj s)), None) \<and> events u = events t'
    \<and> st_SigNozResource (o_CoreStatus (obj u)) = st_SigNozResource (o_CoreStatus (obj s))
    \<and> st_ObservedHash (o_CoreStatus (obj u)) = hash
    \<and> shows_outcome (o_CoreStatus (obj u)) OutcomeSynced SReasonUpdated ''Updated in SigNoz''
        (om_Generation (o_Meta (obj s)))) s"
  using assms read_keeps_run [OF assms(1)] run_keeps [OF ad.update_keeps assms(5)]
  by (auto simp: onExistingObject_def wp_simps wp_known [OF assms(1)] wp_known [OF assms(5)] set_hash_def
      set_conditions_def rc_interval_def kl.outcome_shown Let_def)

subsection \<open>A new object\<close>

lemma new_ambiguous:
  assumes "run_state (ad_Find (rc_adapter rc) M c ctx) s = (Inr (m1 # m2 # ms), t)" and "pinned_id (obj s) = []"
  shows "wp (onNewObject rc L K M ctx c identity hash) (\<lambda>r u.
    r = (no_requeue, None) \<and> events u = events t
    \<and> st_SigNozResource (o_CoreStatus (obj u)) = st_SigNozResource (o_CoreStatus (obj s))
    \<and> (\<exists>m. shows_outcome (o_CoreStatus (obj u)) OutcomeTerminal SReasonAmbiguous m (om_Generation (o_Meta (obj s))))) s"
  using assms find_keeps_run [OF assms(1)] kl.outcome_shown
  by (fastforce simp: onNewObject_def wp_simps wp_known [OF assms(1)] set_conditions_def Let_def)

lemma new_pin_mismatch:
  assumes "run_state (ad_Find (rc_adapter rc) M c ctx) s = (Inr ms, t)" and "pinned_id (obj s) \<noteq> []"
    and "pinned_candidate (pinned_id (obj s)) ms = None"
  shows "wp (onNewObject rc L K M ctx c identity hash) (\<lambda>r u.
    r = (no_requeue, None) \<and> events u = events t
    \<and> st_SigNozResource (o_CoreStatus (obj u)) = st_SigNozResource (o_CoreStatus (obj s))
    \<and> (\<exists>m. shows_outcome (o_CoreStatus (obj u)) OutcomeTerminal SReasonSigNozResourceIDMismatch m
        (om_Generation (o_Meta (obj s))))) s"
  using assms find_keeps_run [OF assms(1)] kl.outcome_shown
  by (fastforce simp: onNewObject_def wp_simps wp_known [OF assms(1)] set_conditions_def Let_def)

lemma pinned_never_creates:
  assumes "pinned_id (obj s) \<noteq> []"
  shows "wp (onNewObject rc L K M ctx c identity hash)
    (\<lambda>_ t. \<exists>es. events t = events s @ es \<and> list_all (\<lambda>e. \<not> sends ''POST'' e) es) s"
proof -
  let ?Q = "\<lambda>_ t. \<exists>es. events t = events s @ es \<and> list_all (\<lambda>e. \<not> sends ''POST'' e) es"
  obtain r t where f: "run_state (ad_Find (rc_adapter rc) M c ctx) s = (r, t)" by fastforce
  have "emits (\<lambda>e. \<not> sends ''POST'' e) (ad_Find (rc_adapter rc) M c ctx)"
    by (rule emits_adapter) (simp add: no_post)
  from run_events [OF this f] obtain es where es: "events t = events s @ es" "list_all (\<lambda>e. \<not> sends ''POST'' e) es" by blast
  have step: "wp m ?Q t" if "emits (\<lambda>e. \<not> sends ''POST'' e) m" for m :: "('t, 'w) pass"
    by (rule wp_mono [OF emitsD [OF that]]) (use es in auto)
  have adopt: "emits (\<lambda>e. \<not> sends ''POST'' e) (adopt rc L K M ctx c m hash)" for m
    by (rule emits_adopt) (simp_all add: no_post)
  show ?thesis
    using assms find_keeps_run [OF f] step [OF adopt] step [OF emits_set(4)] es
    by (auto simp: onNewObject_def wp_simps wp_known [OF f] set_conditions_def Let_def split: sum.split option.split)
qed

subsection \<open>Suspension\<close>

lemma suspended_reconcile:
  assumes "cs_Suspend (o_CoreSpec (obj s))"
  shows "wp (reconcile rc L K M ctx) (\<lambda>r t. r = (no_requeue, None) \<and> events t = events s
    \<and> shows_outcome (o_CoreStatus (obj t)) OutcomeSuspended SReasonSuspended
        ''reconciliation is suspended by spec.suspend'' (om_Generation (o_Meta (obj s)))) s"
  using assms by (simp add: reconcile_def wp_simps set_conditions_def kl.outcome_shown Let_def)

lemma addFinalizer_present:
  assumes "ResourceFinalizer \<in> set (om_Finalizers (o_Meta (obj s)))"
  shows "wp (addFinalizer rc K ctx) Q s \<longleftrightarrow> Q None s"
proof -
  have "s\<lparr>obj := set_finalizers (om_Finalizers (o_Meta (obj s))) (obj s)\<rparr> = s" by (simp add: set_finalizers_def)
  then show ?thesis using assms by (simp add: addFinalizer_def wp_simps kl.add_finalizer Let_def)
qed

end

subsection \<open>The steady state\<close>

text \<open>What a pass over a settled object needs: the object is bound and carries the finalizer, no
  create attempt is pending, and the status says it is in sync at this generation and hash.\<close>

definition settled :: "'t Object \<Rightarrow> 't resource \<Rightarrow> string \<Rightarrow> bool" where
  "settled M o' hash \<longleftrightarrow> om_DeletionTimestamp (o_Meta o') = None
     \<and> ResourceFinalizer \<in> set (om_Finalizers (o_Meta o'))
     \<and> \<not> cs_Suspend (o_CoreSpec o')
     \<and> om_Annotations (o_Meta o') AnnotationCreateAttempt = None
     \<and> \<not> isl (m_Identity M (o_Template o')) \<and> m_Hash M (o_Template o') = Inr hash
     \<and> \<not> isl (GetIDFromSigNozResource (st_SigNozResource (o_CoreStatus o')))
     \<and> st_ObservedHash (o_CoreStatus o') = hash
     \<and> shows_outcome (o_CoreStatus o') OutcomeSynced SReasonSynced ''In sync with SigNoz'' (om_Generation (o_Meta o'))"

context reconciler_pass
begin

lemma signozClientFor_run:
  assumes "run_state (rs_ResolveRef (rc_resolver rc) ctx (cs_ProviderConfigRef (o_CoreSpec (obj s)))
      (om_Namespace (o_Meta (obj s))) (rc_operatorNamespace rc)) s = (Inr p, t)"
  shows "wp (signozClientFor rc ctx) Q s \<longleftrightarrow> Q (Inr (clients_New p)) t"
  by (simp add: signozClientFor_def wp_simps wp_known [OF assms])

lemma settled_reconcile:
  assumes settled: "settled M (obj s) hash"
    and resolved: "run_state (rs_ResolveRef (rc_resolver rc) ctx (cs_ProviderConfigRef (o_CoreSpec (obj s)))
      (om_Namespace (o_Meta (obj s))) (rc_operatorNamespace rc)) s = (Inr p, s1)"
    and read: "run_state (ad_Read (rc_adapter rc) M (clients_New p) ctx (st_SigNozResource (o_CoreStatus (obj s)))) s1
      = (Inr resp, s2)"
    and same: "m_Compare M (o_Template (obj s)) resp = Inr \<lparr>cr_UpdatableFields = [], cr_ImmutableFields = []\<rparr>"
  shows "wp (reconcile rc L K M ctx) (\<lambda>r t. r = (requeue_after (rc_interval rc (obj s)), None)
    \<and> obj t = obj s \<and> events t = events s2) s"
proof -
  have o1: "obj s1 = obj s" by (rule run_keeps [OF rs.resolve_keeps resolved])
  let ?st = "o_CoreStatus (obj s)"
  have hash: "?st\<lparr>st_ObservedHash := hash\<rparr> = ?st" using settled by (auto simp: settled_def)
  have stable: "SetConditionsOnOutcome K now (om_Generation (o_Meta (obj s))) OutcomeSynced SReasonSynced
      ''In sync with SigNoz'' (?st\<lparr>st_ObservedHash := hash\<rparr>) = ?st" for now
    unfolding hash by (rule kl.shown_stable) (use settled in \<open>simp add: settled_def\<close>)
  have "wp (onExistingObject rc L K M ctx (clients_New p) hash) (\<lambda>r t.
      r = (requeue_after (rc_interval rc (obj s1)), None) \<and> events t = events s2
      \<and> (\<exists>now. obj t = obj s1\<lparr>o_CoreStatus := SetConditionsOnOutcome K now (om_Generation (o_Meta (obj s1)))
          OutcomeSynced SReasonSynced ''In sync with SigNoz'' ((o_CoreStatus (obj s1))\<lparr>st_ObservedHash := hash\<rparr>)\<rparr>)) s1"
    by (rule existing_synced) (use read same settled in \<open>simp_all add: o1 settled_def\<close>)
  then have "wp (onExistingObject rc L K M ctx (clients_New p) hash) (\<lambda>r t.
      r = (requeue_after (rc_interval rc (obj s)), None) \<and> obj t = obj s \<and> events t = events s2) s1"
    by (rule wp_mono) (auto simp: o1 stable)
  then show ?thesis
    using settled o1
    by (auto simp: reconcile_def wp_simps settled_def signozClientFor_run [OF resolved]
        removeCreateAttemptAnnotation_def Let_def isl_def split: sum.split)
qed

lemma settled_pass:
  assumes settled: "settled M (obj s) hash" and ctx: "ctx = pass_ctx rc (obj s) ctx0"
    and resolved: "run_state (rs_ResolveRef (rc_resolver rc) ctx (cs_ProviderConfigRef (o_CoreSpec (obj s)))
      (om_Namespace (o_Meta (obj s))) (rc_operatorNamespace rc)) s = (Inr p, s1)"
    and read: "run_state (ad_Read (rc_adapter rc) M (clients_New p) ctx (st_SigNozResource (o_CoreStatus (obj s)))) s1
      = (Inr resp, s2)"
    and same: "m_Compare M (o_Template (obj s)) resp = Inr \<lparr>cr_UpdatableFields = [], cr_ImmutableFields = []\<rparr>"
  shows "wp (Reconcile rc L K M ctx0) (\<lambda>r t. r = (requeue_after (rc_interval rc (obj s)), None)
    \<and> obj t = obj s \<and> (\<exists>es. events t = events s @ es \<and> list_all read_only es)) s"
proof -
  have "emits read_only (rs_ResolveRef (rc_resolver rc) ctx r n m)" for r n m
    by (rule emits_mono [OF rs.resolve_reads]) (auto simp: kube_read_def)
  from run_events [OF this resolved] obtain es1 where 1: "events s1 = events s @ es1" "list_all read_only es1" by blast
  have "emits read_only (ad_Read (rc_adapter rc) M (clients_New p) ctx m)" for m by (rule emits_adapter) simp
  from run_events [OF this read] obtain es2 where 2: "events s2 = events s1 @ es2" "list_all read_only es2" by blast
  have quiet: "wp (record_status rc K ctx (o_CoreStatus (obj s)) r) (\<lambda>r' u. r' = r \<and> u = t) t"
    if "obj t = obj s" for r t using that by (simp add: record_status_def wp_simps kl.deep_equal)
  have "wp (do { r \<leftarrow> reconcile rc L K M ctx; record_status rc K ctx (o_CoreStatus (obj s)) r })
    (\<lambda>r t. r = (requeue_after (rc_interval rc (obj s)), None)
      \<and> obj t = obj s \<and> (\<exists>es. events t = events s @ es \<and> list_all read_only es)) s"
    unfolding wp_bind
    by (rule wp_mono [OF settled_reconcile [OF settled resolved read same]], rule wp_mono [OF quiet])
       (use 1 2 in auto)
  then show ?thesis
    using settled
    by (simp add: Reconcile_def wp_simps settled_def addFinalizer_present ctx [symmetric] Let_def)
qed

end

end
