(* ===== verification/ProviderConfig.thy ===== *)
theory ProviderConfig
  imports Resolver Conditions
begin

text \<open>
  The reconcilers of the two provider-configuration kinds: \<open>internal/providerconfig/condition.go\<close>,
  \<open>reconcilers/common_reconciler.go\<close> and the two controllers of
  \<open>internal/controller/resources\<close>. A pass resolves the spec, reports the outcome on the \<open>Ready\<close>
  condition, and writes the status only when it changed.
\<close>

subsection \<open>condition.go\<close>

definition ReasonResolved :: string where
  "ReasonResolved = ''Resolved''"

definition PCConditionReady :: string where
  "PCConditionReady = ''Ready''"

definition conditionReason :: "Base \<Rightarrow> string" where
  "conditionReason failure =
     (if base_code failure \<noteq> CodeUnknown then code_String (base_code failure)
      else code_String CodeReferenceReadFailed)"

text \<open>The versions of one kind, keyed by the text of the object key; a kind without any is left
  out.\<close>

definition observed_versions :: "ref_versions \<Rightarrow> (RefKind, (string, string) fmap) fmap" where
  "observed_versions versions =
     fmap_of_list (map (\<lambda>kind. (kind, fmap_of_list (map (\<lambda>(key, version). (key_String key, version)) (versions kind))))
       (filter (\<lambda>kind. versions kind \<noteq> []) [RefKindSecret, RefKindConfigMap]))"

definition SetConditions :: "klib \<Rightarrow> int \<Rightarrow> int \<Rightarrow> ref_versions \<Rightarrow> go_error option
    \<Rightarrow> ProviderConfigStatus \<Rightarrow> ProviderConfigStatus" where
  "SetConditions K t generation versions resolveErr status =
     (let ready = \<lparr>c_Type = PCConditionReady, c_Status = ConditionTrue, c_ObservedGeneration = generation,
                   c_LastTransitionTime = 0, c_Reason = ReasonResolved,
                   c_Message = ''Endpoint and credential resolved''\<rparr>;
          ready = (case resolveErr of
                     None \<Rightarrow> ready
                   | Some err \<Rightarrow>
                       (case errors_As err of
                          Some failure \<Rightarrow> ready\<lparr>c_Status := ConditionFalse,
                            c_Reason := conditionReason failure, c_Message := base_message failure\<rparr>
                        | None \<Rightarrow> ready\<lparr>c_Status := ConditionFalse,
                            c_Reason := code_String CodeReferenceReadFailed, c_Message := Error err\<rparr>))
      in status\<lparr>pst_Conditions := SetStatusCondition K t (pst_Conditions status) ready,
                pst_ObservedGeneration := generation,
                pst_ObservedRefVersions := observed_versions versions\<rparr>)"

subsection \<open>common_reconciler.go\<close>

definition PC_Reconcile :: "(ProviderConfig, 'w) ports \<Rightarrow> klib \<Rightarrow> (ProviderConfig, 'w) Resolver \<Rightarrow> ctx \<Rightarrow> string
    \<Rightarrow> ((ProviderConfig, 'w) sys, ctrl_Result \<times> go_error option) state" where
  "PC_Reconcile P K RS ctx refNamespace = do {
     config \<leftarrow> get_obj;
     (r, versions) \<leftarrow> rs_Resolve RS ctx refNamespace (pc_Spec config);
     let err = (case r of Inl e \<Rightarrow> Some e | Inr _ \<Rightarrow> None);
     config \<leftarrow> get_obj;
     let observed = pc_Status config;
     t \<leftarrow> time_Now P;
     let status = SetConditions K t (om_Generation (pc_Meta config)) versions err observed;
     modify_obj (\<lambda>o'. o'\<lparr>pc_Status := status\<rparr>);
     if \<not> DeepEqual_PCStatus K observed status then do {
       uerr \<leftarrow> client_StatusUpdate P ctx;
       case uerr of
         Some e \<Rightarrow> State_Monad.return (no_requeue, Some (Errorf_w ''could not update status: '' e))
       | None \<Rightarrow> State_Monad.return (no_requeue, err)
     } else State_Monad.return (no_requeue, err)
   }"

subsection \<open>The controllers\<close>

text \<open>The request's object is fetched into a fresh value; \<open>client.IgnoreNotFound\<close> makes an object
  that is gone no error.\<close>

definition IgnoreNotFound :: "'w reader \<Rightarrow> go_error \<Rightarrow> go_error option" where
  "IgnoreNotFound R err = (if rd_IsNotFound R err then None else Some err)"

definition ProviderConfigReconciler_Reconcile :: "(ProviderConfig, 'w) ports \<Rightarrow> 'w reader \<Rightarrow> klib
    \<Rightarrow> (ProviderConfig, 'w) Resolver \<Rightarrow> ctx \<Rightarrow> ObjectKey
    \<Rightarrow> ((ProviderConfig, 'w) sys, ctrl_Result \<times> go_error option) state" where
  "ProviderConfigReconciler_Reconcile P R K RS ctx req = do {
     r \<leftarrow> reader_get (rd_ProviderConfig R) GvkProviderConfig ctx req;
     case r of
       Inl err \<Rightarrow> State_Monad.return (no_requeue, IgnoreNotFound R err)
     | Inr config \<Rightarrow> do {
         modify_obj (\<lambda>_. config);
         if om_DeletionTimestamp (pc_Meta config) \<noteq> None then State_Monad.return (no_requeue, None)
         else PC_Reconcile P K RS ctx (om_Namespace (pc_Meta config))
       }
   }"

definition ClusterProviderConfigReconciler_Reconcile :: "(ProviderConfig, 'w) ports \<Rightarrow> 'w reader \<Rightarrow> klib
    \<Rightarrow> (ProviderConfig, 'w) Resolver \<Rightarrow> string \<Rightarrow> ctx \<Rightarrow> ObjectKey
    \<Rightarrow> ((ProviderConfig, 'w) sys, ctrl_Result \<times> go_error option) state" where
  "ClusterProviderConfigReconciler_Reconcile P R K RS namespace ctx req = do {
     r \<leftarrow> reader_get (rd_ClusterProviderConfig R) GvkClusterProviderConfig ctx req;
     case r of
       Inl err \<Rightarrow> State_Monad.return (no_requeue, IgnoreNotFound R err)
     | Inr config \<Rightarrow> do {
         modify_obj (\<lambda>_. config);
         if om_DeletionTimestamp (pc_Meta config) \<noteq> None then State_Monad.return (no_requeue, None)
         else PC_Reconcile P K RS ctx namespace
       }
   }"

subsection \<open>What the Ready condition reports\<close>

text \<open>The verdict of a resolution on \<open>Ready\<close>: status, reason and message.\<close>

definition ready_report :: "go_error option \<Rightarrow> ConditionStatus \<times> string \<times> string" where
  "ready_report err =
     (case err of
        None \<Rightarrow> (ConditionTrue, ''Resolved'', ''Endpoint and credential resolved'')
      | Some e \<Rightarrow>
          (case errors_As e of
             Some b \<Rightarrow> (ConditionFalse, conditionReason b, base_message b)
           | None \<Rightarrow> (ConditionFalse, ''ReferenceReadFailed'', Error e)))"

definition pc_reports :: "ProviderConfigStatus \<Rightarrow> int \<Rightarrow> go_error option \<Rightarrow> bool" where
  "pc_reports st generation err \<longleftrightarrow>
     (\<exists>d. find_cond (pst_Conditions st) ''Ready'' = Some d
        \<and> (c_Status d, c_Reason d, c_Message d) = ready_report err \<and> c_ObservedGeneration d = generation)"

context kube_lib
begin

lemma SetConditions_reports:
  "pc_reports (SetConditions K t g versions err st) g err"
proof -
  let ?c = "\<lparr>c_Type = ''Ready'', c_Status = fst (ready_report err), c_ObservedGeneration = g,
     c_LastTransitionTime = 0, c_Reason = fst (snd (ready_report err)), c_Message = snd (snd (ready_report err))\<rparr>"
  have "pst_Conditions (SetConditions K t g versions err st) = SetStatusCondition K t (pst_Conditions st) ?c"
    by (simp add: SetConditions_def ready_report_def PCConditionReady_def ReasonResolved_def
        CodeReferenceReadFailed_def NewCode_def Let_def split: option.split)
  then show ?thesis
    using set_condition_find [of t "pst_Conditions st" ?c]
    by (auto simp: pc_reports_def same_report_def)
qed

lemma SetConditions_stable:
  assumes "pc_reports st g err" and "pst_ObservedGeneration st = g"
    and "pst_ObservedRefVersions st = observed_versions versions"
  shows "SetConditions K t g versions err st = st"
proof -
  obtain d where d: "find_cond (pst_Conditions st) ''Ready'' = Some d"
    "(c_Status d, c_Reason d, c_Message d) = ready_report err" "c_ObservedGeneration d = g"
    using assms(1) by (auto simp: pc_reports_def)
  let ?c = "\<lparr>c_Type = ''Ready'', c_Status = fst (ready_report err), c_ObservedGeneration = g,
     c_LastTransitionTime = 0, c_Reason = fst (snd (ready_report err)), c_Message = snd (snd (ready_report err))\<rparr>"
  have "SetStatusCondition K t (pst_Conditions st) ?c = pst_Conditions st"
    by (rule set_condition_same [of _ _ d])
       (use d find_cond_type [OF d(1)] in \<open>auto simp: same_report_def simp flip: d(2)\<close>)
  moreover have "pst_Conditions (SetConditions K t g versions err st) = SetStatusCondition K t (pst_Conditions st) ?c"
    by (simp add: SetConditions_def ready_report_def PCConditionReady_def ReasonResolved_def
        CodeReferenceReadFailed_def NewCode_def Let_def split: option.split)
  ultimately show ?thesis using assms(2,3) by (simp add: SetConditions_def Let_def)
qed

end

end
