(* ===== verification/Controllers.thy ===== *)
theory Controllers
  imports Convergence ProviderConfig
begin

text \<open>
  The controllers (\<open>internal/controller/resources\<close>) and their wiring in \<open>cmd/main.go\<close>: what a
  reconcile request runs, which index and watches a controller registers, and which requests a
  change of a provider configuration, a Secret or a ConfigMap enqueues.
\<close>

subsection \<open>watches.go\<close>

text \<open>The options of \<open>client.List\<close> the code uses. A list call returns the stored objects that
  match, or fails.\<close>

datatype list_option = MatchingFields string string | InNamespace string

type_synonym 'x lister = "list_option list \<Rightarrow> go_error + 'x list"

definition requestsMatching :: "'x lister \<Rightarrow> ('x \<Rightarrow> ObjectKey) \<Rightarrow> list_option list \<Rightarrow> ObjectKey list" where
  "requestsMatching list_objects key_of opts =
     (case list_objects opts of
        Inl err \<Rightarrow> []
      | Inr items \<Rightarrow> map key_of items)"

subsection \<open>providerconfig_watches.go\<close>

definition providerConfigRefIndex :: string where
  "providerConfigRefIndex = ''.spec.providerConfigRef''"

definition providerConfigRefKey :: "string \<Rightarrow> string \<Rightarrow> string" where
  "providerConfigRefKey kind name =
     (let kind = (if kind = [] then ''ProviderConfig'' else kind)
      in kind @ ''/'' @ name)"

definition indexProviderConfigRef :: "('x \<Rightarrow> ProviderConfigRef) \<Rightarrow> 'x \<Rightarrow> string list" where
  "indexProviderConfigRef ref o' =
     (let r = ref o' in [providerConfigRefKey (ref_Kind r) (ref_Name r)])"

definition enqueueReferencers :: "'x lister \<Rightarrow> ('x \<Rightarrow> ObjectKey) \<Rightarrow> string \<Rightarrow> bool \<Rightarrow> ObjectMeta \<Rightarrow> ObjectKey list" where
  "enqueueReferencers list_objects key_of kind scoped config =
     (let opts = [MatchingFields providerConfigRefIndex (providerConfigRefKey kind (om_Name config))];
          opts = (if scoped then opts @ [InNamespace (om_Namespace config)] else opts)
      in requestsMatching list_objects key_of opts)"

definition watchProviderConfigs :: "'x lister \<Rightarrow> ('x \<Rightarrow> ObjectKey) \<Rightarrow> ObjectMeta \<Rightarrow> ObjectKey list" where
  "watchProviderConfigs list_objects key_of = enqueueReferencers list_objects key_of ''ProviderConfig'' True"

definition watchClusterProviderConfigs :: "'x lister \<Rightarrow> ('x \<Rightarrow> ObjectKey) \<Rightarrow> ObjectMeta \<Rightarrow> ObjectKey list" where
  "watchClusterProviderConfigs list_objects key_of =
     enqueueReferencers list_objects key_of ''ClusterProviderConfig'' False"

subsection \<open>providerconfig_controller.go and clusterproviderconfig_controller.go: watches\<close>

definition secretRefsIndex :: string where
  "secretRefsIndex = ''.spec.secretRefs''"

definition configMapRefsIndex :: string where
  "configMapRefsIndex = ''.spec.configMapRefs''"

text \<open>The values the two field indexes of a provider configuration hold, by index name.\<close>

definition pc_index :: "string \<Rightarrow> ProviderConfig \<Rightarrow> string list" where
  "pc_index field config =
     (if field = secretRefsIndex then SecretNames (pc_Spec config)
      else if field = configMapRefsIndex then ConfigMapNames (pc_Spec config)
      else [])"

definition ObjectKeyFromObject :: "ObjectMeta \<Rightarrow> ObjectKey" where
  "ObjectKeyFromObject m = \<lparr>key_Namespace = om_Namespace m, key_Name = om_Name m\<rparr>"

definition ProviderConfig_watchReferences :: "ProviderConfig lister \<Rightarrow> string \<Rightarrow> ObjectMeta \<Rightarrow> ObjectKey list" where
  "ProviderConfig_watchReferences list_objects indexField obj' =
     requestsMatching list_objects (\<lambda>c. ObjectKeyFromObject (pc_Meta c))
       [InNamespace (om_Namespace obj'), MatchingFields indexField (om_Name obj')]"

definition ClusterProviderConfig_watchReferences :: "string \<Rightarrow> ProviderConfig lister \<Rightarrow> string \<Rightarrow> ObjectMeta
    \<Rightarrow> ObjectKey list" where
  "ClusterProviderConfig_watchReferences namespace list_objects indexField obj' =
     (if om_Namespace obj' \<noteq> namespace then []
      else requestsMatching list_objects (\<lambda>c. ObjectKeyFromObject (pc_Meta c))
             [MatchingFields indexField (om_Name obj')])"

text \<open>\<open>SetupWithManager\<close> of the cluster-scoped kind refuses an empty operator namespace.\<close>

definition ClusterProviderConfig_SetupWithManager :: "string \<Rightarrow> go_error option" where
  "ClusterProviderConfig_SetupWithManager namespace =
     (if namespace = [] then Some (PlainErr ''operator namespace is required to resolve ClusterProviderConfig references'')
      else None)"

subsection \<open>The generated controllers\<close>

text \<open>A controller: its name, what it runs for a request, the index it registers and the requests
  its two watches produce.\<close>

record ('t, 'w) controller =
  ct_Name :: string
  ct_Reconcile :: "ctx \<Rightarrow> ObjectKey \<Rightarrow> ('t, 'w) pass"
  ct_Index :: "'t resource \<Rightarrow> string list"
  ct_WatchProviderConfig :: "ObjectMeta \<Rightarrow> ObjectKey list"
  ct_WatchClusterProviderConfig :: "ObjectMeta \<Rightarrow> ObjectKey list"

text \<open>What the manager's client offers a controller for its kind: reading one object, listing them,
  and telling a not-found error.\<close>

record ('t, 'w) kind_client =
  kc_Get :: "ctx \<Rightarrow> ObjectKey \<Rightarrow> 'w \<Rightarrow> (go_error + 't resource) \<times> 'w"
  kc_List :: "'t resource lister"
  kc_IsNotFound :: "go_error \<Rightarrow> bool"

definition controller_Reconcile :: "('t, 'w) kind_client \<Rightarrow> string \<Rightarrow> ('t, 'w) commonReconciler \<Rightarrow> libs \<Rightarrow> klib
    \<Rightarrow> 't Object \<Rightarrow> ctx \<Rightarrow> ObjectKey \<Rightarrow> ('t, 'w) pass" where
  "controller_Reconcile kc kind rc L K M ctx req = do {
     r \<leftarrow> reader_get (kc_Get kc) (GvkKind kind) ctx req;
     case r of
       Inl err \<Rightarrow> State_Monad.return (no_requeue, if kc_IsNotFound kc err then None else Some err)
     | Inr o' \<Rightarrow> do {
         modify_obj (\<lambda>_. o');
         Reconcile rc L K M ctx
       }
   }"

definition controller_of :: "('t, 'w) kind_client \<Rightarrow> string \<Rightarrow> string \<Rightarrow> ('t, 'w) commonReconciler \<Rightarrow> libs \<Rightarrow> klib
    \<Rightarrow> 't Object \<Rightarrow> ('t, 'w) controller" where
  "controller_of kc kind name rc L K M = \<lparr>
     ct_Name = name,
     ct_Reconcile = controller_Reconcile kc kind rc L K M,
     ct_Index = indexProviderConfigRef (\<lambda>o'. cs_ProviderConfigRef (o_CoreSpec o')),
     ct_WatchProviderConfig = watchProviderConfigs (kc_List kc) (\<lambda>o'. ObjectKeyFromObject (o_Meta o')),
     ct_WatchClusterProviderConfig = watchClusterProviderConfigs (kc_List kc) (\<lambda>o'. ObjectKeyFromObject (o_Meta o'))\<rparr>"

definition UserReconciler :: "('t, 'w) kind_client \<Rightarrow> ('t, 'w) commonReconciler \<Rightarrow> libs \<Rightarrow> klib
    \<Rightarrow> ('t \<Rightarrow> go_error + string) \<Rightarrow> ('t, 'w) controller" where
  "UserReconciler kc rc L K ms = controller_of kc ''User'' ''resources-user'' rc L K (UserObject L ms)"

definition AuthDomainReconciler :: "('t, 'w) kind_client \<Rightarrow> ('t, 'w) commonReconciler \<Rightarrow> libs \<Rightarrow> klib
    \<Rightarrow> ('t \<Rightarrow> go_error + string) \<Rightarrow> ('t, 'w) controller" where
  "AuthDomainReconciler kc rc L K ms =
     controller_of kc ''AuthDomain'' ''resources-authdomain'' rc L K (AuthDomainObject L ms)"

definition DashboardReconciler :: "('t, 'w) kind_client \<Rightarrow> ('t, 'w) commonReconciler \<Rightarrow> libs \<Rightarrow> klib
    \<Rightarrow> ('t \<Rightarrow> go_error + string) \<Rightarrow> ('t, 'w) controller" where
  "DashboardReconciler kc rc L K ms =
     controller_of kc ''Dashboard'' ''resources-dashboard'' rc L K (DashboardObject L ms)"

definition SavedViewReconciler :: "('t, 'w) kind_client \<Rightarrow> ('t, 'w) commonReconciler \<Rightarrow> libs \<Rightarrow> klib
    \<Rightarrow> ('t \<Rightarrow> go_error + string) \<Rightarrow> ('t, 'w) controller" where
  "SavedViewReconciler kc rc L K ms =
     controller_of kc ''SavedView'' ''resources-savedview'' rc L K (SavedViewObject L ms)"

definition PlannedMaintenanceReconciler :: "('t, 'w) kind_client \<Rightarrow> ('t, 'w) commonReconciler \<Rightarrow> libs \<Rightarrow> klib
    \<Rightarrow> ('t \<Rightarrow> go_error + string) \<Rightarrow> ('t, 'w) controller" where
  "PlannedMaintenanceReconciler kc rc L K ms =
     controller_of kc ''PlannedMaintenance'' ''resources-plannedmaintenance'' rc L K (PlannedMaintenanceObject L ms)"

definition RoleReconciler :: "('t, 'w) kind_client \<Rightarrow> ('t, 'w) commonReconciler \<Rightarrow> libs \<Rightarrow> klib
    \<Rightarrow> ('t \<Rightarrow> go_error + string) \<Rightarrow> ('t, 'w) controller" where
  "RoleReconciler kc rc L K ms = controller_of kc ''Role'' ''resources-role'' rc L K (RoleObject L ms)"

definition RoutePolicyReconciler :: "('t, 'w) kind_client \<Rightarrow> ('t, 'w) commonReconciler \<Rightarrow> libs \<Rightarrow> klib
    \<Rightarrow> ('t \<Rightarrow> go_error + string) \<Rightarrow> ('t, 'w) controller" where
  "RoutePolicyReconciler kc rc L K ms =
     controller_of kc ''RoutePolicy'' ''resources-routepolicy'' rc L K (RoutePolicyObject L ms)"

definition RuleReconciler :: "('t, 'w) kind_client \<Rightarrow> ('t, 'w) commonReconciler \<Rightarrow> libs \<Rightarrow> klib
    \<Rightarrow> ('t \<Rightarrow> go_error + string) \<Rightarrow> ('t, 'w) controller" where
  "RuleReconciler kc rc L K ms = controller_of kc ''Rule'' ''resources-rule'' rc L K (RuleObject L ms)"

definition ServiceAccountReconciler :: "('t, 'w) kind_client \<Rightarrow> ('t, 'w) commonReconciler \<Rightarrow> libs \<Rightarrow> klib
    \<Rightarrow> ('t \<Rightarrow> go_error + string) \<Rightarrow> ('t, 'w) controller" where
  "ServiceAccountReconciler kc rc L K ms =
     controller_of kc ''ServiceAccount'' ''resources-serviceaccount'' rc L K (ServiceAccountObject L ms)"

definition NotificationChannelReconciler :: "('t, 'w) kind_client \<Rightarrow> ('t, 'w) commonReconciler \<Rightarrow> libs \<Rightarrow> klib
    \<Rightarrow> ('t \<Rightarrow> go_error + string) \<Rightarrow> ('t, 'w) controller" where
  "NotificationChannelReconciler kc rc L K ms =
     controller_of kc ''NotificationChannel'' ''resources-notificationchannel'' rc L K (NotificationChannelObject L ms)"

subsection \<open>The wiring of cmd/main.go\<close>

text \<open>What \<open>run\<close> hands every controller, from the manager and the command line: the client, the
  reader under the resolver, the libraries, the default durations and the operator's namespace.\<close>

record ('t, 'w) operator =
  op_client :: "('t resource, 'w) ports"
  op_reader :: "'w reader"
  op_libs :: libs
  op_klib :: klib
  op_interval :: duration
  op_retryInterval :: duration
  op_timeout :: duration
  op_namespace :: string
  op_marshal :: "'t \<Rightarrow> go_error + string"

fun adapter_for :: "Kind \<Rightarrow> ('t resource, 'w) ports \<Rightarrow> libs \<Rightarrow> ('t, 'w) Adapter" where
  "adapter_for User P L = UserAdapter P L"
| "adapter_for AuthDomain P L = AuthDomainAdapter P L"
| "adapter_for Dashboard P L = DashboardAdapter P L"
| "adapter_for SavedView P L = SavedViewAdapter P L"
| "adapter_for PlannedMaintenance P L = PlannedMaintenanceAdapter P L"
| "adapter_for Role P L = RoleAdapter P L"
| "adapter_for RoutePolicy P L = RoutePolicyAdapter P L"
| "adapter_for Rule P L = RuleAdapter P L"
| "adapter_for ServiceAccount P L = ServiceAccountAdapter P L"
| "adapter_for NotificationChannel P L = NotificationChannelAdapter P L"

text \<open>\<open>run\<close> builds one common reconciler per kind, all on the same client and resolver.\<close>

definition run_reconciler :: "('t, 'w) operator \<Rightarrow> Kind \<Rightarrow> ('t, 'w) commonReconciler" where
  "run_reconciler op kind =
     NewCommonReconciler (op_client op) (CachedResolver (op_libs op) (op_reader op))
       (adapter_for kind (op_client op) (op_libs op))
       (op_interval op) (op_retryInterval op) (op_timeout op) (op_namespace op)"

fun run_controller :: "('t, 'w) operator \<Rightarrow> ('t, 'w) kind_client \<Rightarrow> Kind \<Rightarrow> ('t, 'w) controller" where
  "run_controller op kc User =
     UserReconciler kc (run_reconciler op User) (op_libs op) (op_klib op) (op_marshal op)"
| "run_controller op kc AuthDomain =
     AuthDomainReconciler kc (run_reconciler op AuthDomain) (op_libs op) (op_klib op) (op_marshal op)"
| "run_controller op kc Dashboard =
     DashboardReconciler kc (run_reconciler op Dashboard) (op_libs op) (op_klib op) (op_marshal op)"
| "run_controller op kc SavedView =
     SavedViewReconciler kc (run_reconciler op SavedView) (op_libs op) (op_klib op) (op_marshal op)"
| "run_controller op kc PlannedMaintenance =
     PlannedMaintenanceReconciler kc (run_reconciler op PlannedMaintenance) (op_libs op) (op_klib op) (op_marshal op)"
| "run_controller op kc Role =
     RoleReconciler kc (run_reconciler op Role) (op_libs op) (op_klib op) (op_marshal op)"
| "run_controller op kc RoutePolicy =
     RoutePolicyReconciler kc (run_reconciler op RoutePolicy) (op_libs op) (op_klib op) (op_marshal op)"
| "run_controller op kc Rule =
     RuleReconciler kc (run_reconciler op Rule) (op_libs op) (op_klib op) (op_marshal op)"
| "run_controller op kc ServiceAccount =
     ServiceAccountReconciler kc (run_reconciler op ServiceAccount) (op_libs op) (op_klib op) (op_marshal op)"
| "run_controller op kc NotificationChannel =
     NotificationChannelReconciler kc (run_reconciler op NotificationChannel) (op_libs op) (op_klib op) (op_marshal op)"

text \<open>One pass of the controller of a kind over the object in the state.\<close>

definition pass_of :: "('t, 'w) operator \<Rightarrow> Kind \<Rightarrow> ctx \<Rightarrow> ('t, 'w) pass" where
  "pass_of op kind ctx = Reconcile (run_reconciler op kind) (op_libs op) (op_klib op)
     (object_for kind (op_libs op) (op_marshal op)) ctx"

subsection \<open>The contracts, for every kind\<close>

lemma adapter_for_contract: "adapter_contract (adapter_for kind P L)"
  by (cases kind)
     (simp_all add: user_adapter.adapter_contract_axioms savedview_adapter.adapter_contract_axioms
        authdomain_adapter.adapter_contract_axioms plannedmaintenance_adapter.adapter_contract_axioms
        role_adapter.adapter_contract_axioms routepolicy_adapter.adapter_contract_axioms
        rule_adapter.adapter_contract_axioms serviceaccount_adapter.adapter_contract_axioms
        dashboard_adapter.adapter_contract_axioms notificationchannel_adapter.adapter_contract_axioms)

lemma run_reconciler_sel [simp]:
  "rc_client (run_reconciler op kind) = op_client op"
  "rc_resolver (run_reconciler op kind) = CachedResolver (op_libs op) (op_reader op)"
  "rc_adapter (run_reconciler op kind) = adapter_for kind (op_client op) (op_libs op)"
  "rc_defaultInterval (run_reconciler op kind) = op_interval op"
  "rc_defaultRetryInterval (run_reconciler op kind) = op_retryInterval op"
  "rc_defaultTimeout (run_reconciler op kind) = op_timeout op"
  "rc_requeueAfterOnNotFound (run_reconciler op kind) = second"
  "rc_operatorNamespace (run_reconciler op kind) = op_namespace op"
  by (simp_all add: run_reconciler_def NewCommonReconciler_def)

text \<open>Every kind, over any client, reader, libraries and durations; what is reported rests on the
  helpers of apimachinery behaving as documented.\<close>

interpretation kinds: reconciler_calls "run_reconciler op kind" "object_for kind L ms" for op kind L ms
  by (simp add: reconciler_calls_def adapter_for_contract object_for_contract cached.resolver_contract_axioms)

lemma kind_pass: "kube_lib K \<Longrightarrow> reconciler_pass K (run_reconciler op kind) (object_for kind L ms)"
  by (simp add: reconciler_pass_def kinds.reconciler_calls_axioms)

interpretation kind_passes: reconciler_pass ref_klib "run_reconciler op kind" "object_for kind L ms" for op kind L ms
  by (rule kind_pass) (rule refk.kube_lib_axioms)

fun kind_name :: "Kind \<Rightarrow> string" where
  "kind_name User = ''User''"
| "kind_name AuthDomain = ''AuthDomain''"
| "kind_name Dashboard = ''Dashboard''"
| "kind_name SavedView = ''SavedView''"
| "kind_name PlannedMaintenance = ''PlannedMaintenance''"
| "kind_name Role = ''Role''"
| "kind_name RoutePolicy = ''RoutePolicy''"
| "kind_name Rule = ''Rule''"
| "kind_name ServiceAccount = ''ServiceAccount''"
| "kind_name NotificationChannel = ''NotificationChannel''"

lemmas reconciler_defs = UserReconciler_def AuthDomainReconciler_def DashboardReconciler_def SavedViewReconciler_def
  PlannedMaintenanceReconciler_def RoleReconciler_def RoutePolicyReconciler_def RuleReconciler_def
  ServiceAccountReconciler_def NotificationChannelReconciler_def

lemma run_controller_eq:
  "\<exists>name. run_controller op kc kind = controller_of kc (kind_name kind) name (run_reconciler op kind) (op_libs op)
     (op_klib op) (object_for kind (op_libs op) (op_marshal op))"
  by (cases kind) (auto simp: reconciler_defs)

subsection \<open>Who is enqueued\<close>

text \<open>What the cache behind \<open>client.List\<close> documents: a list returns the stored objects that match
  every option, a field option being looked up in the registered index.\<close>

fun matches_option :: "(string \<Rightarrow> 'x \<Rightarrow> string list) \<Rightarrow> ('x \<Rightarrow> ObjectMeta) \<Rightarrow> list_option \<Rightarrow> 'x \<Rightarrow> bool" where
  "matches_option index meta (MatchingFields field v) o' = (v \<in> set (index field o'))"
| "matches_option index meta (InNamespace ns) o' = (om_Namespace (meta o') = ns)"

locale indexed_lister =
  fixes list_objects :: "'x lister" and index :: "string \<Rightarrow> 'x \<Rightarrow> string list" and meta :: "'x \<Rightarrow> ObjectMeta"
    and stored :: "'x set"
  assumes list_all_matching: "\<exists>items. list_objects opts = Inr items
    \<and> set items = {o' \<in> stored. \<forall>opt \<in> set opts. matches_option index meta opt o'}"
begin

lemma requests_iff:
  "key \<in> set (requestsMatching list_objects (\<lambda>o'. ObjectKeyFromObject (meta o')) opts) \<longleftrightarrow>
     (\<exists>o' \<in> stored. ObjectKeyFromObject (meta o') = key \<and> (\<forall>opt \<in> set opts. matches_option index meta opt o'))"
  using list_all_matching [of opts] by (auto simp: requestsMatching_def)

end

text \<open>A store held as a list, with the index registered by the controllers.\<close>

definition list_stored :: "(string \<Rightarrow> 'x \<Rightarrow> string list) \<Rightarrow> ('x \<Rightarrow> ObjectMeta) \<Rightarrow> 'x list \<Rightarrow> 'x lister" where
  "list_stored index meta objs opts = Inr (filter (\<lambda>o'. list_all (\<lambda>opt. matches_option index meta opt o') opts) objs)"

interpretation stored_lister: indexed_lister "list_stored index meta objs" index meta "set objs" for index meta objs
  by unfold_locales (auto simp: list_stored_def list_all_iff)

text \<open>The index of a mirrored kind, by index name.\<close>

definition resource_index :: "string \<Rightarrow> 't resource \<Rightarrow> string list" where
  "resource_index field o' =
     (if field = providerConfigRefIndex
      then indexProviderConfigRef (\<lambda>o'. cs_ProviderConfigRef (o_CoreSpec o')) o' else [])"

lemma refKey_inj:
  assumes "CHR ''/'' \<notin> set k" and "CHR ''/'' \<notin> set k'" and "k @ ''/'' @ n = k' @ ''/'' @ n'"
  shows "k = k' \<and> n = n'"
  using assms
proof (induction k arbitrary: k')
  case Nil
  then show ?case by (cases k') auto
next
  case (Cons c k)
  then show ?case by (cases k') auto
qed

text \<open>The provider configuration a resource's pass reads: kind, namespace and name.\<close>

definition refers_to :: "'t resource \<Rightarrow> gvk \<Rightarrow> ObjectKey \<Rightarrow> bool" where
  "refers_to o' kind key \<longleftrightarrow>
     (let ref = cs_ProviderConfigRef (o_CoreSpec o')
      in if ref_Kind ref = [] \<or> ref_Kind ref = ''ProviderConfig''
         then kind = GvkProviderConfig \<and> key = \<lparr>key_Namespace = om_Namespace (o_Meta o'), key_Name = ref_Name ref\<rparr>
         else if ref_Kind ref = ''ClusterProviderConfig''
         then kind = GvkClusterProviderConfig \<and> key = \<lparr>key_Namespace = [], key_Name = ref_Name ref\<rparr>
         else False)"

lemma ResolveRef_reads:
  fixes R :: "'w reader" and s :: "('o, 'w) sys"
  assumes "refers_to o' kind key"
  shows "wp (ResolveRef L R ctx (cs_ProviderConfigRef (o_CoreSpec o')) (om_Namespace (o_Meta o')) ons)
    (\<lambda>_ t. \<exists>b es. events t = events s @ EvGet kind key b # es) s"
proof -
  have "wp (Resolve L R ctx ns spec) (\<lambda>_ t. \<exists>es. events t = events u @ es) u" for ns spec and u :: "('o, 'w) sys"
    by (rule wp_mono [OF emitsD [OF Resolve_emits]]) blast
  note rest = this
  show ?thesis
    using assms
    by (auto simp: ResolveRef_def refers_to_def wp_simps Let_def split: if_splits sum.split prod.split
        intro!: wp_mono [OF rest])
qed

end
