(* ===== verification/Runs.thy ===== *)
theory Runs
  imports Controllers "HOL-Library.Sublist"
begin

text \<open>
  The history of one resource over many passes. A pass may be cut short after any of its calls,
  as when the operator is killed or its timeout fires, and the next one starts from whatever
  object and outside it finds. controller-runtime never runs two passes over one resource at a
  time, so the history is a concatenation of such prefixes.
\<close>

subsection \<open>Histories\<close>

inductive history :: "('t, 'w) operator \<Rightarrow> Kind \<Rightarrow> 't resource event list \<Rightarrow> bool" for op kind where
  history_Nil: "history op kind []"
| history_pass: "history op kind es \<Longrightarrow> events s = [] \<Longrightarrow> run_state (pass_of op kind ctx) s = (r, t) \<Longrightarrow>
    prefix ds (events t) \<Longrightarrow> history op kind (es @ ds)"

inductive_simps history_empty_iff: "history op kind []"

text \<open>In a history, each create request directly follows a patch that recorded the attempt.\<close>

fun write_ahead_log :: "'t resource event list \<Rightarrow> bool" where
  "write_ahead_log [] = True"
| "write_ahead_log [e] = (\<not> sends ''POST'' e)"
| "write_ahead_log (w # e # es) = (\<not> sends ''POST'' w \<and>
     (if sends ''POST'' e then write_ahead w \<and> write_ahead_log es else write_ahead_log (e # es)))"

lemma write_ahead_not_post: "write_ahead e \<Longrightarrow> \<not> sends ''POST'' e"
  by (auto simp: write_ahead_def)

lemma write_ahead_log_quiet: "list_all (\<lambda>e. \<not> sends ''POST'' e) es \<Longrightarrow> write_ahead_log es"
  by (induction es rule: write_ahead_log.induct) auto

lemma write_ahead_log_hd: "write_ahead_log (e # es) \<Longrightarrow> \<not> sends ''POST'' e"
  by (cases es) simp_all

lemma write_ahead_log_append: "write_ahead_log es \<Longrightarrow> write_ahead_log es' \<Longrightarrow> write_ahead_log (es @ es')"
proof (induction es rule: write_ahead_log.induct)
  case (2 e)
  then show ?case by (cases es') (auto dest: write_ahead_log_hd)
next
  case (3 w e es)
  then show ?case by (cases "sends ''POST'' e") auto
qed simp

lemma write_ahead_log_take: "write_ahead_log es \<Longrightarrow> write_ahead_log (take n es)"
proof (induction es arbitrary: n rule: write_ahead_log.induct)
  case (2 e)
  then show ?case by (cases n) auto
next
  case (3 w e es)
  show ?case
  proof (cases n)
    case (Suc m)
    then show ?thesis using 3 "3.IH"(2) [of m] by (cases m) (auto split: if_splits)
  qed simp
qed simp

lemma guarded_create_log: "guarded_create es \<Longrightarrow> write_ahead_log es"
  unfolding guarded_create_def
proof (elim disjE exE conjE)
  fix before w p after
  assume es: "es = before @ [w, p] @ after" "write_ahead w" "sends ''POST'' p"
    and quiet: "list_all (\<lambda>e. \<not> sends ''POST'' e) before" "list_all (\<lambda>e. \<not> sends ''POST'' e) after"
  have "write_ahead_log ([w, p] @ after)"
    using es quiet write_ahead_not_post by (simp add: write_ahead_log_quiet)
  then show "write_ahead_log es"
    unfolding es(1) by (rule write_ahead_log_append [OF write_ahead_log_quiet [OF quiet(1)]])
qed (rule write_ahead_log_quiet)

lemma prefix_log: "prefix p es \<Longrightarrow> write_ahead_log es \<Longrightarrow> write_ahead_log p"
  by (metis write_ahead_log_take prefix_def append_eq_conv_conj)

lemma pass_guarded: "trace_sat guarded_create (pass_of op kind ctx)"
  unfolding pass_of_def by (rule kinds.Reconcile_posts)

lemma history_log: "history op kind es \<Longrightarrow> write_ahead_log es"
proof (induction rule: history.induct)
  case (history_pass es s ctx r t d)
  have "guarded_create (events t)"
    using pass_guarded [of op kind ctx] history_pass(2,3) by (auto simp: trace_sat_def wp_def dest: spec [of _ s])
  then show ?case
    using history_pass by (blast intro: write_ahead_log_append prefix_log guarded_create_log)
qed simp

end
