(* ===== verification/Config.thy ===== *)
theory Config
  imports Controllers
begin

text \<open>
  The operator's configuration: the flags and the options built from them (\<open>cmd/config.go\<close>), the
  merge of flags with the environment (\<open>internal/config/config.go\<close>), and the logger
  (\<open>internal/instrumentation/logger.go\<close>).
\<close>

subsection \<open>cmd/config.go\<close>

record config =
  cf_LogLevel :: string
  cf_MetricsBindAddress :: string
  cf_HealthProbeBindAddress :: string
  cf_LeaderElect :: bool
  cf_MetricsSecure :: bool
  cf_WebhookCertPath :: string
  cf_WebhookCertName :: string
  cf_WebhookCertKey :: string
  cf_MetricsCertPath :: string
  cf_MetricsCertName :: string
  cf_MetricsCertKey :: string
  cf_EnableHTTP2 :: bool
  cf_DefaultResourcesInterval :: duration
  cf_DefaultResourcesRetryInterval :: duration
  cf_DefaultResourcesTimeout :: duration
  cf_WatchNamespaces :: "string list"
  cf_OperatorNamespace :: string

text \<open>\<open>RegisterFlags\<close>: the value of each field before any flag or variable is read.\<close>

definition RegisterFlags :: config where
  "RegisterFlags = \<lparr>
     cf_LogLevel = ''info'', cf_MetricsBindAddress = ''0'', cf_HealthProbeBindAddress = '':8081'',
     cf_LeaderElect = False, cf_MetricsSecure = True,
     cf_WebhookCertPath = [], cf_WebhookCertName = ''tls.crt'', cf_WebhookCertKey = ''tls.key'',
     cf_MetricsCertPath = [], cf_MetricsCertName = ''tls.crt'', cf_MetricsCertKey = ''tls.key'',
     cf_EnableHTTP2 = False,
     cf_DefaultResourcesInterval = 10 * 60 * second,
     cf_DefaultResourcesRetryInterval = 60 * second,
     cf_DefaultResourcesTimeout = 30 * second,
     cf_WatchNamespaces = [], cf_OperatorNamespace = []\<rparr>"

text \<open>\<open>parse_level\<close> is \<open>zapcore.ParseLevel\<close>; a logger is the level it was built with.\<close>

definition NewLoggerWithZap :: "(string \<Rightarrow> go_error + 'l) \<Rightarrow> (string \<Rightarrow> string) \<Rightarrow> string \<Rightarrow> go_error + 'l" where
  "NewLoggerWithZap parse_level quote lvl =
     (case parse_level lvl of
        Inl err \<Rightarrow> Inl (Errorf_w (''level '' @ quote lvl @ '' is not a valid level: '') err)
      | Inr level \<Rightarrow> Inr level)"

definition buildLogger :: "(string \<Rightarrow> go_error + 'l) \<Rightarrow> (string \<Rightarrow> string) \<Rightarrow> config \<Rightarrow> go_error option" where
  "buildLogger parse_level quote c =
     (case NewLoggerWithZap parse_level quote (cf_LogLevel c) of Inl err \<Rightarrow> Some err | Inr _ \<Rightarrow> None)"

definition buildConfig :: "(string \<Rightarrow> go_error + 'l) \<Rightarrow> (string \<Rightarrow> string) \<Rightarrow> config \<Rightarrow> go_error option" where
  "buildConfig parse_level quote c =
     (case buildLogger parse_level quote c of
        Some err \<Rightarrow> Some err
      | None \<Rightarrow>
          if strings_TrimSpace (cf_OperatorNamespace c) = []
          then Some (PlainErr (''--operator-namespace is required: a ClusterProviderConfig''
            @ [CHR 0x27] @ ''s Secret and ConfigMap references resolve there''))
          else None)"

text \<open>The options of the two servers: each TLS option is the protocol list it sets.\<close>

record server_options =
  so_BindAddress :: string
  so_SecureServing :: bool
  so_TLSOpts :: "string list list"
  so_CertDir :: string
  so_CertName :: string
  so_KeyName :: string

definition http2_opts :: "config \<Rightarrow> string list list" where
  "http2_opts c = (if \<not> cf_EnableHTTP2 c then [[''http/1.1'']] else [])"

definition buildWebhookServerOptions :: "config \<Rightarrow> server_options" where
  "buildWebhookServerOptions c =
     (let o0 = \<lparr>so_BindAddress = [], so_SecureServing = False, so_TLSOpts = http2_opts c,
                so_CertDir = [], so_CertName = [], so_KeyName = []\<rparr>
      in if length (cf_WebhookCertPath c) > 0
         then o0\<lparr>so_CertDir := cf_WebhookCertPath c, so_CertName := cf_WebhookCertName c,
                 so_KeyName := cf_WebhookCertKey c\<rparr>
         else o0)"

definition buildMetricsServerOptions :: "config \<Rightarrow> server_options" where
  "buildMetricsServerOptions c =
     (let o0 = \<lparr>so_BindAddress = cf_MetricsBindAddress c, so_SecureServing = cf_MetricsSecure c,
                so_TLSOpts = http2_opts c, so_CertDir = [], so_CertName = [], so_KeyName = []\<rparr>
      in if length (cf_MetricsCertPath c) > 0
         then o0\<lparr>so_CertDir := cf_MetricsCertPath c, so_CertName := cf_MetricsCertName c,
                 so_KeyName := cf_MetricsCertKey c\<rparr>
         else o0)"

text \<open>The namespaces the cache is limited to, \<open>None\<close> for all of them.\<close>

definition buildCacheOptions :: "config \<Rightarrow> string list option" where
  "buildCacheOptions c =
     (if cf_WatchNamespaces c = [] then None
      else
        (let namespaces = foldl (\<lambda>acc ns.
               let ns = strings_TrimSpace ns
               in if ns \<noteq> [] then List.insert ns acc else acc) [] (cf_WatchNamespaces c)
         in Some (List.insert (cf_OperatorNamespace c) namespaces)))"

text \<open>The part of \<open>run\<close> that hands the configuration to the reconcilers.\<close>

definition run_operator :: "config \<Rightarrow> ('t resource, 'w) ports \<Rightarrow> 'w reader \<Rightarrow> libs \<Rightarrow> klib \<Rightarrow> ('t \<Rightarrow> go_error + string)
    \<Rightarrow> ('t, 'w) operator" where
  "run_operator c P R L K ms = \<lparr>op_client = P, op_reader = R, op_libs = L, op_klib = K,
     op_interval = cf_DefaultResourcesInterval c, op_retryInterval = cf_DefaultResourcesRetryInterval c,
     op_timeout = cf_DefaultResourcesTimeout c, op_namespace = cf_OperatorNamespace c, op_marshal = ms\<rparr>"

subsection \<open>internal/config/config.go\<close>

record flag =
  fl_Name :: string
  fl_Changed :: bool
  fl_Value :: string

definition ToUpper :: "string \<Rightarrow> string" where
  "ToUpper s = map upper_char s"

definition env_name :: "string \<Rightarrow> string \<Rightarrow> string" where
  "env_name prefix name =
     map (\<lambda>c. if c = CHR ''-'' then CHR ''_'' else c) (ToUpper (prefix @ ''_'' @ name))"

text \<open>\<open>viper\<close> gives the value set for a flag in the environment; \<open>set_flag\<close> is the flag's own parser,
  an error when it rejects the text.\<close>

fun visit_flags :: "(string \<rightharpoonup> string) \<Rightarrow> (string \<Rightarrow> string \<Rightarrow> go_error option) \<Rightarrow> string \<Rightarrow> flag list
    \<Rightarrow> flag list \<times> go_error list" where
  "visit_flags viper set_flag prefix [] = ([], [])"
| "visit_flags viper set_flag prefix (f # fs) =
     (let (fs', errs) = visit_flags viper set_flag prefix fs
      in if \<not> fl_Changed f \<and> viper (fl_Name f) \<noteq> None then
           (let val = the (viper (fl_Name f))
            in case set_flag (fl_Name f) val of
                 Some err \<Rightarrow> (f # fs', Errorf_w (env_name prefix (fl_Name f) @ '': '') err # errs)
               | None \<Rightarrow> (f\<lparr>fl_Value := val, fl_Changed := True\<rparr> # fs', errs))
         else (f # fs', errs))"

definition errors_Join :: "go_error list \<Rightarrow> go_error option" where
  "errors_Join errs =
     (if errs = [] then None else Some (PlainErr (strings_Join (map Error errs) [char_of (10 :: nat)])))"

definition config_Set :: "(string \<rightharpoonup> string) \<Rightarrow> (string \<Rightarrow> string \<Rightarrow> go_error option) \<Rightarrow> string \<Rightarrow> flag list
    \<Rightarrow> flag list \<times> go_error option" where
  "config_Set viper set_flag prefix fs =
     (let prefix = strings_TrimSpace prefix;
          (fs', errs) = visit_flags viper set_flag prefix fs
      in (fs', errors_Join errs))"

subsection \<open>internal/instrumentation/logger.go\<close>

text \<open>The text after the last slash, then after the first dot, without the marks of a pointer
  receiver.\<close>

definition after_last :: "char \<Rightarrow> string \<Rightarrow> string" where
  "after_last c s = (if c \<in> set s then rev (takeWhile (\<lambda>d. d \<noteq> c) (rev s)) else s)"

definition after_first :: "char \<Rightarrow> string \<Rightarrow> string" where
  "after_first c s = (if c \<in> set s then tl (dropWhile (\<lambda>d. d \<noteq> c) s) else s)"

definition logger_name :: "string \<Rightarrow> string" where
  "logger_name name = filter (\<lambda>c. c \<notin> {CHR ''('', CHR ''*'', CHR '')''})
     (after_first (CHR ''.'') (after_last (CHR ''/'') name))"

definition LoggerFromContext :: "string list \<Rightarrow> string option \<Rightarrow> string list" where
  "LoggerFromContext logger caller =
     (case caller of None \<Rightarrow> logger | Some name \<Rightarrow> logger @ [logger_name name])"

subsection \<open>Facts\<close>

lemma visit_flags_keep:
  "visit_flags viper set_flag prefix fs = (fs', errs) \<Longrightarrow> map fl_Name fs' = map fl_Name fs"
  by (induction fs arbitrary: fs' errs) (auto simp: Let_def split: prod.splits if_splits option.splits)

text \<open>A flag given on the command line keeps its value; one that is not takes the value of the
  environment when its parser accepts it, and its own otherwise.\<close>

fun merged :: "(string \<rightharpoonup> string) \<Rightarrow> (string \<Rightarrow> string \<Rightarrow> go_error option) \<Rightarrow> flag \<Rightarrow> string" where
  "merged viper set_flag f =
     (if fl_Changed f then fl_Value f
      else (case viper (fl_Name f) of
              None \<Rightarrow> fl_Value f
            | Some v \<Rightarrow> if set_flag (fl_Name f) v = None then v else fl_Value f))"

lemma visit_flags_merged:
  "map fl_Value (fst (visit_flags viper set_flag prefix fs)) = map (merged viper set_flag) fs"
  by (induction fs) (auto simp: Let_def split: prod.splits option.splits)

lemma visit_flags_errors:
  "snd (visit_flags viper set_flag prefix fs) = [] \<longleftrightarrow>
     (\<forall>f \<in> set fs. \<not> fl_Changed f \<longrightarrow> (\<forall>v. viper (fl_Name f) = Some v \<longrightarrow> set_flag (fl_Name f) v = None))"
  by (induction fs) (auto simp: Let_def split: prod.splits option.splits)

lemma watched_namespaces_fold:
  "set (foldl (\<lambda>acc ns. let ns = strings_TrimSpace ns in if ns \<noteq> [] then List.insert ns acc else acc) acc nss)
     = set acc \<union> {strings_TrimSpace ns | ns. ns \<in> set nss \<and> strings_TrimSpace ns \<noteq> []}"
  by (induction nss arbitrary: acc) (auto simp: Let_def)

lemma buildCacheOptions_set:
  "buildCacheOptions c = Some namespaces \<Longrightarrow> set namespaces =
     insert (cf_OperatorNamespace c)
       {strings_TrimSpace ns | ns. ns \<in> set (cf_WatchNamespaces c) \<and> strings_TrimSpace ns \<noteq> []}"
  by (auto simp: buildCacheOptions_def watched_namespaces_fold [unfolded Let_def] Let_def split: if_splits)

end
