(* ===== verification/JsonText.thy ===== *)
theory JsonText
  imports Json
begin

text \<open>
  JSON text: a parser and the printer of \<open>encoding/json\<close> for the values the operator handles,
  used where a result needs the text-level functions of \<open>libs\<close> to be concrete. Numbers are
  read as signed decimals with an optional fraction and printed when they are integers;
  strings are read with the escapes of RFC 8259 below \<open>U+0080\<close>.
\<close>

subsection \<open>Reading\<close>

definition skip_ws :: "string \<Rightarrow> string" where
  "skip_ws s = dropWhile (\<lambda>c. c \<in> {CHR '' '', char_of (9::nat), char_of (10::nat), char_of (13::nat)}) s"

definition digit :: "char \<Rightarrow> bool" where
  "digit c = char_in (CHR ''0'') (CHR ''9'') c"

definition digit_val :: "char \<Rightarrow> nat" where
  "digit_val c = of_char c - 48"

definition nat_of_digits :: "string \<Rightarrow> nat" where
  "nat_of_digits ds = foldl (\<lambda>n d. 10 * n + digit_val d) 0 ds"

definition hex_val :: "char \<Rightarrow> nat option" where
  "hex_val c =
     (if digit c then Some (digit_val c)
      else if char_in (CHR ''a'') (CHR ''f'') c then Some (of_char c - 87)
      else if char_in (CHR ''A'') (CHR ''F'') c then Some (of_char c - 55)
      else None)"

text \<open>A number: sign, digits without a superfluous zero, fraction.\<close>

definition parse_number :: "string \<Rightarrow> (json \<times> string) option" where
  "parse_number s =
     (let neg = (s \<noteq> [] \<and> hd s = CHR ''-'');
          s = (if neg then tl s else s);
          ds = takeWhile digit s;
          rest = dropWhile digit s;
          n = (of_nat (nat_of_digits ds) :: rat);
          sign = (if neg then -1 else 1)
      in if ds = [] \<or> (hd ds = CHR ''0'' \<and> length ds > 1) then None
         else if rest \<noteq> [] \<and> hd rest = CHR ''.'' then
           (let fs = takeWhile digit (tl rest); rest' = dropWhile digit (tl rest)
            in if fs = [] then None
               else Some (JNum (sign * (n + of_nat (nat_of_digits fs) / 10 ^ length fs)), rest'))
         else Some (JNum (sign * n), rest))"

fun parse_chars :: "string \<Rightarrow> (string \<times> string) option" where
  "parse_chars [] = None"
| "parse_chars (c # s) =
     (if c = CHR 0x22 then Some ([], s)
      else if c = CHR 0x5C then
        (case s of
           [] \<Rightarrow> None
         | e # s' \<Rightarrow>
             (if e = CHR ''u'' then
                (case s' of
                   a # b # x # y # s'' \<Rightarrow>
                     (case (hex_val a, hex_val b, hex_val x, hex_val y) of
                        (Some 0, Some 0, Some h, Some l) \<Rightarrow>
                          if h < 8 then map_option (\<lambda>(t, r). (char_of (16 * h + l) # t, r)) (parse_chars s'')
                          else None
                      | _ \<Rightarrow> None)
                 | _ \<Rightarrow> None)
              else
                (case map_of [(CHR 0x22, CHR 0x22), (CHR 0x5C, CHR 0x5C), (CHR ''/'', CHR ''/''),
                              (CHR ''b'', char_of (8::nat)), (CHR ''f'', char_of (12::nat)),
                              (CHR ''n'', char_of (10::nat)), (CHR ''r'', char_of (13::nat)),
                              (CHR ''t'', char_of (9::nat))] e of
                   None \<Rightarrow> None
                 | Some d \<Rightarrow> map_option (\<lambda>(t, r). (d # t, r)) (parse_chars s'))))
      else if of_char c < (32 :: nat) then None
      else map_option (\<lambda>(t, r). (c # t, r)) (parse_chars s))"

text \<open>\<open>fuel\<close> bounds the nesting and the number of elements; the length of the text is enough.\<close>

fun parse_json :: "nat \<Rightarrow> string \<Rightarrow> (json \<times> string) option"
  and parse_elems :: "nat \<Rightarrow> string \<Rightarrow> (json list \<times> string) option"
  and parse_members :: "nat \<Rightarrow> string \<Rightarrow> ((string \<times> json) list \<times> string) option"
where
  "parse_json 0 s = None"
| "parse_json (Suc n) s =
     (case skip_ws s of
        [] \<Rightarrow> None
      | c # r \<Rightarrow>
          if c = CHR 0x22 then map_option (\<lambda>(t, r). (JStr t, r)) (parse_chars r)
          else if c = CHR ''{'' then
            (case skip_ws r of
               d # r' \<Rightarrow> if d = CHR ''}'' then Some (JObj [], r')
                         else map_option (\<lambda>(kvs, r). (JObj kvs, r)) (parse_members n r)
             | [] \<Rightarrow> None)
          else if c = CHR ''['' then
            (case skip_ws r of
               d # r' \<Rightarrow> if d = CHR '']'' then Some (JArr [], r')
                         else map_option (\<lambda>(vs, r). (JArr vs, r)) (parse_elems n r)
             | [] \<Rightarrow> None)
          else if take 4 (c # r) = ''true'' then Some (JBool True, drop 4 (c # r))
          else if take 5 (c # r) = ''false'' then Some (JBool False, drop 5 (c # r))
          else if take 4 (c # r) = ''null'' then Some (JNull, drop 4 (c # r))
          else parse_number (c # r))"
| "parse_elems 0 s = None"
| "parse_elems (Suc n) s =
     (case parse_json n s of
        None \<Rightarrow> None
      | Some (v, r) \<Rightarrow>
          (case skip_ws r of
             d # r' \<Rightarrow> if d = CHR '']'' then Some ([v], r')
                       else if d = CHR '','' then map_option (\<lambda>(vs, r). (v # vs, r)) (parse_elems n r')
                       else None
           | [] \<Rightarrow> None))"
| "parse_members 0 s = None"
| "parse_members (Suc n) s =
     (case skip_ws s of
        [] \<Rightarrow> None
      | q # r \<Rightarrow>
          if q \<noteq> CHR 0x22 then None
          else (case parse_chars r of
             None \<Rightarrow> None
           | Some (k, r1) \<Rightarrow>
               (case skip_ws r1 of
                  [] \<Rightarrow> None
                | c # r2 \<Rightarrow>
                    if c \<noteq> CHR '':'' then None
                    else (case parse_json n r2 of
                       None \<Rightarrow> None
                     | Some (v, r3) \<Rightarrow>
                         (case skip_ws r3 of
                            d # r4 \<Rightarrow> if d = CHR ''}'' then Some ([(k, v)], r4)
                                      else if d = CHR '','' then
                                        map_option (\<lambda>(kvs, r). ((k, v) # kvs, r)) (parse_members n r4)
                                      else None
                          | [] \<Rightarrow> None)))))"

definition parse_text :: "string \<Rightarrow> json option" where
  "parse_text s =
     (case parse_json (Suc (length s)) s of
        Some (v, r) \<Rightarrow> if skip_ws r = [] then Some v else None
      | None \<Rightarrow> None)"

subsection \<open>Printing\<close>

definition hex_digit :: "nat \<Rightarrow> char" where
  "hex_digit n = (if n < 10 then char_of (48 + n) else char_of (87 + n))"

text \<open>The escapes of \<open>encoding/json\<close>: short ones where they exist, \<open>\u00XX\<close> for the other control
  characters and for the three that are special in HTML. A string is its bytes, so those of a
  multi-byte character pass as they are.\<close>

definition short_escapes :: "(char \<times> char) list" where
  "short_escapes = [(CHR 0x22, CHR 0x22), (CHR 0x5C, CHR 0x5C), (char_of (8::nat), CHR ''b''),
     (char_of (12::nat), CHR ''f''), (char_of (10::nat), CHR ''n''), (char_of (13::nat), CHR ''r''),
     (char_of (9::nat), CHR ''t'')]"

definition print_char :: "char \<Rightarrow> string" where
  "print_char c =
     (case map_of short_escapes c of
        Some e \<Rightarrow> [CHR 0x5C, e]
      | None \<Rightarrow>
          if of_char c < (32::nat) \<or> c \<in> {CHR ''<'', CHR ''>'', CHR ''&''}
          then [CHR 0x5C] @ ''u00'' @ [hex_digit (of_char c div 16), hex_digit (of_char c mod 16)]
          else [c])"

definition print_string :: "string \<Rightarrow> string" where
  "print_string s = [CHR 0x22] @ concat (map print_char s) @ [CHR 0x22]"

definition print_number :: "rat \<Rightarrow> string" where
  "print_number q = itoa \<lfloor>q\<rfloor>"

text \<open>The order of the keys of an object: \<open>encoding/json\<close> sorts them bytewise.\<close>

fun string_le :: "string \<Rightarrow> string \<Rightarrow> bool" where
  "string_le [] t = True"
| "string_le (c # s) [] = False"
| "string_le (c # s) (d # t) =
     (if c = d then string_le s t else (of_char c :: nat) < of_char d)"

fun insert_member :: "string \<times> 'v \<Rightarrow> (string \<times> 'v) list \<Rightarrow> (string \<times> 'v) list" where
  "insert_member kv [] = [kv]"
| "insert_member kv (kv' # kvs) =
     (if string_le (fst kv) (fst kv') then kv # kv' # kvs else kv' # insert_member kv kvs)"

definition sort_members :: "(string \<times> 'v) list \<Rightarrow> (string \<times> 'v) list" where
  "sort_members kvs = foldr insert_member kvs []"

fun print_json :: "json \<Rightarrow> string" where
  "print_json JNull = ''null''"
| "print_json (JBool b) = (if b then ''true'' else ''false'')"
| "print_json (JNum q) = print_number q"
| "print_json (JStr s) = print_string s"
| "print_json (JArr vs) = ''['' @ strings_Join (map print_json vs) '','' @ '']''"
| "print_json (JObj kvs) =
     ''{'' @ strings_Join (map (\<lambda>(k, t). print_string k @ '':'' @ t)
       (sort_members (map (\<lambda>(k, v). (k, print_json v)) kvs))) '','' @ ''}''"

declare print_json.simps [simp del]

end
