(* ===== verification/CmpRef.thy ===== *)
theory CmpRef
  imports JsonBody
begin

text \<open>
  A reference traversal with the behaviour \<open>go-cmp\<close> documents on JSON-shaped values. It visits
  the entries of two objects, aligns arrays by index and reports every leaf. The interpretation
  at the end discharges the laws the drift results rest on, so those results are not vacuous,
  and witnesses evaluate them with this traversal.
\<close>

definition under :: "(cmp_path \<Rightarrow> bool) \<Rightarrow> cmp_path \<Rightarrow> cmp_path \<Rightarrow> bool" where
  "under f pre q \<longleftrightarrow> q \<noteq> [] \<and> f (pre @ q)"

definition prefixed :: "cmp_path \<Rightarrow> (cmp_path \<times> bool) list \<Rightarrow> (cmp_path \<times> bool) list" where
  "prefixed pre rs = map (\<lambda>r. (pre @ fst r, snd r)) rs"

text \<open>Paths are relative to the two values; a filter is moved below a prefix with \<open>under\<close>.\<close>

fun cmp_ref :: "(cmp_path \<Rightarrow> bool) \<Rightarrow> json \<Rightarrow> json \<Rightarrow> (cmp_path \<times> bool) list"
  and cmp_ref_list :: "(cmp_path \<Rightarrow> bool) \<Rightarrow> int \<Rightarrow> json list \<Rightarrow> json list \<Rightarrow> (cmp_path \<times> bool) list"
where
  "cmp_ref f (JObj xs) (JObj ys) =
     concat (map (\<lambda>ka.
        let st = MapIndex (fst ka) (Some (snd ka)) (map_of ys (fst ka)) in
        if f [st] then [([st], True)]
        else (case map_of ys (fst ka) of
                None \<Rightarrow> [([st], False)]
              | Some b \<Rightarrow> prefixed [st, TypeAssertion] (cmp_ref (under f [st, TypeAssertion]) (snd ka) b))) xs)
     @ concat (map (\<lambda>kb.
        let st = MapIndex (fst kb) None (Some (snd kb)) in
        if map_of xs (fst kb) = None then [([st], f [st])] else []) ys)"
| "cmp_ref f (JArr xs) (JArr ys) = cmp_ref_list f 0 xs ys"
| "cmp_ref f x y = [([], x = y)]"
| "cmp_ref_list f i (x # xs) (y # ys) =
     prefixed [SliceIndex i i, TypeAssertion] (cmp_ref (under f [SliceIndex i i, TypeAssertion]) x y)
     @ cmp_ref_list f (i + 1) xs ys"
| "cmp_ref_list f i (x # xs) [] = ([SliceIndex i (-1)], False) # cmp_ref_list f (i + 1) xs []"
| "cmp_ref_list f i [] (y # ys) = ([SliceIndex (-1) i], False) # cmp_ref_list f (i + 1) [] ys"
| "cmp_ref_list f i [] [] = []"

definition report_ref :: "(cmp_path \<Rightarrow> bool) \<Rightarrow> json \<Rightarrow> json \<Rightarrow> (cmp_path \<times> bool) list" where
  "report_ref f x y = prefixed [RootStep] (cmp_ref (under f [RootStep]) x y)"

definition equal_ref :: "(cmp_path \<Rightarrow> bool) \<Rightarrow> json \<Rightarrow> json \<Rightarrow> bool" where
  "equal_ref f x y \<longleftrightarrow> list_all snd (report_ref f x y)"

subsection \<open>The reference traversal has the documented behaviour\<close>

lemma path_segments_append: "path_segments (p @ q) = path_segments p @ path_segments q"
  by (induction p rule: path_segments.induct) auto

lemma unequal_segs_simps [simp]:
  "unequal_segs [] = {}"
  "unequal_segs (rs @ ts) = unequal_segs rs \<union> unequal_segs ts"
  "unequal_segs ((q, e) # rs) = (if e then {} else {path_segments q}) \<union> unequal_segs rs"
  by (auto simp: unequal_segs_def)

lemma unequal_segs_concat: "unequal_segs (concat rss) = (\<Union>rs \<in> set rss. unequal_segs rs)"
  by (induction rss) auto

lemma unequal_segs_prefixed [simp]:
  "unequal_segs (prefixed pre rs) = (\<lambda>s. path_segments pre @ s) ` unequal_segs rs"
proof (induction rs)
  case (Cons r rs)
  then show ?case
    by (cases r; cases "snd r") (auto simp: prefixed_def path_segments_append)
qed (simp add: prefixed_def)

lemma under_last_filter [simp]: "under (last_filter g) pre = last_filter g"
  by (rule ext) (auto simp: under_def last_filter_def)

lemma last_filter_single [simp]: "last_filter g [st] = g st"
  by (simp add: last_filter_def)

lemma segs_ref: "unequal_segs (report_ref (last_filter g) x y) = unequal_segs (cmp_ref (last_filter g) x y)"
  by (simp add: report_ref_def)

definition entry_ref :: "(cmp_step \<Rightarrow> bool) \<Rightarrow> (string \<times> json) list \<Rightarrow> string \<times> json \<Rightarrow> string list set" where
  "entry_ref g ys ka =
     (if g (MapIndex (fst ka) (Some (snd ka)) (map_of ys (fst ka))) then {}
      else (case map_of ys (fst ka) of
              None \<Rightarrow> {[fst ka]}
            | Some b \<Rightarrow> (\<lambda>s. fst ka # s) ` unequal_segs (cmp_ref (last_filter g) (snd ka) b)))"

definition extra_ref :: "(cmp_step \<Rightarrow> bool) \<Rightarrow> (string \<times> json) list \<Rightarrow> string \<times> json \<Rightarrow> string list set" where
  "extra_ref g xs kb =
     (if map_of xs (fst kb) = None \<and> \<not> g (MapIndex (fst kb) None (Some (snd kb))) then {[fst kb]} else {})"

lemma cmp_ref_union:
  "unequal_segs (cmp_ref (last_filter g) (JObj xs) (JObj ys)) =
     (\<Union>ka \<in> set xs. entry_ref g ys ka) \<union> (\<Union>kb \<in> set ys. extra_ref g xs kb)"
proof -
  have "unequal_segs (let st = MapIndex (fst ka) (Some (snd ka)) (map_of ys (fst ka)) in
        if last_filter g [st] then [([st], True)]
        else (case map_of ys (fst ka) of
                None \<Rightarrow> [([st], False)]
              | Some b \<Rightarrow> prefixed [st, TypeAssertion]
                  (cmp_ref (under (last_filter g) [st, TypeAssertion]) (snd ka) b)))
      = entry_ref g ys ka" for ka
    by (simp add: entry_ref_def Let_def split: option.split)
  moreover have "unequal_segs (let st = MapIndex (fst kb) None (Some (snd kb)) in
        if map_of xs (fst kb) = None then [([st], last_filter g [st])] else []) = extra_ref g xs kb" for kb
    by (simp add: extra_ref_def Let_def)
  ultimately show ?thesis
    by (simp only: cmp_ref.simps unequal_segs_simps unequal_segs_concat set_map image_image)
qed

lemma in_entry_ref:
  "q \<in> entry_ref g ys (k, a) \<longleftrightarrow> (\<exists>s. q = k # s \<and> \<not> g (MapIndex k (Some a) (map_of ys k)) \<and>
     (case map_of ys k of None \<Rightarrow> s = [] | Some b \<Rightarrow> s \<in> unequal_segs (cmp_ref (last_filter g) a b)))"
  by (auto simp: entry_ref_def split: option.split)

lemma cmp_ref_objects:
  assumes "distinct (map fst xs)" and "distinct (map fst ys)"
  shows "unequal_segs (cmp_ref (last_filter g) (JObj xs) (JObj ys)) =
        {k # s | k s. (map_of xs k \<noteq> None \<or> map_of ys k \<noteq> None)
           \<and> \<not> g (MapIndex k (map_of xs k) (map_of ys k))
           \<and> (case (map_of xs k, map_of ys k) of
                (Some a, Some b) \<Rightarrow> s \<in> unequal_segs (cmp_ref (last_filter g) a b)
              | _ \<Rightarrow> s = [])}" (is "?L = ?R")
proof (rule set_eqI)
  fix q
  have "q \<in> ?L \<longleftrightarrow> (\<exists>k a. (k, a) \<in> set xs \<and> q \<in> entry_ref g ys (k, a))
      \<or> (\<exists>k b. (k, b) \<in> set ys \<and> q \<in> extra_ref g xs (k, b))"
    unfolding cmp_ref_union by auto
  also have "\<dots> \<longleftrightarrow> (\<exists>k a. map_of xs k = Some a \<and> q \<in> entry_ref g ys (k, a))
      \<or> (\<exists>k b. map_of ys k = Some b \<and> q \<in> extra_ref g xs (k, b))"
    using assms by simp
  also have "\<dots> \<longleftrightarrow> (\<exists>k s. q = k # s \<and> (map_of xs k \<noteq> None \<or> map_of ys k \<noteq> None)
           \<and> \<not> g (MapIndex k (map_of xs k) (map_of ys k))
           \<and> (case (map_of xs k, map_of ys k) of
                (Some a, Some b) \<Rightarrow> s \<in> unequal_segs (cmp_ref (last_filter g) a b)
              | _ \<Rightarrow> s = []))" (is "?A \<longleftrightarrow> ?B")
  proof -
    have "(\<exists>a. map_of xs k = Some a \<and> q \<in> entry_ref g ys (k, a))
      \<or> (\<exists>b. map_of ys k = Some b \<and> q \<in> extra_ref g xs (k, b))
      \<longleftrightarrow> (\<exists>s. q = k # s \<and> (map_of xs k \<noteq> None \<or> map_of ys k \<noteq> None)
           \<and> \<not> g (MapIndex k (map_of xs k) (map_of ys k))
           \<and> (case (map_of xs k, map_of ys k) of
                (Some a, Some b) \<Rightarrow> s \<in> unequal_segs (cmp_ref (last_filter g) a b)
              | _ \<Rightarrow> s = []))" for k
      by (cases "map_of xs k"; cases "map_of ys k") (auto simp: in_entry_ref extra_ref_def)
    then show ?thesis by (simp only: ex_disj_distrib [symmetric])
  qed
  finally show "q \<in> ?L \<longleftrightarrow> q \<in> ?R" by simp
qed

lemma cmp_ref_list_empty_iff:
  "unequal_segs (cmp_ref_list (last_filter g) i us vs) = {} \<longleftrightarrow>
     list_all2 (\<lambda>a b. unequal_segs (cmp_ref (last_filter g) a b) = {}) us vs"
proof (induction us arbitrary: i vs)
  case Nil
  then show ?case by (cases vs) auto
next
  case (Cons u us)
  then show ?case by (cases vs) auto
qed

lemma cmp_ref_leaf:
  assumes "\<nexists>o1 o2. x = JObj o1 \<and> y = JObj o2" and "\<nexists>a1 a2. x = JArr a1 \<and> y = JArr a2"
  shows "unequal_segs (cmp_ref f x y) = (if x = y then {} else {[]})"
  using assms by (cases x; cases y) auto

interpretation ref: go_cmp report_ref equal_ref
proof (unfold_locales, goal_cases)
  case (1 f x y)
  show ?case by (rule equal_ref_def)
next
  case (2 xs ys g)
  then show ?case unfolding segs_ref by (rule cmp_ref_objects)
next
  case (3 g us vs)
  show ?case unfolding segs_ref by (simp add: cmp_ref_list_empty_iff)
next
  case (4 x y g)
  then show ?case unfolding segs_ref by (rule cmp_ref_leaf)
qed

end
