(* ===== verification/RefLibs.thy ===== *)
theory RefLibs
  imports JsonText CmpRef
begin

text \<open>
  A concrete value of \<open>libs\<close>, on which the laws named by the locales hold and witnesses are
  evaluated: the JSON reader and printer, the reference comparison, and plain versions of the
  URL, quoting and \<open>gjson\<close> functions. The digest is the identity, which is injective as a digest
  is meant to be.
\<close>

subsection \<open>gjson\<close>

fun split_path :: "string \<Rightarrow> string list" where
  "split_path [] = [[]]"
| "split_path (c # s) =
     (if c = CHR ''.'' then [] # split_path s
      else (case split_path s of [] \<Rightarrow> [[c]] | k # ks \<Rightarrow> (c # k) # ks))"

fun get_keys :: "json \<Rightarrow> string list \<Rightarrow> json option" where
  "get_keys v [] = Some v"
| "get_keys (JObj kvs) (k # ks) = (case map_of kvs k of None \<Rightarrow> None | Some v \<Rightarrow> get_keys v ks)"
| "get_keys v (k # ks) = None"

definition ref_get :: "json \<Rightarrow> string \<Rightarrow> json option" where
  "ref_get v path = get_keys v (split_path path)"

fun ref_string :: "json \<Rightarrow> string" where
  "ref_string JNull = []"
| "ref_string (JStr s) = s"
| "ref_string v = print_json v"

fun ref_int :: "json \<Rightarrow> 64 word" where
  "ref_int (JNum q) = word_of_int \<lfloor>q\<rfloor>"
| "ref_int _ = 0"

subsection \<open>Addresses\<close>

definition split_at :: "char \<Rightarrow> string \<Rightarrow> string \<times> string" where
  "split_at c s = (takeWhile (\<lambda>d. d \<noteq> c) s, drop 1 (dropWhile (\<lambda>d. d \<noteq> c) s))"

definition ref_url_Parse :: "string \<Rightarrow> go_error + url" where
  "ref_url_Parse s =
     (let (rest, q) = split_at (CHR ''?'') s;
          (scheme, tail) = split_at (CHR '':'') rest
      in if tail = [] then Inr \<lparr>url_Scheme = [], url_Host = [], url_EscapedPath = rest, url_RawQuery = q\<rparr>
         else if take 2 tail \<noteq> ''//'' then Inl (PlainErr ''parse: no authority'')
         else (let (host, p) = split_at (CHR ''/'') (drop 2 tail)
               in Inr \<lparr>url_Scheme = scheme, url_Host = host,
                       url_EscapedPath = (if p = [] then [] else ''/'' @ p), url_RawQuery = q\<rparr>))"

definition ref_url_String :: "url \<Rightarrow> string" where
  "ref_url_String u = url_Scheme u @ ''://'' @ url_Host u @ url_EscapedPath u
     @ (if url_RawQuery u = [] then [] else ''?'' @ url_RawQuery u)"

definition ref_libs :: libs where
  "ref_libs = \<lparr>
     json_Unmarshal = (\<lambda>s. case parse_text s of None \<Rightarrow> Inl (PlainErr ''invalid JSON'') | Some v \<Rightarrow> Inr v),
     json_Marshal = (\<lambda>v. Inr (print_json v)),
     json_UnmarshalTypeError = (\<lambda>v n. PlainErr (''json: cannot unmarshal into field '' @ n)),
     json_Compact = (\<lambda>s. map_option print_json (parse_text s)),
     json_Decode = (\<lambda>s. case parse_json (Suc (length s)) s of
        None \<Rightarrow> None | Some (v, r) \<Rightarrow> Some (take (length s - length r) s, r)),
     sha256_hex = (\<lambda>s. s),
     gjson_ParseBytes = parse_text,
     gjson_GetBytes = (\<lambda>s path. Option.bind (parse_text s) (\<lambda>v. ref_get v path)),
     gjson_Get = ref_get,
     gjson_String = ref_string,
     gjson_Int = ref_int,
     cmp_Report = report_ref,
     cmp_Equal = equal_ref,
     strconv_Quote = print_string,
     strings_EqualFold = (\<lambda>s t. map (\<lambda>c. if char_in (CHR ''A'') (CHR ''Z'') c then char_of (of_char c + 32 :: nat) else c) s
        = map (\<lambda>c. if char_in (CHR ''A'') (CHR ''Z'') c then char_of (of_char c + 32 :: nat) else c) t),
     url_Parse = ref_url_Parse,
     url_JoinPath = (\<lambda>u p. u\<lparr>url_EscapedPath := url_EscapedPath u @ p\<rparr>),
     url_String = ref_url_String,
     url_Redacted = ref_url_String,
     url_QueryEscape = (\<lambda>s. s),
     http_NewRequest = (\<lambda>method url. None),
     pem_Append = (\<lambda>s. s \<noteq> []),
     format_RFC3339 = itoa \<rparr>"

lemma ref_libs_sel [simp]:
  "json_Unmarshal ref_libs s = (case parse_text s of None \<Rightarrow> Inl (PlainErr ''invalid JSON'') | Some v \<Rightarrow> Inr v)"
  "json_Marshal ref_libs v = Inr (print_json v)"
  "json_Compact ref_libs s = map_option print_json (parse_text s)"
  "sha256_hex ref_libs s = s"
  "gjson_ParseBytes ref_libs s = parse_text s"
  "gjson_GetBytes ref_libs s path = Option.bind (parse_text s) (\<lambda>v. ref_get v path)"
  "gjson_Get ref_libs = ref_get" "gjson_String ref_libs = ref_string" "gjson_Int ref_libs = ref_int"
  "cmp_Report ref_libs = report_ref" "cmp_Equal ref_libs = equal_ref"
  "url_Parse ref_libs = ref_url_Parse" "url_String ref_libs = ref_url_String"
  "http_NewRequest ref_libs m u = None"
  by (simp_all add: ref_libs_def)

subsection \<open>The laws\<close>

lemma split_path_nonempty: "split_path s \<noteq> []"
  by (induction s) (auto split: list.split)

lemma split_path_plain: "CHR ''.'' \<notin> set k \<Longrightarrow> split_path k = [k]"
  by (induction k) auto

lemma split_path_dot: "CHR ''.'' \<notin> set k \<Longrightarrow> split_path (k @ CHR ''.'' # p) = k # split_path p"
  by (induction k) auto

lemma plain_key_dot: "plain_key k \<Longrightarrow> CHR ''.'' \<notin> set k"
  by (auto simp: plain_key_def list_all_iff)

lemma get_keys_scalar: "\<nexists>kvs. v = JObj kvs \<Longrightarrow> ks \<noteq> [] \<Longrightarrow> get_keys v ks = None"
  by (cases ks; cases v) auto

interpretation refl_libs: gjson_lib ref_libs
proof
  fix k p raw and kvs :: "(string \<times> json) list" and v
  show "plain_key k \<Longrightarrow> gjson_Get ref_libs (JObj kvs) k = map_of kvs k"
    by (simp add: ref_get_def split_path_plain plain_key_dot split: option.split)
  show "plain_key k \<Longrightarrow> gjson_Get ref_libs (JObj kvs) (k @ ''.'' @ p) = Option.bind (map_of kvs k) (\<lambda>v. gjson_Get ref_libs v p)"
    by (simp add: ref_get_def split_path_dot plain_key_dot split: option.split)
  show "\<nexists>kvs. v = JObj kvs \<Longrightarrow> \<nexists>xs. v = JArr xs \<Longrightarrow> gjson_Get ref_libs v p = None"
    by (simp add: ref_get_def get_keys_scalar split_path_nonempty)
qed simp_all

end
