(* ===== verification/Scenario.thy ===== *)
theory Scenario
  imports Config RefLibs "HOL-Library.Code_Target_Nat"
begin

text \<open>
  A scripted outside, on which concrete passes are evaluated: Kubernetes accepts every write and
  answers with the object it was sent, every provider configuration reads as the same inline
  endpoint and credential, and SigNoz gives the answers of a list, one per request.
\<close>

definition scripted_ports :: "('o, http_response list) ports" where
  "scripted_ports = \<lparr>
     kube_Update = (\<lambda>ctx o' w. (Inr o', w)),
     kube_Patch = (\<lambda>ctx base o' w. (Inr o', w)),
     kube_StatusUpdate = (\<lambda>ctx o' w. (Inr o', w)),
     http_Do = (\<lambda>tls ctx req w. case w of
        [] \<Rightarrow> (Inl (PlainErr ''connection refused''), [])
      | r # rs \<Rightarrow> (Inr r, rs)),
     p_Now = (\<lambda>w. 7) \<rparr>"

definition scripted_config :: ProviderConfig where
  "scripted_config = \<lparr>
     pc_Meta = \<lparr>om_Name = ''pc'', om_Namespace = ''ns'', om_Generation = 1, om_DeletionTimestamp = None,
                om_Finalizers = [], om_Annotations = Map.empty\<rparr>,
     pc_Spec = \<lparr>pcs_Endpoint = \<lparr>ep_Value = ''http://signoz'', ep_ValueFrom = None\<rparr>,
                pcs_Auth = \<lparr>au_Header = Some \<lparr>ha_Name = [], ha_Scheme = [], ha_Value = ''key'', ha_ValueFrom = None\<rparr>\<rparr>,
                pcs_TLS = None\<rparr>,
     pc_Status = \<lparr>pst_Conditions = [], pst_ObservedGeneration = 0, pst_ObservedRefVersions = fmempty\<rparr> \<rparr>"

definition scripted_reader :: "http_response list reader" where
  "scripted_reader = \<lparr>
     rd_Secret = (\<lambda>ctx key w. (Inr \<lparr>sec_Data = [''token'' \<mapsto> '' secret ''], sec_ResourceVersion = ''41''\<rparr>, w)),
     rd_ConfigMap = (\<lambda>ctx key w. (Inl (PlainErr ''not found''), w)),
     rd_ProviderConfig = (\<lambda>ctx key w. (Inr scripted_config, w)),
     rd_ClusterProviderConfig = (\<lambda>ctx key w. (Inr scripted_config, w)),
     rd_IsNotFound = (\<lambda>e. True) \<rparr>"

definition scripted_operator :: "(unit, http_response list) operator" where
  "scripted_operator = run_operator (RegisterFlags\<lparr>cf_OperatorNamespace := ''signoz''\<rparr>)
     scripted_ports scripted_reader ref_libs ref_klib (\<lambda>_. Inr ''{}'')"

definition answer :: "int \<Rightarrow> string \<Rightarrow> http_response" where
  "answer st body = \<lparr>rs_StatusCode = st, rs_Body = body, rs_ReadErr = None\<rparr>"

text \<open>A resource given as raw JSON, not bound yet.\<close>

definition new_resource :: "string \<Rightarrow> unit resource" where
  "new_resource body = \<lparr>
     o_Meta = \<lparr>om_Name = ''r'', om_Namespace = ''ns'', om_Generation = 1, om_DeletionTimestamp = None,
               om_Finalizers = [ResourceFinalizer], om_Annotations = Map.empty\<rparr>,
     o_CoreSpec = \<lparr>cs_ProviderConfigRef = \<lparr>ref_Name = ''pc'', ref_Kind = []\<rparr>, cs_Interval = None,
                   cs_RetryInterval = None, cs_Timeout = None, cs_Suspend = False, cs_ReclaimPolicy = ReclaimDelete\<rparr>,
     o_Template = \<lparr>tmpl_Spec = None, tmpl_JSONSpec = Some body\<rparr>,
     o_CoreStatus = \<lparr>st_Conditions = [], st_SigNozResource = None, st_ObservedGeneration = 0,
                     st_ObservedHash = [], st_ReconciledAt = 0\<rparr> \<rparr>"

definition start :: "unit resource \<Rightarrow> http_response list \<Rightarrow> (unit resource, http_response list) sys" where
  "start o' answers = \<lparr>obj = o', env = answers, events = []\<rparr>"

definition scripted_client :: signoz_client where
  "scripted_client = clients_New \<lparr>rp_Endpoint = \<lparr>url_Scheme = ''http'', url_Host = ''signoz'', url_EscapedPath = [], url_RawQuery = []\<rparr>,
     rp_Auth = \<lparr>ra_Header = Some \<lparr>rh_Name = ''SIGNOZ-API-KEY'', rh_Scheme = [], rh_Value = ''key''\<rparr>\<rparr>, rp_TLS = None\<rparr>"

text \<open>The same resource, bound to the object with id 7 and last in sync at a hash.\<close>

definition bound_resource :: "string \<Rightarrow> string \<Rightarrow> unit resource" where
  "bound_resource body hash = (new_resource body)\<lparr>o_CoreStatus := (o_CoreStatus (new_resource body))
     \<lparr>st_SigNozResource := Some \<lparr>sr_ID = Some ''7''\<rparr>, st_ObservedHash := hash\<rparr>\<rparr>"

lemma scripted_operator_sel [simp]:
  "op_klib scripted_operator = ref_klib" "op_libs scripted_operator = ref_libs" "op_client scripted_operator = scripted_ports"
  "op_interval scripted_operator = cf_DefaultResourcesInterval RegisterFlags"
  by (simp_all add: scripted_operator_def run_operator_def)

text \<open>The HTTP calls of a list of events: method, address and status.\<close>

fun http_log :: "'o event list \<Rightarrow> (string \<times> string \<times> int option) list" where
  "http_log [] = []"
| "http_log (EvHTTP ctx req st # es) = (rq_Method req, rq_URL req, st) # http_log es"
| "http_log (_ # es) = http_log es"

end
