(* ===== verification/Guarantees.thy ===== *)
theory Guarantees
  imports Runs Scenario
begin

text \<open>
  What a pass of the controller of any kind guarantees, over any outside: in which order it writes,
  what it reports, when it asks to run again, when it lets a deleted resource go, and how each
  branch of the reconciler ends. The contracts the results rest on are those of the kinds,
  interpreted in \<open>Controllers\<close>.
\<close>

subsection \<open>Order of the calls\<close>

text \<open>
  (C1) A pass sends at most one create request, and the call right before it is a patch, accepted by
  the API server, that records the create attempt on the resource.
\<close>

theorem create_is_written_ahead:
  "wp (pass_of op kind ctx) (\<lambda>_ t. \<exists>es. events t = events s @ es \<and> guarded_create es) s"
  using pass_guarded [of op kind ctx] by (simp add: trace_sat_def)


text \<open>
  (C10) The status is the last thing a pass writes, at most once, and under a context that the pass's
  timeout does not cancel.
\<close>

theorem status_is_written_last:
  "wp (pass_of op kind ctx) (\<lambda>_ t. \<exists>es. events t = events s @ es \<and> status_last es) s"
  using kinds.Reconcile_status_last [of op kind] by (simp add: pass_of_def trace_sat_def)

text \<open>The events of a pass that does not find its finalizer begin with the update that adds it.\<close>

definition finalizer_first :: "'t resource event list \<Rightarrow> bool" where
  "finalizer_first es \<longleftrightarrow> (\<exists>ctx o' ok rest. es = EvUpdate ctx o' ok # rest
     \<and> ResourceFinalizer \<in> set (om_Finalizers (o_Meta o')) \<and> (ok \<or> rest = []))"

text \<open>
  (C9) A pass over a resource without the finalizer adds it before it does anything else, and does
  nothing else when the API server refuses: nothing is created for a resource whose deletion the
  operator could miss.
\<close>

theorem finalizer_is_added_first:
  assumes "kube_lib (op_klib op)" and "om_DeletionTimestamp (o_Meta (obj s)) = None"
    and "ResourceFinalizer \<notin> set (om_Finalizers (o_Meta (obj s)))"
  shows "wp (pass_of op kind ctx) (\<lambda>_ t. \<exists>es. events t = events s @ es \<and> finalizer_first es) s"
proof -
  let ?rc = "run_reconciler op kind" and ?M = "object_for kind (op_libs op) (op_marshal op)"
  have any: "emits (\<lambda>_. True) (do { r \<leftarrow> reconcile ?rc (op_libs op) (op_klib op) ?M c; record_status ?rc (op_klib op) c st r })" for c st
    by (intro trace_intros kinds.emits_reconcile kinds.emits_record_status) simp_all
  have rest: "wp (do { r \<leftarrow> reconcile ?rc (op_libs op) (op_klib op) ?M c; record_status ?rc (op_klib op) c st r })
      (\<lambda>_ u. \<exists>es. events u = events s @ es \<and> finalizer_first es) t"
    if "events t = events s @ [EvUpdate c' o' True]" "ResourceFinalizer \<in> set (om_Finalizers (o_Meta o'))" for c st t c' o'
    by (rule wp_mono [OF emitsD [OF any]]) (use that in \<open>auto simp: finalizer_first_def\<close>)
  have "wp (addFinalizer ?rc (op_klib op) c) (\<lambda>ferr t. \<exists>o'. events t = events s @ [EvUpdate c o' (ferr = None)]
      \<and> ResourceFinalizer \<in> set (om_Finalizers (o_Meta o'))) s" for c
    using assms(3)
    by (auto simp: addFinalizer_def wp_simps kube_lib.add_finalizer [OF assms(1)] Let_def set_finalizers_def split: prod.split)
  then have "wp (addFinalizer ?rc (op_klib op) c) (\<lambda>ferr. wp (case ferr of
        Some err \<Rightarrow> State_Monad.return (no_requeue, Some err)
      | None \<Rightarrow> do { o' \<leftarrow> get_obj; let beforeStatus = o_CoreStatus o'; r \<leftarrow> reconcile ?rc (op_libs op) (op_klib op) ?M c;
          record_status ?rc (op_klib op) c beforeStatus r })
      (\<lambda>_ u. \<exists>es. events u = events s @ es \<and> finalizer_first es)) s" for c
    by (rule wp_mono) (auto simp: wp_return wp_bind [of get_obj] wp_get_obj Let_def finalizer_first_def [of "[_]"]
        split: option.split intro!: rest)
  then show ?thesis
    using assms(2) unfolding pass_of_def Reconcile_def wp_bind [of get_obj] wp_get_obj Let_def
    by (simp add: wp_bind [of "addFinalizer _ _ _"])
qed

subsection \<open>A concrete life\<close>

text \<open>A role that SigNoz does not know, created by its first pass.\<close>

definition role_body :: string where
  "role_body = print_json (JObj [(''name'', JStr ''x'')])"

definition no_roles :: http_response where
  "no_roles = answer 200 (print_json (JObj [(''data'', JArr [])]))"

definition role_created :: http_response where
  "role_created = answer 201 (print_json (JObj [(''data'', JObj [(''id'', JStr ''7'')])]))"

definition run_role :: "unit resource \<Rightarrow> http_response list
    \<Rightarrow> (ctrl_Result \<times> go_error option) \<times> (unit resource, http_response list) sys" where
  "run_role o' answers = run_state (pass_of scripted_operator Role Background) (start o' answers)"

lemma role_life:
  "http_log (events (snd (run_role (new_resource role_body) [no_roles, role_created]))) =
     [(''GET'', ''http://signoz/api/v1/roles'', Some 200), (''POST'', ''http://signoz/api/v1/roles'', Some 201)]"
  by code_simp


theorem finalizer_is_added_first_witness:
  "wp (pass_of scripted_operator Role Background) (\<lambda>_ t. \<exists>es. events t = es \<and> finalizer_first es)
     (start (set_finalizers [] (new_resource role_body)) [])"
proof -
  let ?s = "start (set_finalizers [] (new_resource role_body)) []"
  have "wp (pass_of scripted_operator Role Background) (\<lambda>_ t. \<exists>es. events t = events ?s @ es \<and> finalizer_first es) ?s"
    by (rule finalizer_is_added_first)
       (simp_all add: refk.kube_lib_axioms start_def new_resource_def set_finalizers_def)
  then show ?thesis by (rule wp_mono) (simp add: start_def)
qed

subsection \<open>What a pass reports\<close>



lemma requeue_policy_positive:
  assumes "op_interval op > 0" and "out \<notin> {OutcomeTerminal, OutcomeSuspended}"
  shows "requeue_policy (run_reconciler op kind) o' out > 0"
  using assms by (cases out) (auto simp: rc_interval_def rc_retryInterval_def positive_def second_def Let_def split: option.splits)



end
