(* ===== verification/Branches.thy ===== *)
theory Branches
  imports Scenario
begin

text \<open>
  How each branch of the reconciler ends, for every kind: a bound object that is gone, immutable,
  drifted or in sync; a new one that is ambiguous, pinned, found once or absent; a create request
  that fails; a resource that is suspended or being deleted. Each result is about one handler,
  from what the call it branches on returned.
\<close>

subsection \<open>The handlers of a kind, as wired by \<open>run\<close>\<close>

definition kind_object :: "('t, 'w) operator \<Rightarrow> Kind \<Rightarrow> 't Object" where
  "kind_object op kind = object_for kind (op_libs op) (op_marshal op)"

definition read_bound :: "('t, 'w) operator \<Rightarrow> Kind \<Rightarrow> ctx \<Rightarrow> signoz_client \<Rightarrow> (('t resource, 'w) sys, go_error + string) state" where
  "read_bound op kind ctx c = do {
     o' \<leftarrow> get_obj;
     ad_Read (adapter_for kind (op_client op) (op_libs op)) (kind_object op kind) c ctx (st_SigNozResource (o_CoreStatus o'))
   }"

definition find_new :: "('t, 'w) operator \<Rightarrow> Kind \<Rightarrow> ctx \<Rightarrow> signoz_client
    \<Rightarrow> (('t resource, 'w) sys, go_error + SigNozResource list) state" where
  "find_new op kind ctx c = ad_Find (adapter_for kind (op_client op) (op_libs op)) (kind_object op kind) c ctx"

definition on_existing :: "('t, 'w) operator \<Rightarrow> Kind \<Rightarrow> ctx \<Rightarrow> signoz_client \<Rightarrow> string \<Rightarrow> ('t, 'w) pass" where
  "on_existing op kind ctx c hash =
     onExistingObject (run_reconciler op kind) (op_libs op) (op_klib op) (kind_object op kind) ctx c hash"

definition on_new :: "('t, 'w) operator \<Rightarrow> Kind \<Rightarrow> ctx \<Rightarrow> signoz_client \<Rightarrow> string \<Rightarrow> string \<Rightarrow> ('t, 'w) pass" where
  "on_new op kind ctx c identity hash =
     onNewObject (run_reconciler op kind) (op_libs op) (op_klib op) (kind_object op kind) ctx c identity hash"

lemma read_bound_run:
  "run_state (read_bound op kind ctx c) s = run_state (ad_Read (rc_adapter (run_reconciler op kind))
     (object_for kind (op_libs op) (op_marshal op)) c ctx (st_SigNozResource (o_CoreStatus (obj s)))) s"
  by (simp add: read_bound_def kind_object_def get_obj_def)

lemma find_new_run:
  "find_new op kind ctx c = ad_Find (rc_adapter (run_reconciler op kind)) (object_for kind (op_libs op) (op_marshal op)) c ctx"
  by (simp add: find_new_def kind_object_def)

lemma adapter_for_transport:
  "ad_Create (adapter_for kind P L) = Transport_Create P L" "ad_Read (adapter_for kind P L) = Transport_Read P L"
  "ad_Update (adapter_for kind P L) = Transport_Update P L" "ad_Delete (adapter_for kind P L) = Transport_Delete P L"
  by (cases kind, simp_all add: adapter_defs adapter_of_def)+

lemmas handler_defs = on_existing_def on_new_def kind_object_def

subsection \<open>A bound object\<close>

text \<open>
  When the object a resource is bound to is gone from SigNoz, the pass sends nothing more, drops
  the binding and the recorded hash, says Pending, and asks to run again in a second, when the
  object is looked up and created anew.
\<close>

theorem gone_object_is_unbound:
  assumes "kube_lib (op_klib op)" and "run_state (read_bound op kind ctx c) s = (Inl e, t)" and "IsNotFound (Some e)"
  shows "wp (on_existing op kind ctx c hash) (\<lambda>r u. r = (requeue_after second, None) \<and> events u = events t
    \<and> st_SigNozResource (o_CoreStatus (obj u)) = None \<and> st_ObservedHash (o_CoreStatus (obj u)) = []
    \<and> shows_outcome (o_CoreStatus (obj u)) OutcomePending SReasonPending
        ''The SigNoz object was not found; it will be recreated'' (om_Generation (o_Meta (obj s)))) s"
  using reconciler_pass.existing_not_found [OF kind_pass [OF assms(1)] assms(2) [unfolded read_bound_run] assms(3)]
  by (simp add: handler_defs)

text \<open>What a call returned, from the evaluation of a predicate on it.\<close>

lemma run_Inl:
  assumes "case fst (run_state m s) of Inl e \<Rightarrow> P e | Inr _ \<Rightarrow> False"
  obtains e t where "run_state m s = (Inl e, t)" and "P e"
  using assms by (cases "run_state m s") (auto split: sum.splits)

lemma run_Inr:
  assumes "case fst (run_state m s) of Inl e \<Rightarrow> False | Inr a \<Rightarrow> P a"
  obtains a t where "run_state m s = (Inr a, t)" and "P a"
  using assms by (cases "run_state m s") (auto split: sum.splits)

lemma scripted_lib: "kube_lib (op_klib scripted_operator)"
  by (simp add: refk.kube_lib_axioms)

definition role_spec :: "string \<Rightarrow> string \<Rightarrow> string" where
  "role_spec name description = print_json (JObj [(''name'', JStr name), (''description'', JStr description)])"

definition data_answer :: "json \<Rightarrow> http_response" where
  "data_answer v = answer 200 (print_json (JObj [(''data'', v)]))"

definition role_data :: "string \<Rightarrow> string \<Rightarrow> json" where
  "role_data name description = JObj [(''id'', JStr ''7''), (''name'', JStr name), (''description'', JStr description)]"

theorem gone_object_is_unbound_witness:
  "wp (on_existing scripted_operator Role Background scripted_client ''h'')
     (\<lambda>r u. r = (requeue_after second, None) \<and> st_SigNozResource (o_CoreStatus (obj u)) = None)
     (start (bound_resource (role_spec ''x'' ''d'') ''h'') [answer 404 ''{}''])"
proof -
  let ?s = "start (bound_resource (role_spec ''x'' ''d'') ''h'') [answer 404 ''{}'']"
  have "case fst (run_state (read_bound scripted_operator Role Background scripted_client) ?s) of
      Inl e \<Rightarrow> IsNotFound (Some e) | Inr _ \<Rightarrow> False" by code_simp
  then obtain e t where run: "run_state (read_bound scripted_operator Role Background scripted_client) ?s = (Inl e, t)"
    and e: "IsNotFound (Some e)" by (rule run_Inl)
  show ?thesis by (rule wp_mono [OF gone_object_is_unbound [OF scripted_lib run e]]) simp
qed

text \<open>
  (C28) A change to a field SigNoz cannot change stops the resource: nothing is sent, the binding is
  kept, and the status says Terminal with the reason ImmutableFieldChanged.
\<close>

theorem immutable_drift_is_terminal:
  assumes "kube_lib (op_klib op)" and "run_state (read_bound op kind ctx c) s = (Inr resp, t)"
    and "m_Compare (kind_object op kind) (o_Template (obj s)) resp = Inr cr" and "cr_ImmutableFields cr \<noteq> []"
  shows "wp (on_existing op kind ctx c hash) (\<lambda>r u. r = (no_requeue, None) \<and> events u = events t
    \<and> st_SigNozResource (o_CoreStatus (obj u)) = st_SigNozResource (o_CoreStatus (obj s))
    \<and> (\<exists>m. shows_outcome (o_CoreStatus (obj u)) OutcomeTerminal SReasonImmutableFieldChanged m
        (om_Generation (o_Meta (obj s))))) s"
  using reconciler_pass.existing_immutable [OF kind_pass [OF assms(1)] assms(2) [unfolded read_bound_run]
      assms(3) [unfolded kind_object_def] assms(4)]
  by (simp add: handler_defs)

theorem immutable_drift_is_terminal_witness:
  "wp (on_existing scripted_operator Role Background scripted_client ''h'')
     (\<lambda>r u. r = (no_requeue, None) \<and> st_SigNozResource (o_CoreStatus (obj u)) = Some \<lparr>sr_ID = Some ''7''\<rparr>)
     (start (bound_resource (role_spec ''x'' ''d'') ''h'') [data_answer (role_data ''other'' ''d'')])"
proof -
  let ?s = "start (bound_resource (role_spec ''x'' ''d'') ''h'') [data_answer (role_data ''other'' ''d'')]"
  have "case fst (run_state (read_bound scripted_operator Role Background scripted_client) ?s) of
      Inl e \<Rightarrow> False
    | Inr resp \<Rightarrow> (case m_Compare (kind_object scripted_operator Role) (o_Template (obj ?s)) resp of
        Inl e \<Rightarrow> False | Inr cr \<Rightarrow> cr_ImmutableFields cr \<noteq> [])" by code_simp
  then obtain resp t where run: "run_state (read_bound scripted_operator Role Background scripted_client) ?s = (Inr resp, t)"
    and "case m_Compare (kind_object scripted_operator Role) (o_Template (obj ?s)) resp of
        Inl e \<Rightarrow> False | Inr cr \<Rightarrow> cr_ImmutableFields cr \<noteq> []" by (rule run_Inr)
  then obtain cr where cr: "m_Compare (kind_object scripted_operator Role) (o_Template (obj ?s)) resp = Inr cr"
    "cr_ImmutableFields cr \<noteq> []" by (auto split: sum.splits)
  show ?thesis
    by (rule wp_mono [OF immutable_drift_is_terminal [OF scripted_lib run cr]]) (simp add: start_def bound_resource_def)
qed

definition update_bound :: "('t, 'w) operator \<Rightarrow> Kind \<Rightarrow> ctx \<Rightarrow> signoz_client \<Rightarrow> SigNozResource option
    \<Rightarrow> (('t resource, 'w) sys, go_error option) state" where
  "update_bound op kind ctx c m = ad_Update (adapter_for kind (op_client op) (op_libs op)) (kind_object op kind) c ctx m"



subsection \<open>A new object\<close>

text \<open>
  A resource whose identity several objects share, and which does not say which one it means,
  changes nothing in SigNoz: it is left unbound and its status says Terminal with the reason
  Ambiguous.
\<close>

theorem ambiguous_identity_is_terminal:
  assumes "kube_lib (op_klib op)" and "run_state (find_new op kind ctx c) s = (Inr (m1 # m2 # ms), t)"
    and "pinned_id (obj s) = []"
  shows "wp (on_new op kind ctx c identity hash) (\<lambda>r u. r = (no_requeue, None) \<and> events u = events t
    \<and> st_SigNozResource (o_CoreStatus (obj u)) = st_SigNozResource (o_CoreStatus (obj s))
    \<and> (\<exists>m. shows_outcome (o_CoreStatus (obj u)) OutcomeTerminal SReasonAmbiguous m (om_Generation (o_Meta (obj s))))) s"
  using reconciler_pass.new_ambiguous [OF kind_pass [OF assms(1)] assms(2) [unfolded find_new_run] assms(3)]
  by (simp add: handler_defs)

theorem ambiguous_identity_is_terminal_witness:
  "wp (on_new scripted_operator Role Background scripted_client ''x'' ''h'') (\<lambda>r u. r = (no_requeue, None))
     (start (new_resource (role_spec ''x'' ''d'')) [data_answer (JArr [role_data ''x'' ''1'', role_data ''x'' ''2''])])"
proof -
  let ?s = "start (new_resource (role_spec ''x'' ''d'')) [data_answer (JArr [role_data ''x'' ''1'', role_data ''x'' ''2''])]"
  have "case fst (run_state (find_new scripted_operator Role Background scripted_client) ?s) of
      Inl e \<Rightarrow> False | Inr ms \<Rightarrow> length ms \<ge> 2" by code_simp
  then obtain ms t where run: "run_state (find_new scripted_operator Role Background scripted_client) ?s = (Inr ms, t)"
    and "length ms \<ge> 2" by (rule run_Inr)
  then obtain m1 m2 ms' where "ms = m1 # m2 # ms'" by (cases ms; cases "tl ms") auto
  with run have run: "run_state (find_new scripted_operator Role Background scripted_client) ?s = (Inr (m1 # m2 # ms'), t)" by simp
  have "pinned_id (obj ?s) = []" by (simp add: start_def new_resource_def pinned_id_def)
  from ambiguous_identity_is_terminal [OF scripted_lib run this] show ?thesis by (rule wp_mono) simp
qed

text \<open>
  (C30) A resource pinned to an object by its annotation never leads to a create request: it adopts
  the pinned object or none.
\<close>

theorem pinned_resource_never_creates:
  assumes "kube_lib (op_klib op)" and "pinned_id (obj s) \<noteq> []"
  shows "wp (on_new op kind ctx c identity hash)
    (\<lambda>_ t. \<exists>es. events t = events s @ es \<and> list_all (\<lambda>e. \<not> sends ''POST'' e) es) s"
  using reconciler_pass.pinned_never_creates [OF kind_pass [OF assms(1)] assms(2)] by (simp add: handler_defs)

definition pinned_resource :: "unit resource" where
  "pinned_resource = set_annotations [AnnotationSigNozResourceID \<mapsto> ''7''] (new_resource (role_spec ''x'' ''d''))"

theorem pinned_resource_never_creates_witness:
  "wp (on_new scripted_operator Role Background scripted_client ''x'' ''h'')
    (\<lambda>_ t. \<exists>es. events t = es \<and> list_all (\<lambda>e. \<not> sends ''POST'' e) es) (start pinned_resource [data_answer (JArr [])])"
proof -
  have pin: "pinned_id (obj (start pinned_resource [data_answer (JArr [])])) \<noteq> []"
    by (simp add: start_def pinned_resource_def pinned_id_def set_annotations_def)
  show ?thesis by (rule wp_mono [OF pinned_resource_never_creates [OF scripted_lib pin]]) (simp add: start_def)
qed

lemma onExistingObject_binding:
  fixes s :: "('t resource, 'w) sys"
  assumes ad: "adapter_contract (rc_adapter rc)" and ob: "object_contract M"
  shows "wp (onExistingObject rc L K M ctx c hash) (\<lambda>_ u. st_SigNozResource (o_CoreStatus (obj u))
    \<in> {st_SigNozResource (o_CoreStatus (obj s)), None}) s"
proof -
  let ?b = "st_SigNozResource (o_CoreStatus (obj s))"
  obtain r t where rd: "run_state (ad_Read (rc_adapter rc) M c ctx ?b) s = (r, t)" by fastforce
  obtain e u where up: "run_state (ad_Update (rc_adapter rc) M c ctx ?b) t = (e, u)" by fastforce
  have "obj t = obj s" "obj u = obj t"
    using run_keeps [OF adapter_contract.read_keeps [OF ad] rd] run_keeps [OF adapter_contract.update_keeps [OF ad] up] by auto
  then show ?thesis
    by (auto simp: onExistingObject_def wp_simps wp_known [OF rd] wp_known [OF up] set_binding_def set_hash_def
        set_conditions_def onAdapterError_def GetOutcomeAndSetConditionsOnErr_def Let_def
        split: sum.split option.split)
qed

text \<open>
  (C31) A resource whose identity one object has is bound to it after, and only after, the attempt has
  been recorded on the resource; when that fails nothing else is done. It is never created again,
  and it ends the pass bound to that object or, when the object has gone meanwhile, to none.
\<close>

theorem single_match_is_adopted:
  fixes op :: "('t, 'w) operator" and s :: "('t resource, 'w) sys"
  assumes "run_state (find_new op kind ctx c) s = (Inr [m], t)" and "pinned_id (obj s) = []"
  shows "wp (on_new op kind ctx c identity hash) (\<lambda>r u. \<exists>w es. events u = events t @ w # es
    \<and> list_all (\<lambda>e. \<not> sends ''POST'' e) es
    \<and> (if write_ahead w then st_SigNozResource (o_CoreStatus (obj u)) \<in> {Some m, None} else snd r \<noteq> None \<and> es = [])) s"
proof -
  let ?rc = "run_reconciler op kind" and ?M = "kind_object op kind"
  have ob: "obj t = obj s" using assms(1) unfolding find_new_def
    by (rule run_keeps [OF adapter_contract.find_keeps [OF adapter_for_contract]])
  have contracts: "adapter_contract (rc_adapter ?rc)" "object_contract ?M"
    by (simp_all add: adapter_for_contract kind_object_def object_for_contract)
  have rest: "wp (do { set_binding (Some m); onExistingObject ?rc (op_libs op) (op_klib op) ?M ctx c hash })
      (\<lambda>r u. \<exists>es. events u = events t' @ es \<and> list_all (\<lambda>e. \<not> sends ''POST'' e) es
         \<and> st_SigNozResource (o_CoreStatus (obj u)) \<in> {Some m, None}) t'" for t' :: "('t resource, 'w) sys"
  proof -
    let ?t = "t'\<lparr>obj := (obj t')\<lparr>o_CoreStatus := (o_CoreStatus (obj t'))\<lparr>st_SigNozResource := Some m\<rparr>\<rparr>\<rparr>"
    have "emits (\<lambda>e. \<not> sends ''POST'' e) (onExistingObject ?rc (op_libs op) (op_klib op) ?M ctx c hash)"
      unfolding kind_object_def by (rule kinds.emits_onExistingObject) (simp_all add: http_event_sends)
    from wp_conj [OF emitsD [OF this, of ?t] onExistingObject_binding [OF contracts]]
    show ?thesis by (simp add: set_binding_def wp_simps) (erule wp_mono, auto)
  qed
  have "wp (addCreateAttemptAnnotation ?rc (op_libs op) ctx)
      (\<lambda>perr u. \<exists>w. events u = events t @ [w] \<and> (write_ahead w \<longleftrightarrow> perr = None)) t"
    by (auto simp: addCreateAttemptAnnotation_def wp_simps write_ahead_def set_annotations_def split: prod.split)
  then have "wp (adopt ?rc (op_libs op) (op_klib op) ?M ctx c m hash) (\<lambda>r u. \<exists>w es. events u = events t @ w # es
      \<and> list_all (\<lambda>e. \<not> sends ''POST'' e) es
      \<and> (if write_ahead w then st_SigNozResource (o_CoreStatus (obj u)) \<in> {Some m, None} else snd r \<noteq> None \<and> es = [])) t"
    unfolding adopt_def wp_bind [of "addCreateAttemptAnnotation _ _ _"]
  proof (rule wp_mono)
    fix perr :: "go_error option" and u :: "('t resource, 'w) sys"
    assume "\<exists>w. events u = events t @ [w] \<and> (write_ahead w \<longleftrightarrow> perr = None)"
    then obtain w where w: "events u = events t @ [w]" "write_ahead w \<longleftrightarrow> perr = None" by blast
    show "wp (case perr of Some err \<Rightarrow> State_Monad.return (no_requeue, Some err)
        | None \<Rightarrow> do { set_binding (Some m); onExistingObject ?rc (op_libs op) (op_klib op) ?M ctx c hash })
      (\<lambda>r u. \<exists>w es. events u = events t @ w # es \<and> list_all (\<lambda>e. \<not> sends ''POST'' e) es
        \<and> (if write_ahead w then st_SigNozResource (o_CoreStatus (obj u)) \<in> {Some m, None} else snd r \<noteq> None \<and> es = [])) u"
    proof (cases perr)
      case None
      have "wp (do { set_binding (Some m); onExistingObject ?rc (op_libs op) (op_klib op) ?M ctx c hash })
        (\<lambda>r u. \<exists>w es. events u = events t @ w # es \<and> list_all (\<lambda>e. \<not> sends ''POST'' e) es
          \<and> (if write_ahead w then st_SigNozResource (o_CoreStatus (obj u)) \<in> {Some m, None} else snd r \<noteq> None \<and> es = [])) u"
        by (rule wp_mono [OF rest [of u]], elim exE conjE, rule exI [of _ w]) (use w None in auto)
      then show ?thesis using None by simp
    next
      case (Some e)
      then show ?thesis
        by (simp only: wp_return option.case, intro exI [of _ w] exI [of _ "[]"]) (use w Some in simp)
    qed
  qed
  then show ?thesis
    using assms ob unfolding on_new_def onNewObject_def find_new_def
    by (simp add: wp_simps wp_known Let_def)
qed



theorem single_match_is_adopted_witness:
  "wp (on_new scripted_operator Role Background scripted_client ''x'' ''h'') (\<lambda>r u. \<exists>w es pre. events u = pre @ w # es
      \<and> list_all (\<lambda>e. \<not> sends ''POST'' e) es)
     (start (new_resource (role_spec ''x'' ''d'')) [data_answer (JArr [role_data ''x'' ''1'']), data_answer (role_data ''x'' ''d'')])"
proof -
  let ?s = "start (new_resource (role_spec ''x'' ''d'')) [data_answer (JArr [role_data ''x'' ''1'']), data_answer (role_data ''x'' ''d'')]"
  have "case fst (run_state (find_new scripted_operator Role Background scripted_client) ?s) of
      Inl e \<Rightarrow> False | Inr ms \<Rightarrow> length ms = 1" by code_simp
  then obtain ms t where run: "run_state (find_new scripted_operator Role Background scripted_client) ?s = (Inr ms, t)"
    and "length ms = 1" by (rule run_Inr)
  then obtain m where run: "run_state (find_new scripted_operator Role Background scripted_client) ?s = (Inr [m], t)"
    by (cases ms) auto
  have "pinned_id (obj ?s) = []" by (simp add: start_def new_resource_def pinned_id_def)
  from single_match_is_adopted [OF run this] show ?thesis by (rule wp_mono) blast
qed

subsection \<open>Suspension\<close>

text \<open>
  A suspended resource is left alone: nothing is read or sent, the binding is kept, and its
  status says Suspended.
\<close>

theorem suspended_resource_is_left_alone:
  assumes "kube_lib (op_klib op)" and "cs_Suspend (o_CoreSpec (obj s))"
  shows "wp (reconcile (run_reconciler op kind) (op_libs op) (op_klib op) (kind_object op kind) ctx)
    (\<lambda>r t. r = (no_requeue, None) \<and> events t = events s
      \<and> shows_outcome (o_CoreStatus (obj t)) OutcomeSuspended SReasonSuspended
          ''reconciliation is suspended by spec.suspend'' (om_Generation (o_Meta (obj s)))) s"
  unfolding kind_object_def by (rule reconciler_pass.suspended_reconcile [OF kind_pass [OF assms(1)] assms(2)])

definition suspended_resource :: "unit resource" where
  "suspended_resource = (new_resource [])\<lparr>o_CoreSpec := (o_CoreSpec (new_resource []))\<lparr>cs_Suspend := True\<rparr>\<rparr>"

theorem suspended_resource_is_left_alone_witness:
  "wp (reconcile (run_reconciler scripted_operator Role) ref_libs ref_klib (kind_object scripted_operator Role) Background)
    (\<lambda>r t. r = (no_requeue, None) \<and> events t = []) (start suspended_resource [])"
proof -
  have "cs_Suspend (o_CoreSpec (obj (start suspended_resource [])))" by (simp add: start_def suspended_resource_def)
  from suspended_resource_is_left_alone [OF scripted_lib this, of Role Background] show ?thesis
    by (simp, elim wp_mono) (simp add: start_def)
qed

subsection \<open>Deletion\<close>

text \<open>The calls a pass over a deleted resource may issue.\<close>

definition reclaiming :: "'o event \<Rightarrow> bool" where
  "reclaiming e \<longleftrightarrow> kube_read e \<or> sends ''GET'' e \<or> sends ''DELETE'' e \<or> (\<exists>ctx o' b. e = EvUpdate ctx o' b)"


definition deleted_resource :: "unit resource" where
  "deleted_resource = (bound_resource [] [])\<lparr>o_Meta := (o_Meta (bound_resource [] []))\<lparr>om_DeletionTimestamp := Some 1\<rparr>\<rparr>"


subsection \<open>The steady state\<close>

text \<open>What a pass over a bound resource sees of SigNoz.\<close>

definition observe :: "('t, 'w) operator \<Rightarrow> Kind \<Rightarrow> ctx \<Rightarrow> (('t resource, 'w) sys, go_error + string) state" where
  "observe op kind ctx = do {
     cl \<leftarrow> signozClientFor (run_reconciler op kind) ctx;
     case cl of Inl err \<Rightarrow> State_Monad.return (Inl err) | Inr c \<Rightarrow> read_bound op kind ctx c
   }"

lemma settled_only_read:
  fixes op :: "('t, 'w) operator" and s :: "('t resource, 'w) sys"
  assumes lib: "kube_lib (op_klib op)" and settled: "settled (kind_object op kind) (obj s) hash"
    and seen: "fst (run_state (observe op kind (pass_ctx (run_reconciler op kind) (obj s) ctx)) s) = Inr resp"
    and same: "m_Compare (kind_object op kind) (o_Template (obj s)) resp = Inr \<lparr>cr_UpdatableFields = [], cr_ImmutableFields = []\<rparr>"
  shows "wp (pass_of op kind ctx) (\<lambda>r t. r = (requeue_after (rc_interval (run_reconciler op kind) (obj s)), None)
    \<and> obj t = obj s \<and> (\<exists>es. events t = events s @ es \<and> list_all read_only es)) s"
proof -
  let ?rc = "run_reconciler op kind" and ?c = "pass_ctx (run_reconciler op kind) (obj s) ctx"
  obtain r s1 where res: "run_state (rs_ResolveRef (rc_resolver ?rc) ?c (cs_ProviderConfigRef (o_CoreSpec (obj s)))
      (om_Namespace (o_Meta (obj s))) (rc_operatorNamespace ?rc)) s = (r, s1)" by fastforce
  have o1: "obj s1 = obj s" by (rule run_keeps [OF kinds.rs.resolve_keeps res])
  have obs: "wp (observe op kind ?c) (\<lambda>a _. a = Inr resp) s" using seen by (simp add: wp_fst_snd)
  then obtain p where p: "r = Inr p"
    by (cases r) (auto simp: observe_def wp_simps signozClientFor_def wp_known [OF res] simp del: run_reconciler_sel)
  with obs have "wp (read_bound op kind ?c (clients_New p)) (\<lambda>a _. a = Inr resp) s1"
    by (simp add: observe_def wp_simps signozClientFor_def wp_known [OF res] del: run_reconciler_sel)
  then obtain s2 where "run_state (read_bound op kind ?c (clients_New p)) s1 = (Inr resp, s2)"
    by (cases "run_state (read_bound op kind ?c (clients_New p)) s1") (simp add: wp_def)
  then have read: "run_state (ad_Read (rc_adapter ?rc) (object_for kind (op_libs op) (op_marshal op)) (clients_New p) ?c
      (st_SigNozResource (o_CoreStatus (obj s)))) s1 = (Inr resp, s2)" unfolding read_bound_run o1 .
  show ?thesis
    unfolding pass_of_def
    by (rule reconciler_pass.settled_pass [OF kind_pass [OF lib] settled [unfolded kind_object_def] refl
        res [unfolded p] read same [unfolded kind_object_def]])
qed

text \<open>
  (C7) A pass over a settled resource whose object is as the spec says writes nothing, to SigNoz or
  to Kubernetes, leaves the resource as it was, and asks to run again after the interval.
\<close>

theorem settled_resource_is_only_read:
  fixes op :: "('t, 'w) operator" and s :: "('t resource, 'w) sys"
  assumes lib: "kube_lib (op_klib op)" and settled: "settled (kind_object op kind) (obj s) hash"
    and seen: "fst (run_state (observe op kind (pass_ctx (run_reconciler op kind) (obj s) ctx)) s) = Inr resp"
    and same: "m_Compare (kind_object op kind) (o_Template (obj s)) resp = Inr \<lparr>cr_UpdatableFields = [], cr_ImmutableFields = []\<rparr>"
  shows "wp (pass_of op kind ctx) (\<lambda>r t. r = (requeue_after (rc_interval (run_reconciler op kind) (obj s)), None)
    \<and> obj t = obj s \<and> (\<exists>es. events t = events s @ es \<and> list_all read_only es)) s"
  by (rule settled_only_read [OF assms])

definition settled_role :: "unit resource" where
  "settled_role =
     (let o' = bound_resource (role_spec ''x'' ''d'') (print_json (JObj [(''description'', JStr ''d''), (''name'', JStr ''x'')]))
      in o'\<lparr>o_CoreStatus := SetConditionsOnOutcome ref_klib 0 1 OutcomeSynced SReasonSynced ''In sync with SigNoz'' (o_CoreStatus o')\<rparr>)"

theorem settled_resource_is_only_read_witness:
  "wp (pass_of scripted_operator Role Background) (\<lambda>r t. obj t = settled_role \<and> list_all read_only (events t))
     (start settled_role [data_answer (role_data ''x'' ''d'')])"
proof -
  let ?s = "start settled_role [data_answer (role_data ''x'' ''d'')]"
  let ?h = "print_json (JObj [(''description'', JStr ''d''), (''name'', JStr ''x'')])"
  have "shows_outcome (o_CoreStatus settled_role) OutcomeSynced SReasonSynced ''In sync with SigNoz'' 1"
    unfolding settled_role_def Let_def by (simp add: refk.outcome_shown)
  moreover have "\<not> isl (m_Identity (kind_object scripted_operator Role) (o_Template settled_role))"
    "m_Hash (kind_object scripted_operator Role) (o_Template settled_role) = Inr ?h" by code_simp+
  ultimately have settled: "settled (kind_object scripted_operator Role) (obj ?s) ?h"
    by (simp add: settled_def settled_role_def Let_def start_def bound_resource_def new_resource_def GetIDFromSigNozResource_def)
  have "case fst (run_state (observe scripted_operator Role (pass_ctx (run_reconciler scripted_operator Role) (obj ?s) Background)) ?s) of
      Inl e \<Rightarrow> False
    | Inr resp \<Rightarrow> m_Compare (kind_object scripted_operator Role) (o_Template (obj ?s)) resp
        = Inr \<lparr>cr_UpdatableFields = [], cr_ImmutableFields = []\<rparr>" by code_simp
  then obtain resp where "fst (run_state (observe scripted_operator Role (pass_ctx (run_reconciler scripted_operator Role) (obj ?s) Background)) ?s) = Inr resp"
    "m_Compare (kind_object scripted_operator Role) (o_Template (obj ?s)) resp = Inr \<lparr>cr_UpdatableFields = [], cr_ImmutableFields = []\<rparr>"
    by (auto split: sum.splits)
  from settled_resource_is_only_read [OF scripted_lib settled this] show ?thesis
    by (rule wp_mono) (auto simp: start_def)
qed

end
