(* ===== verification/Divergences.thy ===== *)
theory Divergences
  imports Guarantees Branches
begin

text \<open>
  Behaviours of the code that its documents or comments describe otherwise, as theorems.
\<close>


text \<open>
  (C38) A bound resource whose spec changed, in sync with SigNoz and setting no updatable field, sends
  no update, since its payload is nil; its status says all the same that it was updated in SigNoz.
\<close>

theorem empty_update_is_reported_as_updated:
  assumes lib: "kube_lib (op_klib op)" and read: "run_state (read_bound op kind ctx c) s = (Inr resp, t)"
    and same: "m_Compare (kind_object op kind) (o_Template (obj s)) resp = Inr \<lparr>cr_UpdatableFields = [], cr_ImmutableFields = []\<rparr>"
    and changed: "st_ObservedHash (o_CoreStatus (obj s)) \<notin> {[], hash}"
    and nil: "m_ToUpdate (kind_object op kind) (o_Template (obj s)) = Inr None"
  shows "wp (on_existing op kind ctx c hash) (\<lambda>r u. events u = events t
    \<and> shows_outcome (o_CoreStatus (obj u)) OutcomeSynced SReasonUpdated ''Updated in SigNoz'' (om_Generation (o_Meta (obj s)))) s"
proof -
  let ?M = "object_for kind (op_libs op) (op_marshal op)" and ?m = "st_SigNozResource (o_CoreStatus (obj s))"
  have rd: "run_state (ad_Read (rc_adapter (run_reconciler op kind)) ?M c ctx ?m) s = (Inr resp, t)"
    using read by (simp only: read_bound_run)
  then have "obj t = obj s"
    by (simp only: run_reconciler_sel) (rule run_keeps [OF adapter_contract.read_keeps [OF adapter_for_contract]])
  then have "run_state (ad_Update (rc_adapter (run_reconciler op kind)) ?M c ctx ?m) t = (None, t)"
    using nil by (simp add: adapter_for_transport Transport_Update_def kind_object_def get_obj_def)
  from reconciler_pass.existing_updated [OF kind_pass [OF lib] rd same [unfolded kind_object_def] _ _ this] changed
  have "wp (on_existing op kind ctx c hash) (\<lambda>r u. r = (requeue_after (rc_interval (run_reconciler op kind) (obj s)), None)
      \<and> events u = events t \<and> st_SigNozResource (o_CoreStatus (obj u)) = ?m \<and> st_ObservedHash (o_CoreStatus (obj u)) = hash
      \<and> shows_outcome (o_CoreStatus (obj u)) OutcomeSynced SReasonUpdated ''Updated in SigNoz'' (om_Generation (o_Meta (obj s)))) s"
    unfolding handler_defs by simp
  then show ?thesis by (rule wp_mono) simp
qed

definition user_spec :: string where
  "user_spec = print_json (JObj [(''email'', JStr ''e'')])"

theorem empty_update_is_reported_as_updated_witness:
  "wp (on_existing scripted_operator User Background scripted_client ''new'')
     (\<lambda>r u. map fst (http_log (events u)) = [''GET''] \<and> shows_outcome (o_CoreStatus (obj u)) OutcomeSynced SReasonUpdated ''Updated in SigNoz'' 1)
     (start (bound_resource user_spec ''old'') [data_answer (JObj [(''id'', JStr ''7''), (''email'', JStr ''e'')])])"
proof -
  let ?s = "start (bound_resource user_spec ''old'') [data_answer (JObj [(''id'', JStr ''7''), (''email'', JStr ''e'')])]"
  have "case run_state (read_bound scripted_operator User Background scripted_client) ?s of (r, t) \<Rightarrow>
      (case r of Inl e \<Rightarrow> False
       | Inr resp \<Rightarrow> map fst (http_log (events t)) = [''GET'']
           \<and> m_Compare (kind_object scripted_operator User) (o_Template (obj ?s)) resp
             = Inr \<lparr>cr_UpdatableFields = [], cr_ImmutableFields = []\<rparr>)" by code_simp
  then obtain resp t where run: "run_state (read_bound scripted_operator User Background scripted_client) ?s = (Inr resp, t)"
    and log: "map fst (http_log (events t)) = [''GET'']"
    and same: "m_Compare (kind_object scripted_operator User) (o_Template (obj ?s)) resp = Inr \<lparr>cr_UpdatableFields = [], cr_ImmutableFields = []\<rparr>"
    by (auto split: prod.splits sum.splits)
  have nil: "m_ToUpdate (kind_object scripted_operator User) (o_Template (obj ?s)) = Inr None" by code_simp
  have changed: "st_ObservedHash (o_CoreStatus (obj ?s)) \<notin> {[], ''new''}" by (simp add: start_def bound_resource_def)
  have "om_Generation (o_Meta (obj ?s)) = 1" by (simp add: start_def bound_resource_def new_resource_def)
  with empty_update_is_reported_as_updated [OF scripted_lib run same changed nil] show ?thesis
    using log by (auto elim: wp_mono)
qed

end
