(* ===== verification/Transport.thy ===== *)
theory Transport
  imports RefLibs Adapters "HOL-Library.Code_Target_Nat"
begin

text \<open>
  Properties of the HTTP client and of the lookups: what a request carries, what of an answer
  reaches the caller, and that a lookup by identity finds every match.
\<close>

subsection \<open>Requests\<close>

definition auth_value :: "ResolvedHeaderAuthentication \<Rightarrow> string" where
  "auth_value h = (if rh_Scheme h \<noteq> [] then rh_Scheme h @ '' '' @ rh_Value h else rh_Value h)"

lemma canonical_names [simp]:
  "CanonicalHeaderKey ''User-Agent'' = ''User-Agent''" "CanonicalHeaderKey ''Content-Type'' = ''Content-Type''"
  by code_simp+

text \<open>
  Every request carries the resolved credential under the canonical form of its header name,
  the operator's user agent, and a JSON content type exactly when it has a body; it carries no
  other header. (A credential header named like one of the other two would be overwritten.)
\<close>

theorem request_headers:
  assumes "build_request L c method path body = Inr req"
    and "ra_Header (rp_Auth (sc_resolved c)) = Some h"
    and "CanonicalHeaderKey (rh_Name h) \<notin> {''User-Agent'', ''Content-Type''}"
  shows "rq_Method req = method \<and> rq_Body req = body \<and> rq_Header req =
    (\<lambda>k. if k = CanonicalHeaderKey (rh_Name h) then Some (auth_value h)
         else if k = ''User-Agent'' then Some userAgent
         else if k = ''Content-Type'' \<and> body \<noteq> None then Some ''application/json''
         else None)"
  using assms
  by (auto simp: build_request_def SetAuthHeader_def Header_Set_def auth_value_def Let_def
      split: sum.splits option.splits)

definition sample_client :: signoz_client where
  "sample_client = clients_New \<lparr>rp_Endpoint = \<lparr>url_Scheme = ''https'', url_Host = ''h'', url_EscapedPath = [], url_RawQuery = []\<rparr>,
     rp_Auth = \<lparr>ra_Header = Some \<lparr>rh_Name = ''SIGNOZ-API-KEY'', rh_Scheme = [], rh_Value = ''k''\<rparr>\<rparr>, rp_TLS = None\<rparr>"

theorem request_headers_witness:
  "\<exists>req. build_request ref_libs sample_client ''GET'' ''/api/v1/roles'' None = Inr req
     \<and> rq_Header req ''Signoz-Api-Key'' = Some ''k'' \<and> rq_Header req ''Content-Type'' = None"
proof -
  have name: "CanonicalHeaderKey ''SIGNOZ-API-KEY'' = ''Signoz-Api-Key''" by code_simp
  obtain u where u: "ref_url_Parse ''/api/v1/roles'' = Inr u"
    by (simp add: ref_url_Parse_def split_at_def)
  obtain req where req: "build_request ref_libs sample_client ''GET'' ''/api/v1/roles'' None = Inr req"
    by (simp add: build_request_def u Let_def)
  have h: "ra_Header (rp_Auth (sc_resolved sample_client)) = Some \<lparr>rh_Name = ''SIGNOZ-API-KEY'', rh_Scheme = [], rh_Value = ''k''\<rparr>"
    by (simp add: sample_client_def clients_New_def)
  show ?thesis using request_headers [OF req h] req by (simp add: name auth_value_def)
qed

subsection \<open>Answers\<close>

text \<open>
  What reaches the caller of an exchange: the answer's own status, and either nothing, for an
  empty body, or the JSON value the body starts with, nothing but white space or a closing
  bracket following it, or, for a body that is not JSON under an error status, a snippet of it
  wrapped in an object. The body was read to its end and is within the limit.
\<close>

theorem read_response_contract:
  assumes "read_response L resp = Inr (st, data)"
  shows "st = rs_StatusCode resp \<and> rs_ReadErr resp = None \<and> length (rs_Body resp) \<le> maxResponseBody
    \<and> (rs_Body resp = [] \<and> data = []
       \<or> (\<exists>rest. json_Decode L (rs_Body resp) = Some (data, rest) \<and> \<not> decoder_More rest)
       \<or> (decode_single L (rs_Body resp) = None \<and> \<not> (200 \<le> st \<and> st < 300)
          \<and> (json_Marshal L (JObj [(''response'', JStr (snippet (rs_Body resp)))]) = Inr data
             \<or> isl (json_Marshal L (JObj [(''response'', JStr (snippet (rs_Body resp)))])) \<and> data = [])))"
  using assms
  by (auto simp: read_response_def decode_single_def Let_def split: option.splits if_splits sum.splits)

theorem read_response_contract_witness:
  "\<exists>data. read_response ref_libs \<lparr>rs_StatusCode = 502, rs_Body = ''bad'', rs_ReadErr = None\<rparr> = Inr (502, data)
     \<and> decode_single ref_libs ''bad'' = None"
proof -
  let ?r = "\<lparr>rs_StatusCode = 502, rs_Body = ''bad'', rs_ReadErr = None\<rparr>"
  have none: "decode_single ref_libs ''bad'' = None" by code_simp
  then have r: "read_response ref_libs ?r = Inr (502, print_json (JObj [(''response'', JStr (snippet ''bad''))]))"
    by (simp add: read_response_code)
  have "length (rs_Body ?r) \<le> maxResponseBody" using read_response_contract [OF r] by simp
  then show ?thesis using r none by blast
qed

text \<open>
  (C34) A body over 64 MiB is an error that counts as the backend being unreachable, whatever the
  status and whatever else is wrong with it.
\<close>

theorem oversized_body_is_unreachable:
  assumes "length (rs_Body resp) > maxResponseBody"
  shows "\<exists>err. read_response L resp = Inl err \<and> IsUnreachable (Some err)"
  using assms by (simp add: read_response_def Let_def IsUnreachable_def)

theorem oversized_body_is_unreachable_witness:
  "\<exists>err. read_response ref_libs \<lparr>rs_StatusCode = 200, rs_Body = replicate 67108865 (CHR ''x''), rs_ReadErr = None\<rparr>
     = Inl err \<and> IsUnreachable (Some err)"
  by (rule oversized_body_is_unreachable) (simp add: maxResponseBody_def)


subsection \<open>Lookups\<close>

text \<open>The entries of a list that hold the identity, and their metadata.\<close>

definition matching :: "libs \<Rightarrow> string \<Rightarrow> string \<Rightarrow> json list \<Rightarrow> json list" where
  "matching L field identity entries = filter (\<lambda>e. res_String L (gjson_Get L e field) = identity) entries"

definition entry_id :: "libs \<Rightarrow> json \<Rightarrow> string" where
  "entry_id L e = res_String L (gjson_Get L e ''id'')"

lemma match_entries_eq:
  "match_entries L field identity entries =
     (if list_all (\<lambda>e. entry_id L e \<noteq> []) (matching L field identity entries)
      then Inr (map (\<lambda>e. \<lparr>sr_ID = Some (entry_id L e)\<rparr>) (matching L field identity entries))
      else Inl (find_error ''find: list entry carries no id''))"
  by (induction entries) (auto simp: matching_def entry_id_def Let_def split: sum.split)

lemma match_entries_append:
  "match_entries L field identity (xs @ ys) =
     (case match_entries L field identity xs of
        Inl e \<Rightarrow> Inl e
      | Inr ms \<Rightarrow> (case match_entries L field identity ys of Inl e \<Rightarrow> Inl e | Inr ms' \<Rightarrow> Inr (ms @ ms')))"
  by (auto simp: match_entries_eq matching_def)

text \<open>
  The lookup over a list answer returns the metadata of exactly the entries whose field is the
  identity, in order, each with a usable id; a match without an id is an error, never skipped.
\<close>

theorem match_entries_sound_complete:
  "match_entries L field identity entries =
     (if list_all (\<lambda>e. entry_id L e \<noteq> []) (matching L field identity entries)
      then Inr (map (\<lambda>e. \<lparr>sr_ID = Some (entry_id L e)\<rparr>) (matching L field identity entries))
      else Inl (find_error ''find: list entry carries no id''))"
  by (rule match_entries_eq)

text \<open>A backend that serves a fixed list page by page: at every offset the walk can reach, the
  answer is a success whose page is the next hundred entries and whose total is their number.\<close>

definition honest_pages :: "('t resource, 'w) ports \<Rightarrow> libs \<Rightarrow> signoz_client \<Rightarrow> ctx \<Rightarrow> string \<Rightarrow> string \<Rightarrow> json list \<Rightarrow> bool" where
  "honest_pages P L c ctx path listKey served \<longleftrightarrow>
     (\<forall>s offset. 0 \<le> offset \<longrightarrow> offset mod 100 = 0 \<longrightarrow> (offset = 0 \<or> offset < int (length served)) \<longrightarrow>
        (\<exists>body t. run_state (Exchange P L c ctx ''GET'' (page_path path offset) None) s = (Inr (200, body), t)
           \<and> read_page L listKey body =
               Inr (take 100 (drop (nat offset) served), word_of_int (int (length served)))))"

lemma sint_small: "n < 2 ^ 63 \<Longrightarrow> sint (word_of_int (int n) :: 64 word) = int n"
  by (subst sint_sbintrunc') (simp add: signed_take_bit_int_eq_self)

lemma walk_pages_step:
  fixes P :: "('t resource, 'w) ports" and s :: "('t resource, 'w) sys"
  assumes "run_state (Exchange P L c ctx ''GET'' (page_path path offset) None) s = (Inr (200, body), t)"
    and "read_page L listKey body = Inr (entries, count)"
  shows "wp (walk_pages P L c ctx path listKey identity matches offset) Q s \<longleftrightarrow>
    (case match_entries L ''name'' identity entries of
       Inl e \<Rightarrow> Q (Inl e) t
     | Inr found \<Rightarrow>
         if entries = [] \<or> offset + int (length entries) \<ge> sint count then Q (Inr (matches @ found)) t
         else wp (walk_pages P L c ctx path listKey identity (matches @ found) (offset + findPageLimit)) Q t)"
  using assms
  by (subst walk_pages.simps) (auto simp: wp_def http_error_def NewFromHTTPResponse_def split: sum.split)

lemma walk_pages_complete:
  fixes P :: "('t resource, 'w) ports" and s :: "('t resource, 'w) sys"
  assumes "honest_pages P L c ctx path listKey served" and "length served < 2 ^ 63"
  shows "0 \<le> offset \<Longrightarrow> offset mod 100 = 0 \<Longrightarrow> offset = 0 \<or> offset < int (length served) \<Longrightarrow>
    wp (walk_pages P L c ctx path listKey identity matches offset)
      (\<lambda>r _. r = (case match_entries L ''name'' identity (drop (nat offset) served) of
         Inl e \<Rightarrow> Inl e | Inr ms \<Rightarrow> Inr (matches @ ms))) s"
proof (induction matches offset arbitrary: s rule: walk_pages_induct)
  case (1 matches offset s)
  let ?page = "take 100 (drop (nat offset) served)" and ?rest = "drop (nat (offset + 100)) served"
  obtain body t where ex: "run_state (Exchange P L c ctx ''GET'' (page_path path offset) None) s = (Inr (200, body), t)"
    and pg: "read_page L listKey body = Inr (?page, word_of_int (int (length served)))"
    using assms(1) [unfolded honest_pages_def, rule_format, OF "1.prems"] by meson
  have "drop (nat offset) served = ?page @ ?rest"
    using "1.prems"(1) append_take_drop_id [of 100 "drop (nat offset) served"]
    by (simp add: nat_add_distrib add.commute)
  then have whole: "match_entries L ''name'' identity (drop (nat offset) served) =
      (case match_entries L ''name'' identity ?page of
         Inl e \<Rightarrow> Inl e
       | Inr ms \<Rightarrow> (case match_entries L ''name'' identity ?rest of Inl e \<Rightarrow> Inl e | Inr ms' \<Rightarrow> Inr (ms @ ms')))"
    by (metis match_entries_append)
  have total: "sint (word_of_int (int (length served)) :: 64 word) = int (length served)"
    using assms(2) by (rule sint_small)
  show ?case
  proof (cases "?page = [] \<or> offset + int (length ?page) \<ge> int (length served)")
    case True
    then have "?rest = []" using "1.prems" by (auto simp: min_def split: if_splits)
    then have "match_entries L ''name'' identity ?rest = Inr []" by simp
    then show ?thesis
      unfolding walk_pages_step [OF ex pg] total whole using True by (simp split: sum.split)
  next
    case False
    have next_off: "offset + 100 < int (length served)" using False "1.prems"(1) by (auto simp: min_def split: if_splits)
    have IH: "wp (walk_pages P L c ctx path listKey identity matches' (offset + findPageLimit))
      (\<lambda>r _. r = (case match_entries L ''name'' identity (drop (nat (offset + findPageLimit)) served) of
         Inl e \<Rightarrow> Inl e | Inr ms \<Rightarrow> Inr (matches' @ ms))) t" for matches'
      by (rule "1.IH") (use next_off "1.prems" assms(2) in \<open>simp_all add: findPageLimit_def\<close>)
    show ?thesis
    proof (cases "match_entries L ''name'' identity ?page")
      case (Inl e)
      then show ?thesis unfolding walk_pages_step [OF ex pg] whole by simp
    next
      case (Inr found)
      have "wp (walk_pages P L c ctx path listKey identity (matches @ found) (offset + findPageLimit))
        (\<lambda>r _. r = (case match_entries L ''name'' identity (drop (nat offset) served) of
           Inl e \<Rightarrow> Inl e | Inr ms \<Rightarrow> Inr (matches @ ms))) t"
        by (rule wp_mono [OF IH]) (simp add: whole Inr findPageLimit_def split: sum.split)
      then show ?thesis unfolding walk_pages_step [OF ex pg] total using False Inr by simp
    qed
  qed
qed

text \<open>
  (C18) A lookup by pages over a backend that serves its list honestly, a hundred entries at a time
  under a true total, returns what a lookup over the whole list would: no entry is missed at a page
  boundary and none is seen twice.
\<close>

theorem findByPage_sees_the_whole_list:
  fixes P :: "('t resource, 'w) ports" and s :: "('t resource, 'w) sys"
  assumes "honest_pages P L c ctx path listKey served" and "length served < 2 ^ 63"
    and "m_Identity M (o_Template (obj s)) = Inr identity"
  shows "fst (run_state (findByPage P L M c ctx path listKey) s) = match_entries L ''name'' identity served"
proof -
  have "wp (walk_pages P L c ctx path listKey identity [] 0)
      (\<lambda>r _. r = match_entries L ''name'' identity served) s"
    using walk_pages_complete [OF assms(1,2), of 0 identity "[]" s] by (simp cong: sum.case_cong split: sum.splits)
  then show ?thesis using assms(3) by (simp add: findByPage_def wp_fst_snd get_obj_def)
qed

definition page_json :: json where
  "page_json = JObj [(''data'', JObj [(''dashboards'', JArr [
     JObj [(''id'', JStr ''a''), (''name'', JStr ''n'')], JObj [(''id'', JStr ''b''), (''name'', JStr ''m'')]]),
     (''total'', JNum 2)])]"

definition one_page_ports :: "(unit resource, unit) ports" where
  "one_page_ports = \<lparr>
     kube_Update = (\<lambda>ctx o' w. (Inr o', w)),
     kube_Patch = (\<lambda>ctx base o' w. (Inr o', w)),
     kube_StatusUpdate = (\<lambda>ctx o' w. (Inr o', w)),
     http_Do = (\<lambda>tls ctx req w. (Inr \<lparr>rs_StatusCode = 200, rs_Body = print_json page_json, rs_ReadErr = None\<rparr>, w)),
     p_Now = (\<lambda>w. 0) \<rparr>"

definition page_entries :: "json list" where
  "page_entries = [JObj [(''id'', JStr ''a''), (''name'', JStr ''n'')], JObj [(''id'', JStr ''b''), (''name'', JStr ''m'')]]"

lemma one_page_served:
  "read_response ref_libs \<lparr>rs_StatusCode = 200, rs_Body = print_json page_json, rs_ReadErr = None\<rparr>
     = Inr (200, print_json page_json)"
  "read_page ref_libs ''dashboards'' (print_json page_json) = Inr (page_entries, 2)"
proof -
  have "decode_single ref_libs (print_json page_json) = Some (print_json page_json)"
    "length (print_json page_json) < 1000" "print_json page_json \<noteq> []" by code_simp+
  then show "read_response ref_libs \<lparr>rs_StatusCode = 200, rs_Body = print_json page_json, rs_ReadErr = None\<rparr>
     = Inr (200, print_json page_json)"
    by (simp add: read_response_code)
  show "read_page ref_libs ''dashboards'' (print_json page_json) = Inr (page_entries, 2)" by code_simp
qed

lemma one_page_honest:
  "honest_pages one_page_ports ref_libs sample_client Background ''/api/v2/dashboards'' ''dashboards'' page_entries"
proof -
  have path: "page_path ''/api/v2/dashboards'' 0 = ''/api/v2/dashboards?limit=100&offset=0''" by code_simp
  have "\<not> isl (build_request ref_libs sample_client ''GET'' ''/api/v2/dashboards?limit=100&offset=0'' None)"
    by (simp add: build_request_def Let_def ref_url_Parse_def split_at_def split: sum.split)
  then obtain req where req: "build_request ref_libs sample_client ''GET'' (page_path ''/api/v2/dashboards'' 0) None = Inr req"
    unfolding path isl_def by (metis sum.exhaust)
  have page: "take 100 (drop (nat 0) page_entries) = page_entries" "word_of_int (int (length page_entries)) = (2 :: 64 word)"
    by (simp_all add: page_entries_def)
  show ?thesis
    unfolding honest_pages_def
  proof (intro allI impI)
    fix s :: "(unit resource, unit) sys" and offset :: int
    assume "0 \<le> offset" "offset mod 100 = 0" "offset = 0 \<or> offset < int (length page_entries)"
    then have "offset = 0" by (auto simp: page_entries_def)
    moreover have "wp (Exchange one_page_ports ref_libs sample_client Background ''GET'' (page_path ''/api/v2/dashboards'' 0) None)
        (\<lambda>r _. r = Inr (200, print_json page_json)) s"
      unfolding wp_Exchange req by (simp add: one_page_ports_def one_page_served)
    ultimately show "\<exists>body t. run_state (Exchange one_page_ports ref_libs sample_client Background ''GET''
          (page_path ''/api/v2/dashboards'' offset) None) s = (Inr (200, body), t)
        \<and> read_page ref_libs ''dashboards'' body =
            Inr (take 100 (drop (nat offset) page_entries), word_of_int (int (length page_entries)))"
      using one_page_served(2) page by (auto simp: wp_def split: prod.splits)
  qed
qed

definition dashboard :: "unit resource" where
  "dashboard = \<lparr>
     o_Meta = \<lparr>om_Name = ''r'', om_Namespace = ''ns'', om_Generation = 1, om_DeletionTimestamp = None,
               om_Finalizers = [], om_Annotations = Map.empty\<rparr>,
     o_CoreSpec = \<lparr>cs_ProviderConfigRef = \<lparr>ref_Name = ''pc'', ref_Kind = []\<rparr>, cs_Interval = None,
                   cs_RetryInterval = None, cs_Timeout = None, cs_Suspend = False, cs_ReclaimPolicy = ReclaimDelete\<rparr>,
     o_Template = \<lparr>tmpl_Spec = None, tmpl_JSONSpec = Some (print_json (JObj [(''name'', JStr ''n'')]))\<rparr>,
     o_CoreStatus = \<lparr>st_Conditions = [], st_SigNozResource = None, st_ObservedGeneration = 0,
                     st_ObservedHash = [], st_ReconciledAt = 0\<rparr> \<rparr>"

theorem findByPage_sees_the_whole_list_witness:
  "fst (run_state (findByPage one_page_ports ref_libs (DashboardObject ref_libs (\<lambda>_. Inr [])) sample_client Background
      ''/api/v2/dashboards'' ''dashboards'') \<lparr>obj = dashboard, env = (), events = []\<rparr>)
     = Inr [\<lparr>sr_ID = Some ''a''\<rparr>]"
proof -
  have "m_Identity (DashboardObject ref_libs (\<lambda>_. Inr [])) (o_Template dashboard) = Inr ''n''" by code_simp
  then have ident: "m_Identity (DashboardObject ref_libs (\<lambda>_. Inr []))
      (o_Template (obj \<lparr>obj = dashboard, env = (), events = []\<rparr>)) = Inr ''n''" by simp
  have "match_entries ref_libs ''name'' ''n'' page_entries = Inr [\<lparr>sr_ID = Some ''a''\<rparr>]" by code_simp
  moreover have "length page_entries < 2 ^ 63" by (simp add: page_entries_def)
  ultimately show ?thesis using findByPage_sees_the_whole_list [OF one_page_honest _ ident] by simp
qed

end
