(* ===== verification/Listing.thy ===== *)
theory Listing
  imports Transport Branches
begin

text \<open>
  What SigNoz documents of its list endpoints, and that every adapter's lookup sees through them what
  SigNoz holds. \<open>stored\<close> gives the objects of a kind that SigNoz holds, as its list endpoint shows
  them; the laws speak of requests and answers only.
\<close>

subsection \<open>The list endpoint of a kind\<close>

text \<open>A list comes whole or in pages under a key.\<close>

datatype list_endpoint = Whole string | Paged string string

fun endpoint_of :: "libs \<Rightarrow> Kind \<Rightarrow> string \<Rightarrow> list_endpoint" where
  "endpoint_of L User identity = Whole ''/api/v2/users''"
| "endpoint_of L SavedView identity = Whole (''/api/v2/saved_views?name='' @ url_QueryEscape L identity)"
| "endpoint_of L AuthDomain identity = Whole ''/api/v2/auth_domains''"
| "endpoint_of L PlannedMaintenance identity = Whole ''/api/v1/downtime_schedules''"
| "endpoint_of L Role identity = Whole ''/api/v1/roles''"
| "endpoint_of L RoutePolicy identity = Whole ''/api/v1/route_policies''"
| "endpoint_of L Rule identity = Whole ''/api/v2/rules''"
| "endpoint_of L ServiceAccount identity = Whole ''/api/v1/service_accounts''"
| "endpoint_of L Dashboard identity = Paged ''/api/v2/dashboards'' ''dashboards''"
| "endpoint_of L NotificationChannel identity = Paged ''/api/v2/notification_channels'' ''channels''"

text \<open>The entries of a list that carry an identity.\<close>

definition decodes_to :: "libs \<Rightarrow> string \<Rightarrow> (string \<Rightarrow> bool) \<Rightarrow> json \<Rightarrow> bool" where
  "decodes_to L field ok e =
     (case decode_structs L ''id'' field [e] of Inr [(_, x)] \<Rightarrow> ok x | _ \<Rightarrow> False)"

fun carries :: "libs \<Rightarrow> Kind \<Rightarrow> string \<Rightarrow> json \<Rightarrow> bool" where
  "carries L User identity = decodes_to L ''email'' (\<lambda>email. strings_EqualFold L email identity)"
| "carries L SavedView identity = decodes_to L ''name'' (\<lambda>name. name = identity)"
| "carries L Rule identity = (\<lambda>e. res_String L (gjson_Get L e ''alert'') = identity)"
| "carries L _ identity = (\<lambda>e. res_String L (gjson_Get L e ''name'') = identity)"

text \<open>The number of objects of an identity.\<close>

definition objects_of :: "libs \<Rightarrow> Kind \<Rightarrow> string \<Rightarrow> ('w \<Rightarrow> json list) \<Rightarrow> 'w \<Rightarrow> nat" where
  "objects_of L kind identity stored w = length (filter (carries L kind identity) (stored w))"

subsection \<open>What SigNoz documents\<close>

text \<open>An answer to a request for a path: the request is answered, the answer is JSON, its status a
  success.\<close>

definition answers :: "('o, 'w) ports \<Rightarrow> libs \<Rightarrow> string \<Rightarrow> 'w \<Rightarrow> string \<Rightarrow> 'w \<Rightarrow> bool" where
  "answers P L path w result w' \<longleftrightarrow>
     (\<exists>c ctx req resp status. build_request L c ''GET'' path None = Inr req
        \<and> http_Do P (sc_tls c) ctx req w = (Inr resp, w')
        \<and> read_response L resp = Inr (status, result) \<and> 200 \<le> status \<and> status < 300)"

text \<open>The whole list shows every stored object of the identity.\<close>

definition shows_whole :: "('o, 'w) ports \<Rightarrow> libs \<Rightarrow> string \<Rightarrow> (json \<Rightarrow> bool) \<Rightarrow> ('w \<Rightarrow> json list) \<Rightarrow> bool" where
  "shows_whole P L path carried stored \<longleftrightarrow> (\<forall>w result w'. answers P L path w result w' \<longrightarrow>
     (\<forall>e \<in> set (stored w'). carried e \<longrightarrow> e \<in> set (res_Array (gjson_GetBytes L result ''data''))))"

text \<open>A page shows the next hundred stored objects from its offset, under their number; reading
  changes nothing.\<close>

definition page_of :: "int \<Rightarrow> json list \<Rightarrow> json list" where
  "page_of offset xs = take 100 (drop (nat offset) xs)"

definition shows_pages :: "('o, 'w) ports \<Rightarrow> libs \<Rightarrow> string \<Rightarrow> string \<Rightarrow> ('w \<Rightarrow> json list) \<Rightarrow> bool" where
  "shows_pages P L path listKey stored \<longleftrightarrow>
     (\<forall>w offset result w' entries count. answers P L (page_path path offset) w result w' \<longrightarrow>
        read_page L listKey result = Inr (entries, count) \<longrightarrow>
        entries = page_of offset (stored w') \<and> count = word_of_int (int (length (stored w'))))
   \<and> (\<forall>tls ctx req w. rq_Method req = ''GET'' \<longrightarrow> stored (snd (http_Do P tls ctx req w)) = stored w)
   \<and> (\<forall>w. length (stored w) < 2 ^ 63)"

definition honest_listing :: "('t, 'w) operator \<Rightarrow> Kind \<Rightarrow> string \<Rightarrow> ('w \<Rightarrow> json list) \<Rightarrow> bool" where
  "honest_listing op kind identity stored \<longleftrightarrow>
     (case endpoint_of (op_libs op) kind identity of
        Whole path \<Rightarrow> shows_whole (op_client op) (op_libs op) path (carries (op_libs op) kind identity) stored
      | Paged path listKey \<Rightarrow> shows_pages (op_client op) (op_libs op) path listKey stored)"

subsection \<open>Lookups over a whole list\<close>

text \<open>An exchange that succeeds is an answer.\<close>

lemma Exchange_answers:
  "wp (Exchange P L c ctx ''GET'' path None) (\<lambda>r t. \<forall>status result. r = Inr (status, result) \<longrightarrow>
     200 \<le> status \<longrightarrow> status < 300 \<longrightarrow> answers P L path (env s) result (env t)) s"
  by (auto simp: wp_Exchange answers_def split: sum.split prod.split) blast+

lemma lookup_whole:
  fixes s :: "('o, 'w) sys"
  assumes "shows_whole P L path carried stored"
    and "\<And>status result. decode status result = Inr [] \<Longrightarrow> 200 \<le> status \<and> status < 300
      \<and> list_all (\<lambda>e. \<not> carried e) (res_Array (gjson_GetBytes L result ''data''))"
  shows "wp (do { r \<leftarrow> Exchange P L c ctx ''GET'' path None;
       State_Monad.return (case r of Inl err \<Rightarrow> Inl err | Inr (status, result) \<Rightarrow> decode status result) })
    (\<lambda>r t. r = Inr [] \<longrightarrow> filter carried (stored (env t)) = []) s"
  unfolding wp_bind
  by (rule wp_mono [OF Exchange_answers])
     (use assms in \<open>fastforce simp: wp_return shows_whole_def list_all_iff filter_empty_conv split: sum.splits\<close>)

lemma match_entries_none:
  "match_entries L field identity entries = Inr [] \<Longrightarrow> list_all (\<lambda>e. res_String L (gjson_Get L e field) \<noteq> identity) entries"
  by (auto simp: match_entries_eq matching_def list_all_iff filter_empty_conv split: if_splits)

lemma findByField_sees:
  fixes s :: "('t resource, 'w) sys"
  assumes "m_Identity M (o_Template (obj s)) = Inr identity"
    and "shows_whole P L path (\<lambda>e. res_String L (gjson_Get L e field) = identity) stored"
  shows "wp (findByField P L M c ctx path field)
    (\<lambda>r t. r = Inr [] \<longrightarrow> filter (\<lambda>e. res_String L (gjson_Get L e field) = identity) (stored (env t)) = []) s"
  unfolding findByField_def wp_bind [of get_obj] wp_get_obj assms(1) sum.case
  by (rule lookup_whole [OF assms(2)])
     (auto simp: Let_def http_error_None_iff split: option.splits if_splits dest: match_entries_none)

lemma decode_structs_each:
  "decode_structs L n1 n2 vs = Inr ps \<Longrightarrow> list_all2 (\<lambda>v p. decode_structs L n1 n2 [v] = Inr [p]) vs ps"
proof (induction vs arbitrary: ps)
  case (Cons v vs)
  then show ?case by (auto split: sum.splits)
qed simp

lemma decode_list_none:
  assumes "decode_list L ''id'' field data = Inr ps" and "filter (\<lambda>(_, x). ok x) ps = []"
  shows "list_all (\<lambda>e. \<not> decodes_to L field ok e) (res_Array (Some data))"
proof (cases data)
  case (JArr vs)
  then have "list_all2 (\<lambda>v p. decode_structs L ''id'' field [v] = Inr [p]) vs ps"
    using assms(1) by (intro decode_structs_each) (simp add: decode_list_def)
  then show ?thesis
    using assms(2) JArr by (fastforce simp: list_all_iff decodes_to_def filter_empty_conv in_set_conv_nth list_all2_conv_all_nth simp del: decode_structs.simps)
qed (use assms in \<open>simp_all add: decode_list_def\<close>)

lemma UserAdapter_Find_sees:
  fixes s :: "('t resource, 'w) sys"
  assumes "m_Identity M (o_Template (obj s)) = Inr identity"
    and "shows_whole P L ''/api/v2/users'' (decodes_to L ''email'' (\<lambda>email. strings_EqualFold L email identity)) stored"
  shows "wp (UserAdapter_Find P L M c ctx)
    (\<lambda>r t. r = Inr [] \<longrightarrow> filter (decodes_to L ''email'' (\<lambda>email. strings_EqualFold L email identity)) (stored (env t)) = []) s"
  unfolding UserAdapter_Find_def wp_bind [of get_obj] wp_get_obj assms(1) sum.case
  by (rule lookup_whole [OF assms(2)])
     (auto simp: http_error_None_iff split: option.splits sum.splits dest: decode_list_none)

lemma SavedViewAdapter_Find_sees:
  fixes s :: "('t resource, 'w) sys"
  assumes "m_Identity M (o_Template (obj s)) = Inr identity"
    and "shows_whole P L (''/api/v2/saved_views?name='' @ url_QueryEscape L identity) (decodes_to L ''name'' (\<lambda>name. name = identity)) stored"
  shows "wp (SavedViewAdapter_Find P L M c ctx)
    (\<lambda>r t. r = Inr [] \<longrightarrow> filter (decodes_to L ''name'' (\<lambda>name. name = identity)) (stored (env t)) = []) s"
  unfolding SavedViewAdapter_Find_def wp_bind [of get_obj] wp_get_obj assms(1) sum.case
  by (rule lookup_whole [OF assms(2)])
     (auto simp: http_error_None_iff split: option.splits sum.splits dest: decode_list_none)

subsection \<open>Lookups over pages\<close>

lemma matching_page:
  assumes "match_entries L field identity (take 100 (drop n xs)) = Inr ms"
  shows "matching L field identity (drop n xs) = [] \<longleftrightarrow> ms = [] \<and> matching L field identity (drop (n + 100) xs) = []"
proof -
  have "drop n xs = take 100 (drop n xs) @ drop (n + 100) xs" by (metis append_take_drop_id drop_drop add.commute)
  then have "matching L field identity (drop n xs)
      = matching L field identity (take 100 (drop n xs)) @ matching L field identity (drop (n + 100) xs)"
    unfolding matching_def by (metis filter_append)
  then show ?thesis using assms by (auto simp: match_entries_eq split: if_splits)
qed

lemma Exchange_pages:
  fixes s :: "('o, 'w) sys"
  assumes "shows_pages P L path listKey stored"
  shows "wp (Exchange P L c ctx ''GET'' (page_path path offset) None) (\<lambda>r t. stored (env t) = stored (env s)
    \<and> (\<forall>status result entries count. r = Inr (status, result) \<longrightarrow> 200 \<le> status \<longrightarrow> status < 300 \<longrightarrow>
         read_page L listKey result = Inr (entries, count) \<longrightarrow>
         entries = page_of offset (stored (env s)) \<and> sint count = int (length (stored (env s))))) s"
proof -
  have same: "stored w' = stored w" if "rq_Method req = ''GET''" "http_Do P tls ctx req w = (r, w')" for req tls w r w'
    using assms that unfolding shows_pages_def by (metis snd_conv)
  have keeps: "wp (Exchange P L c ctx ''GET'' (page_path path offset) None) (\<lambda>r t. stored (env t) = stored (env s)) s"
    by (auto simp: wp_Exchange split: sum.split prod.split dest!: build_request_method intro: same)
  have law: "entries = page_of offset (stored w') \<and> sint count = int (length (stored w'))"
    if "answers P L (page_path path offset) w result w'" "read_page L listKey result = Inr (entries, count)"
    for w result w' entries and count :: "64 word"
    using assms that sint_small unfolding shows_pages_def by blast
  show ?thesis by (rule wp_mono [OF wp_conj [OF keeps Exchange_answers]]) (metis law)
qed

lemma walk_pages_sees:
  fixes s :: "('t resource, 'w) sys"
  assumes pages: "shows_pages P L path listKey stored"
  shows "0 \<le> offset \<Longrightarrow> wp (walk_pages P L c ctx path listKey identity found offset)
    (\<lambda>r t. stored (env t) = stored (env s) \<and> (r = Inr [] \<longrightarrow>
       found = [] \<and> matching L ''name'' identity (drop (nat offset) (stored (env s))) = [])) s"
proof (induction found offset arbitrary: s rule: walk_pages_induct)
  case (1 found offset s)
  let ?Q = "\<lambda>r t. stored (env t) = stored (env s) \<and> (r = Inr [] \<longrightarrow>
       found = [] \<and> matching L ''name'' identity (drop (nat offset) (stored (env s))) = [])"
  let ?page = "page_of offset (stored (env s))"
  have off: "nat (offset + findPageLimit) = nat offset + 100" using "1.prems" by (simp add: findPageLimit_def nat_add_distrib)
  have step: "wp (if ?page = [] \<or> offset + int (length ?page) \<ge> int (length (stored (env s))) then State_Monad.return (Inr (found @ ms))
      else walk_pages P L c ctx path listKey identity (found @ ms) (offset + findPageLimit)) ?Q t"
    if st: "stored (env t) = stored (env s)" and ms: "match_entries L ''name'' identity ?page = Inr ms"
      and n: "sint count = int (length (stored (env s)))" for ms t and count :: "64 word"
  proof (cases "?page = [] \<or> offset + int (length ?page) \<ge> int (length (stored (env s)))")
    case True
    then have "drop (nat offset + 100) (stored (env s)) = []"
      using "1.prems" by (auto simp: page_of_def min_def split: if_splits)
    then have "matching L ''name'' identity (drop (nat offset + 100) (stored (env s))) = []" by (simp add: matching_def)
    then show ?thesis using True st matching_page [OF ms [unfolded page_of_def]] by (simp add: wp_return)
  next
    case False
    have "wp (walk_pages P L c ctx path listKey identity (found @ ms) (offset + findPageLimit))
      (\<lambda>r u. stored (env u) = stored (env t) \<and> (r = Inr [] \<longrightarrow> found @ ms = []
         \<and> matching L ''name'' identity (drop (nat (offset + findPageLimit)) (stored (env t))) = [])) t"
      by (rule "1.IH") (use walk_guard [OF False [folded n]] "1.prems" in \<open>simp_all add: findPageLimit_def\<close>)
    then show ?thesis
      unfolding if_not_P [OF False] by (rule wp_mono) (simp add: st off matching_page [OF ms [unfolded page_of_def]])
  qed
  show ?case
    unfolding walk_pages.simps [of P L c ctx path listKey identity found offset] wp_bind
    by (rule wp_mono [OF Exchange_pages [OF pages]])
       (auto simp: wp_return http_error_None_iff split: sum.split option.split prod.split split del: if_split intro!: step)
qed

lemma findByPage_sees:
  fixes s :: "('t resource, 'w) sys"
  assumes "m_Identity M (o_Template (obj s)) = Inr identity" and "shows_pages P L path listKey stored"
  shows "wp (findByPage P L M c ctx path listKey)
    (\<lambda>r t. r = Inr [] \<longrightarrow> filter (\<lambda>e. res_String L (gjson_Get L e ''name'') = identity) (stored (env t)) = []) s"
  unfolding findByPage_def wp_bind [of get_obj] wp_get_obj assms(1) sum.case
  by (rule wp_mono [OF walk_pages_sees [OF assms(2)]]) (auto simp: matching_def)

subsection \<open>Every kind\<close>

lemma find_new_sees:
  fixes op :: "('t, 'w) operator" and s :: "('t resource, 'w) sys"
  assumes "m_Identity (kind_object op kind) (o_Template (obj s)) = Inr identity" and "honest_listing op kind identity stored"
  shows "wp (find_new op kind ctx c) (\<lambda>r t. r = Inr [] \<longrightarrow> objects_of (op_libs op) kind identity stored (env t) = 0) s"
  using assms unfolding find_new_def objects_of_def honest_listing_def
  by (cases kind)
     (simp_all add: adapter_defs adapter_of_def findByField_sees findByPage_sees UserAdapter_Find_sees SavedViewAdapter_Find_sees)

end
