(* ===== verification/Uniqueness.thy ===== *)
theory Uniqueness
  imports Guarantees Listing
begin

text \<open>
  One object per identity. The number of SigNoz objects that carry the identity of a resource is a
  function \<open>copies\<close> of the outside. Only a create request can raise it, by one, and the lists SigNoz
  serves are true, so that a lookup that finds nothing says that it is zero. Then no history of passes
  over the resource makes a second object, whatever calls fail, whatever answers are lost after the
  request took effect, and whatever of the recorded status is lost between two passes.

  An operation is \<open>calm\<close> at \<open>n\<close> when it leaves a count of at most \<open>n\<close> at most \<open>n\<close>. The rules compose
  along the structure of an operation, as those of \<open>Trace\<close> do. Every handler but \<open>create\<close> is calm at
  every bound; a whole pass is calm at one.
\<close>

subsection \<open>What the outside promises\<close>

text \<open>The API server answers a write with a resource of the same identity, and no call to it changes
  what SigNoz holds.\<close>

definition quiet_kube :: "('o \<Rightarrow> bool) \<Rightarrow> ('w \<Rightarrow> nat) \<Rightarrow> ('o, 'w) ports \<Rightarrow> bool" where
  "quiet_kube keyed copies P \<longleftrightarrow>
     (\<forall>ctx o' w r w'. kube_Update P ctx o' w = (r, w') \<longrightarrow>
        copies w' \<le> copies w \<and> (keyed o' \<longrightarrow> keyed (after_write r o')))
   \<and> (\<forall>ctx base o' w r w'. kube_Patch P ctx base o' w = (r, w') \<longrightarrow>
        copies w' \<le> copies w \<and> (keyed o' \<longrightarrow> keyed (after_write r o')))
   \<and> (\<forall>ctx o' w r w'. kube_StatusUpdate P ctx o' w = (r, w') \<longrightarrow>
        copies w' \<le> copies w \<and> (keyed o' \<longrightarrow> keyed (after_write r o')))"

definition quiet_reader :: "('w \<Rightarrow> nat) \<Rightarrow> 'w reader \<Rightarrow> bool" where
  "quiet_reader copies R \<longleftrightarrow> (\<forall>ctx key w. copies (snd (rd_Secret R ctx key w)) \<le> copies w
     \<and> copies (snd (rd_ConfigMap R ctx key w)) \<le> copies w
     \<and> copies (snd (rd_ProviderConfig R ctx key w)) \<le> copies w
     \<and> copies (snd (rd_ClusterProviderConfig R ctx key w)) \<le> copies w)"

text \<open>A create request makes at most one object, answered or not; no other request makes one.\<close>

definition counted_http :: "('w \<Rightarrow> nat) \<Rightarrow> ('o, 'w) ports \<Rightarrow> bool" where
  "counted_http copies P \<longleftrightarrow> (\<forall>tls ctx req w.
     copies (snd (http_Do P tls ctx req w)) \<le> copies w + (if rq_Method req = ''POST'' then 1 else 0))"

text \<open>The identity of a resource, and what \<open>Listing\<close> shows of the kind's lookup: one that finds nothing
  is right.\<close>

definition identified :: "('t, 'w) operator \<Rightarrow> Kind \<Rightarrow> string \<Rightarrow> 't resource \<Rightarrow> bool" where
  "identified op kind identity o' \<longleftrightarrow> m_Identity (kind_object op kind) (o_Template o') = Inr identity"

definition sound_lookup :: "('t, 'w) operator \<Rightarrow> Kind \<Rightarrow> string \<Rightarrow> ('w \<Rightarrow> nat) \<Rightarrow> bool" where
  "sound_lookup op kind identity copies \<longleftrightarrow> (\<forall>ctx c s t. identified op kind identity (obj s) \<longrightarrow>
     run_state (find_new op kind ctx c) s = (Inr [], t) \<longrightarrow> copies (env t) = 0)"

definition single_backend :: "('t, 'w) operator \<Rightarrow> Kind \<Rightarrow> string \<Rightarrow> ('w \<Rightarrow> nat) \<Rightarrow> bool" where
  "single_backend op kind identity copies \<longleftrightarrow> quiet_kube (identified op kind identity) copies (op_client op)
     \<and> quiet_reader copies (op_reader op) \<and> counted_http copies (op_client op)
     \<and> sound_lookup op kind identity copies"

text \<open>The laws of the outside, over the objects \<open>stored\<close> in SigNoz.\<close>

definition honest_backend :: "('t, 'w) operator \<Rightarrow> Kind \<Rightarrow> string \<Rightarrow> ('w \<Rightarrow> json list) \<Rightarrow> bool" where
  "honest_backend op kind identity stored \<longleftrightarrow>
     quiet_kube (identified op kind identity) (objects_of (op_libs op) kind identity stored) (op_client op)
     \<and> quiet_reader (objects_of (op_libs op) kind identity stored) (op_reader op)
     \<and> counted_http (objects_of (op_libs op) kind identity stored) (op_client op)
     \<and> honest_listing op kind identity stored"

lemma honest_single:
  assumes "honest_backend op kind identity stored"
  shows "single_backend op kind identity (objects_of (op_libs op) kind identity stored)"
proof -
  have "objects_of (op_libs op) kind identity stored (env t) = 0"
    if "identified op kind identity (obj s)" "run_state (find_new op kind ctx c) s = (Inr [], t)" for ctx c s t
    using wp_run [OF find_new_sees that(2)] that(1) assms by (simp add: identified_def honest_backend_def)
  then show ?thesis using assms by (auto simp: single_backend_def honest_backend_def sound_lookup_def)
qed

subsection \<open>Calm operations\<close>

named_theorems calm_intros \<open>rules that show an operation calm\<close>

definition calm :: "('o \<Rightarrow> bool) \<Rightarrow> ('w \<Rightarrow> nat) \<Rightarrow> nat \<Rightarrow> (('o, 'w) sys, 'a) state \<Rightarrow> bool" where
  "calm keyed copies n m \<longleftrightarrow> (\<forall>s. keyed (obj s) \<and> copies (env s) \<le> n \<longrightarrow>
     wp m (\<lambda>_ t. keyed (obj t) \<and> copies (env t) \<le> n) s)"

lemma calmD: "calm keyed copies n m \<Longrightarrow> keyed (obj s) \<Longrightarrow> copies (env s) \<le> n \<Longrightarrow>
    wp m (\<lambda>_ t. keyed (obj t) \<and> copies (env t) \<le> n) s"
  by (simp add: calm_def)

lemma calm_bind [calm_intros]:
  fixes m :: "(('o, 'w) sys, 'a) state"
  assumes "calm keyed copies n m" and "\<And>a. calm keyed copies n (f a)"
  shows "calm keyed copies n (State_Monad.bind m f)"
  unfolding calm_def wp_bind
  by (auto intro!: wp_mono [OF calmD [OF assms(1)]] calmD [OF assms(2)])

lemma calm_pure [calm_intros]:
  "calm keyed copies n (State_Monad.return a)" "calm keyed copies n State_Monad.get" "calm keyed copies n get_obj"
  "calm keyed copies n (time_Now P)"
  by (simp_all add: calm_def wp_simps)

lemma calm_modify_obj [calm_intros]:
  "(\<And>o'. keyed o' \<Longrightarrow> keyed (f o')) \<Longrightarrow> calm keyed copies n (modify_obj f)"
  by (simp add: calm_def wp_simps)

lemma calm_branch [calm_intros]:
  "(b \<Longrightarrow> calm keyed copies n m) \<Longrightarrow> (\<not> b \<Longrightarrow> calm keyed copies n m') \<Longrightarrow> calm keyed copies n (if b then m else m')"
  "(\<And>e. calm keyed copies n (f e)) \<Longrightarrow> (\<And>a. calm keyed copies n (g a)) \<Longrightarrow>
     calm keyed copies n (case r of Inl e \<Rightarrow> f e | Inr a \<Rightarrow> g a)"
  "calm keyed copies n m \<Longrightarrow> (\<And>a. calm keyed copies n (h a)) \<Longrightarrow>
     calm keyed copies n (case q of None \<Rightarrow> m | Some a \<Rightarrow> h a)"
  "calm keyed copies n m \<Longrightarrow> (\<And>x xs. calm keyed copies n (k x xs)) \<Longrightarrow>
     calm keyed copies n (case l of [] \<Rightarrow> m | x # xs \<Rightarrow> k x xs)"
  "(\<And>a b. calm keyed copies n (u a b)) \<Longrightarrow> calm keyed copies n (case p of (a, b) \<Rightarrow> u a b)"
  "(\<And>x. calm keyed copies n (v x)) \<Longrightarrow> calm keyed copies n (Let y v)"
  by (simp_all split: sum.split option.split list.split prod.split)

lemma calm_write:
  assumes "quiet_kube keyed copies P"
  shows "calm keyed copies n (client_Update P ctx)" "calm keyed copies n (client_Patch P ctx base)"
    "calm keyed copies n (client_StatusUpdate P ctx)"
  using assms by (auto simp: calm_def quiet_kube_def wp_simps split: prod.split) (blast intro: order_trans)+

lemma calm_get:
  "(\<And>ctx key w. copies (snd (get ctx key w)) \<le> copies w) \<Longrightarrow> calm keyed copies n (reader_get get kind ctx key)"
  by (auto simp: calm_def wp_simps split: prod.split) (metis snd_conv order_trans)

lemma Exchange_counted:
  assumes "counted_http copies P"
  shows "wp (Exchange P L c ctx method path body)
    (\<lambda>_ t. obj t = obj s \<and> copies (env t) \<le> copies (env s) + (if method = ''POST'' then 1 else 0)) s"
proof -
  have "copies w \<le> copies v + (if rq_Method req = ''POST'' then 1 else 0)"
    if "http_Do P tls ctx req v = (r, w)" for tls req v r w
    using assms that unfolding counted_http_def by (metis snd_conv)
  then show ?thesis
    by (fastforce simp: wp_Exchange split: sum.split prod.split dest: build_request_method)
qed

lemma calm_Exchange [calm_intros]:
  assumes "counted_http copies P" and "method \<noteq> ''POST''"
  shows "calm keyed copies n (Exchange P L c ctx method path body)"
  unfolding calm_def using assms(2)
  by (intro allI impI, intro wp_mono [OF Exchange_counted [OF assms(1)]]) auto

subsection \<open>The parts of a pass\<close>

text \<open>The resolver: an operation on its cache is calm when it is so for every cache.\<close>

definition calm_op :: "('o \<Rightarrow> bool) \<Rightarrow> ('w \<Rightarrow> nat) \<Rightarrow> nat \<Rightarrow> ('o, 'w, 'a) cache_op \<Rightarrow> bool" where
  "calm_op keyed copies n m \<longleftrightarrow> (\<forall>c. calm keyed copies n (m c))"

lemma calm_opD [calm_intros]: "calm_op keyed copies n m \<Longrightarrow> calm keyed copies n (m c)"
  by (simp add: calm_op_def)

lemma calm_op_then:
  "calm_op keyed copies n m \<Longrightarrow> (\<And>a. calm_op keyed copies n (f a)) \<Longrightarrow> calm_op keyed copies n (cache_then m wrap f)"
  by (auto simp: calm_op_def cache_then_def intro!: calm_bind calm_branch calm_pure)

lemma calm_op_cases:
  "calm_op keyed copies n (cache_return a)" "calm_op keyed copies n (cache_error e)"
  "calm_op keyed copies n m \<Longrightarrow> calm_op keyed copies n m' \<Longrightarrow> calm_op keyed copies n (if b then m else m')"
  "(\<And>e. calm_op keyed copies n (f e)) \<Longrightarrow> (\<And>a. calm_op keyed copies n (g a)) \<Longrightarrow>
     calm_op keyed copies n (case r of Inl e \<Rightarrow> f e | Inr a \<Rightarrow> g a)"
  "calm_op keyed copies n m \<Longrightarrow> (\<And>a. calm_op keyed copies n (h a)) \<Longrightarrow>
     calm_op keyed copies n (case q of None \<Rightarrow> m | Some a \<Rightarrow> h a)"
  "(\<And>x. calm_op keyed copies n (v x)) \<Longrightarrow> calm_op keyed copies n (Let y v)"
  by (simp_all add: calm_op_def cache_return_def cache_error_def calm_pure split: sum.split option.split)

lemmas calm_op_intros = calm_op_then calm_op_cases

lemma calm_reads:
  assumes "quiet_reader copies R"
  shows "calm_op keyed copies n (cache_secret L R ctx key)" "calm_op keyed copies n (cache_configMap L R ctx key)"
    "calm keyed copies n (reader_get (rd_ProviderConfig R) kind ctx key)"
    "calm keyed copies n (reader_get (rd_ClusterProviderConfig R) kind ctx key)"
proof -
  have get: "calm keyed copies n (reader_get (rd_Secret R) kind ctx key)"
    "calm keyed copies n (reader_get (rd_ConfigMap R) kind ctx key)"
    "calm keyed copies n (reader_get (rd_ProviderConfig R) kind ctx key)"
    "calm keyed copies n (reader_get (rd_ClusterProviderConfig R) kind ctx key)" for kind key
    using assms by (auto simp: quiet_reader_def intro!: calm_get)
  show "calm_op keyed copies n (cache_secret L R ctx key)" "calm_op keyed copies n (cache_configMap L R ctx key)"
    unfolding calm_op_def cache_secret_def cache_configMap_def by (intro allI calm_intros get)+
qed (use assms in \<open>auto simp: quiet_reader_def intro!: calm_get\<close>)

lemma calm_op_value:
  assumes "quiet_reader copies R"
  shows "calm_op keyed copies n (cache_value L R ctx path inline from)"
  unfolding calm_op_def cache_value_def
  by (intro allI calm_branch calm_opD calm_op_intros calm_reads assms)

lemma calm_op_trust:
  assumes "quiet_reader copies R"
  shows "calm_op keyed copies n (cache_trust L R ctx config)"
  unfolding calm_op_def cache_trust_def
  by (intro allI calm_branch calm_opD calm_op_intros calm_reads assms)

lemma calm_op_parts:
  assumes "quiet_reader copies R"
  shows "calm_op keyed copies n (resolve_parts L R ctx spec)"
  unfolding resolve_parts_def cache_endpoint_def cache_authentication_def
  by (intro calm_op_intros calm_op_value calm_op_trust assms)

lemma calm_warm:
  assumes "quiet_reader copies R"
  shows "calm keyed copies n (warm_secrets L R ctx names c)" "calm keyed copies n (warm_configMaps L R ctx names c)"
  by (induction names arbitrary: c) (simp_all add: calm_intros calm_reads [OF assms])

lemma calm_ResolveRef:
  assumes "quiet_reader copies R"
  shows "calm keyed copies n (ResolveRef L R ctx ref ns ons)"
  unfolding ResolveRef_def Resolve_def
  by (intro calm_intros calm_warm calm_op_parts calm_reads assms)

text \<open>The adapters: every operation but \<open>Create\<close>.\<close>

lemma calm_walk_pages:
  assumes "counted_http copies P"
  shows "calm keyed copies n (walk_pages P L c ctx path listKey identity matches offset)"
proof (induction matches offset rule: walk_pages_induct)
  case (1 matches offset)
  show ?case
    by (subst walk_pages.simps) (intro calm_intros assms 1, simp, erule walk_guard)
qed

lemma calm_find:
  assumes "counted_http copies P"
  shows "calm keyed copies n (ad_Find (adapter_for kind P L) M c ctx)"
  by (cases kind)
     (simp_all add: adapter_defs adapter_of_def find_defs calm_intros calm_walk_pages assms)

context object_contract
begin

lemma calm_transport:
  assumes "counted_http copies P"
  shows "calm keyed copies n (Transport_Read P L M c ctx m)" "calm keyed copies n (Transport_Update P L M c ctx m)"
    "calm keyed copies n (Transport_Delete P L M c ctx m)"
  unfolding Transport_Read_def Transport_Update_def Transport_Delete_def read_method update_method delete_method
  by (intro calm_intros assms; simp)+

lemma create_makes_one:
  fixes P :: "('t resource, 'w) ports"
  assumes "counted_http copies P"
  shows "wp (Transport_Create P L M c ctx) (\<lambda>_ t. obj t = obj s \<and> copies (env t) \<le> copies (env s) + 1) s"
  unfolding Transport_Create_def wp_bind wp_get_obj
  by (auto simp: wp_simps create_method split: sum.split intro!: wp_mono [OF Exchange_counted [OF assms]])

end

subsection \<open>The handlers\<close>

text \<open>Bookkeeping changes the metadata and the status of the resource, which do not carry its
  identity.\<close>

lemma identified_update [simp]:
  "identified op kind i (o'\<lparr>o_Meta := m\<rparr>) = identified op kind i o'"
  "identified op kind i (o'\<lparr>o_CoreStatus := st\<rparr>) = identified op kind i o'"
  "identified op kind i (set_finalizers fs o') = identified op kind i o'"
  "identified op kind i (set_annotations an o') = identified op kind i o'"
  by (simp_all add: identified_def set_finalizers_def set_annotations_def)

lemma calm_bookkeeping [calm_intros]:
  "calm (identified op kind i) copies n (set_conditions rc K g out r m)"
  "calm (identified op kind i) copies n (set_binding b)" "calm (identified op kind i) copies n (set_hash h)"
  "calm (identified op kind i) copies n (onAdapterError rc K err)"
  unfolding set_conditions_def set_binding_def set_hash_def onAdapterError_def
  by (intro calm_intros; simp)+

lemma calm_calls:
  assumes "single_backend op kind i copies"
  shows "calm (identified op kind i) copies n (addFinalizer (run_reconciler op kind) K ctx)"
    "calm (identified op kind i) copies n (removeFinalizer (run_reconciler op kind) K ctx)"
    "calm (identified op kind i) copies n (addCreateAttemptAnnotation (run_reconciler op kind) L ctx)"
    "calm (identified op kind i) copies n (removeCreateAttemptAnnotation (run_reconciler op kind) ctx)"
    "calm (identified op kind i) copies n (record_status (run_reconciler op kind) K ctx st r)"
    "calm (identified op kind i) copies n (signozClientFor (run_reconciler op kind) ctx)"
proof -
  have kube: "quiet_kube (identified op kind i) copies (op_client op)" and reader: "quiet_reader copies (op_reader op)"
    using assms by (simp_all add: single_backend_def)
  note defs = addFinalizer_def removeFinalizer_def addCreateAttemptAnnotation_def removeCreateAttemptAnnotation_def
    record_status_def
  show "calm (identified op kind i) copies n (addFinalizer (run_reconciler op kind) K ctx)"
    "calm (identified op kind i) copies n (removeFinalizer (run_reconciler op kind) K ctx)"
    "calm (identified op kind i) copies n (addCreateAttemptAnnotation (run_reconciler op kind) L ctx)"
    "calm (identified op kind i) copies n (removeCreateAttemptAnnotation (run_reconciler op kind) ctx)"
    "calm (identified op kind i) copies n (record_status (run_reconciler op kind) K ctx st r)"
    unfolding defs run_reconciler_sel by (intro calm_intros calm_write [OF kube]; simp)+
  show "calm (identified op kind i) copies n (signozClientFor (run_reconciler op kind) ctx)"
    unfolding signozClientFor_def by (simp add: CachedResolver_def calm_intros calm_ResolveRef [OF reader])
qed

lemma calm_adapter:
  assumes "single_backend op kind i copies"
  shows "calm keyed copies n (ad_Find (rc_adapter (run_reconciler op kind)) M c ctx)"
    "calm keyed copies n (ad_Read (rc_adapter (run_reconciler op kind)) (kind_object op kind) c ctx m)"
    "calm keyed copies n (ad_Update (rc_adapter (run_reconciler op kind)) (kind_object op kind) c ctx m)"
    "calm keyed copies n (ad_Delete (rc_adapter (run_reconciler op kind)) (kind_object op kind) c ctx m)"
proof -
  have http: "counted_http copies (op_client op)" using assms by (simp add: single_backend_def)
  show "calm keyed copies n (ad_Find (rc_adapter (run_reconciler op kind)) M c ctx)"
    "calm keyed copies n (ad_Read (rc_adapter (run_reconciler op kind)) (kind_object op kind) c ctx m)"
    "calm keyed copies n (ad_Update (rc_adapter (run_reconciler op kind)) (kind_object op kind) c ctx m)"
    "calm keyed copies n (ad_Delete (rc_adapter (run_reconciler op kind)) (kind_object op kind) c ctx m)"
    by (simp_all add: calm_find [OF http] adapter_for_transport kind_object_def
        object_contract.calm_transport [OF object_for_contract http])
qed

lemma calm_onExistingObject:
  assumes "single_backend op kind i copies"
  shows "calm (identified op kind i) copies n
    (onExistingObject (run_reconciler op kind) L K (kind_object op kind) ctx c hash)"
  unfolding onExistingObject_def by (intro calm_intros calm_adapter [OF assms])

lemma calm_adopt:
  assumes "single_backend op kind i copies"
  shows "calm (identified op kind i) copies n (adopt (run_reconciler op kind) L K (kind_object op kind) ctx c m hash)"
  unfolding adopt_def by (intro calm_intros calm_calls [OF assms] calm_onExistingObject [OF assms])

lemma calm_after_create:
  assumes "single_backend op kind i copies"
  shows "calm (identified op kind i) copies n
    (after_create (run_reconciler op kind) L K (kind_object op kind) ctx c identity hash g r)"
  unfolding after_create_def onConflict_def
  by (intro calm_intros calm_calls [OF assms] calm_adopt [OF assms] calm_adapter [OF assms])

lemma calm_finalize:
  assumes "single_backend op kind i copies"
  shows "calm (identified op kind i) copies n (finalize (run_reconciler op kind) K (kind_object op kind) ctx)"
  unfolding finalize_def reclaim_by_identity_def reclaim_found_def reclaim_def
  by (intro calm_intros calm_calls [OF assms] calm_adapter [OF assms])

text \<open>A create request after a lookup that found nothing leaves one object, not more.\<close>

lemma create_single:
  fixes op :: "('t, 'w) operator" and s :: "('t resource, 'w) sys"
  assumes b: "single_backend op kind i copies" and o: "identified op kind i (obj s)" and none: "copies (env s) = 0"
  shows "wp (create (run_reconciler op kind) L K (kind_object op kind) ctx c identity hash)
    (\<lambda>_ t. identified op kind i (obj t) \<and> copies (env t) \<le> 1) s"
proof -
  let ?Q = "\<lambda>_ t. identified op kind i (obj t) \<and> copies (env t) \<le> 1"
  have http: "counted_http copies (op_client op)" using b by (simp add: single_backend_def)
  have made: "wp (ad_Create (rc_adapter (run_reconciler op kind)) (kind_object op kind) c ctx) ?Q t"
    if "identified op kind i (obj t)" "copies (env t) \<le> 0" for t :: "('t resource, 'w) sys"
    unfolding run_reconciler_sel adapter_for_transport kind_object_def
    by (rule wp_mono [OF object_contract.create_makes_one [OF object_for_contract http]])
       (use that in simp)
  have rest: "wp (do { r \<leftarrow> ad_Create (rc_adapter (run_reconciler op kind)) (kind_object op kind) c ctx;
        after_create (run_reconciler op kind) L K (kind_object op kind) ctx c identity hash g r }) ?Q t"
    if "identified op kind i (obj t)" "copies (env t) \<le> 0" for g and t :: "('t resource, 'w) sys"
    unfolding wp_bind by (rule wp_mono [OF made [OF that]]) (blast intro: calmD [OF calm_after_create [OF b]])
  show ?thesis
    unfolding create_def wp_bind [of get_obj] wp_get_obj Let_def wp_bind [of "addCreateAttemptAnnotation _ _ _"]
  proof (rule wp_mono [OF calmD [OF calm_calls(3) [OF b] o, of 0]])
    show "copies (env s) \<le> 0" using none by simp
    show "wp (case perr of Some err \<Rightarrow> State_Monad.return (no_requeue, Some err)
        | None \<Rightarrow> do { r \<leftarrow> ad_Create (rc_adapter (run_reconciler op kind)) (kind_object op kind) c ctx;
            after_create (run_reconciler op kind) L K (kind_object op kind) ctx c identity hash
              (om_Generation (o_Meta (obj s))) r }) ?Q t"
      if "identified op kind i (obj t) \<and> copies (env t) \<le> 0" for perr t
      using that rest [of t] by (cases perr) (simp_all add: wp_return del: run_reconciler_sel)
  qed
qed

lemma calm_onNewObject:
  fixes op :: "('t, 'w) operator"
  assumes b: "single_backend op kind i copies"
  shows "calm (identified op kind i) copies 1
    (onNewObject (run_reconciler op kind) L K (kind_object op kind) ctx c identity hash)"
  unfolding calm_def
proof (intro allI impI)
  fix s :: "('t resource, 'w) sys"
  assume s: "identified op kind i (obj s) \<and> copies (env s) \<le> 1"
  obtain r t where f: "run_state (ad_Find (rc_adapter (run_reconciler op kind)) (kind_object op kind) c ctx) s = (r, t)"
    by fastforce
  have t: "identified op kind i (obj t)" "copies (env t) \<le> 1"
    using wp_run [OF calmD [OF calm_adapter(1) [OF b]] f, of "identified op kind i" 1] s by simp_all
  have none: "copies (env t) = 0" if "r = Inr []"
    using b s f that unfolding single_backend_def sound_lookup_def find_new_def run_reconciler_sel by blast
  note step = calmD [of "identified op kind i" copies 1 _ t, OF _ t]
  note quiet = step [OF calm_adopt [OF b]] step [OF calm_bookkeeping(4)]
    step [OF calm_bind [OF calm_bookkeeping(1) calm_pure(1)]]
  show "wp (onNewObject (run_reconciler op kind) L K (kind_object op kind) ctx c identity hash)
    (\<lambda>_ t. identified op kind i (obj t) \<and> copies (env t) \<le> 1) s"
    unfolding onNewObject_def wp_bind [of get_obj] wp_get_obj Let_def wp_bind [of "ad_Find _ _ _ _"] wp_known [OF f]
    by (auto simp: wp_bind [of get_obj] wp_get_obj simp del: One_nat_def run_reconciler_sel
        split: sum.split option.split list.split intro!: quiet create_single [OF b t(1) none])
qed

lemma calm_pass:
  assumes "single_backend op kind i copies"
  shows "calm (identified op kind i) copies 1 (pass_of op kind ctx)"
  unfolding pass_of_def Reconcile_def reconcile_def kind_object_def [symmetric]
  by (intro calm_intros calm_calls [OF assms] calm_finalize [OF assms] calm_onNewObject [OF assms]
      calm_onExistingObject [OF assms])

subsection \<open>Histories\<close>

text \<open>The life of one resource. Between two passes the resource may be read again from a stale cache,
  edited in anything but its identity, or lose its status, and objects may go from SigNoz; only
  nobody else makes one of the same identity.\<close>

inductive life :: "('t, 'w) operator \<Rightarrow> Kind \<Rightarrow> string \<Rightarrow> ('w \<Rightarrow> nat) \<Rightarrow> ('t resource, 'w) sys \<Rightarrow> bool"
  for op kind identity copies where
  life_start: "identified op kind identity (obj s) \<Longrightarrow> copies (env s) \<le> 1 \<Longrightarrow> life op kind identity copies s"
| life_pass: "life op kind identity copies s \<Longrightarrow> run_state (pass_of op kind ctx) s = (r, t) \<Longrightarrow>
    life op kind identity copies t"
| life_between: "life op kind identity copies s \<Longrightarrow> identified op kind identity (obj t) \<Longrightarrow>
    copies (env t) \<le> copies (env s) \<Longrightarrow> life op kind identity copies t"

lemma life_single:
  assumes "single_backend op kind identity copies"
  shows "life op kind identity copies s \<Longrightarrow> identified op kind identity (obj s) \<and> copies (env s) \<le> 1"
proof (induction rule: life.induct)
  case (life_pass s ctx r t)
  then show ?case using wp_run [OF calmD [OF calm_pass [OF assms]]] by blast
qed auto


subsection \<open>A server that goes down\<close>

text \<open>The world is the number of roles named \<open>x\<close> that SigNoz holds and the number of requests it still
  answers: the last create request takes effect and its answer is lost.\<close>

type_synonym server = "nat \<times> nat"

definition role_x :: json where
  "role_x = JObj [(''id'', JStr ''7''), (''name'', JStr ''x'')]"

definition one_role :: string where
  "one_role = print_json (JObj [(''data'', JArr [role_x])])"

definition roles_stored :: "server \<Rightarrow> json list" where
  "roles_stored w = replicate (fst w) role_x"

fun server_Do :: "http_request \<Rightarrow> server \<Rightarrow> (go_error + http_response) \<times> server" where
  "server_Do req (roles, 0) = (Inl (PlainErr ''connection refused''), roles, 0)"
| "server_Do req (roles, Suc left) =
     (if rq_Method req = ''POST'' then
        (if left = 0 then Inl (PlainErr ''connection reset'') else Inr role_created, roles + 1, left)
      else if roles = 0 then (Inr no_roles, roles, left)
      else (Inr (answer 200 one_role), roles, left))"

definition server_ports :: "('o, server) ports" where
  "server_ports = \<lparr>
     kube_Update = (\<lambda>ctx o' w. (Inr o', w)),
     kube_Patch = (\<lambda>ctx base o' w. (Inr o', w)),
     kube_StatusUpdate = (\<lambda>ctx o' w. (Inr o', w)),
     http_Do = (\<lambda>tls ctx req w. server_Do req w),
     p_Now = (\<lambda>w. 7) \<rparr>"

definition server_reader :: "server reader" where
  "server_reader = \<lparr>
     rd_Secret = (\<lambda>ctx key w. (Inl (PlainErr ''not found''), w)),
     rd_ConfigMap = (\<lambda>ctx key w. (Inl (PlainErr ''not found''), w)),
     rd_ProviderConfig = (\<lambda>ctx key w. (Inr scripted_config, w)),
     rd_ClusterProviderConfig = (\<lambda>ctx key w. (Inr scripted_config, w)),
     rd_IsNotFound = (\<lambda>e. True) \<rparr>"

definition server_operator :: "(unit, server) operator" where
  "server_operator = run_operator (RegisterFlags\<lparr>cf_OperatorNamespace := ''signoz''\<rparr>)
     server_ports server_reader ref_libs ref_klib (\<lambda>_. Inr ''{}'')"

definition role_at :: "server \<Rightarrow> (unit resource, server) sys" where
  "role_at w = \<lparr>obj = new_resource role_body, env = w, events = []\<rparr>"

lemma server_operator_sel [simp]:
  "op_client server_operator = server_ports" "op_libs server_operator = ref_libs" "op_reader server_operator = server_reader"
  by (simp_all add: server_operator_def run_operator_def)

lemma roles_counted: "objects_of ref_libs Role ''x'' roles_stored = fst"
proof -
  have "carries ref_libs Role ''x'' role_x" by code_simp
  then show ?thesis by (simp add: fun_eq_iff objects_of_def roles_stored_def)
qed

lemma server_counted: "counted_http fst server_ports"
proof -
  have "fst (snd (server_Do req w)) \<le> fst w + (if rq_Method req = ''POST'' then 1 else 0)" for req w
    by (cases "(req, w)" rule: server_Do.cases) auto
  then show ?thesis by (simp add: counted_http_def server_ports_def)
qed

lemma one_role_served:
  "read_response ref_libs (answer 200 one_role) = Inr (200, one_role)"
  "gjson_GetBytes ref_libs one_role ''data'' = Some (JArr [role_x])"
proof -
  have "decode_single ref_libs one_role = Some one_role" "length one_role < 1000" "one_role \<noteq> []" by code_simp+
  then show "read_response ref_libs (answer 200 one_role) = Inr (200, one_role)"
    by (simp add: read_response_code answer_def)
qed code_simp

lemma server_lists: "honest_listing server_operator Role ''x'' roles_stored"
proof -
  have served: "fst w' = 0 \<or> result = one_role"
    if "rq_Method req = ''GET''" "server_Do req w = (Inr resp, w')" "read_response ref_libs resp = Inr (status, result)"
    for req resp status result w w'
    using that by (cases "(req, w)" rule: server_Do.cases) (auto simp: one_role_served split: if_splits)
  have "fst w' = 0 \<or> result = one_role" if "answers server_ports ref_libs path w result w'" for path w result w'
    using that by (fastforce simp: answers_def server_ports_def dest!: build_request_method dest: served)
  then have "shows_whole server_ports ref_libs path carried roles_stored" for path carried
    using one_role_served(2) by (fastforce simp: shows_whole_def roles_stored_def split: if_splits)
  then show ?thesis by (simp add: honest_listing_def)
qed

lemma server_honest: "honest_backend server_operator Role ''x'' roles_stored"
  unfolding honest_backend_def server_operator_sel roles_counted
  by (intro conjI server_counted server_lists)
     (simp_all add: quiet_kube_def quiet_reader_def server_ports_def server_reader_def)

text \<open>The first pass looks, creates and loses the answer; the second, over the resource as it was before,
  finds the object and adopts it.\<close>

lemma server_life:
  "map fst (http_log (events (snd (run_state (pass_of server_operator Role Background) (role_at (0, 2)))))) = [''GET'', ''POST'']"
  "env (snd (run_state (pass_of server_operator Role Background) (role_at (0, 2)))) = (1, 0)"
  "map fst (http_log (events (snd (run_state (pass_of server_operator Role Background) (role_at (1, 9)))))) = [''GET'', ''GET'']"
  by code_simp+


end
