(* ===== verification/Settling.thy ===== *)
theory Settling
  imports Guarantees Branches
begin

text \<open>
  Convergence over several passes. While the API server accepts every write and SigNoz keeps showing
  an object that matches, one pass settles a bound resource, whatever its status and its pending
  create attempt say, and every pass after it only reads.
\<close>

subsection \<open>A steady outside\<close>

text \<open>The API server accepts every write and stores what it is sent.\<close>

definition accepts_writes :: "('o, 'w) ports \<Rightarrow> bool" where
  "accepts_writes P \<longleftrightarrow> (\<forall>ctx o' w. fst (kube_Update P ctx o' w) = Inr o')
     \<and> (\<forall>ctx base o' w. fst (kube_Patch P ctx base o' w) = Inr o')
     \<and> (\<forall>ctx o' w. fst (kube_StatusUpdate P ctx o' w) = Inr o')"

text \<open>What decides where a resource is looked for and what it asks for: a pass does not change it.\<close>

definition same_request :: "'t resource \<Rightarrow> 't resource \<Rightarrow> bool" where
  "same_request o1 o2 \<longleftrightarrow> o_Template o1 = o_Template o2 \<and> o_CoreSpec o1 = o_CoreSpec o2
     \<and> om_Namespace (o_Meta o1) = om_Namespace (o_Meta o2)
     \<and> st_SigNozResource (o_CoreStatus o1) = st_SigNozResource (o_CoreStatus o2)"

text \<open>The provider configuration resolves to the same client at every time, and through it SigNoz shows
  the same object.\<close>

definition steady :: "('t, 'w) operator \<Rightarrow> Kind \<Rightarrow> signoz_client \<Rightarrow> 't resource \<Rightarrow> string \<Rightarrow> bool" where
  "steady op kind c o' resp \<longleftrightarrow> (\<forall>s ctx. same_request o' (obj s) \<longrightarrow>
     fst (run_state (signozClientFor (run_reconciler op kind) ctx) s) = Inr c
     \<and> fst (run_state (read_bound op kind ctx c) s) = Inr resp)"

text \<open>The resource is bound to an object and has its finalizer; nothing is asked of its conditions, and
  a create attempt may still be recorded.\<close>

definition bound_to_hash :: "'t Object \<Rightarrow> 't resource \<Rightarrow> string \<Rightarrow> bool" where
  "bound_to_hash M o' hash \<longleftrightarrow> om_DeletionTimestamp (o_Meta o') = None
     \<and> ResourceFinalizer \<in> set (om_Finalizers (o_Meta o')) \<and> \<not> cs_Suspend (o_CoreSpec o')
     \<and> \<not> isl (m_Identity M (o_Template o')) \<and> m_Hash M (o_Template o') = Inr hash
     \<and> \<not> isl (GetIDFromSigNozResource (st_SigNozResource (o_CoreStatus o')))
     \<and> st_ObservedHash (o_CoreStatus o') \<in> {[], hash}"

lemma shows_outcome_at [simp]: "shows_outcome (st\<lparr>st_ReconciledAt := t\<rparr>) out r m g = shows_outcome st out r m g"
  by (simp add: shows_outcome_def reports_def absent_def cong: option.case_cong)

lemma accepted:
  assumes "accepts_writes P"
  shows "kube_Update P ctx o' w = (r, w') \<Longrightarrow> r = Inr o'" "kube_Patch P ctx base o' w = (r, w') \<Longrightarrow> r = Inr o'"
    "kube_StatusUpdate P ctx o' w = (r, w') \<Longrightarrow> r = Inr o'"
  using assms unfolding accepts_writes_def by (metis fst_conv)+

subsection \<open>One pass\<close>

context reconciler_pass
begin

lemma removeCreateAttempt_accepted:
  assumes "accepts_writes (rc_client rc)"
  shows "wp (removeCreateAttemptAnnotation rc ctx) (\<lambda>r t. r = None
    \<and> obj t = set_annotations ((om_Annotations (o_Meta (obj s)))(AnnotationCreateAttempt := None)) (obj s)) s"
proof (cases "om_Annotations (o_Meta (obj s)) AnnotationCreateAttempt = None")
  case True
  then have "(om_Annotations (o_Meta (obj s)))(AnnotationCreateAttempt := None) = om_Annotations (o_Meta (obj s))" by auto
  with True show ?thesis by (simp add: removeCreateAttemptAnnotation_def wp_simps set_annotations_def)
next
  case False
  then show ?thesis
    by (auto simp: removeCreateAttemptAnnotation_def wp_simps split: prod.split dest!: accepted(2) [OF assms])
qed

lemma record_status_accepted:
  assumes "accepts_writes (rc_client rc)"
  shows "wp (record_status rc K ctx before r) (\<lambda>r' t. r' = r
    \<and> (\<exists>now. obj t = (obj s)\<lparr>o_CoreStatus := (o_CoreStatus (obj s))\<lparr>st_ReconciledAt := now\<rparr>\<rparr>)) s"
proof -
  have "\<exists>now. obj s = (obj s)\<lparr>o_CoreStatus := (o_CoreStatus (obj s))\<lparr>st_ReconciledAt := now\<rparr>\<rparr>"
    by (rule exI [of _ "st_ReconciledAt (o_CoreStatus (obj s))"]) simp
  then show ?thesis by (auto simp: record_status_def wp_simps split: prod.split dest!: accepted(3) [OF assms])
qed

text \<open>A bound resource whose object matches: everything but the conditions and the pending create
  attempt stays.\<close>

lemma matching_reconcile:
  assumes accepts: "accepts_writes (rc_client rc)" and bound: "bound_to_hash M (obj s) hash"
    and client: "run_state (signozClientFor rc ctx) s = (Inr c, s1)"
    and reads: "\<And>t. same_request (obj s) (obj t) \<Longrightarrow>
      fst (run_state (ad_Read (rc_adapter rc) M c ctx (st_SigNozResource (o_CoreStatus (obj s)))) t) = Inr resp"
    and same: "m_Compare M (o_Template (obj s)) resp = Inr \<lparr>cr_UpdatableFields = [], cr_ImmutableFields = []\<rparr>"
  shows "wp (reconcile rc L K M ctx) (\<lambda>r t. r = (requeue_after (rc_interval rc (obj s)), None)
    \<and> same_request (obj s) (obj t) \<and> settled M (obj t) hash) s"
proof -
  let ?Q = "\<lambda>r t. r = (requeue_after (rc_interval rc (obj s)), None) \<and> same_request (obj s) (obj t) \<and> settled M (obj t) hash"
  have o1: "obj s1 = obj s" by (rule run_keeps [OF keeps_signozClientFor client])
  have existing: "wp (onExistingObject rc L K M ctx c hash) ?Q t"
    if t: "obj t = set_annotations ((om_Annotations (o_Meta (obj s)))(AnnotationCreateAttempt := None)) (obj s)" for t
  proof -
    have req: "same_request (obj s) (obj t)" by (simp add: t same_request_def set_annotations_def)
    obtain u where u: "run_state (ad_Read (rc_adapter rc) M c ctx (st_SigNozResource (o_CoreStatus (obj t)))) t = (Inr resp, u)"
      using reads [OF req] by (metis t prod.collapse set_annotations_def resource.select_convs resource.surjective resource.update_convs(1))
    show ?thesis
      by (rule wp_mono [OF existing_synced [OF u]])
         (use bound same in \<open>auto simp: t set_annotations_def bound_to_hash_def settled_def same_request_def kl.outcome_shown rc_interval_def\<close>)
  qed
  have "wp (do { rerr \<leftarrow> removeCreateAttemptAnnotation rc ctx;
      case rerr of Some err \<Rightarrow> State_Monad.return (no_requeue, Some err) | None \<Rightarrow> onExistingObject rc L K M ctx c hash }) ?Q s1"
    unfolding wp_bind by (rule wp_mono [OF removeCreateAttempt_accepted [OF accepts]]) (use existing o1 in simp)
  then show ?thesis
    using bound unfolding reconcile_def bound_to_hash_def isl_def
    by (auto simp: wp_bind [of get_obj] wp_get_obj wp_bind [of "signozClientFor rc ctx"] wp_known [OF client] Let_def o1 split: sum.split)
qed

lemma matching_pass:
  assumes "accepts_writes (rc_client rc)" and bound: "bound_to_hash M (obj s) hash"
    and "run_state (signozClientFor rc (pass_ctx rc (obj s) ctx)) s = (Inr c, s1)"
    and "\<And>t. same_request (obj s) (obj t) \<Longrightarrow> fst (run_state (ad_Read (rc_adapter rc) M c (pass_ctx rc (obj s) ctx)
      (st_SigNozResource (o_CoreStatus (obj s)))) t) = Inr resp"
    and "m_Compare M (o_Template (obj s)) resp = Inr \<lparr>cr_UpdatableFields = [], cr_ImmutableFields = []\<rparr>"
  shows "wp (Reconcile rc L K M ctx) (\<lambda>r t. r = (requeue_after (rc_interval rc (obj s)), None)
    \<and> same_request (obj s) (obj t) \<and> settled M (obj t) hash) s"
proof -
  have pass: "wp (reconcile rc L K M (pass_ctx rc (obj s) ctx)) (\<lambda>r t. r = (requeue_after (rc_interval rc (obj s)), None)
      \<and> same_request (obj s) (obj t) \<and> settled M (obj t) hash) s"
    by (rule matching_reconcile [OF assms(1-3) _ assms(5)]) (rule assms(4))
  have "wp (do { r \<leftarrow> reconcile rc L K M (pass_ctx rc (obj s) ctx);
        record_status rc K (pass_ctx rc (obj s) ctx) (o_CoreStatus (obj s)) r })
      (\<lambda>r t. r = (requeue_after (rc_interval rc (obj s)), None) \<and> same_request (obj s) (obj t) \<and> settled M (obj t) hash) s"
    unfolding wp_bind
    by (rule wp_mono [OF pass], rule wp_mono [OF record_status_accepted [OF assms(1)]])
       (auto simp: same_request_def settled_def)
  then show ?thesis
    using bound unfolding Reconcile_def bound_to_hash_def
    by (simp add: wp_bind [of get_obj] wp_get_obj wp_bind [of "addFinalizer _ _ _"] addFinalizer_present Let_def)
qed

end

subsection \<open>Every later pass\<close>

fun passes :: "('t, 'w) operator \<Rightarrow> Kind \<Rightarrow> ctx list \<Rightarrow> (('t resource, 'w) sys, unit) state" where
  "passes op kind [] = State_Monad.return ()"
| "passes op kind (ctx # ctxs) = do { _ \<leftarrow> pass_of op kind ctx; passes op kind ctxs }"

definition only_read :: "('t resource, 'w) sys \<Rightarrow> ('t resource, 'w) sys \<Rightarrow> bool" where
  "only_read s t \<longleftrightarrow> obj t = obj s \<and> (\<exists>es. events t = events s @ es \<and> list_all read_only es)"

lemma steady_observe:
  assumes "steady op kind c o' resp" and "same_request o' (obj s)"
  shows "fst (run_state (observe op kind ctx) s) = Inr resp"
proof -
  obtain s1 where run: "run_state (signozClientFor (run_reconciler op kind) ctx) s = (Inr c, s1)"
    using assms unfolding steady_def by (metis prod.collapse)
  have "same_request o' (obj s1)" using assms(2) run_keeps [OF kinds.keeps_signozClientFor run] by simp
  then have "fst (run_state (read_bound op kind ctx c) s1) = Inr resp" using assms(1) unfolding steady_def by blast
  then show ?thesis using run by (simp add: observe_def)
qed

lemma passes_only_read:
  fixes op :: "('t, 'w) operator" and s :: "('t resource, 'w) sys"
  assumes "kube_lib (op_klib op)" and "steady op kind c o' resp"
    and "m_Compare (kind_object op kind) (o_Template o') resp = Inr \<lparr>cr_UpdatableFields = [], cr_ImmutableFields = []\<rparr>"
  shows "same_request o' (obj s) \<Longrightarrow> settled (kind_object op kind) (obj s) hash \<Longrightarrow>
    wp (passes op kind ctxs) (\<lambda>_. only_read s) s"
proof (induction ctxs arbitrary: s)
  case (Cons ctx ctxs)
  have "wp (pass_of op kind ctx) (\<lambda>_. only_read s) s"
    by (rule wp_mono [OF settled_only_read [OF assms(1) Cons.prems(2) steady_observe [OF assms(2) Cons.prems(1)]]])
       (use assms(3) Cons.prems(1) in \<open>auto simp: only_read_def same_request_def\<close>)
  then show ?case
    unfolding passes.simps wp_bind
  proof (rule wp_mono)
    fix t assume t: "only_read s t"
    then have "obj t = obj s" by (simp add: only_read_def)
    then have "wp (passes op kind ctxs) (\<lambda>_. only_read t) t" using Cons.IH [of t] Cons.prems by simp
    then show "wp (passes op kind ctxs) (\<lambda>_. only_read s) t" by (rule wp_mono) (use t in \<open>auto simp: only_read_def\<close>)
  qed
qed (simp add: wp_return only_read_def)

text \<open>
  (C8) A bound resource settles in one pass. When the API server accepts writes, the provider
  configuration resolves and SigNoz shows an object that matches the spec, a pass ends with the
  resource in sync, at its generation and hash, without a pending create attempt, whatever its
  conditions and annotations said before; and every later pass, any number of them, writes nothing
  to SigNoz or Kubernetes.
\<close>

theorem matching_resource_settles:
  fixes op :: "('t, 'w) operator" and s :: "('t resource, 'w) sys"
  assumes "kube_lib (op_klib op)" and "accepts_writes (op_client op)" and "steady op kind c (obj s) resp"
    and "bound_to_hash (kind_object op kind) (obj s) hash"
    and "m_Compare (kind_object op kind) (o_Template (obj s)) resp = Inr \<lparr>cr_UpdatableFields = [], cr_ImmutableFields = []\<rparr>"
  shows "wp (pass_of op kind ctx) (\<lambda>r t. r = (requeue_after (rc_interval (run_reconciler op kind) (obj s)), None)
    \<and> settled (kind_object op kind) (obj t) hash \<and> (\<forall>ctxs. wp (passes op kind ctxs) (\<lambda>_. only_read t) t)) s"
proof -
  let ?rc = "run_reconciler op kind" and ?ctx = "pass_ctx (run_reconciler op kind) (obj s) ctx"
  have "same_request (obj s) (obj s)" by (simp add: same_request_def)
  then obtain s1 where client: "run_state (signozClientFor ?rc ?ctx) s = (Inr c, s1)"
    using assms(3) unfolding steady_def by (metis prod.collapse)
  have reads: "fst (run_state (ad_Read (rc_adapter ?rc) (kind_object op kind) c ?ctx
      (st_SigNozResource (o_CoreStatus (obj s)))) t) = Inr resp" if "same_request (obj s) (obj t)" for t
  proof -
    have "fst (run_state (read_bound op kind ?ctx c) t) = Inr resp" using assms(3) that unfolding steady_def by blast
    then show ?thesis using that by (simp add: read_bound_run same_request_def kind_object_def)
  qed
  have client_ok: "accepts_writes (rc_client ?rc)" using assms(2) by simp
  have "wp (pass_of op kind ctx) (\<lambda>r t. r = (requeue_after (rc_interval ?rc (obj s)), None)
      \<and> same_request (obj s) (obj t) \<and> settled (kind_object op kind) (obj t) hash) s"
    unfolding pass_of_def kind_object_def
    by (rule reconciler_pass.matching_pass [OF kind_pass [OF assms(1)] client_ok assms(4) [unfolded kind_object_def]
        client reads [unfolded kind_object_def] assms(5) [unfolded kind_object_def]])
  then show ?thesis
    by (rule wp_mono) (blast intro: passes_only_read [OF assms(1,3,5)])
qed

subsection \<open>A role that stays as it is\<close>

definition mirror_ports :: "('o, unit) ports" where
  "mirror_ports = \<lparr>
     kube_Update = (\<lambda>ctx o' w. (Inr o', w)),
     kube_Patch = (\<lambda>ctx base o' w. (Inr o', w)),
     kube_StatusUpdate = (\<lambda>ctx o' w. (Inr o', w)),
     http_Do = (\<lambda>tls ctx req w. (Inr (data_answer (role_data ''x'' ''d'')), w)),
     p_Now = (\<lambda>w. 9) \<rparr>"

definition mirror_reader :: "unit reader" where
  "mirror_reader = \<lparr>
     rd_Secret = (\<lambda>ctx key w. (Inl (PlainErr ''not found''), w)),
     rd_ConfigMap = (\<lambda>ctx key w. (Inl (PlainErr ''not found''), w)),
     rd_ProviderConfig = (\<lambda>ctx key w. (Inr scripted_config, w)),
     rd_ClusterProviderConfig = (\<lambda>ctx key w. (Inr scripted_config, w)),
     rd_IsNotFound = (\<lambda>e. True) \<rparr>"

definition mirror_operator :: "(unit, unit) operator" where
  "mirror_operator = run_operator (RegisterFlags\<lparr>cf_OperatorNamespace := ''signoz''\<rparr>)
     mirror_ports mirror_reader ref_libs ref_klib (\<lambda>_. Inr ''{}'')"

text \<open>Bound by a pass that died before it could remove the attempt and report.\<close>

definition interrupted_role :: "unit resource" where
  "interrupted_role = set_annotations [AnnotationCreateAttempt \<mapsto> ''then''] (bound_resource (role_spec ''x'' ''d'') [])"

lemma mirror_sel [simp]:
  "op_client mirror_operator = mirror_ports" "op_libs mirror_operator = ref_libs" "op_reader mirror_operator = mirror_reader"
  "op_klib mirror_operator = ref_klib" "op_namespace mirror_operator = ''signoz''"
  by (simp_all add: mirror_operator_def run_operator_def)

lemma config_endpoint: "url_Parse ref_libs ''http://signoz'' =
   Inr \<lparr>url_Scheme = ''http'', url_Host = ''signoz'', url_EscapedPath = [], url_RawQuery = []\<rparr>"
  by code_simp

lemma mirror_request:
  assumes "same_request interrupted_role o'"
  shows "o_Template o' = \<lparr>tmpl_Spec = None, tmpl_JSONSpec = Some (role_spec ''x'' ''d'')\<rparr>"
    "cs_ProviderConfigRef (o_CoreSpec o') = \<lparr>ref_Name = ''pc'', ref_Kind = []\<rparr>"
    "st_SigNozResource (o_CoreStatus o') = Some \<lparr>sr_ID = Some ''7''\<rparr>"
proof -
  have "o_Template o' = o_Template interrupted_role" "o_CoreSpec o' = o_CoreSpec interrupted_role"
    "st_SigNozResource (o_CoreStatus o') = st_SigNozResource (o_CoreStatus interrupted_role)"
    using assms by (simp_all add: same_request_def)
  then show "o_Template o' = \<lparr>tmpl_Spec = None, tmpl_JSONSpec = Some (role_spec ''x'' ''d'')\<rparr>"
    "cs_ProviderConfigRef (o_CoreSpec o') = \<lparr>ref_Name = ''pc'', ref_Kind = []\<rparr>"
    "st_SigNozResource (o_CoreStatus o') = Some \<lparr>sr_ID = Some ''7''\<rparr>"
    by (simp_all add: interrupted_role_def set_annotations_def bound_resource_def new_resource_def)
qed

lemma config_reads: "SecretNames (pc_Spec scripted_config) = []" "ConfigMapNames (pc_Spec scripted_config) = []"
  "strings_TrimSpace ''http://signoz'' = ''http://signoz''" "strings_TrimSpace ''key'' = ''key''"
  by code_simp+

lemma mirror_client:
  assumes "same_request interrupted_role (obj s)"
  shows "fst (run_state (signozClientFor (run_reconciler mirror_operator Role) ctx) s) = Inr scripted_client"
proof -
  have "wp (signozClientFor (run_reconciler mirror_operator Role) ctx) (\<lambda>r _. r = Inr scripted_client) s"
    using config_reads config_endpoint
    by (simp add: mirror_request [OF assms] signozClientFor_def CachedResolver_def ResolveRef_def Resolve_def wp_simps mirror_reader_def
      resolve_parts_def cache_then_def cache_endpoint_def cache_authentication_def cache_trust_def
      cache_value_def cache_return_def cache_error_def scripted_config_def scripted_client_def DefaultHeaderName_def)
  then show ?thesis by (simp add: wp_fst_snd)
qed

lemma mirror_answer:
  "read_response ref_libs (data_answer (role_data ''x'' ''d'')) = Inr (200, print_json (JObj [(''data'', role_data ''x'' ''d'')]))"
  "\<not> isl (build_request ref_libs scripted_client (fst (m_ReadMethodAndPath (kind_object mirror_operator Role) (Some \<lparr>sr_ID = Some ''7''\<rparr>)))
     (snd (m_ReadMethodAndPath (kind_object mirror_operator Role) (Some \<lparr>sr_ID = Some ''7''\<rparr>))) None)"
proof -
  let ?b = "print_json (JObj [(''data'', role_data ''x'' ''d'')])"
  have "decode_single ref_libs ?b = Some ?b" "length ?b < 1000" "?b \<noteq> []" by code_simp+
  then show "read_response ref_libs (data_answer (role_data ''x'' ''d'')) = Inr (200, ?b)"
    by (simp add: read_response_code answer_def data_answer_def)
qed code_simp

lemma mirror_read:
  assumes "same_request interrupted_role (obj s)"
  shows "fst (run_state (read_bound mirror_operator Role ctx scripted_client) s) = Inr (print_json (JObj [(''data'', role_data ''x'' ''d'')]))"
proof -
  have "wp (read_bound mirror_operator Role ctx scripted_client) (\<lambda>r _. r = Inr (print_json (JObj [(''data'', role_data ''x'' ''d'')]))) s"
    using mirror_answer
    by (auto simp: read_bound_def wp_simps mirror_request [OF assms] RoleAdapter_def adapter_of_def Transport_Read_def wp_Exchange
        mirror_ports_def http_error_def NewFromHTTPResponse_def isl_def split: sum.split)
  then show ?thesis by (simp add: wp_fst_snd)
qed

theorem matching_resource_settles_witness:
  "wp (pass_of mirror_operator Role Background) (\<lambda>_ t. om_Annotations (o_Meta (obj t)) AnnotationCreateAttempt = None
      \<and> wp (passes mirror_operator Role [Background, Background]) (\<lambda>_. only_read t) t)
     \<lparr>obj = interrupted_role, env = (), events = []\<rparr>"
proof -
  let ?s = "\<lparr>obj = interrupted_role, env = (), events = []\<rparr>" and ?M = "kind_object mirror_operator Role"
  let ?h = "print_json (JObj [(''description'', JStr ''d''), (''name'', JStr ''x'')])"
  have steady: "steady mirror_operator Role scripted_client (obj ?s) (print_json (JObj [(''data'', role_data ''x'' ''d'')]))"
    by (simp add: steady_def mirror_client mirror_read)
  have accepts: "accepts_writes (op_client mirror_operator)" by (simp add: accepts_writes_def mirror_ports_def)
  have lib: "kube_lib (op_klib mirror_operator)" by (simp add: refk.kube_lib_axioms)
  have "\<not> isl (m_Identity ?M (o_Template interrupted_role))" "m_Hash ?M (o_Template interrupted_role) = Inr ?h" by code_simp+
  then have bound: "bound_to_hash ?M (obj ?s) ?h"
    by (simp add: bound_to_hash_def interrupted_role_def set_annotations_def bound_resource_def new_resource_def GetIDFromSigNozResource_def)
  have "m_Compare ?M (o_Template interrupted_role) (print_json (JObj [(''data'', role_data ''x'' ''d'')]))
     = Inr \<lparr>cr_UpdatableFields = [], cr_ImmutableFields = []\<rparr>" by code_simp
  then have same: "m_Compare ?M (o_Template (obj ?s)) (print_json (JObj [(''data'', role_data ''x'' ''d'')]))
     = Inr \<lparr>cr_UpdatableFields = [], cr_ImmutableFields = []\<rparr>" by simp
  show ?thesis
    by (rule wp_mono [OF matching_resource_settles [OF lib accepts steady bound same]]) (simp add: settled_def del: passes.simps)
qed

end
