(* ===== verification/Startup.thy ===== *)
theory Startup
  imports Config "HOL-Library.Sublist"
begin

text \<open>
  How the operator starts (\<open>run\<close> of \<open>cmd/main.go\<close>): the manager is created, the twelve controllers
  are set up one after the other, and only then is the manager started. Each call on the manager
  may fail; \<open>m\<close> says how each ends, and what is returned is the calls made and the error.
\<close>

subsection \<open>Calls on the manager\<close>

datatype run_step =
    NewManager "string list option"
  | IndexField string string
  | Complete string
  | AddCheck string
  | Start

type_synonym manager = "run_step \<Rightarrow> go_error option"
type_synonym startup = "run_step list \<times> go_error option"

definition manager_call :: "manager \<Rightarrow> run_step \<Rightarrow> startup" where
  "manager_call m st = ([st], m st)"

text \<open>\<open>if err := p; err != nil { return wrap(err) }; return q\<close>.\<close>

definition and_then :: "startup \<Rightarrow> (go_error \<Rightarrow> go_error) \<Rightarrow> startup \<Rightarrow> startup" where
  "and_then p wrap q =
     (case snd p of
        Some err \<Rightarrow> (fst p, Some (wrap err))
      | None \<Rightarrow> (fst p @ fst q, snd q))"

subsection \<open>SetupWithManager\<close>

definition kind_SetupWithManager :: "manager \<Rightarrow> string \<Rightarrow> string \<Rightarrow> startup" where
  "kind_SetupWithManager m kind name =
     and_then (manager_call m (IndexField kind providerConfigRefIndex))
       (Errorf_w (''could not index '' @ kind @ '' provider config references: ''))
       (manager_call m (Complete name))"

definition config_SetupWithManager :: "manager \<Rightarrow> string \<Rightarrow> string \<Rightarrow> startup" where
  "config_SetupWithManager m kind name =
     and_then (manager_call m (IndexField kind secretRefsIndex))
       (Errorf_w (''could not index '' @ kind @ '' Secret references: ''))
       (and_then (manager_call m (IndexField kind configMapRefsIndex))
          (Errorf_w (''could not index '' @ kind @ '' ConfigMap references: ''))
          (manager_call m (Complete name)))"

definition ProviderConfigReconciler_SetupWithManager :: "manager \<Rightarrow> startup" where
  "ProviderConfigReconciler_SetupWithManager m = config_SetupWithManager m ''ProviderConfig'' ''resources-providerconfig''"

definition ClusterProviderConfigReconciler_SetupWithManager :: "manager \<Rightarrow> string \<Rightarrow> startup" where
  "ClusterProviderConfigReconciler_SetupWithManager m namespace =
     (case ClusterProviderConfig_SetupWithManager namespace of
        Some err \<Rightarrow> ([], Some err)
      | None \<Rightarrow> config_SetupWithManager m ''ClusterProviderConfig'' ''resources-clusterproviderconfig'')"

subsection \<open>run\<close>

text \<open>The controllers of the mirrored kinds, in the order they are set up.\<close>

definition kind_controllers :: "(string \<times> string) list" where
  "kind_controllers = [(''User'', ''resources-user''), (''AuthDomain'', ''resources-authdomain''),
     (''Dashboard'', ''resources-dashboard''), (''SavedView'', ''resources-savedview''),
     (''PlannedMaintenance'', ''resources-plannedmaintenance''), (''Role'', ''resources-role''),
     (''RoutePolicy'', ''resources-routepolicy''), (''Rule'', ''resources-rule''),
     (''ServiceAccount'', ''resources-serviceaccount''), (''NotificationChannel'', ''resources-notificationchannel'')]"

definition could_not_create :: "string \<Rightarrow> go_error \<Rightarrow> go_error" where
  "could_not_create name = Errorf_w (''could not create controller '' @ name @ '': '')"

fun setup_kinds :: "manager \<Rightarrow> (string \<times> string) list \<Rightarrow> startup \<Rightarrow> startup" where
  "setup_kinds m [] rest = rest"
| "setup_kinds m ((kind, name) # ks) rest =
     and_then (kind_SetupWithManager m kind name) (could_not_create name) (setup_kinds m ks rest)"

definition run :: "manager \<Rightarrow> (string \<Rightarrow> go_error + 'l) \<Rightarrow> (string \<Rightarrow> string) \<Rightarrow> config \<Rightarrow> startup" where
  "run m parse_level quote cfg =
     (case buildConfig parse_level quote cfg of
        Some err \<Rightarrow> ([], Some err)
      | None \<Rightarrow>
          and_then (manager_call m (NewManager (buildCacheOptions cfg))) (Errorf_w ''could not create manager: '')
          (and_then (ProviderConfigReconciler_SetupWithManager m) (could_not_create ''resources-providerconfig'')
          (and_then (ClusterProviderConfigReconciler_SetupWithManager m (cf_OperatorNamespace cfg))
             (could_not_create ''resources-clusterproviderconfig'')
          (setup_kinds m kind_controllers
          (and_then (manager_call m (AddCheck ''healthz'')) (Errorf_w ''could not set up health check: '')
          (and_then (manager_call m (AddCheck ''readyz'')) (Errorf_w ''could not set up ready check: '')
          (and_then (manager_call m Start) (Errorf_w ''manager exited: '') ([], None))))))))"

subsection \<open>The calls of a start\<close>

text \<open>All calls before the start, in order.\<close>

definition setup_steps :: "config \<Rightarrow> run_step list" where
  "setup_steps cfg = [NewManager (buildCacheOptions cfg),
     IndexField ''ProviderConfig'' secretRefsIndex, IndexField ''ProviderConfig'' configMapRefsIndex,
     Complete ''resources-providerconfig'',
     IndexField ''ClusterProviderConfig'' secretRefsIndex, IndexField ''ClusterProviderConfig'' configMapRefsIndex,
     Complete ''resources-clusterproviderconfig'']
     @ concat (map (\<lambda>(kind, name). [IndexField kind providerConfigRefIndex, Complete name]) kind_controllers)
     @ [AddCheck ''healthz'', AddCheck ''readyz'']"

text \<open>The calls made of a list: up to and including the first that fails.\<close>

fun made :: "manager \<Rightarrow> run_step list \<Rightarrow> run_step list" where
  "made m [] = []"
| "made m (st # sts) = st # (if m st = None then made m sts else [])"

definition follows :: "manager \<Rightarrow> run_step list \<Rightarrow> startup \<Rightarrow> bool" where
  "follows m sts p \<longleftrightarrow> fst p = made m sts \<and> (snd p = None \<longleftrightarrow> list_all (\<lambda>st. m st = None) sts)"

lemma made_prefix: "prefix (made m sts) sts"
  by (induction sts) auto

lemma made_append: "made m (xs @ ys) = (if list_all (\<lambda>st. m st = None) xs then xs @ made m ys else made m xs)"
  by (induction xs) auto

lemma made_all: "list_all (\<lambda>st. m st = None) xs \<Longrightarrow> made m xs = xs"
  by (induction xs) auto

lemma follows_call: "follows m [st] (manager_call m st)"
  by (simp add: follows_def manager_call_def)

lemma follows_then: "follows m xs p \<Longrightarrow> follows m ys q \<Longrightarrow> follows m (xs @ ys) (and_then p wrap q)"
  by (cases "list_all (\<lambda>st. m st = None) xs") (auto simp: follows_def and_then_def made_append made_all)

lemma follows_kind: "follows m [IndexField kind providerConfigRefIndex, Complete name] (kind_SetupWithManager m kind name)"
  unfolding kind_SetupWithManager_def using follows_then [OF follows_call follows_call] by fastforce

lemma follows_config:
  "follows m [IndexField kind secretRefsIndex, IndexField kind configMapRefsIndex, Complete name] (config_SetupWithManager m kind name)"
  unfolding config_SetupWithManager_def
  using follows_then [OF follows_call follows_then [OF follows_call follows_call]] by fastforce

lemma follows_kinds:
  "follows m sts rest \<Longrightarrow>
     follows m (concat (map (\<lambda>(kind, name). [IndexField kind providerConfigRefIndex, Complete name]) ks) @ sts)
       (setup_kinds m ks rest)"
proof (induction ks)
  case (Cons k ks)
  obtain kind name where k: "k = (kind, name)" by fastforce
  show ?case
    unfolding k using follows_then [OF follows_kind Cons.IH [OF Cons.prems], of kind name "could_not_create name"] by simp
qed simp

lemma run_follows:
  assumes "buildConfig parse_level quote cfg = None"
  shows "follows m (setup_steps cfg @ [Start]) (run m parse_level quote cfg)"
proof -
  have "strings_TrimSpace [] = []" by code_simp
  then have "cf_OperatorNamespace cfg \<noteq> []"
    using assms by (auto simp: buildConfig_def split: option.splits if_splits)
  then have cluster: "ClusterProviderConfigReconciler_SetupWithManager m (cf_OperatorNamespace cfg)
      = config_SetupWithManager m ''ClusterProviderConfig'' ''resources-clusterproviderconfig''"
    by (simp add: ClusterProviderConfigReconciler_SetupWithManager_def ClusterProviderConfig_SetupWithManager_def)
  have fin: "follows m [] ([], None)" by (simp add: follows_def)
  note steps = follows_then [OF follows_call follows_then [OF follows_config follows_then [OF follows_config
    follows_kinds [OF follows_then [OF follows_call follows_then [OF follows_call follows_then [OF follows_call fin]]]]]]]
  show ?thesis
    unfolding run_def setup_steps_def assms option.case cluster ProviderConfigReconciler_SetupWithManager_def
    using steps by fastforce
qed

text \<open>
  (C35) The manager is started only after all twelve controllers have been set up, with their indexes,
  in the namespaces the configuration names, and only with an operator namespace; a start that
  fails earlier returns an error, and made the calls up to the failing one, in order.
\<close>

theorem manager_starts_fully_wired:
  "case buildConfig parse_level quote cfg of
     Some err \<Rightarrow> run m parse_level quote cfg = ([], Some err)
   | None \<Rightarrow> strings_TrimSpace (cf_OperatorNamespace cfg) \<noteq> [] \<and>
       (if list_all (\<lambda>st. m st = None) (setup_steps cfg)
        then fst (run m parse_level quote cfg) = setup_steps cfg @ [Start]
        else snd (run m parse_level quote cfg) \<noteq> None \<and> prefix (fst (run m parse_level quote cfg)) (setup_steps cfg))"
proof (cases "buildConfig parse_level quote cfg")
  case (Some err)
  then show ?thesis by (simp add: run_def)
next
  case None
  have ns: "strings_TrimSpace (cf_OperatorNamespace cfg) \<noteq> []"
    using None by (auto simp: buildConfig_def split: option.splits if_splits)
  have "follows m (setup_steps cfg @ [Start]) (run m parse_level quote cfg)" by (rule run_follows [OF None])
  then show ?thesis using ns None made_prefix [of m "setup_steps cfg"] by (auto simp: follows_def made_append)
qed

end
