(* ===== verification/Providers.thy ===== *)
theory Providers
  imports Scenario
begin

text \<open>
  Properties of the provider configurations: what resolving one reads and reports, what its
  reconciler writes, and which resources and configurations a change wakes up.
\<close>

subsection \<open>Only what the spec refers to is read\<close>

text \<open>A cache operation that, in a namespace, reads only what \<open>A\<close> allows, and stays in the
  namespace.\<close>

definition read_post :: "string \<Rightarrow> ('o event \<Rightarrow> bool) \<Rightarrow> 'o event list \<Rightarrow> 'x \<times> cache \<Rightarrow> ('o, 'w) sys \<Rightarrow> bool" where
  "read_post ns A pre rc t \<longleftrightarrow> ca_namespace (snd rc) = ns \<and> (\<exists>es. events t = pre @ es \<and> list_all A es)"

definition reads_only :: "string \<Rightarrow> ('o event \<Rightarrow> bool) \<Rightarrow> ('o, 'w, 'a) cache_op \<Rightarrow> bool" where
  "reads_only ns A m \<longleftrightarrow> (\<forall>c s. ca_namespace c = ns \<longrightarrow> wp (m c) (read_post ns A (events s)) s)"

lemma reads_onlyD: "reads_only ns A m \<Longrightarrow> ca_namespace c = ns \<Longrightarrow> wp (m c) (read_post ns A (events s)) s"
  by (simp add: reads_only_def)

lemma read_post_trans: "read_post ns A (events t) rc u \<Longrightarrow> events t = pre @ es \<Longrightarrow> list_all A es \<Longrightarrow> read_post ns A pre rc u"
  by (auto simp: read_post_def)

lemma reads_only_return: "reads_only ns A (cache_return a)"
  by (simp add: reads_only_def read_post_def cache_return_def wp_simps)

lemma reads_only_error: "reads_only ns A (cache_error e)"
  by (simp add: reads_only_def read_post_def cache_error_def wp_simps)

lemma reads_only_then:
  fixes m :: "('o, 'w, 'a) cache_op" and f :: "'a \<Rightarrow> ('o, 'w, 'b) cache_op"
  assumes m: "reads_only ns A m" and f: "\<And>a. reads_only ns A (f a)"
  shows "reads_only ns A (cache_then m wrap f)"
  unfolding reads_only_def cache_then_def wp_bind
proof (intro allI impI, rule wp_mono [OF reads_onlyD [OF m]])
  fix s t :: "('o, 'w) sys" and rc :: "(go_error + 'a) \<times> cache"
  assume "read_post ns A (events s) rc t"
  then obtain es where ns: "ca_namespace (snd rc) = ns" and es: "events t = events s @ es" "list_all A es"
    by (auto simp: read_post_def)
  have "wp (f a (snd rc)) (read_post ns A (events s)) t" for a
    by (rule wp_mono [OF reads_onlyD [OF f ns]]) (rule read_post_trans [OF _ es])
  then show "wp (case rc of (r, c') \<Rightarrow>
      (case r of Inl e \<Rightarrow> State_Monad.return (Inl (wrap e), c') | Inr a \<Rightarrow> f a c')) (read_post ns A (events s)) t"
    using es ns by (cases rc) (auto simp: wp_simps read_post_def split: sum.split)
qed

lemma reads_only_secret:
  "(\<And>b. A (EvGet GvkSecret key b)) \<Longrightarrow> reads_only ns A (cache_secret L R ctx key)"
  by (auto simp: reads_only_def read_post_def cache_secret_def wp_simps cache_fail_def cache_observe_def Let_def
      split: option.split sum.split prod.split)

lemma reads_only_configMap:
  "(\<And>b. A (EvGet GvkConfigMap key b)) \<Longrightarrow> reads_only ns A (cache_configMap L R ctx key)"
  by (auto simp: reads_only_def read_post_def cache_configMap_def wp_simps cache_fail_def cache_observe_def Let_def
      split: option.split sum.split prod.split)

lemma reads_only_then_key:
  assumes "reads_only ns A (m \<lparr>key_Namespace = ns, key_Name = n\<rparr>)" and "\<And>a. reads_only ns A (f a)"
  shows "reads_only ns A (\<lambda>c. cache_then (m (cache_key c n)) wrap f c)"
  using reads_only_then [OF assms] by (simp add: reads_only_def cache_key_def)

text \<open>The reads a spec allows in a namespace. A reference without a name, which the API server's
  validation refuses, is read as it is.\<close>

definition may_read :: "string \<Rightarrow> ProviderConfigSpec \<Rightarrow> 'o event \<Rightarrow> bool" where
  "may_read ns spec e \<longleftrightarrow> (\<exists>n b.
     (e = EvGet GvkSecret \<lparr>key_Namespace = ns, key_Name = n\<rparr> b \<and> (n = [] \<or> n \<in> set (SecretNames spec)))
     \<or> (e = EvGet GvkConfigMap \<lparr>key_Namespace = ns, key_Name = n\<rparr> b \<and> (n = [] \<or> n \<in> set (ConfigMapNames spec))))"

lemma reads_only_source:
  assumes "Some src \<in> set (ValueSources spec)"
  shows "vs_SecretKeyRef src = Some r \<Longrightarrow>
      reads_only ns (may_read ns spec) (cache_secret L R ctx \<lparr>key_Namespace = ns, key_Name = sel_Name r\<rparr>)"
    and "vs_ConfigMapKeyRef src = Some r \<Longrightarrow>
      reads_only ns (may_read ns spec) (cache_configMap L R ctx \<lparr>key_Namespace = ns, key_Name = sel_Name r\<rparr>)"
  using assms
  by (auto simp: may_read_def SecretNames_iff ConfigMapNames_iff intro!: reads_only_secret reads_only_configMap; metis)+

lemmas reads_only_intros = reads_only_return reads_only_error reads_only_then reads_only_then_key

lemma reads_only_value:
  assumes "vfrom \<in> set (ValueSources spec)"
  shows "reads_only ns (may_read ns spec) (cache_value L R ctx path inline vfrom)"
proof (cases vfrom)
  case None
  then show ?thesis by (cases "inline = []") (simp_all add: cache_value_def [abs_def] reads_only_intros)
next
  case (Some src)
  with assms have src: "Some src \<in> set (ValueSources spec)" by simp
  show ?thesis unfolding Some
    by (cases "vs_SecretKeyRef src"; cases "vs_ConfigMapKeyRef src")
       (auto simp: cache_value_def [abs_def] Let_def split: option.split
          intro!: reads_only_intros reads_only_source [OF src])
qed

lemma reads_only_parts: "reads_only ns (may_read ns spec) (resolve_parts L R ctx spec)"
proof -
  have ep: "reads_only ns (may_read ns spec) (cache_endpoint L R ctx spec)"
    unfolding cache_endpoint_def
    by (auto split: sum.split simp: ValueSources_def intro!: reads_only_intros reads_only_value)
  have au: "reads_only ns (may_read ns spec) (cache_authentication L R ctx (pcs_Auth spec))"
    unfolding cache_authentication_def Let_def
    by (auto split: option.split simp: ValueSources_def intro!: reads_only_intros reads_only_value)
  have "reads_only ns (may_read ns spec) (cache_trust L R ctx (pcs_TLS spec))"
  proof (cases "pcs_TLS spec")
    case None
    then show ?thesis by (simp add: cache_trust_def [abs_def] reads_only_intros)
  next
    case (Some cfg)
    show ?thesis
    proof (cases "tls_CASecretRef cfg")
      case None
      then show ?thesis by (simp add: Some cache_trust_def [abs_def] Let_def reads_only_intros)
    next
      case (Some r)
      then have "Some \<lparr>vs_SecretKeyRef = Some r, vs_ConfigMapKeyRef = None\<rparr> \<in> set (ValueSources spec)"
        using \<open>pcs_TLS spec = Some cfg\<close> by (simp add: ValueSources_def)
      note src = reads_only_source(1) [OF this, of r, simplified]
      show ?thesis
        using \<open>pcs_TLS spec = Some cfg\<close> Some
        by (auto simp: cache_trust_def [abs_def] Let_def split: option.split intro!: reads_only_intros src)
    qed
  qed
  with ep au show ?thesis unfolding resolve_parts_def by (intro reads_only_intros)
qed

lemma read_post_bind:
  fixes m :: "(('o, 'w) sys, 'a) state" and f :: "'a \<Rightarrow> (('o, 'w) sys, 'b) state"
  assumes m: "wp m (\<lambda>a. read_post ns A (events s) ((), g a)) s"
    and f: "\<And>a t. ca_namespace (g a) = ns \<Longrightarrow> wp (f a) (\<lambda>b. read_post ns A (events t) ((), h b)) t"
  shows "wp (State_Monad.bind m f) (\<lambda>b. read_post ns A (events s) ((), h b)) s"
  unfolding wp_bind
proof (rule wp_mono [OF m])
  fix a and t :: "('o, 'w) sys"
  assume "read_post ns A (events s) ((), g a) t"
  then obtain es where "ca_namespace (g a) = ns" and es: "events t = events s @ es" "list_all A es"
    by (auto simp: read_post_def)
  from f [OF this(1)] show "wp (f a) (\<lambda>b. read_post ns A (events s) ((), h b)) t"
    by (rule wp_mono) (rule read_post_trans [OF _ es])
qed

lemma reads_only_wp:
  "reads_only ns A m \<Longrightarrow> ca_namespace c = ns \<Longrightarrow> wp (m c) (\<lambda>rc. read_post ns A (events s) ((), snd rc)) s"
  by (rule wp_mono [OF reads_onlyD]) (simp_all add: read_post_def)

lemma warm_secrets_reads:
  "ca_namespace c = ns \<Longrightarrow> set names \<subseteq> set (SecretNames spec) \<Longrightarrow>
    wp (warm_secrets L R ctx names c) (\<lambda>c'. read_post ns (may_read ns spec) (events s) ((), c')) s"
proof (induction names arbitrary: c s)
  case Nil
  then show ?case by (simp add: wp_simps read_post_def)
next
  case (Cons name names)
  have "reads_only ns (may_read ns spec) (cache_secret L R ctx (cache_key c name))"
    by (rule reads_only_secret) (use Cons.prems in \<open>auto simp: may_read_def cache_key_def\<close>)
  show ?case unfolding warm_secrets.simps
    by (rule read_post_bind [where g = snd and h = "\<lambda>x. x", OF reads_only_wp [OF \<open>reads_only _ _ _\<close> Cons.prems(1)]])
       (use Cons in \<open>auto split: prod.split\<close>)
qed

lemma warm_configMaps_reads:
  "ca_namespace c = ns \<Longrightarrow> set names \<subseteq> set (ConfigMapNames spec) \<Longrightarrow>
    wp (warm_configMaps L R ctx names c) (\<lambda>c'. read_post ns (may_read ns spec) (events s) ((), c')) s"
proof (induction names arbitrary: c s)
  case Nil
  then show ?case by (simp add: wp_simps read_post_def)
next
  case (Cons name names)
  have "reads_only ns (may_read ns spec) (cache_configMap L R ctx (cache_key c name))"
    by (rule reads_only_configMap) (use Cons.prems in \<open>auto simp: may_read_def cache_key_def\<close>)
  show ?case unfolding warm_configMaps.simps
    by (rule read_post_bind [where g = snd and h = "\<lambda>x. x", OF reads_only_wp [OF \<open>reads_only _ _ _\<close> Cons.prems(1)]])
       (use Cons in \<open>auto split: prod.split\<close>)
qed

lemma Resolve_reads:
  fixes R :: "'w reader" and s :: "('o, 'w) sys"
  shows "wp (Resolve L R ctx ns spec) (\<lambda>_ t. \<exists>es. events t = events s @ es \<and> list_all (may_read ns spec) es) s"
proof -
  have parts: "wp (do { (r, c) \<leftarrow> resolve_parts L R ctx spec c; State_Monad.return (r, ca_versions c) })
      (\<lambda>_. read_post ns (may_read ns spec) (events t) ((), empty_cache ns)) t"
    if "ca_namespace c = ns" for c and t :: "('o, 'w) sys"
    by (rule read_post_bind [where g = snd, OF reads_only_wp [OF reads_only_parts that]])
       (simp add: wp_simps read_post_def empty_cache_def split: prod.split)
  have "wp (Resolve L R ctx ns spec) (\<lambda>_. read_post ns (may_read ns spec) (events s) ((), empty_cache ns)) s"
    unfolding Resolve_def
    by (rule read_post_bind [where g = id], simp add: warm_secrets_reads empty_cache_def,
        rule read_post_bind [where g = id], simp add: warm_configMaps_reads, rule parts) simp
  then show ?thesis by (rule wp_mono) (simp add: read_post_def)
qed

lemma may_read_names:
  assumes "list_all (may_read ns spec) es"
  shows "was_read GvkSecret key es \<Longrightarrow> key_Name key \<noteq> [] \<Longrightarrow>
      \<exists>n \<in> set (SecretNames spec). key = \<lparr>key_Namespace = ns, key_Name = n\<rparr>"
    and "was_read GvkConfigMap key es \<Longrightarrow> key_Name key \<noteq> [] \<Longrightarrow>
      \<exists>n \<in> set (ConfigMapNames spec). key = \<lparr>key_Namespace = ns, key_Name = n\<rparr>"
  using assms by (auto simp: was_read_def list_all_iff may_read_def dest!: bspec)

subsection \<open>Resolving\<close>

text \<open>
  (C23) Resolving a provider configuration reads exactly the Secrets and ConfigMaps its spec names,
  in the namespace the references are resolved in, each of them once and all of them even when an
  earlier one fails; it changes nothing, and reports a version for exactly the reads that
  succeeded.
\<close>

theorem Resolve_reads_each_reference_once:
  fixes R :: "'w reader" and s :: "('o, 'w) sys"
  shows "\<exists>r versions t es. run_state (Resolve L R ctx ns spec) s = ((r, versions), t)
    \<and> obj t = obj s \<and> events t = events s @ es
    \<and> list_all (may_read ns spec) es \<and> distinct (map read_of es)
    \<and> {key. was_read GvkSecret key es \<and> key_Name key \<noteq> []}
        = (\<lambda>n. \<lparr>key_Namespace = ns, key_Name = n\<rparr>) ` set (SecretNames spec)
    \<and> {key. was_read GvkConfigMap key es \<and> key_Name key \<noteq> []}
        = (\<lambda>n. \<lparr>key_Namespace = ns, key_Name = n\<rparr>) ` set (ConfigMapNames spec)
    \<and> (\<forall>kind key. map_of (versions kind) key \<noteq> None \<longleftrightarrow> EvGet (gvk_of kind) key True \<in> set es)"
proof -
  obtain rv t where run: "run_state (Resolve L R ctx ns spec) s = (rv, t)" by fastforce
  from wp_run [OF Resolve_post this] obtain es where es: "events t = events s @ es"
    and post: "obj t = obj s" "distinct (map read_of es)"
      "\<forall>n \<in> set (SecretNames spec). was_read GvkSecret \<lparr>key_Namespace = ns, key_Name = n\<rparr> es"
      "\<forall>n \<in> set (ConfigMapNames spec). was_read GvkConfigMap \<lparr>key_Namespace = ns, key_Name = n\<rparr> es"
      "\<forall>kind key. map_of (snd rv kind) key \<noteq> None \<longleftrightarrow> EvGet (gvk_of kind) key True \<in> set es"
    unfolding resolved_post_def by blast
  have may: "list_all (may_read ns spec) es" using wp_run [OF Resolve_reads run] es by simp
  have "{key. was_read GvkSecret key es \<and> key_Name key \<noteq> []}
      = (\<lambda>n. \<lparr>key_Namespace = ns, key_Name = n\<rparr>) ` set (SecretNames spec)"
    using may_read_names(1) [OF may] post(3) by (auto simp: SecretNames_iff)
  moreover have "{key. was_read GvkConfigMap key es \<and> key_Name key \<noteq> []}
      = (\<lambda>n. \<lparr>key_Namespace = ns, key_Name = n\<rparr>) ` set (ConfigMapNames spec)"
    using may_read_names(2) [OF may] post(4) by (auto simp: ConfigMapNames_iff)
  ultimately show ?thesis using run es may post by (cases rv) auto
qed

text \<open>
  (C24) A resolution ends in a configuration a client can be built from, an http or https address
  with a host and a named, trimmed, non-empty credential, or in an error carrying one of the
  documented codes.
\<close>

theorem Resolve_usable_or_coded:
  "case fst (fst (run_state (Resolve L R ctx ns spec) s)) of Inl e \<Rightarrow> known_code e | Inr r \<Rightarrow> usable r"
  using Resolve_post [of L R ctx ns spec s] by (simp add: wp_fst_snd resolved_post_def)

text \<open>
  (C25) A pass over a provider configuration issues its reads and then at most one status update: none
  when the status already says what the pass found, otherwise one with a \<open>Ready\<close> condition for
  the current generation that reports the outcome of the resolution, with the versions read. It
  returns the resolution's error, so that a failure is retried.
\<close>

theorem PC_Reconcile_reports_outcome:
  fixes s :: "(ProviderConfig, 'w) sys"
  assumes "kube_lib K"
  shows "\<exists>reads r versions st. list_all reference_read reads
    \<and> fst (run_state (Resolve L R ctx ns (pc_Spec (obj s))) s) = (r, versions)
    \<and> pc_reports st (om_Generation (pc_Meta (obj s))) (to_error r)
    \<and> pst_ObservedGeneration st = om_Generation (pc_Meta (obj s))
    \<and> pst_ObservedRefVersions st = observed_versions versions
    \<and> wp (PC_Reconcile P K (CachedResolver L R) ctx ns)
        (\<lambda>(result, err) t. result = no_requeue
          \<and> (if st = pc_Status (obj s) then events t = events s @ reads \<and> err = to_error r
             else \<exists>ok. events t = events s @ reads @ [EvStatusUpdate ctx ((obj s)\<lparr>pc_Status := st\<rparr>) ok]
               \<and> (if ok then err = to_error r else err \<noteq> None))) s"
proof -
  obtain r versions t where run: "run_state (Resolve L R ctx ns (pc_Spec (obj s))) s = ((r, versions), t)"
    by (metis prod.exhaust)
  from wp_run [OF Resolve_post run] obtain reads where reads: "events t = events s @ reads" "list_all reference_read reads"
    and ob: "obj t = obj s" by (auto simp: resolved_post_def)
  let ?st = "SetConditions K (p_Now P (env t)) (om_Generation (pc_Meta (obj s))) versions (to_error r) (pc_Status (obj s))"
  have eq: "(case r of Inl e \<Rightarrow> Some e | Inr _ \<Rightarrow> None) = to_error r" by (simp add: to_error_def)
  have "wp (PC_Reconcile P K (CachedResolver L R) ctx ns)
        (\<lambda>(result, err) u. result = no_requeue
          \<and> (if ?st = pc_Status (obj s) then events u = events s @ reads \<and> err = to_error r
             else \<exists>ok. events u = events s @ reads @ [EvStatusUpdate ctx ((obj s)\<lparr>pc_Status := ?st\<rparr>) ok]
               \<and> (if ok then err = to_error r else err \<noteq> None))) s"
    using reads ob
    by (cases "kube_StatusUpdate P ctx ((obj s)\<lparr>pc_Status := ?st\<rparr>) (env t)";
        cases "fst (kube_StatusUpdate P ctx ((obj s)\<lparr>pc_Status := ?st\<rparr>) (env t))")
       (auto simp: PC_Reconcile_def wp_simps CachedResolver_def wp_def [of "Resolve _ _ _ _ _"] run eq
          kube_lib.deep_equal_pc [OF assms] Let_def)
  then show ?thesis
    using reads run kube_lib.SetConditions_reports [OF assms]
    by (intro exI [of _ reads] exI [of _ r] exI [of _ versions] exI [of _ ?st])
       (simp add: SetConditions_def Let_def)
qed

definition scripted_ports_pc :: "(ProviderConfig, http_response list) ports" where
  "scripted_ports_pc = scripted_ports"

theorem PC_Reconcile_reports_outcome_witness:
  "\<exists>reads st. list_all reference_read reads \<and> pc_reports st 1 None \<and> pst_ObservedGeneration st = 1
    \<and> st \<noteq> pc_Status scripted_config
    \<and> wp (PC_Reconcile scripted_ports_pc ref_klib (CachedResolver ref_libs scripted_reader) Background ''ns'')
        (\<lambda>(result, err) t. \<exists>ok. events t = reads @ [EvStatusUpdate Background (scripted_config\<lparr>pc_Status := st\<rparr>) ok])
        \<lparr>obj = scripted_config, env = [], events = []\<rparr>"
proof -
  let ?s = "\<lparr>obj = scripted_config, env = [] :: http_response list, events = []\<rparr>"
  have ok: "to_error (fst (fst (run_state (Resolve ref_libs scripted_reader Background ''ns'' (pc_Spec scripted_config)) ?s))) = None"
    by code_simp
  have gen: "om_Generation (pc_Meta scripted_config) = 1" "pst_ObservedGeneration (pc_Status scripted_config) = 0"
    by (simp_all add: scripted_config_def)
  from PC_Reconcile_reports_outcome [OF refk.kube_lib_axioms, of ref_libs scripted_reader Background "''ns''" ?s scripted_ports_pc]
  obtain reads r versions st where
    st: "list_all reference_read reads" "fst (run_state (Resolve ref_libs scripted_reader Background ''ns'' (pc_Spec scripted_config)) ?s) = (r, versions)"
      "pc_reports st 1 (to_error r)" "pst_ObservedGeneration st = 1"
    and run: "wp (PC_Reconcile scripted_ports_pc ref_klib (CachedResolver ref_libs scripted_reader) Background ''ns'')
        (\<lambda>(result, err) t. result = no_requeue
          \<and> (if st = pc_Status (obj ?s) then events t = events ?s @ reads \<and> err = to_error r
             else \<exists>ok. events t = events ?s @ reads @ [EvStatusUpdate Background ((obj ?s)\<lparr>pc_Status := st\<rparr>) ok]
               \<and> (if ok then err = to_error r else err \<noteq> None))) ?s"
    by (auto simp: gen)
  have "st \<noteq> pc_Status scripted_config" using st(4) gen by auto
  moreover have "to_error r = None" using ok st(2) by simp
  ultimately show ?thesis
    using st by (intro exI [of _ reads] exI [of _ st]) (auto simp del: to_error_None_iff intro!: wp_mono [OF run])
qed

subsection \<open>Waking up\<close>

lemma one_slash:
  assumes "CHR ''/'' \<notin> set n" and "CHR ''/'' \<notin> set k"
  shows "k' @ CHR ''/'' # n' = k @ CHR ''/'' # n \<longleftrightarrow> k' = k \<and> n' = n"
proof
  assume eq: "k' @ CHR ''/'' # n' = k @ CHR ''/'' # n"
  have "length (filter (\<lambda>c. c = CHR ''/'') (k' @ CHR ''/'' # n')) = 1"
    using assms unfolding eq by (auto simp: filter_empty_conv)
  then have "CHR ''/'' \<notin> set k'" by (auto simp: filter_empty_conv)
  with assms(2) eq show "k' = k \<and> n' = n" using refKey_inj [of k' k n' n] by simp
qed simp

text \<open>The index of a resource, and what it says of the configuration it refers to.\<close>

definition ref_kind :: "'t resource \<Rightarrow> string" where
  "ref_kind o' = (let k = ref_Kind (cs_ProviderConfigRef (o_CoreSpec o')) in if k = [] then ''ProviderConfig'' else k)"

lemma refers_to_kind:
  "refers_to o' GvkProviderConfig key \<longleftrightarrow> ref_kind o' = ''ProviderConfig''
     \<and> key = \<lparr>key_Namespace = om_Namespace (o_Meta o'), key_Name = ref_Name (cs_ProviderConfigRef (o_CoreSpec o'))\<rparr>"
  "refers_to o' GvkClusterProviderConfig key \<longleftrightarrow> ref_kind o' = ''ClusterProviderConfig''
     \<and> key = \<lparr>key_Namespace = [], key_Name = ref_Name (cs_ProviderConfigRef (o_CoreSpec o'))\<rparr>"
  by (auto simp: refers_to_def ref_kind_def Let_def)

lemma resource_index_iff:
  assumes "CHR ''/'' \<notin> set n" and "CHR ''/'' \<notin> set k" and "k \<noteq> []"
  shows "providerConfigRefKey k n \<in> set (resource_index providerConfigRefIndex o') \<longleftrightarrow>
    ref_kind o' = k \<and> ref_Name (cs_ProviderConfigRef (o_CoreSpec o')) = n"
proof -
  have "set (resource_index providerConfigRefIndex o')
      = {ref_kind o' @ CHR ''/'' # ref_Name (cs_ProviderConfigRef (o_CoreSpec o'))}"
    by (simp add: resource_index_def indexProviderConfigRef_def providerConfigRefKey_def ref_kind_def Let_def)
  moreover have "providerConfigRefKey k n = k @ CHR ''/'' # n"
    using assms(3) by (simp add: providerConfigRefKey_def)
  ultimately show ?thesis using one_slash [OF assms(1,2)] by (metis singleton_iff)
qed

lemma controller_watches:
  "ct_WatchProviderConfig (run_controller op kc kind)
     = watchProviderConfigs (kc_List kc) (\<lambda>o'. ObjectKeyFromObject (o_Meta o'))"
  "ct_WatchClusterProviderConfig (run_controller op kc kind)
     = watchClusterProviderConfigs (kc_List kc) (\<lambda>o'. ObjectKeyFromObject (o_Meta o'))"
  using run_controller_eq [of op kc kind] by (auto simp: controller_of_def)

text \<open>
  (C26) A change of a provider configuration wakes exactly the resources whose passes resolve it: those
  of its own namespace that name it, for the namespaced kind, and those of every namespace for the
  cluster-scoped one.
\<close>

theorem provider_change_wakes_referencers:
  assumes "indexed_lister (kc_List kc) resource_index o_Meta stored" and "CHR ''/'' \<notin> set (om_Name config)"
  shows "set (ct_WatchProviderConfig (run_controller op kc kind) config) =
      {ObjectKeyFromObject (o_Meta o') | o'. o' \<in> stored \<and> refers_to o' GvkProviderConfig (ObjectKeyFromObject config)}
    \<and> set (ct_WatchClusterProviderConfig (run_controller op kc kind) config) =
      {ObjectKeyFromObject (o_Meta o') | o'. o' \<in> stored
         \<and> refers_to o' GvkClusterProviderConfig \<lparr>key_Namespace = [], key_Name = om_Name config\<rparr>}"
proof -
  note defs = controller_watches watchProviderConfigs_def watchClusterProviderConfigs_def enqueueReferencers_def Let_def
    indexed_lister.requests_iff [OF assms(1)] resource_index_iff [OF assms(2)] refers_to_kind ObjectKeyFromObject_def [of config]
  have "key \<in> set (ct_WatchProviderConfig (run_controller op kc kind) config) \<longleftrightarrow>
      (\<exists>o' \<in> stored. ObjectKeyFromObject (o_Meta o') = key \<and> refers_to o' GvkProviderConfig (ObjectKeyFromObject config))"
    and "key \<in> set (ct_WatchClusterProviderConfig (run_controller op kc kind) config) \<longleftrightarrow>
      (\<exists>o' \<in> stored. ObjectKeyFromObject (o_Meta o') = key
         \<and> refers_to o' GvkClusterProviderConfig \<lparr>key_Namespace = [], key_Name = om_Name config\<rparr>)" for key
    by (simp_all add: defs) (metis+)?
  then show ?thesis by (intro conjI set_eqI) (simp_all only: mem_Collect_eq, blast+)
qed

definition stored_client :: "unit resource list \<Rightarrow> (unit, http_response list) kind_client" where
  "stored_client objs = \<lparr>kc_Get = (\<lambda>ctx key w. (Inl (PlainErr ''not found''), w)),
     kc_List = list_stored resource_index o_Meta objs, kc_IsNotFound = (\<lambda>e. True)\<rparr>"

theorem provider_change_wakes_referencers_witness:
  "set (ct_WatchProviderConfig (run_controller scripted_operator (stored_client [new_resource []]) Role) (pc_Meta scripted_config))
     = {\<lparr>key_Namespace = ''ns'', key_Name = ''r''\<rparr>}"
proof -
  have "indexed_lister (kc_List (stored_client [new_resource []])) resource_index o_Meta (set [new_resource []])"
    by (simp only: stored_client_def kind_client.simps stored_lister.indexed_lister_axioms)
  from provider_change_wakes_referencers [OF this, of "pc_Meta scripted_config" scripted_operator Role]
  show ?thesis
    by (simp add: scripted_config_def new_resource_def ObjectKeyFromObject_def refers_to_def Let_def)
qed

text \<open>
  The read a watch anticipates is the one a pass makes: resolving a resource's reference reads,
  first of all, the configuration the resource refers to, and a reference of an unknown kind reads
  nothing and is an error.
\<close>

theorem ResolveRef_reads_referred_config:
  fixes R :: "'w reader" and s :: "('o, 'w) sys"
  shows "wp (ResolveRef L R ctx (cs_ProviderConfigRef (o_CoreSpec o')) (om_Namespace (o_Meta o')) ons)
    (\<lambda>r t. (\<exists>kind key b es. refers_to o' kind key \<and> events t = events s @ EvGet kind key b # es)
       \<or> ((\<nexists>kind key. refers_to o' kind key) \<and> isl r \<and> t = s)) s"
proof (cases "\<exists>kind key. refers_to o' kind key")
  case True
  then obtain kind key where ref: "refers_to o' kind key" by blast
  show ?thesis by (rule wp_mono [OF ResolveRef_reads [OF ref]]) (use ref in blast)
next
  case False
  then have "ref_Kind (cs_ProviderConfigRef (o_CoreSpec o')) \<notin> {[], ''ProviderConfig'', ''ClusterProviderConfig''}"
    by (auto simp: refers_to_def Let_def)
  then show ?thesis using False by (simp add: ResolveRef_def wp_simps)
qed

text \<open>
  (C27) A change of a Secret or a ConfigMap wakes exactly the configurations that name it: the
  namespaced ones of its namespace, and the cluster-scoped ones when it lies in the operator's
  namespace.
\<close>

theorem reference_change_wakes_configs:
  assumes "indexed_lister lister pc_index pc_Meta stored"
  shows "set (ProviderConfig_watchReferences lister secretRefsIndex m) =
      {ObjectKeyFromObject (pc_Meta c) | c. c \<in> stored \<and> om_Namespace (pc_Meta c) = om_Namespace m \<and> om_Name m \<in> set (SecretNames (pc_Spec c))}
    \<and> set (ProviderConfig_watchReferences lister configMapRefsIndex m) =
      {ObjectKeyFromObject (pc_Meta c) | c. c \<in> stored \<and> om_Namespace (pc_Meta c) = om_Namespace m \<and> om_Name m \<in> set (ConfigMapNames (pc_Spec c))}
    \<and> set (ClusterProviderConfig_watchReferences ns lister secretRefsIndex m) =
      {ObjectKeyFromObject (pc_Meta c) | c. c \<in> stored \<and> om_Namespace m = ns \<and> om_Name m \<in> set (SecretNames (pc_Spec c))}
    \<and> set (ClusterProviderConfig_watchReferences ns lister configMapRefsIndex m) =
      {ObjectKeyFromObject (pc_Meta c) | c. c \<in> stored \<and> om_Namespace m = ns \<and> om_Name m \<in> set (ConfigMapNames (pc_Spec c))}"
proof -
  have index: "pc_index secretRefsIndex c = SecretNames (pc_Spec c)" "pc_index configMapRefsIndex c = ConfigMapNames (pc_Spec c)" for c
    by (simp_all add: pc_index_def secretRefsIndex_def configMapRefsIndex_def)
  show ?thesis
    by (intro conjI set_eqI)
       (auto simp: ProviderConfig_watchReferences_def ClusterProviderConfig_watchReferences_def
          indexed_lister.requests_iff [OF assms] index)
qed

definition secret_config :: ProviderConfig where
  "secret_config = scripted_config\<lparr>pc_Spec := (pc_Spec scripted_config)\<lparr>pcs_Auth :=
     \<lparr>au_Header = Some \<lparr>ha_Name = [], ha_Scheme = [], ha_Value = [],
        ha_ValueFrom = Some \<lparr>vs_SecretKeyRef = Some \<lparr>sel_Name = ''cred'', sel_Key = ''token''\<rparr>, vs_ConfigMapKeyRef = None\<rparr>\<rparr>\<rparr>\<rparr>\<rparr>"

theorem reference_change_wakes_configs_witness:
  "set (ProviderConfig_watchReferences (list_stored pc_index pc_Meta [scripted_config, secret_config]) secretRefsIndex
      ((pc_Meta scripted_config)\<lparr>om_Name := ''cred''\<rparr>))
     = {\<lparr>key_Namespace = ''ns'', key_Name = ''pc''\<rparr>}"
proof -
  have "SecretNames (pc_Spec scripted_config) = []" "SecretNames (pc_Spec secret_config) = [''cred'']" by code_simp+
  moreover have "pc_Meta secret_config = pc_Meta scripted_config" "om_Namespace (pc_Meta scripted_config) = ''ns''"
    "om_Name (pc_Meta scripted_config) = ''pc''"
    by (simp_all add: secret_config_def scripted_config_def)
  note facts = calculation this
  let ?m = "(pc_Meta scripted_config)\<lparr>om_Name := ''cred''\<rparr>"
  have eq: "set (ProviderConfig_watchReferences (list_stored pc_index pc_Meta [scripted_config, secret_config]) secretRefsIndex ?m) =
      {ObjectKeyFromObject (pc_Meta c) | c. c \<in> set [scripted_config, secret_config]
        \<and> om_Namespace (pc_Meta c) = om_Namespace ?m \<and> om_Name ?m \<in> set (SecretNames (pc_Spec c))}"
    by (rule reference_change_wakes_configs [OF stored_lister.indexed_lister_axioms, THEN conjunct1])
  show ?thesis unfolding eq using facts by (auto simp: ObjectKeyFromObject_def intro!: exI [of _ secret_config])
qed

subsection \<open>Flags, environment and namespaces\<close>


text \<open>
  When the operator is limited to some namespaces, its cache holds exactly the trimmed,
  non-empty ones and its own, each once, so that the Secrets of cluster-scoped configurations stay
  readable; without a limit it holds all.
\<close>

theorem cache_covers_operator_namespace:
  "case buildCacheOptions c of
     None \<Rightarrow> cf_WatchNamespaces c = []
   | Some namespaces \<Rightarrow> cf_WatchNamespaces c \<noteq> [] \<and> distinct namespaces \<and> set namespaces =
       insert (cf_OperatorNamespace c)
         {strings_TrimSpace ns | ns. ns \<in> set (cf_WatchNamespaces c) \<and> strings_TrimSpace ns \<noteq> []}"
proof (cases "buildCacheOptions c")
  case None
  then show ?thesis by (auto simp: buildCacheOptions_def Let_def split: if_splits)
next
  case (Some namespaces)
  have "distinct (foldl (\<lambda>acc ns. let ns = strings_TrimSpace ns in if ns \<noteq> [] then List.insert ns acc else acc) acc nss)"
    if "distinct acc" for acc nss :: "string list"
    using that by (induction nss arbitrary: acc) (auto simp: Let_def)
  from this [of "[]" "cf_WatchNamespaces c"] Some show ?thesis
    using buildCacheOptions_set [OF Some] by (auto simp: buildCacheOptions_def Let_def split: if_splits)
qed

end
