(* ===== verification/Drift.thy ===== *)
theory Drift
  imports RefLibs Objects
begin

text \<open>
  What the comparison, the hash and the update payload of a kind say about the JSON values they
  are computed from. The results on the comparison rest on the laws of \<open>go_cmp\<close> and on \<open>gjson\<close>
  reading a parsed text as its value; both are discharged for the reference libraries.
\<close>

subsection \<open>Comparison\<close>

definition cmp_laws :: "libs \<Rightarrow> bool" where
  "cmp_laws L \<longleftrightarrow> go_cmp (cmp_Report L) (cmp_Equal L)"

lemma cmp_laws_ref: "cmp_laws ref_libs"
  using ref.go_cmp_axioms by (simp add: cmp_laws_def)

lemma all_equal_iff: "list_all snd rs \<longleftrightarrow> unequal_segs rs = {}"
  by (induction rs) (auto split: if_splits)

lemma Diff_empty: "cmp_laws L \<Longrightarrow> wf_json x \<Longrightarrow> wf_json y \<Longrightarrow> Diff L x y = [] \<longleftrightarrow> no_drift x y"
  unfolding cmp_laws_def Diff_def
  by (simp add: go_cmp.pathReporter_empty_iff go_cmp.segs_empty_iff)

lemma Equal_no_drift: "cmp_laws L \<Longrightarrow> wf_json x \<Longrightarrow> wf_json y \<Longrightarrow> jsonbody_Equal L x y \<longleftrightarrow> no_drift x y"
  unfolding cmp_laws_def jsonbody_Equal_def
  by (simp add: go_cmp.equal_report all_equal_iff go_cmp.segs_empty_iff)

text \<open>
  (C15) \<open>Diff\<close> reports no path exactly when the desired value is present in the observed one and
  everything the observed one adds is a zero value, and \<open>Equal\<close> answers the same question.
\<close>

theorem Diff_empty_iff_no_drift:
  assumes "cmp_laws L" and "wf_json x" and "wf_json y"
  shows "(Diff L x y = [] \<longleftrightarrow> no_drift x y) \<and> (jsonbody_Equal L x y \<longleftrightarrow> no_drift x y)"
  using Diff_empty [OF assms] Equal_no_drift [OF assms] by simp

theorem Diff_empty_iff_no_drift_witness:
  "Diff ref_libs (JObj [(''a'', JNum 1)]) (JObj [(''a'', JNum 1), (''b'', JStr [])]) = []
   \<and> Diff ref_libs (JObj [(''a'', JNum 1)]) (JObj [(''a'', JNum 2)]) \<noteq> []"
  using Diff_empty_iff_no_drift [OF cmp_laws_ref, of "JObj [(''a'', JNum 1)]" "JObj [(''a'', JNum 1), (''b'', JStr [])]"]
    Diff_empty_iff_no_drift [OF cmp_laws_ref, of "JObj [(''a'', JNum 1)]" "JObj [(''a'', JNum 2)]"]
  by simp

text \<open>The top-level keys of a body and of an observed object, none of which a path could confuse.\<close>

definition comparable :: "(string \<times> json) list \<Rightarrow> (string \<times> json) list \<Rightarrow> bool" where
  "comparable xs ys \<longleftrightarrow> wf_json (JObj xs) \<and> wf_json (JObj ys)
     \<and> list_all (\<lambda>kv. simple_key (fst kv)) xs \<and> list_all (\<lambda>kv. simple_key (fst kv)) ys"

lemma Intersect_Diff:
  assumes "cmp_laws L" and "comparable xs ys" and "list_all simple_key flds"
  shows "Intersect (Diff L (JObj xs) (JObj ys)) flds = filter (field_drift xs ys) flds"
proof -
  have key: "simple_key k" if "map_of xs k \<noteq> None \<or> map_of ys k \<noteq> None" for k
    using that assms(2) by (fastforce simp: comparable_def list_all_iff dest: map_of_SomeD)
  have "(\<exists>p \<in> set (Diff L (JObj xs) (JObj ys)). overlaps f p) \<longleftrightarrow> field_drift xs ys f" if "simple_key f" for f
    using assms(1,2) key that unfolding cmp_laws_def Diff_def comparable_def
    by (intro go_cmp.reported_field_iff) auto
  then show ?thesis using assms(3) by (auto simp: Intersect_filter list_all_iff intro!: filter_cong)
qed

lemma Compare_drift:
  assumes "cmp_laws L" and "m_Body (object_for kind L ms) t = Inr body"
    and "gjson_ParseBytes L body = Some (JObj xs)" and "gjson_GetBytes L response ''data'' = Some (JObj ys)"
    and "comparable xs ys"
  shows "m_Compare (object_for kind L ms) t response = Inr
    \<lparr>cr_UpdatableFields = filter (field_drift xs ys) (m_UpdatableFields (object_for kind L ms)),
     cr_ImmutableFields = filter (field_drift xs ys) (m_ImmutableFields (object_for kind L ms))\<rparr>"
proof -
  obtain coll idp upd imm where kind: "object_for kind L ms = object_of L ms coll idp upd imm"
    and "list_all simple_key upd" "list_all simple_key imm" using object_for_eq [of kind L ms] by blast
  then show ?thesis
    using assms Intersect_Diff [OF assms(1,5)]
    by (simp add: kind object_of_def object_Compare_def res_Value_def)
qed

text \<open>
  (C14) The comparison of a kind reports, of the fields the kind declares updatable and of those
  it declares immutable, exactly the ones that drift: set in the body and different or missing in
  the answer, or set to something other than a zero value in the answer alone.
\<close>

theorem Compare_reports_drift:
  assumes "cmp_laws L" and "m_Body (object_for kind L ms) t = Inr body"
    and "gjson_ParseBytes L body = Some (JObj xs)" and "gjson_GetBytes L response ''data'' = Some (JObj ys)"
    and "comparable xs ys"
  shows "m_Compare (object_for kind L ms) t response = Inr
    \<lparr>cr_UpdatableFields = filter (field_drift xs ys) (m_UpdatableFields (object_for kind L ms)),
     cr_ImmutableFields = filter (field_drift xs ys) (m_ImmutableFields (object_for kind L ms))\<rparr>"
  by (rule Compare_drift [OF assms])

theorem Compare_reports_drift_witness:
  "m_Compare (object_for Role ref_libs (\<lambda>_ :: unit. Inr [])) \<lparr>tmpl_Spec = None,
      tmpl_JSONSpec = Some (print_json (JObj [(''name'', JStr ''x''), (''description'', JStr ''d'')]))\<rparr>
     (print_json (JObj [(''data'', JObj [(''id'', JStr ''1''), (''name'', JStr ''x'')])]))
   = Inr \<lparr>cr_UpdatableFields = [''description''], cr_ImmutableFields = []\<rparr>"
proof -
  let ?b = "print_json (JObj [(''name'', JStr ''x''), (''description'', JStr ''d'')])"
  let ?r = "print_json (JObj [(''data'', JObj [(''id'', JStr ''1''), (''name'', JStr ''x'')])])"
  have b: "parse_text ?b = Some (JObj [(''description'', JStr ''d''), (''name'', JStr ''x'')])" by code_simp
  have r: "Option.bind (parse_text ?r) (\<lambda>v. ref_get v ''data'') = Some (JObj [(''id'', JStr ''1''), (''name'', JStr ''x'')])"
    by code_simp
  have body: "m_Body (object_for Role ref_libs (\<lambda>_ :: unit. Inr [])) \<lparr>tmpl_Spec = None, tmpl_JSONSpec = Some ?b\<rparr> = Inr ?b"
    by (simp add: RoleObject_def object_of_def object_Body_def Render_def b)
  have p: "gjson_ParseBytes ref_libs ?b = Some (JObj [(''description'', JStr ''d''), (''name'', JStr ''x'')])"
    by (simp only: ref_libs_sel b)
  have d: "gjson_GetBytes ref_libs ?r ''data'' = Some (JObj [(''id'', JStr ''1''), (''name'', JStr ''x'')])"
    by (simp only: ref_libs_sel r)
  show ?thesis
    using Compare_reports_drift [OF cmp_laws_ref body p d]
    by (simp add: comparable_def simple_key_def RoleObject_def object_of_def field_drift_def)
qed

subsection \<open>Hash\<close>

text \<open>
  The hash of a body depends only on the value it denotes, through its canonical text: two
  bodies whose canonical texts do not collide under the digest have the same hash exactly when
  these texts agree, whatever their own formatting.
\<close>

theorem Hash_canonical:
  assumes "json_Unmarshal L a = Inr u" and "json_Unmarshal L b = Inr v"
    and "json_Marshal L u = Inr p" and "json_Marshal L v = Inr q"
    and "inj_on (sha256_hex L) {p, q}"
  shows "\<exists>ha hb. Hash L a = Inr ha \<and> Hash L b = Inr hb \<and> (ha = hb \<longleftrightarrow> p = q)"
  using assms by (auto simp: Hash_def inj_on_def)

definition spaced_body :: string where
  "spaced_body = '' {'' @ print_string ''b'' @ '' : 1 , '' @ print_string ''a'' @ '':2} ''"

theorem Hash_canonical_witness:
  "\<exists>ha hb. Hash ref_libs spaced_body = Inr ha
     \<and> Hash ref_libs (print_json (JObj [(''a'', JNum 2), (''b'', JNum 1)])) = Inr hb \<and> ha = hb"
proof -
  let ?u = "JObj [(''b'', JNum 1), (''a'', JNum 2)]"
  let ?v = "JObj [(''a'', JNum 2), (''b'', JNum 1)]"
  have a: "json_Unmarshal ref_libs spaced_body = Inr ?u"
    unfolding ref_libs_sel by code_simp
  have b: "json_Unmarshal ref_libs (print_json ?v) = Inr ?v"
    unfolding ref_libs_sel by code_simp
  have same: "print_json ?u = print_json ?v" by code_simp
  from Hash_canonical [OF a b] show ?thesis using same by simp
qed

subsection \<open>The update payload\<close>

lemma extract_payload_fold:
  "map_of (foldl (\<lambda>payload field. case gjson_GetBytes L raw field of
      Some v \<Rightarrow> AList.update field v payload | None \<Rightarrow> payload) acc flds) f
   = (if f \<in> set flds \<and> gjson_GetBytes L raw f \<noteq> None then gjson_GetBytes L raw f else map_of acc f)"
  by (induction flds arbitrary: acc) (auto simp: update_conv' split: option.split)

lemma extract_payload_map:
  "map_of (extract_payload L raw flds) f = (if f \<in> set flds then gjson_GetBytes L raw f else None)"
  by (simp add: extract_payload_def extract_payload_fold)

text \<open>
  (C17) The update payload of a kind holds each updatable field the body sets, with the body's
  value, and nothing else; it is nil, and nothing is sent, exactly when the body sets none.
\<close>

theorem ToUpdate_is_updatable_part:
  assumes "m_Body (object_for kind L ms) t = Inr body"
  shows "\<exists>payload.
    (\<forall>f. map_of payload f =
       (if f \<in> set (m_UpdatableFields (object_for kind L ms)) then gjson_GetBytes L body f else None))
    \<and> m_ToUpdate (object_for kind L ms) t =
       (if payload = [] then Inr None
        else (case json_Marshal L (JObj payload) of Inl err \<Rightarrow> Inl err | Inr out \<Rightarrow> Inr (Some out)))"
proof -
  obtain coll idp upd imm where kind: "object_for kind L ms = object_of L ms coll idp upd imm"
    using object_for_eq [of kind L ms] by blast
  show ?thesis
    using assms
    by (intro exI [of _ "extract_payload L body upd"])
       (simp add: kind object_of_def object_ToUpdate_def ExtractFields_def extract_payload_map Let_def)
qed

theorem ToUpdate_is_updatable_part_witness:
  "m_ToUpdate (object_for User ref_libs (\<lambda>_ :: unit. Inr [])) \<lparr>tmpl_Spec = None,
     tmpl_JSONSpec = Some (print_json (JObj [(''email'', JStr ''e'')]))\<rparr> = Inr None"
proof -
  let ?M = "object_for User ref_libs (\<lambda>_ :: unit. Inr [])"
  let ?b = "print_json (JObj [(''email'', JStr ''e'')])"
  have b: "parse_text ?b = Some (JObj [(''email'', JStr ''e'')])" by code_simp
  have body: "m_Body ?M \<lparr>tmpl_Spec = None, tmpl_JSONSpec = Some ?b\<rparr> = Inr ?b"
    by (simp add: UserObject_def object_of_def object_Body_def Render_def b)
  have none: "gjson_GetBytes ref_libs ?b ''displayName'' = None"
    unfolding ref_libs_sel b by (simp add: ref_get_def)
  have upd: "m_UpdatableFields ?M = [''displayName'']" by (simp add: UserObject_def object_of_def)
  obtain payload where p: "\<forall>f. map_of payload f = (if f \<in> set (m_UpdatableFields ?M) then gjson_GetBytes ref_libs ?b f else None)"
    "m_ToUpdate ?M \<lparr>tmpl_Spec = None, tmpl_JSONSpec = Some ?b\<rparr> =
       (if payload = [] then Inr None
        else (case json_Marshal ref_libs (JObj payload) of Inl err \<Rightarrow> Inl err | Inr out \<Rightarrow> Inr (Some out)))"
    using ToUpdate_is_updatable_part [OF body] by blast
  have "map_of payload f = None" for f
    using p(1) none unfolding upd by (cases "f = ''displayName''") (simp_all del: ref_libs_sel)
  then have "map_of payload = Map.empty" by (intro ext)
  then show ?thesis using p(2) by simp
qed

lemma no_drift_refl: "wf_json v \<Longrightarrow> no_drift v v"
proof (induction v)
  case (JArr xs)
  then show ?case by (auto simp: list_all_iff intro!: list.rel_refl_strong)
next
  case (JObj kvs)
  have "no_drift v v" if "(k, v) \<in> set kvs" for k v
    using JObj.IH [OF that, of v] JObj.prems that by (auto simp: list_all_iff)
  moreover have "map_of kvs k = Some v" if "(k, v) \<in> set kvs" for k v using JObj.prems that by simp
  ultimately show ?case by (auto simp: list_all_iff)
qed simp_all

lemma updatable_plain: "f \<in> set (m_UpdatableFields (object_for kind L ms)) \<Longrightarrow> plain_key f"
  by (cases kind) (auto simp: kind_defs object_of_def plain_key_def)



end
