(* ===== verification/JsonPrint.thy ===== *)
theory JsonPrint
  imports JsonText
begin

text \<open>
  Compact JSON texts: \<open>renders v s\<close> says that \<open>s\<close> is a text of the value \<open>v\<close> without white space
  between its tokens, as \<open>json.Marshal\<close> and \<open>json.Compact\<close> write them. The reader of \<open>JsonText\<close>
  gets the value back from every such text.
\<close>

subsection \<open>Texts of a value\<close>

text \<open>What follows a value inside a document, and the texts of numbers and strings.\<close>

fun follows :: "string \<Rightarrow> bool" where
  "follows [] = True"
| "follows (c # r) = (c = CHR '','' \<or> c = CHR '']'' \<or> c = CHR ''}'')"

definition number_text :: "rat \<Rightarrow> string \<Rightarrow> bool" where
  "number_text q s \<longleftrightarrow> s \<noteq> [] \<and> (digit (hd s) \<or> hd s = CHR ''-'')
     \<and> (\<forall>r. follows r \<longrightarrow> parse_number (s @ r) = Some (JNum q, r))"

definition string_text :: "string \<Rightarrow> string \<Rightarrow> bool" where
  "string_text t s \<longleftrightarrow> (\<exists>cs. s = CHR 0x22 # cs \<and> (\<forall>r. parse_chars (cs @ r) = Some (t, r)))"

definition array_text :: "string list \<Rightarrow> string" where
  "array_text ss = ''['' @ strings_Join ss '','' @ '']''"

definition object_text :: "(string \<times> string) list \<Rightarrow> string" where
  "object_text kss = ''{'' @ strings_Join (map (\<lambda>(k, s). k @ '':'' @ s) kss) '','' @ ''}''"

function renders :: "json \<Rightarrow> string \<Rightarrow> bool" where
  "renders JNull s = (s = ''null'')"
| "renders (JBool b) s = (s = (if b then ''true'' else ''false''))"
| "renders (JNum q) s = number_text q s"
| "renders (JStr t) s = string_text t s"
| "renders (JArr vs) s = (\<exists>ss. s = array_text ss \<and> length ss = length vs
     \<and> (\<forall>p \<in> set (zip vs ss). renders (fst p) (snd p)))"
| "renders (JObj kvs) s = (\<exists>kss. s = object_text kss \<and> length kss = length kvs
     \<and> (\<forall>p \<in> set (zip kvs kss). string_text (fst (fst p)) (fst (snd p)) \<and> renders (snd (fst p)) (snd (snd p))))"
  by pat_completeness auto
termination
  by (relation "measure (\<lambda>(v, _). size v)")
     (auto dest!: set_zip_leftD simp: less_Suc_eq_le size_list_estimation'
       intro: size_list_estimation' [of _ _ _ "size"] le_SucI)

text \<open>A text is read as a value when the reader consumes just it, given fuel beyond its length.\<close>

definition reads :: "json \<Rightarrow> string \<Rightarrow> bool" where
  "reads v s \<longleftrightarrow> (\<forall>r n. follows r \<longrightarrow> length s < n \<longrightarrow> parse_json n (s @ r) = Some (v, r))"

subsection \<open>Strings\<close>

lemma hex_val_digit: "n < 16 \<Longrightarrow> hex_val (hex_digit n) = Some n"
proof -
  assume "n < 16"
  then have "n \<in> set [0..<16]" by simp
  then show ?thesis
    by (simp add: upt_rec hex_val_def hex_digit_def digit_def digit_val_def char_in_def, elim disjE; simp)
qed

lemma parse_chars_escape:
  assumes "map_of short_escapes c = Some e"
  shows "parse_chars (CHR 0x5C # e # s) = map_option (\<lambda>(t, r). (c # t, r)) (parse_chars s)"
  using assms by (auto simp: short_escapes_def split: if_splits)

lemma parse_chars_hex:
  assumes "n < 128"
  shows "parse_chars (CHR 0x5C # ''u00'' @ hex_digit (n div 16) # hex_digit (n mod 16) # s)
    = map_option (\<lambda>(t, r). (char_of n # t, r)) (parse_chars s)"
proof -
  have "hex_val (hex_digit (n div 16)) = Some (n div 16)" "hex_val (hex_digit (n mod 16)) = Some (n mod 16)"
    using assms by (auto intro!: hex_val_digit)
  moreover have "hex_val (CHR ''0'') = Some 0" by (simp add: hex_val_def digit_def char_in_def digit_val_def)
  moreover have "n div 16 < 8" "16 * (n div 16) + n mod 16 = n" using assms by auto
  ultimately show ?thesis by simp
qed

lemma parse_chars_print_char:
  "parse_chars (print_char c @ s) = map_option (\<lambda>(t, r). (c # t, r)) (parse_chars s)"
proof (cases "map_of short_escapes c")
  case (Some e)
  then show ?thesis by (simp only: print_char_def option.case append_Cons append_Nil parse_chars_escape)
next
  case None
  show ?thesis
  proof (cases "of_char c < (32::nat) \<or> c \<in> {CHR ''<'', CHR ''>'', CHR ''&''}")
    case True
    then have "of_char c < (128::nat)" by auto
    from parse_chars_hex [OF this] True None show ?thesis
      by (simp add: print_char_def del: parse_chars.simps)
  next
    case False
    moreover have "c \<noteq> CHR 0x22" "c \<noteq> CHR 0x5C" using None by (auto simp: short_escapes_def split: if_splits)
    ultimately show ?thesis using None by (simp add: print_char_def)
  qed
qed

lemma parse_chars_print: "parse_chars (concat (map print_char s) @ CHR 0x22 # r) = Some (s, r)"
  by (induction s) (simp_all add: parse_chars_print_char del: parse_chars.simps(2), simp)

lemma string_text_print: "string_text s (print_string s)"
  by (auto simp: string_text_def print_string_def parse_chars_print)

subsection \<open>White space\<close>

lemma skip_ws_visible: "(32::nat) < of_char c \<Longrightarrow> skip_ws (c # r) = c # r"
  by (auto simp: skip_ws_def)

lemma skip_ws_follows: "follows r \<Longrightarrow> skip_ws r = r"
  by (cases r) (auto simp: skip_ws_def [of "[]"] intro!: skip_ws_visible)

lemma digit_visible: "digit c \<Longrightarrow> (32::nat) < of_char c \<and> c \<notin> set (CHR 0x22 # ''{}[]tfn'')"
  by (auto simp: digit_def char_in_def)

lemma renders_head:
  assumes "renders v s"
  obtains c s' where "s = c # s'" "(32::nat) < of_char c" "c \<noteq> CHR '']''" "c \<noteq> CHR ''}''"
proof (cases v)
  case (JNum q)
  then obtain c s' where "s = c # s'" "digit c \<or> c = CHR ''-''"
    using assms by (cases s) (auto simp: number_text_def)
  with digit_visible [of c] show ?thesis by (auto intro!: that)
next
  case (JBool b)
  then show ?thesis using assms by (cases b) (auto intro: that)
qed (use assms in \<open>auto simp: string_text_def array_text_def object_text_def intro: that\<close>)

lemma Join_head:
  assumes "x = c # s"
  obtains t where "strings_Join (x # xs) sep = c # t"
  using assms by (cases xs) auto

subsection \<open>Arrays and objects\<close>

lemma parse_elems_text:
  assumes "list_all2 (\<lambda>v s. s \<noteq> [] \<and> reads v s) vs ss" and "vs \<noteq> []"
    and "length (strings_Join ss '','') + 2 \<le> n"
  shows "parse_elems n (strings_Join ss '','' @ CHR '']'' # r) = Some (vs, r)"
  using assms
proof (induction arbitrary: n rule: list_all2_induct)
  case (Cons v vs s ss)
  obtain m where m: "n = Suc m" using Cons.prems by (cases n) auto
  show ?case
  proof (cases ss)
    case Nil
    then have "parse_json m (s @ CHR '']'' # r) = Some (v, CHR '']'' # r)"
      using Cons by (simp add: m reads_def)
    then show ?thesis using Cons Nil by (simp add: m skip_ws_visible)
  next
    case more: (Cons s2 ss2)
    let ?rest = "strings_Join ss '','' @ CHR '']'' # r"
    have "parse_json m (s @ CHR '','' # ?rest) = Some (v, CHR '','' # ?rest)"
      using Cons.hyps Cons.prems more by (simp add: m reads_def)
    moreover have "parse_elems m ?rest = Some (vs, r)"
    proof (rule Cons.IH)
      show "vs \<noteq> []" using Cons.hyps more by auto
      have "0 < length s" using Cons.hyps by simp
      then show "length (strings_Join ss '','') + 2 \<le> m" using Cons.prems(2) more by (simp add: m)
    qed
    ultimately show ?thesis using more by (simp add: m skip_ws_visible)
  qed
qed simp

abbreviation member_text :: "string \<times> string \<Rightarrow> string" where
  "member_text \<equiv> (\<lambda>(k, s). k @ '':'' @ s)"

definition reads_member :: "string \<times> json \<Rightarrow> string \<times> string \<Rightarrow> bool" where
  "reads_member kv ks \<longleftrightarrow> string_text (fst kv) (fst ks) \<and> reads (snd kv) (snd ks)"

lemma parse_member_text:
  assumes "reads_member kv ks" and "follows r" and "length (snd ks) < m"
  shows "parse_members (Suc m) (member_text ks @ r) =
    (case r of d # r4 \<Rightarrow> if d = CHR ''}'' then Some ([kv], r4)
                else if d = CHR '','' then map_option (\<lambda>(kvs, r). (kv # kvs, r)) (parse_members m r4)
                else None | [] \<Rightarrow> None)"
proof -
  obtain k v kt s where eqs: "kv = (k, v)" "ks = (kt, s)" by (cases kv, cases ks)
  then obtain cs where cs: "kt = CHR 0x22 # cs" "\<And>r. parse_chars (cs @ r) = Some (k, r)"
    using assms(1) by (auto simp: reads_member_def string_text_def)
  moreover have "parse_json m (s @ r) = Some (v, r)"
    using assms by (simp add: eqs reads_member_def reads_def)
  ultimately show ?thesis using assms(2)
    by (simp add: eqs skip_ws_visible skip_ws_follows split: list.split)
qed

lemma parse_members_text:
  assumes "list_all2 reads_member kvs kss" and "kvs \<noteq> []"
    and "length (strings_Join (map member_text kss) '','') + 2 \<le> n"
  shows "parse_members n (strings_Join (map member_text kss) '','' @ CHR ''}'' # r) = Some (kvs, r)"
  using assms
proof (induction arbitrary: n rule: list_all2_induct)
  case (Cons kv kvs ks kss)
  obtain m where m: "n = Suc m" using Cons.prems by (cases n) auto
  obtain kt s where ks: "ks = (kt, s)" by (cases ks)
  show ?case
  proof (cases kss)
    case Nil
    then show ?thesis
      using parse_member_text [OF Cons.hyps(1), of "CHR ''}'' # r" m] Cons
      by (simp add: m ks del: parse_members.simps)
  next
    case more: (Cons ks2 kss2)
    let ?rest = "strings_Join (map member_text kss) '','' @ CHR ''}'' # r"
    have "parse_members m ?rest = Some (kvs, r)"
    proof (rule Cons.IH)
      show "kvs \<noteq> []" using Cons.hyps more by auto
      show "length (strings_Join (map member_text kss) '','') + 2 \<le> m" using Cons.prems(2) more by (simp add: m ks)
    qed
    moreover have "strings_Join (map member_text (ks # kss)) '','' @ CHR ''}'' # r = member_text ks @ CHR '','' # ?rest"
      by (simp add: more)
    moreover have "length (snd ks) < m" using Cons.prems(2) more by (simp add: m ks)
    ultimately show ?thesis
      using parse_member_text [OF Cons.hyps(1), of "CHR '','' # ?rest" m] by (simp add: m del: parse_members.simps)
  qed
qed simp

subsection \<open>The round trip\<close>

lemma reads_array:
  assumes "list_all2 (\<lambda>v s. renders v s \<and> reads v s) vs ss"
  shows "reads (JArr vs) (array_text ss)"
  unfolding reads_def
proof (intro allI impI)
  fix r n assume n: "length (array_text ss) < n"
  then obtain m where m: "n = Suc m" by (cases n) auto
  show "parse_json n (array_text ss @ r) = Some (JArr vs, r)"
  proof (cases ss)
    case Nil
    then show ?thesis using assms by (simp add: m array_text_def skip_ws_visible)
  next
    case (Cons s ss2)
    then obtain c s' where c: "s = c # s'" "(32::nat) < of_char c" "c \<noteq> CHR '']''"
      using assms by (auto simp: list_all2_Cons2 elim: renders_head)
    obtain t where t: "strings_Join ss '','' = c # t" using Join_head [OF c(1)] Cons by auto
    have "list_all2 (\<lambda>v s. s \<noteq> [] \<and> reads v s) vs ss"
      using assms by (rule list_all2_mono) (auto elim: renders_head)
    then have "parse_elems m (strings_Join ss '','' @ CHR '']'' # r) = Some (vs, r)"
      using n assms Cons by (intro parse_elems_text) (auto simp: m array_text_def)
    then show ?thesis using c t by (simp add: m array_text_def skip_ws_visible)
  qed
qed

lemma reads_object:
  assumes "list_all2 reads_member kvs kss"
  shows "reads (JObj kvs) (object_text kss)"
  unfolding reads_def
proof (intro allI impI)
  fix r n assume n: "length (object_text kss) < n"
  then obtain m where m: "n = Suc m" by (cases n) auto
  show "parse_json n (object_text kss @ r) = Some (JObj kvs, r)"
  proof (cases kss)
    case Nil
    then show ?thesis using assms by (simp add: m object_text_def skip_ws_visible)
  next
    case (Cons ks kss2)
    then obtain cs where cs: "member_text ks = CHR 0x22 # cs"
      using assms by (cases ks) (auto simp: list_all2_Cons2 reads_member_def string_text_def)
    obtain t where t: "strings_Join (map member_text kss) '','' = CHR 0x22 # t"
      using Join_head [OF cs] Cons by auto
    have "parse_members m (strings_Join (map member_text kss) '','' @ CHR ''}'' # r) = Some (kvs, r)"
      using n assms Cons by (intro parse_members_text) (auto simp: m object_text_def)
    then show ?thesis using t by (simp add: m object_text_def skip_ws_visible)
  qed
qed

lemma renders_reads: "renders v s \<Longrightarrow> reads v s"
proof (induction v arbitrary: s)
  case (JNum q)
  then obtain c s' where cs: "s = c # s'" "digit c \<or> c = CHR ''-''"
    by (cases s) (auto simp: number_text_def)
  then have c: "(32::nat) < of_char c" "c \<notin> set (CHR 0x22 # ''{}[]tfn'')"
    using digit_visible [of c] by auto
  show ?case unfolding reads_def
  proof (intro allI impI)
    fix r n assume "follows r" and "length s < n"
    then obtain m where "n = Suc m" by (cases n) auto
    moreover have "parse_number (s @ r) = Some (JNum q, r)"
      using JNum \<open>follows r\<close> by (simp add: number_text_def)
    ultimately show "parse_json n (s @ r) = Some (JNum q, r)"
      using c cs(1) by (simp add: skip_ws_visible)
  qed
next
  case (JStr t)
  then show ?case by (auto simp: reads_def string_text_def skip_ws_visible dest!: less_imp_Suc_add)
next
  case (JArr vs)
  then show ?case by (fastforce simp: list_all2_iff dest: set_zip_leftD intro!: reads_array)
next
  case (JObj kvs)
  then show ?case
    by (fastforce simp: list_all2_iff reads_member_def snds.simps dest: set_zip_leftD intro!: reads_object)
qed (auto simp: reads_def skip_ws_visible dest!: less_imp_Suc_add)

lemma parse_text_renders: "renders v s \<Longrightarrow> parse_text s = Some v"
  using renders_reads [of v s, unfolded reads_def, rule_format, of "[]" "Suc (length s)"]
  by (simp add: parse_text_def skip_ws_def del: parse_json.simps)

subsection \<open>Integers\<close>

lemma digit_char: "d < 10 \<Longrightarrow> digit (char_of (48 + d)) \<and> digit_val (char_of (48 + d)) = d"
  by (simp add: digit_def char_in_def digit_val_def)

lemma digits_of_digits: "list_all digit (digits_of n)"
  by (induction n rule: digits_of.induct) (subst digits_of.simps, simp add: digit_char)

lemma digits_of_nonempty: "digits_of n \<noteq> []"
  by (subst digits_of.simps) simp

lemma nat_of_digits_of: "nat_of_digits (digits_of n) = n"
proof (induction n rule: digits_of.induct)
  case (1 n)
  show ?case
    using 1 digit_char [of n] digit_char [of "n mod 10"]
    by (subst digits_of.simps) (auto simp: nat_of_digits_def)
qed

lemma digits_of_leading: "0 < n \<Longrightarrow> hd (digits_of n) \<noteq> CHR ''0''"
proof (induction n rule: digits_of.induct)
  case (1 n)
  have "digit_val (CHR ''0'') = 0" by (simp add: digit_val_def)
  with 1(2) digit_char [of n] have "n < 10 \<Longrightarrow> char_of (48 + n) \<noteq> CHR ''0''" by force
  with 1 show ?case by (subst digits_of.simps) (simp add: digits_of_nonempty)
qed

lemma takeWhile_digits: "follows r \<Longrightarrow> takeWhile digit (digits_of n @ r) = digits_of n"
  using digits_of_digits [of n] by (cases r) (auto simp: takeWhile_append2 list_all_iff digit_def char_in_def)

lemma dropWhile_digits: "follows r \<Longrightarrow> dropWhile digit (digits_of n @ r) = r"
  using digits_of_digits [of n] by (cases r) (auto simp: dropWhile_append2 list_all_iff digit_def char_in_def)

lemma digits_of_canonical: "\<not> (hd (digits_of n) = CHR ''0'' \<and> 1 < length (digits_of n))"
  using digits_of_leading [of n] by (cases "n = 0") (simp_all add: digits_of.simps [of 0])

lemma digits_of_hd: "digits_of n = c # s \<Longrightarrow> digit c \<and> c \<noteq> CHR ''-''"
  using digits_of_digits [of n] by (auto simp: digit_def char_in_def)

lemma parse_number_unsigned:
  assumes "follows r"
  shows "parse_number (digits_of n @ r) = Some (JNum (of_nat n), r)"
    and "parse_number (CHR ''-'' # digits_of n @ r) = Some (JNum (- of_nat n), r)"
proof -
  define t where "t = digits_of n @ r"
  have t: "takeWhile digit t = digits_of n" "dropWhile digit t = r"
    using assms by (simp_all only: t_def takeWhile_digits dropWhile_digits)
  have "hd t \<noteq> CHR ''-''"
    using digits_of_nonempty [of n] digits_of_hd [of n] by (cases "digits_of n") (auto simp: t_def)
  moreover have "\<not> (r \<noteq> [] \<and> hd r = CHR ''.'')" using assms by (cases r) auto
  ultimately show "parse_number (digits_of n @ r) = Some (JNum (of_nat n), r)"
    and "parse_number (CHR ''-'' # digits_of n @ r) = Some (JNum (- of_nat n), r)"
    using digits_of_canonical [of n] t
    by (auto simp: t_def [symmetric] parse_number_def Let_def digits_of_nonempty nat_of_digits_of)
qed

lemma parse_number_itoa: "follows r \<Longrightarrow> parse_number (itoa i @ r) = Some (JNum (of_int i), r)"
  by (auto simp: itoa_def parse_number_unsigned of_nat_nat)

lemma number_text_itoa: "number_text (of_int i) (itoa i)"
proof -
  obtain c s where cs: "digits_of (nat i) = c # s" using digits_of_nonempty by (cases "digits_of (nat i)") auto
  then have "itoa i \<noteq> [] \<and> (digit (hd (itoa i)) \<or> hd (itoa i) = CHR ''-'')"
    using digits_of_hd [OF cs] by (auto simp: itoa_def)
  then show ?thesis by (simp add: number_text_def parse_number_itoa)
qed

end
