(* ===== verification/GoTypes.thy ===== *)
theory GoTypes
  imports JsonPrint JsonBody "HOL-Library.Word"
begin

text \<open>
  Go's struct types as \<open>encoding/json\<close> sees them through reflection, and their values. The typed
  specs of the ten kinds (\<open>api/resources/v1alpha1/zz_generated_*_types.go\<close>) are values of
  \<open>gotype\<close>, one definition per struct; this theory gives \<open>json.Marshal\<close> on them once and for all:
  \<open>encode\<close> is the value written and \<open>marshal\<close> its text.

  An \<open>int64\<close> is a \<open>64 word\<close>; a \<open>float64\<close> is the rational it denotes, its text being left to
  \<open>strconv\<close>; a map is its entries in the order of the keys, in which it is written. An
  \<open>apiextensionsv1.JSON\<close> is a document with the compact text it is kept as.
\<close>

subsection \<open>Types and values\<close>

text \<open>The markers of a field from which its schema is generated.\<close>

datatype marker = Required | Optional | MinLength nat | Enum "string list" | PreserveUnknownFields

datatype gotype =
    GString | GBool | GInt64 | GFloat64 | GJSON
  | GPtr gotype | GSlice gotype | GMap gotype
  | GStruct "gofield list"
and gofield = Field (f_name: string) (f_omitempty: bool) (f_markers: "marker list") (f_type: gotype)

datatype goval =
    VString string | VBool bool | VInt "64 word" | VFloat rat | VJSON json string
  | VNil | VPtr goval | VSlice "goval list" | VMap "(string \<times> goval) list"
  | VStruct "goval list"

definition key_less :: "string \<times> 'a \<Rightarrow> string \<times> 'a \<Rightarrow> bool" where
  "key_less p q \<longleftrightarrow> string_le (fst p) (fst q) \<and> fst p \<noteq> fst q"

primrec has_type :: "gotype \<Rightarrow> goval \<Rightarrow> bool" and has_field :: "gofield \<Rightarrow> goval \<Rightarrow> bool" where
  "has_type GString v = (case v of VString s \<Rightarrow> True | _ \<Rightarrow> False)"
| "has_type GBool v = (case v of VBool b \<Rightarrow> True | _ \<Rightarrow> False)"
| "has_type GInt64 v = (case v of VInt w \<Rightarrow> True | _ \<Rightarrow> False)"
| "has_type GFloat64 v = (case v of VFloat q \<Rightarrow> True | _ \<Rightarrow> False)"
| "has_type GJSON v = (case v of VJSON j s \<Rightarrow> wf_json j \<and> renders j s | _ \<Rightarrow> False)"
| "has_type (GPtr t) v = (case v of VNil \<Rightarrow> True | VPtr w \<Rightarrow> has_type t w | _ \<Rightarrow> False)"
| "has_type (GSlice t) v = (case v of VNil \<Rightarrow> True | VSlice vs \<Rightarrow> list_all (has_type t) vs | _ \<Rightarrow> False)"
| "has_type (GMap t) v =
     (case v of VNil \<Rightarrow> True
      | VMap kvs \<Rightarrow> sorted_wrt key_less kvs \<and> list_all (\<lambda>kv. has_type t (snd kv)) kvs
      | _ \<Rightarrow> False)"
| "has_type (GStruct fs) v =
     (case v of VStruct vs \<Rightarrow> list_all2 (\<lambda>p w. p w) (map has_field fs) vs | _ \<Rightarrow> False)"
| "has_field (Field n om ms t) v = has_type t v"

text \<open>The zero value of a type.\<close>

primrec zero_value :: "gotype \<Rightarrow> goval" and zero_field :: "gofield \<Rightarrow> goval" where
  "zero_value GString = VString []"
| "zero_value GBool = VBool False"
| "zero_value GInt64 = VInt 0"
| "zero_value GFloat64 = VFloat 0"
| "zero_value GJSON = VJSON JNull ''null''"
| "zero_value (GPtr t) = VNil"
| "zero_value (GSlice t) = VNil"
| "zero_value (GMap t) = VNil"
| "zero_value (GStruct fs) = VStruct (map zero_field fs)"
| "zero_field (Field n om ms t) = zero_value t"

subsection \<open>json.Marshal\<close>

text \<open>What \<open>omitempty\<close> leaves out: false, 0, a nil pointer, and an empty string, slice or map.\<close>

fun isEmptyValue :: "goval \<Rightarrow> bool" where
  "isEmptyValue (VString s) = (s = [])"
| "isEmptyValue (VBool b) = (\<not> b)"
| "isEmptyValue (VInt w) = (w = 0)"
| "isEmptyValue (VFloat q) = (q = 0)"
| "isEmptyValue VNil = True"
| "isEmptyValue (VSlice vs) = (vs = [])"
| "isEmptyValue (VMap kvs) = (kvs = [])"
| "isEmptyValue _ = False"

primrec encode :: "gotype \<Rightarrow> goval \<Rightarrow> json"
  and encode_field :: "gofield \<Rightarrow> goval \<Rightarrow> (string \<times> json) list" where
  "encode GString v = (case v of VString s \<Rightarrow> JStr s | _ \<Rightarrow> JNull)"
| "encode GBool v = (case v of VBool b \<Rightarrow> JBool b | _ \<Rightarrow> JNull)"
| "encode GInt64 v = (case v of VInt w \<Rightarrow> JNum (of_int (sint w)) | _ \<Rightarrow> JNull)"
| "encode GFloat64 v = (case v of VFloat q \<Rightarrow> JNum q | _ \<Rightarrow> JNull)"
| "encode GJSON v = (case v of VJSON j s \<Rightarrow> j | _ \<Rightarrow> JNull)"
| "encode (GPtr t) v = (case v of VPtr w \<Rightarrow> encode t w | _ \<Rightarrow> JNull)"
| "encode (GSlice t) v = (case v of VSlice vs \<Rightarrow> JArr (map (encode t) vs) | _ \<Rightarrow> JNull)"
| "encode (GMap t) v =
     (case v of VMap kvs \<Rightarrow> JObj (map (\<lambda>kv. (fst kv, encode t (snd kv))) kvs) | _ \<Rightarrow> JNull)"
| "encode (GStruct fs) v =
     (case v of VStruct vs \<Rightarrow> JObj (concat (map2 (\<lambda>p w. p w) (map encode_field fs) vs)) | _ \<Rightarrow> JNull)"
| "encode_field (Field n om ms t) v = (if om \<and> isEmptyValue v then [] else [(n, encode t v)])"

text \<open>\<open>fmt\<close> is the text \<open>strconv\<close> gives a \<open>float64\<close>.\<close>

primrec marshal :: "(rat \<Rightarrow> string) \<Rightarrow> gotype \<Rightarrow> goval \<Rightarrow> string"
  and marshal_field :: "(rat \<Rightarrow> string) \<Rightarrow> gofield \<Rightarrow> goval \<Rightarrow> (string \<times> string) list" where
  "marshal fmt GString v = (case v of VString s \<Rightarrow> print_string s | _ \<Rightarrow> ''null'')"
| "marshal fmt GBool v = (case v of VBool b \<Rightarrow> if b then ''true'' else ''false'' | _ \<Rightarrow> ''null'')"
| "marshal fmt GInt64 v = (case v of VInt w \<Rightarrow> itoa (sint w) | _ \<Rightarrow> ''null'')"
| "marshal fmt GFloat64 v = (case v of VFloat q \<Rightarrow> fmt q | _ \<Rightarrow> ''null'')"
| "marshal fmt GJSON v = (case v of VJSON j s \<Rightarrow> s | _ \<Rightarrow> ''null'')"
| "marshal fmt (GPtr t) v = (case v of VPtr w \<Rightarrow> marshal fmt t w | _ \<Rightarrow> ''null'')"
| "marshal fmt (GSlice t) v = (case v of VSlice vs \<Rightarrow> array_text (map (marshal fmt t) vs) | _ \<Rightarrow> ''null'')"
| "marshal fmt (GMap t) v =
     (case v of VMap kvs \<Rightarrow> object_text (map (\<lambda>kv. (print_string (fst kv), marshal fmt t (snd kv))) kvs)
      | _ \<Rightarrow> ''null'')"
| "marshal fmt (GStruct fs) v =
     (case v of VStruct vs \<Rightarrow> object_text (concat (map2 (\<lambda>p w. p w) (map (marshal_field fmt) fs) vs))
      | _ \<Rightarrow> ''null'')"
| "marshal_field fmt (Field n om ms t) v =
     (if om \<and> isEmptyValue v then [] else [(print_string n, marshal fmt t v)])"

subsection \<open>Reading a document back\<close>

text \<open>The value a document stands for: members by name, absent ones at their zero value.\<close>

primrec recover :: "gotype \<Rightarrow> json \<Rightarrow> goval"
  and recover_field :: "gofield \<Rightarrow> (string \<times> json) list \<Rightarrow> goval" where
  "recover GString j = (case j of JStr s \<Rightarrow> VString s | _ \<Rightarrow> VString [])"
| "recover GBool j = (case j of JBool b \<Rightarrow> VBool b | _ \<Rightarrow> VBool False)"
| "recover GInt64 j = (case j of JNum q \<Rightarrow> VInt (word_of_int \<lfloor>q\<rfloor>) | _ \<Rightarrow> VInt 0)"
| "recover GFloat64 j = (case j of JNum q \<Rightarrow> VFloat q | _ \<Rightarrow> VFloat 0)"
| "recover GJSON j = VJSON j []"
| "recover (GPtr t) j = (if j = JNull then VNil else VPtr (recover t j))"
| "recover (GSlice t) j = (case j of JArr js \<Rightarrow> VSlice (map (recover t) js) | _ \<Rightarrow> VNil)"
| "recover (GMap t) j = (case j of JObj kvs \<Rightarrow> VMap (map (\<lambda>kv. (fst kv, recover t (snd kv))) kvs) | _ \<Rightarrow> VNil)"
| "recover (GStruct fs) j =
     (case j of JObj kvs \<Rightarrow> VStruct (map (\<lambda>p. p kvs) (map recover_field fs)) | _ \<Rightarrow> zero_value (GStruct fs))"
| "recover_field (Field n om ms t) kvs =
     (case map_of kvs n of None \<Rightarrow> zero_value t | Some j \<Rightarrow> recover t j)"

text \<open>The normal form of a value: what it shares with every value of the same document. An empty
  slice or map that is left out is nil, and so is a pointer to a null document; the text of a
  document is dropped.\<close>

primrec normal :: "gotype \<Rightarrow> goval \<Rightarrow> goval" and normal_field :: "gofield \<Rightarrow> goval \<Rightarrow> goval" where
  "normal GString v = v"
| "normal GBool v = v"
| "normal GInt64 v = v"
| "normal GFloat64 v = v"
| "normal GJSON v = (case v of VJSON j s \<Rightarrow> VJSON j [] | _ \<Rightarrow> v)"
| "normal (GPtr t) v =
     (case v of VPtr w \<Rightarrow> if encode t w = JNull then VNil else VPtr (normal t w) | _ \<Rightarrow> v)"
| "normal (GSlice t) v = (case v of VSlice vs \<Rightarrow> VSlice (map (normal t) vs) | _ \<Rightarrow> v)"
| "normal (GMap t) v = (case v of VMap kvs \<Rightarrow> VMap (map (\<lambda>kv. (fst kv, normal t (snd kv))) kvs) | _ \<Rightarrow> v)"
| "normal (GStruct fs) v =
     (case v of VStruct vs \<Rightarrow> VStruct (map2 (\<lambda>p w. p w) (map normal_field fs) vs) | _ \<Rightarrow> v)"
| "normal_field (Field n om ms t) v = (if om \<and> isEmptyValue v then zero_value t else normal t v)"

primrec wf_type :: "gotype \<Rightarrow> bool" and wf_field :: "gofield \<Rightarrow> bool" where
  "wf_type GString = True"
| "wf_type GBool = True"
| "wf_type GInt64 = True"
| "wf_type GFloat64 = True"
| "wf_type GJSON = True"
| "wf_type (GPtr t) = wf_type t"
| "wf_type (GSlice t) = wf_type t"
| "wf_type (GMap t) = wf_type t"
| "wf_type (GStruct fs) = (distinct (map f_name fs) \<and> list_all id (map wf_field fs))"
| "wf_field (Field n om ms t) = wf_type t"

primrec floats :: "goval \<Rightarrow> rat list" where
  "floats (VString s) = []"
| "floats (VBool b) = []"
| "floats (VInt w) = []"
| "floats (VFloat q) = [q]"
| "floats (VJSON j s) = []"
| "floats VNil = []"
| "floats (VPtr v) = floats v"
| "floats (VSlice vs) = concat (map floats vs)"
| "floats (VMap kvs) = concat (map snd (map (map_prod id floats) kvs))"
| "floats (VStruct vs) = concat (map floats vs)"

subsection \<open>The members of a struct\<close>

definition members :: "gofield list \<Rightarrow> goval list \<Rightarrow> (string \<times> json) list" where
  "members fs vs = concat (map (\<lambda>(f, v). encode_field f v) (zip fs vs))"

lemma encode_struct: "encode (GStruct fs) (VStruct vs) = JObj (members fs vs)"
  by (simp add: members_def zip_map1 case_prod_beta' comp_def)

lemma has_type_struct: "has_type (GStruct fs) v \<longleftrightarrow> (\<exists>vs. v = VStruct vs \<and> list_all2 has_field fs vs)"
  by (cases v) (auto simp: list_all2_map1)

lemma normal_struct: "normal (GStruct fs) (VStruct vs) = VStruct (map2 normal_field fs vs)"
  by (simp add: zip_map1 case_prod_beta' comp_def)

lemma recover_struct: "recover (GStruct fs) (JObj kvs) = VStruct (map (\<lambda>f. recover_field f kvs) fs)"
  by (simp add: comp_def)

lemma encode_field_alt:
  "encode_field f v = (if f_omitempty f \<and> isEmptyValue v then [] else [(f_name f, encode (f_type f) v)])"
  by (cases f) simp

lemma has_field_alt: "has_field f v = has_type (f_type f) v"
  by (cases f) simp

lemma wf_field_alt: "wf_field f = wf_type (f_type f)"
  by (cases f) simp

lemma members_Nil [simp]: "members [] vs = []" "members fs [] = []"
  by (simp_all add: members_def)

lemma members_Cons [simp]: "members (f # fs) (v # vs) = encode_field f v @ members fs vs"
  by (simp add: members_def)

lemma members_keys: "fst ` set (members fs vs) \<subseteq> f_name ` set fs"
  by (induction fs vs rule: list_induct2') (auto simp: encode_field_alt split: if_splits)

lemma members_distinct: "distinct (map f_name fs) \<Longrightarrow> distinct (map fst (members fs vs))"
proof (induction fs vs rule: list_induct2')
  case (4 f fs v vs)
  then show ?case using members_keys [of fs vs] by (auto simp: encode_field_alt)
qed auto

lemma map_of_members:
  assumes "distinct (map f_name fs)" and "(f, v) \<in> set (zip fs vs)"
  shows "map_of (members fs vs) (f_name f) = map_of (encode_field f v) (f_name f)"
  using assms
proof (induction fs vs rule: list_induct2')
  case (4 g fs w vs)
  have absent: "map_of (members fs vs) (f_name g) = None"
    using 4(2) members_keys [of fs vs] by (auto simp: map_of_eq_None_iff)
  show ?case
  proof (cases "(f, v) = (g, w)")
    case True
    then show ?thesis by (simp add: map_add_def absent split: option.split)
  next
    case False
    then have "(f, v) \<in> set (zip fs vs)" using 4(3) by auto
    moreover from this have "f_name f \<noteq> f_name g" using 4(2) by (metis distinct.simps(2) image_eqI list.set_map list.simps(9) set_zip_leftD)
    then have "map_of (encode_field g w) (f_name f) = None" by (simp add: encode_field_alt)
    ultimately show ?thesis using 4 by (simp add: map_add_def split: option.split)
  qed
qed auto

lemma members_present:
  "list_all2 has_field fs vs \<Longrightarrow> f \<in> set fs \<Longrightarrow> \<not> f_omitempty f \<Longrightarrow> f_name f \<in> fst ` set (members fs vs)"
  by (induction rule: list_all2_induct) (auto simp: encode_field_alt)

subsection \<open>Round trip of values\<close>

lemma map_as_map2:
  assumes "length xs = length ys" and "\<And>x y. (x, y) \<in> set (zip xs ys) \<Longrightarrow> g x = h x y"
  shows "map g xs = map2 h xs ys"
  using assms by (induction xs ys rule: list_induct2) simp_all

lemma recover_field_encode:
  assumes "wf_type (f_type f) \<Longrightarrow> has_type (f_type f) v \<Longrightarrow>
      recover (f_type f) (encode (f_type f) v) = normal (f_type f) v"
    and "wf_field f" and "has_field f v"
    and "map_of kvs (f_name f) = map_of (encode_field f v) (f_name f)"
  shows "recover_field f kvs = normal_field f v"
  using assms by (cases f) (auto split: if_splits)

lemma floor_signed [simp]: "\<lfloor>signed w :: rat\<rfloor> = sint (w :: 64 word)"
proof -
  have "(signed w :: rat) = of_int (sint w)" by simp
  then show ?thesis by (simp del: of_int_sint)
qed

lemma recover_encode:
  "wf_type t \<Longrightarrow> has_type t v \<Longrightarrow> recover t (encode t v) = normal t v"
  "wf_type (f_type f) \<Longrightarrow> has_type (f_type f) v \<Longrightarrow> recover (f_type f) (encode (f_type f) v) = normal (f_type f) v"
proof (induction t and f arbitrary: v and v)
  case (GStruct fs)
  then obtain vs where v: "v = VStruct vs" and vs: "list_all2 has_field fs vs"
    by (auto simp only: has_type_struct)
  have "recover_field f (members fs vs) = normal_field f w" if "(f, w) \<in> set (zip fs vs)" for f w
  proof (rule recover_field_encode)
    have f: "f \<in> set fs" using that by (rule set_zip_leftD)
    show "wf_type (f_type f) \<Longrightarrow> has_type (f_type f) w \<Longrightarrow>
        recover (f_type f) (encode (f_type f) w) = normal (f_type f) w"
      by (rule GStruct.IH [OF f])
    show "wf_field f" using GStruct.prems(1) f by (simp add: list_all_iff)
    show "has_field f w" using vs that by (auto simp: list_all2_iff)
    show "map_of (members fs vs) (f_name f) = map_of (encode_field f w) (f_name f)"
      using GStruct.prems(1) that by (intro map_of_members) simp_all
  qed
  then have "map (\<lambda>f. recover_field f (members fs vs)) fs = map2 normal_field fs vs"
    using vs by (intro map_as_map2) (auto simp: list_all2_lengthD)
  then show ?case by (simp only: v encode_struct recover_struct normal_struct)
next
  case (GMap t)
  then show ?case by (cases v) (auto simp: list_all_iff)
qed (auto simp: list_all_iff split: goval.splits)

lemma sorted_keys_distinct: "sorted_wrt key_less kvs \<Longrightarrow> distinct (map fst kvs)"
  by (induction kvs) (auto simp: key_less_def)

lemma encode_wf:
  "wf_type t \<Longrightarrow> has_type t v \<Longrightarrow> wf_json (encode t v)"
  "wf_type (f_type f) \<Longrightarrow> has_type (f_type f) v \<Longrightarrow> wf_json (encode (f_type f) v)"
proof (induction t and f arbitrary: v and v)
  case (GStruct fs)
  then obtain vs where v: "v = VStruct vs" and vs: "list_all2 has_field fs vs"
    by (auto simp only: has_type_struct)
  have IH: "wf_json (encode (f_type f) w)" if "f \<in> set fs" "has_field f w" for f w
    using that GStruct.prems(1) by (intro GStruct.IH) (auto simp: list_all_iff wf_field_alt has_field_alt)
  from vs have "list_all (\<lambda>kv. wf_json (snd kv)) (members fs vs)"
    using IH by (induction fs vs rule: list_all2_induct) (auto simp: encode_field_alt)
  moreover have "distinct (map fst (members fs vs))" using GStruct.prems(1) by (intro members_distinct) simp
  ultimately show ?case by (simp only: v encode_struct wf_json.simps)
next
  case (GMap t)
  then show ?case by (cases v) (auto simp: list_all_iff comp_def dest: sorted_keys_distinct)
qed (auto simp: list_all_iff split: goval.splits)

subsection \<open>The text of a value\<close>

definition formats :: "(rat \<Rightarrow> string) \<Rightarrow> goval \<Rightarrow> bool" where
  "formats fmt v \<longleftrightarrow> list_all (\<lambda>q. number_text q (fmt q)) (floats v)"

lemma renders_array: "list_all2 renders vs ss \<Longrightarrow> renders (JArr vs) (array_text ss)"
  by (auto simp: list_all2_iff intro!: exI [of _ ss])

definition renders_member :: "string \<times> json \<Rightarrow> string \<times> string \<Rightarrow> bool" where
  "renders_member kv ks \<longleftrightarrow> string_text (fst kv) (fst ks) \<and> renders (snd kv) (snd ks)"

lemma renders_object: "list_all2 renders_member kvs kss \<Longrightarrow> renders (JObj kvs) (object_text kss)"
  by (auto simp: list_all2_iff renders_member_def intro!: exI [of _ kss])

lemma marshal_field_alt:
  "marshal_field fmt f v =
     (if f_omitempty f \<and> isEmptyValue v then [] else [(print_string (f_name f), marshal fmt (f_type f) v)])"
  by (cases f) simp

lemma marshal_struct:
  "marshal fmt (GStruct fs) (VStruct vs) = object_text (concat (map (\<lambda>(f, v). marshal_field fmt f v) (zip fs vs)))"
  by (simp add: zip_map1 case_prod_beta' comp_def)

lemma marshal_renders:
  "has_type t v \<Longrightarrow> formats fmt v \<Longrightarrow> renders (encode t v) (marshal fmt t v)"
  "has_type (f_type f) v \<Longrightarrow> formats fmt v \<Longrightarrow> renders (encode (f_type f) v) (marshal fmt (f_type f) v)"
proof (induction t and f arbitrary: v and v)
  case GString
  then show ?case by (auto simp: string_text_print split: goval.splits)
next
  case GInt64
  then show ?case using number_text_itoa by (auto split: goval.splits simp del: of_int_sint)
next
  case GFloat64
  then show ?case by (auto simp: formats_def split: goval.splits)
next
  case (GPtr t)
  then show ?case by (auto simp: formats_def split: goval.splits)
next
  case (GSlice t)
  then show ?case
    by (cases v) (auto simp: list_all_iff formats_def list_all2_map1 list_all2_map2 list_all2_same intro!: renders_array simp del: renders.simps(5))
next
  case (GMap t)
  then show ?case
    by (cases v) (auto simp: list_all_iff formats_def list_all2_map1 list_all2_map2 list_all2_same renders_member_def
        string_text_print intro!: renders_object simp del: renders.simps(6))
next
  case (GStruct fs)
  then obtain vs where v: "v = VStruct vs" and vs: "list_all2 has_field fs vs"
    by (auto simp only: has_type_struct)
  have fm: "list_all (formats fmt) vs" using GStruct.prems(2) by (auto simp: v formats_def list_all_iff)
  have IH: "renders (encode (f_type f) w) (marshal fmt (f_type f) w)"
    if "f \<in> set fs" "has_field f w" "formats fmt w" for f w
    using that by (intro GStruct.IH) (auto simp: has_field_alt)
  from vs fm have "list_all2 renders_member (members fs vs)
      (concat (map (\<lambda>(f, v). marshal_field fmt f v) (zip fs vs)))"
    using IH by (induction fs vs rule: list_all2_induct)
      (auto simp: encode_field_alt marshal_field_alt renders_member_def string_text_print)
  then show ?case by (simp only: v encode_struct marshal_struct renders_object)
qed (auto split: goval.splits)

text \<open>The reader of a body gets back the document it was written from.\<close>

lemma parse_marshal: "has_type t v \<Longrightarrow> formats fmt v \<Longrightarrow> parse_text (marshal fmt t v) = Some (encode t v)"
  by (intro parse_text_renders marshal_renders)

subsection \<open>Admission by the schema\<close>

text \<open>What the markers of a field ask of the document, in the schema generated from them.\<close>

fun meets :: "json \<Rightarrow> marker \<Rightarrow> bool" where
  "meets (JStr s) (MinLength n) = (n \<le> length s)"
| "meets (JStr s) (Enum es) = (s \<in> set es)"
| "meets j m = True"

primrec admits :: "gotype \<Rightarrow> json \<Rightarrow> bool" and admits_field :: "gofield \<Rightarrow> (string \<times> json) list \<Rightarrow> bool" where
  "admits GString j = (case j of JStr s \<Rightarrow> True | _ \<Rightarrow> False)"
| "admits GBool j = (case j of JBool b \<Rightarrow> True | _ \<Rightarrow> False)"
| "admits GInt64 j = (case j of JNum q \<Rightarrow> of_int \<lfloor>q\<rfloor> = q | _ \<Rightarrow> False)"
| "admits GFloat64 j = (case j of JNum q \<Rightarrow> True | _ \<Rightarrow> False)"
| "admits GJSON j = True"
| "admits (GPtr t) j = admits t j"
| "admits (GSlice t) j = (case j of JArr js \<Rightarrow> list_all (admits t) js | _ \<Rightarrow> False)"
| "admits (GMap t) j = (case j of JObj kvs \<Rightarrow> list_all (\<lambda>kv. admits t (snd kv)) kvs | _ \<Rightarrow> False)"
| "admits (GStruct fs) j = (case j of JObj kvs \<Rightarrow> list_all (\<lambda>p. p kvs) (map admits_field fs) | _ \<Rightarrow> False)"
| "admits_field (Field n om ms t) kvs =
     (case map_of kvs n of
        None \<Rightarrow> \<not> List.member ms Required
      | Some j \<Rightarrow> admits t j \<and> list_all (meets j) ms)"

lemma admits_struct: "admits (GStruct fs) (JObj kvs) = list_all (\<lambda>f. admits_field f kvs) fs"
  by (simp add: list_all_iff)

end
