(* ===== verification/Specs.thy ===== *)
theory Specs
  imports GoTypes
begin

text \<open>
  The typed specs of User, ServiceAccount, Role, RoutePolicy, PlannedMaintenance and AuthDomain: one definition per struct of the
  generated files, its fields in order with their JSON names, \<open>omitempty\<close>, schema markers and types.
  Structs come after the ones they use.
\<close>

subsection \<open>zz_generated_user_types.go\<close>

definition UserObjectSpec :: gotype where
  "UserObjectSpec = GStruct [
     Field ''email'' False [Required, MinLength 1] GString,
     Field ''displayName'' True [Optional] GString]"

definition UserObjectTemplate :: gotype where
  "UserObjectTemplate = GStruct [
     Field ''spec'' True [Optional] (GPtr UserObjectSpec),
     Field ''jsonSpec'' True [Optional, MinLength 1] (GPtr GString)]"

subsection \<open>zz_generated_serviceaccount_types.go\<close>

definition ServiceAccountObjectSpec :: gotype where
  "ServiceAccountObjectSpec = GStruct [
     Field ''name'' False [Required, MinLength 1] GString]"

definition ServiceAccountObjectTemplate :: gotype where
  "ServiceAccountObjectTemplate = GStruct [
     Field ''spec'' True [Optional] (GPtr ServiceAccountObjectSpec),
     Field ''jsonSpec'' True [Optional, MinLength 1] (GPtr GString)]"

subsection \<open>zz_generated_role_types.go\<close>

definition RoleResource :: gotype where
  "RoleResource = GStruct [
     Field ''kind'' False [Enum [''anonymous'', ''organization'', ''role'', ''serviceaccount'',
       ''user'', ''notification-channel'', ''route-policy'', ''apdex-setting'', ''auth-domain'',
       ''session'', ''cloud-integration'', ''cloud-integration-service'', ''integration'',
       ''dashboard'', ''public-dashboard'', ''ingestion-key'', ''ingestion-limit'', ''pipeline'',
       ''user-preference'', ''org-preference'', ''quick-filter'', ''ttl-setting'', ''rule'',
       ''planned-maintenance'', ''saved-view'', ''trace-funnel'', ''factor-password'',
       ''factor-api-key'', ''license'', ''subscription'', ''deployment-host'', ''logs'', ''traces'',
       ''metrics'', ''audit-logs'', ''meter-metrics'', ''logs-field'', ''traces-field'',
       ''metrics-field''], Required] GString,
     Field ''type'' False [Enum [''user'', ''serviceaccount'', ''anonymous'', ''role'',
       ''organization'', ''metaresource'', ''telemetryresource''], Required] GString]"

definition RoleObjectGroup :: gotype where
  "RoleObjectGroup = GStruct [
     Field ''resource'' False [Required] RoleResource,
     Field ''selectors'' False [Required] (GSlice GString)]"

definition RoleTransactionGroup :: gotype where
  "RoleTransactionGroup = GStruct [
     Field ''objectGroup'' False [Required] RoleObjectGroup,
     Field ''relation'' False [Enum [''create'', ''read'', ''update'', ''delete'', ''list'',
       ''assignee'', ''attach'', ''detach''], Required] GString]"

definition RoleObjectSpec :: gotype where
  "RoleObjectSpec = GStruct [
     Field ''name'' False [Required, MinLength 1] GString,
     Field ''description'' True [Optional] GString,
     Field ''transactionGroups'' True [Optional] (GSlice RoleTransactionGroup)]"

definition RoleObjectTemplate :: gotype where
  "RoleObjectTemplate = GStruct [
     Field ''spec'' True [Optional] (GPtr RoleObjectSpec),
     Field ''jsonSpec'' True [Optional, MinLength 1] (GPtr GString)]"

subsection \<open>zz_generated_routepolicy_types.go\<close>

definition RoutePolicyObjectSpec :: gotype where
  "RoutePolicyObjectSpec = GStruct [
     Field ''channels'' False [Required] (GSlice GString),
     Field ''expression'' False [Required, MinLength 1] GString,
     Field ''name'' False [Required, MinLength 1] GString,
     Field ''description'' True [Optional] GString,
     Field ''kind'' True [Enum [''rule'', ''policy''], Optional] GString,
     Field ''tags'' True [Optional] (GSlice GString)]"

definition RoutePolicyObjectTemplate :: gotype where
  "RoutePolicyObjectTemplate = GStruct [
     Field ''spec'' True [Optional] (GPtr RoutePolicyObjectSpec),
     Field ''jsonSpec'' True [Optional, MinLength 1] (GPtr GString)]"

subsection \<open>zz_generated_plannedmaintenance_types.go\<close>

definition PlannedMaintenanceRecurrence :: gotype where
  "PlannedMaintenanceRecurrence = GStruct [
     Field ''duration'' False [Required, MinLength 1] GString,
     Field ''repeatType'' False [Enum [''daily'', ''weekly'', ''monthly''], Required] GString,
     Field ''repeatOn'' True [Optional] (GSlice GString)]"

definition PlannedMaintenanceSchedule :: gotype where
  "PlannedMaintenanceSchedule = GStruct [
     Field ''startTime'' False [Required, MinLength 1] GString,
     Field ''timezone'' False [Required, MinLength 1] GString,
     Field ''endTime'' True [Optional] GString,
     Field ''recurrence'' True [Optional] (GPtr PlannedMaintenanceRecurrence)]"

definition PlannedMaintenanceObjectSpec :: gotype where
  "PlannedMaintenanceObjectSpec = GStruct [
     Field ''name'' False [Required, MinLength 1] GString,
     Field ''schedule'' False [Required] PlannedMaintenanceSchedule,
     Field ''alertIds'' True [Optional] (GSlice GString),
     Field ''description'' True [Optional] GString,
     Field ''scope'' True [Optional] GString]"

definition PlannedMaintenanceObjectTemplate :: gotype where
  "PlannedMaintenanceObjectTemplate = GStruct [
     Field ''spec'' True [Optional] (GPtr PlannedMaintenanceObjectSpec),
     Field ''jsonSpec'' True [Optional, MinLength 1] (GPtr GString)]"

subsection \<open>zz_generated_authdomain_types.go\<close>

definition AuthDomainAttributeMapping :: gotype where
  "AuthDomainAttributeMapping = GStruct [
     Field ''email'' True [Optional] GString,
     Field ''groups'' True [Optional] GString,
     Field ''name'' True [Optional] GString,
     Field ''role'' True [Optional] GString]"

definition AuthDomainConfigSpec :: gotype where
  "AuthDomainConfigSpec = GStruct [
     Field ''allowedGroups'' True [Optional] (GSlice GString),
     Field ''attributeMapping'' True [Optional] (GPtr AuthDomainAttributeMapping),
     Field ''certificate'' True [Optional] GString,
     Field ''claimMapping'' True [Optional] (GPtr AuthDomainAttributeMapping),
     Field ''clientId'' True [Optional] GString,
     Field ''clientSecret'' True [Optional] GString,
     Field ''domainToAdminEmail'' True [Optional] (GMap GString),
     Field ''entityId'' True [Optional] GString,
     Field ''fetchGroups'' True [Optional] GBool,
     Field ''fetchTransitiveGroupMembership'' True [Optional] GBool,
     Field ''getUserInfo'' True [Optional] GBool,
     Field ''insecureSkipAuthNRequestsSigned'' True [Optional] GBool,
     Field ''insecureSkipEmailVerified'' True [Optional] GBool,
     Field ''issuer'' True [Optional] GString,
     Field ''issuerAlias'' True [Optional] GString,
     Field ''location'' True [Optional] GString,
     Field ''serviceAccountJson'' True [Optional] GString]"

definition AuthDomainConfig :: gotype where
  "AuthDomainConfig = GStruct [
     Field ''kind'' False [Enum [''saml'', ''google'', ''oidc''], Required] GString,
     Field ''spec'' False [Required] AuthDomainConfigSpec]"

definition AuthDomainRoleMapping :: gotype where
  "AuthDomainRoleMapping = GStruct [
     Field ''defaultRole'' True [Optional] GString,
     Field ''groupMappings'' True [Optional] (GMap GString),
     Field ''useRoleAttribute'' True [Optional] GBool]"

definition AuthDomainObjectSpec :: gotype where
  "AuthDomainObjectSpec = GStruct [
     Field ''config'' False [Required] AuthDomainConfig,
     Field ''name'' False [Required, MinLength 1] GString,
     Field ''enabled'' True [Optional] GBool,
     Field ''roleMapping'' True [Optional] (GPtr AuthDomainRoleMapping)]"

definition AuthDomainObjectTemplate :: gotype where
  "AuthDomainObjectTemplate = GStruct [
     Field ''spec'' True [Optional] (GPtr AuthDomainObjectSpec),
     Field ''jsonSpec'' True [Optional, MinLength 1] (GPtr GString)]"

end
