(* ===== verification/ChannelSpec.thy ===== *)
theory ChannelSpec
  imports GoTypes
begin

text \<open>
  The typed specs of NotificationChannel: one definition per struct of the
  generated files, its fields in order with their JSON names, \<open>omitempty\<close>, schema markers and types.
  Structs come after the ones they use.
\<close>

subsection \<open>zz_generated_notificationchannel_types.go\<close>

definition NotificationChannelConfirm :: gotype where
  "NotificationChannelConfirm = GStruct [
     Field ''text'' False [Required, MinLength 1] GString,
     Field ''dismissText'' True [Optional] GString,
     Field ''okText'' True [Optional] GString,
     Field ''title'' True [Optional] GString]"

definition NotificationChannelAction :: gotype where
  "NotificationChannelAction = GStruct [
     Field ''text'' False [Required, MinLength 1] GString,
     Field ''type'' False [Required, MinLength 1] GString,
     Field ''confirm'' True [Optional] (GPtr NotificationChannelConfirm),
     Field ''name'' True [Optional] GString,
     Field ''style'' True [Optional] GString,
     Field ''url'' True [Optional] GString,
     Field ''value'' True [Optional] GString]"

definition NotificationChannelField :: gotype where
  "NotificationChannelField = GStruct [
     Field ''title'' False [Required, MinLength 1] GString,
     Field ''value'' False [Required, MinLength 1] GString,
     Field ''short'' True [Optional] (GPtr GBool)]"

definition NotificationChannelConfigSpec :: gotype where
  "NotificationChannelConfigSpec = GStruct [
     Field ''actions'' True [Optional] (GSlice NotificationChannelAction),
     Field ''apiKey'' True [Optional] GString,
     Field ''apiToken'' True [Optional] GString,
     Field ''apiUrl'' True [Optional] GString,
     Field ''bearerToken'' True [Optional] GString,
     Field ''botToken'' True [Optional] GString,
     Field ''channel'' True [Optional] GString,
     Field ''chatId'' True [Optional] GInt64,
     Field ''class'' True [Optional] GString,
     Field ''client'' True [Optional] GString,
     Field ''clientUrl'' True [Optional] GString,
     Field ''color'' True [Optional] GString,
     Field ''component'' True [Optional] GString,
     Field ''customFields'' True [Optional, PreserveUnknownFields] (GPtr GJSON),
     Field ''description'' True [Optional] GString,
     Field ''details'' True [Optional] (GMap GString),
     Field ''disableNotifications'' True [Optional] GBool,
     Field ''email'' True [Optional] GString,
     Field ''fallback'' True [Optional] GString,
     Field ''fields'' True [Optional] (GSlice NotificationChannelField),
     Field ''footer'' True [Optional] GString,
     Field ''group'' True [Optional] GString,
     Field ''headers'' True [Optional] (GMap GString),
     Field ''html'' True [Optional] GString,
     Field ''issueType'' True [Optional] GString,
     Field ''labels'' True [Optional] (GSlice GString),
     Field ''message'' True [Optional] GString,
     Field ''messageThreadId'' True [Optional] GInt64,
     Field ''metadata'' True [Optional] (GMap GString),
     Field ''password'' True [Optional] GString,
     Field ''pretext'' True [Optional] GString,
     Field ''priority'' True [Optional] GString,
     Field ''project'' True [Optional] GString,
     Field ''reopenDuration'' True [Optional] GString,
     Field ''reopenTransition'' True [Optional] GString,
     Field ''resolveTransition'' True [Optional] GString,
     Field ''routingKey'' True [Optional] GString,
     Field ''sendResolved'' True [Optional] (GPtr GBool),
     Field ''severity'' True [Optional] GString,
     Field ''site'' True [Optional] GString,
     Field ''source'' True [Optional] GString,
     Field ''summary'' True [Optional] GString,
     Field ''tags'' True [Optional] GString,
     Field ''text'' True [Optional] GString,
     Field ''title'' True [Optional] GString,
     Field ''titleLink'' True [Optional] GString,
     Field ''to'' True [Optional] GString,
     Field ''token'' True [Optional] GString,
     Field ''url'' True [Optional] GString,
     Field ''username'' True [Optional] GString,
     Field ''webhookUrl'' True [Optional] GString,
     Field ''wontFixResolution'' True [Optional] GString]"

definition NotificationChannelConfig :: gotype where
  "NotificationChannelConfig = GStruct [
     Field ''kind'' False [Enum [''slack'', ''email'', ''webhook'', ''pagerduty'', ''opsgenie'',
       ''msteams'', ''googlechat'', ''jira'', ''jsmops'', ''incidentio'', ''telegram''], Required]
       GString,
     Field ''spec'' False [Required] NotificationChannelConfigSpec]"

definition NotificationChannelObjectSpec :: gotype where
  "NotificationChannelObjectSpec = GStruct [
     Field ''config'' False [Required] NotificationChannelConfig,
     Field ''displayName'' True [Optional] GString,
     Field ''name'' True [Optional] GString]"

definition NotificationChannelObjectTemplate :: gotype where
  "NotificationChannelObjectTemplate = GStruct [
     Field ''spec'' True [Optional] (GPtr NotificationChannelObjectSpec),
     Field ''jsonSpec'' True [Optional, MinLength 1] (GPtr GString)]"

end
