(* ===== verification/RuleTypes.thy ===== *)
theory RuleTypes
  imports GoTypes
begin

text \<open>
  The typed specs of Rule: one definition per struct of the
  generated files, its fields in order with their JSON names, \<open>omitempty\<close>, schema markers and types.
  Structs come after the ones they use.
\<close>

subsection \<open>zz_generated_rule_types.go\<close>

definition RuleComparisonSpaceAggregationParam :: gotype where
  "RuleComparisonSpaceAggregationParam = GStruct [
     Field ''operator'' False [Required, MinLength 1] GString,
     Field ''threshold'' False [Required] GFloat64]"

definition RuleAggregation :: gotype where
  "RuleAggregation = GStruct [
     Field ''alias'' True [Optional] GString,
     Field ''comparisonSpaceAggregationParam'' True [Optional] (GPtr
       RuleComparisonSpaceAggregationParam),
     Field ''expression'' True [Optional] GString,
     Field ''metricName'' True [Optional] GString,
     Field ''reduceTo'' True [Enum [''sum'', ''count'', ''avg'', ''min'', ''max'', ''last'',
       ''median''], Optional] GString,
     Field ''spaceAggregation'' True [Enum [''sum'', ''avg'', ''min'', ''max'', ''count'', ''p50'',
       ''p75'', ''p90'', ''p95'', ''p99''], Optional] GString,
     Field ''temporality'' True [Enum [''delta'', ''cumulative'', ''unspecified''], Optional]
       GString,
     Field ''timeAggregation'' True [Enum [''latest'', ''sum'', ''avg'', ''min'', ''max'',
       ''count'', ''count_distinct'', ''rate'', ''increase''], Optional] GString]"

definition RuleBucketOptionsSpec :: gotype where
  "RuleBucketOptionsSpec = GStruct [
     Field ''maxValue'' True [Optional] GFloat64,
     Field ''numBuckets'' True [Optional] GInt64,
     Field ''scale'' True [Optional] (GPtr GInt64)]"

definition RuleBucketOptions :: gotype where
  "RuleBucketOptions = GStruct [
     Field ''kind'' False [Enum [''linear'', ''log''], Required] GString,
     Field ''spec'' False [Required] RuleBucketOptionsSpec]"

definition RuleFilter :: gotype where
  "RuleFilter = GStruct [
     Field ''expression'' True [Optional] GString]"

definition RuleArg :: gotype where
  "RuleArg = GStruct [
     Field ''name'' True [Optional] GString,
     Field ''value'' True [Optional, PreserveUnknownFields] (GPtr GJSON)]"

definition RuleFunction :: gotype where
  "RuleFunction = GStruct [
     Field ''args'' True [Optional] (GSlice RuleArg),
     Field ''name'' True [Enum [''cutoffmin'', ''cutoffmax'', ''clampmin'', ''clampmax'',
       ''absolute'', ''runningdiff'', ''log2'', ''log10'', ''cumulativesum'', ''ewma3'', ''ewma5'',
       ''ewma7'', ''median3'', ''median5'', ''median7'', ''timeshift'', ''anomaly'', ''fillzero''],
       Optional] GString]"

definition RuleGroupBy :: gotype where
  "RuleGroupBy = GStruct [
     Field ''name'' False [Required, MinLength 1] GString,
     Field ''description'' True [Optional] GString,
     Field ''fieldContext'' True [Enum [''metric'', ''log'', ''span'', ''trace'', ''resource'',
       ''scope'', ''attribute'', ''body''], Optional] GString,
     Field ''fieldDataType'' True [Enum [''string'', ''bool'', ''float64'', ''int64'', ''number''],
       Optional] GString,
     Field ''signal'' True [Enum [''traces'', ''logs'', ''metrics''], Optional] GString,
     Field ''unit'' True [Optional] GString]"

definition RuleHaving :: gotype where
  "RuleHaving = GStruct [
     Field ''expression'' True [Optional] GString]"

definition RuleLimitBy :: gotype where
  "RuleLimitBy = GStruct [
     Field ''keys'' True [Optional] (GSlice GString),
     Field ''value'' True [Optional] GString]"

definition RuleKey :: gotype where
  "RuleKey = GStruct [
     Field ''name'' False [Required, MinLength 1] GString,
     Field ''description'' True [Optional] GString,
     Field ''fieldContext'' True [Enum [''metric'', ''log'', ''span'', ''trace'', ''resource'',
       ''scope'', ''attribute'', ''body''], Optional] GString,
     Field ''fieldDataType'' True [Enum [''string'', ''bool'', ''float64'', ''int64'', ''number''],
       Optional] GString,
     Field ''signal'' True [Enum [''traces'', ''logs'', ''metrics''], Optional] GString,
     Field ''unit'' True [Optional] GString]"

definition RuleOrder :: gotype where
  "RuleOrder = GStruct [
     Field ''direction'' True [Enum [''asc'', ''desc''], Optional] GString,
     Field ''key'' True [Optional] (GPtr RuleKey)]"

definition RuleSecondaryAggregationGroupBy :: gotype where
  "RuleSecondaryAggregationGroupBy = GStruct [
     Field ''name'' False [Required, MinLength 1] GString,
     Field ''description'' True [Optional] GString,
     Field ''fieldContext'' True [Enum [''metric'', ''log'', ''span'', ''trace'', ''resource'',
       ''scope'', ''attribute'', ''body''], Optional] GString,
     Field ''fieldDataType'' True [Enum [''string'', ''bool'', ''float64'', ''int64'', ''number''],
       Optional] GString,
     Field ''signal'' True [Enum [''traces'', ''logs'', ''metrics''], Optional] GString,
     Field ''unit'' True [Optional] GString]"

definition RuleSecondaryAggregationLimitBy :: gotype where
  "RuleSecondaryAggregationLimitBy = GStruct [
     Field ''keys'' True [Optional] (GSlice GString),
     Field ''value'' True [Optional] GString]"

definition RuleSecondaryAggregationOrder :: gotype where
  "RuleSecondaryAggregationOrder = GStruct [
     Field ''direction'' True [Enum [''asc'', ''desc''], Optional] GString,
     Field ''key'' True [Optional] (GPtr RuleKey)]"

definition RuleSecondaryAggregation :: gotype where
  "RuleSecondaryAggregation = GStruct [
     Field ''alias'' True [Optional] GString,
     Field ''expression'' True [Optional] GString,
     Field ''groupBy'' True [Optional] (GSlice RuleSecondaryAggregationGroupBy),
     Field ''limit'' True [Optional] GInt64,
     Field ''limitBy'' True [Optional] (GPtr RuleSecondaryAggregationLimitBy),
     Field ''order'' True [Optional] (GSlice RuleSecondaryAggregationOrder),
     Field ''stepInterval'' True [Optional, PreserveUnknownFields] (GPtr GJSON)]"

definition RuleSelectField :: gotype where
  "RuleSelectField = GStruct [
     Field ''name'' False [Required, MinLength 1] GString,
     Field ''description'' True [Optional] GString,
     Field ''fieldContext'' True [Enum [''metric'', ''log'', ''span'', ''trace'', ''resource'',
       ''scope'', ''attribute'', ''body''], Optional] GString,
     Field ''fieldDataType'' True [Enum [''string'', ''bool'', ''float64'', ''int64'', ''number''],
       Optional] GString,
     Field ''signal'' True [Enum [''traces'', ''logs'', ''metrics''], Optional] GString,
     Field ''unit'' True [Optional] GString]"

definition RuleQuerySpec :: gotype where
  "RuleQuerySpec = GStruct [
     Field ''aggregations'' True [Optional] (GSlice RuleAggregation),
     Field ''bucketOptions'' True [Optional] (GPtr RuleBucketOptions),
     Field ''cursor'' True [Optional] GString,
     Field ''disabled'' True [Optional] GBool,
     Field ''expression'' True [Optional] GString,
     Field ''filter'' True [Optional] (GPtr RuleFilter),
     Field ''functions'' True [Optional] (GSlice RuleFunction),
     Field ''groupBy'' True [Optional] (GSlice RuleGroupBy),
     Field ''having'' True [Optional] (GPtr RuleHaving),
     Field ''legend'' True [Optional] GString,
     Field ''limit'' True [Optional] GInt64,
     Field ''limitBy'' True [Optional] (GPtr RuleLimitBy),
     Field ''name'' True [Optional] GString,
     Field ''offset'' True [Optional] GInt64,
     Field ''order'' True [Optional] (GSlice RuleOrder),
     Field ''query'' True [Optional] GString,
     Field ''returnSpansFrom'' True [Optional] GString,
     Field ''secondaryAggregations'' True [Optional] (GSlice RuleSecondaryAggregation),
     Field ''selectFields'' True [Optional] (GSlice RuleSelectField),
     Field ''signal'' True [Enum [''traces'', ''logs'', ''metrics''], Optional] GString,
     Field ''skipStepAlignment'' True [Optional] GBool,
     Field ''source'' True [Enum [''meter''], Optional] GString,
     Field ''stats'' True [Optional] GBool,
     Field ''step'' True [Optional, PreserveUnknownFields] (GPtr GJSON),
     Field ''stepInterval'' True [Optional, PreserveUnknownFields] (GPtr GJSON)]"

definition RuleQuery :: gotype where
  "RuleQuery = GStruct [
     Field ''type'' False [Enum [''builder_query'', ''builder_ai_query'', ''builder_formula'',
       ''builder_trace_operator'', ''promql'', ''clickhouse_sql''], Required] GString,
     Field ''spec'' True [Optional] (GPtr RuleQuerySpec)]"

definition RuleCompositeQuery :: gotype where
  "RuleCompositeQuery = GStruct [
     Field ''panelType'' False [Enum [''value'', ''table'', ''graph''], Required] GString,
     Field ''queries'' False [Required] (GSlice RuleQuery),
     Field ''queryType'' False [Enum [''builder'', ''clickhouse_sql'', ''promql''], Required]
       GString,
     Field ''unit'' True [Optional] GString]"

definition RuleThresholdsSpec :: gotype where
  "RuleThresholdsSpec = GStruct [
     Field ''matchType'' False [Enum [''at_least_once'', ''all_the_times'', ''on_average'',
       ''in_total'', ''last''], Required] GString,
     Field ''name'' False [Required, MinLength 1] GString,
     Field ''op'' False [Enum [''above'', ''below'', ''equal'', ''not_equal'', ''above_or_equal'',
       ''below_or_equal'', ''outside_bounds''], Required] GString,
     Field ''target'' False [Required] GFloat64,
     Field ''channels'' True [Optional] (GSlice GString),
     Field ''recoveryTarget'' True [Optional] (GPtr GFloat64),
     Field ''targetUnit'' True [Optional] GString]"

definition RuleThresholds :: gotype where
  "RuleThresholds = GStruct [
     Field ''kind'' False [Enum [''basic''], Required] GString,
     Field ''spec'' False [Required] (GSlice RuleThresholdsSpec)]"

definition RuleCondition :: gotype where
  "RuleCondition = GStruct [
     Field ''compositeQuery'' False [Required] RuleCompositeQuery,
     Field ''selectedQueryName'' False [Required, MinLength 1] GString,
     Field ''thresholds'' False [Required] RuleThresholds,
     Field ''absentFor'' True [Optional] GInt64,
     Field ''alertOnAbsent'' True [Optional] GBool,
     Field ''algorithm'' True [Optional] GString,
     Field ''requireMinPoints'' True [Optional] GBool,
     Field ''requiredNumPoints'' True [Optional] GInt64,
     Field ''seasonality'' True [Enum [''hourly'', ''daily'', ''weekly''], Optional] GString]"

definition RuleSchedule :: gotype where
  "RuleSchedule = GStruct [
     Field ''type'' False [Enum [''hourly'', ''daily'', ''weekly'', ''monthly''], Required] GString,
     Field ''day'' True [Optional] (GPtr GInt64),
     Field ''hour'' True [Optional] (GPtr GInt64),
     Field ''minute'' True [Optional] (GPtr GInt64),
     Field ''weekday'' True [Optional] (GPtr GInt64)]"

definition RuleEvaluationSpec :: gotype where
  "RuleEvaluationSpec = GStruct [
     Field ''evalWindow'' True [Optional] GString,
     Field ''frequency'' True [Optional] GString,
     Field ''schedule'' True [Optional] (GPtr RuleSchedule),
     Field ''timezone'' True [Optional] GString]"

definition RuleEvaluation :: gotype where
  "RuleEvaluation = GStruct [
     Field ''kind'' False [Enum [''rolling'', ''cumulative''], Required] GString,
     Field ''spec'' False [Required] RuleEvaluationSpec]"

definition RuleRenotify :: gotype where
  "RuleRenotify = GStruct [
     Field ''alertStates'' True [Optional] (GSlice GString),
     Field ''enabled'' True [Optional] GBool,
     Field ''interval'' True [Optional] GString]"

definition RuleNotificationSettings :: gotype where
  "RuleNotificationSettings = GStruct [
     Field ''groupBy'' True [Optional] (GSlice GString),
     Field ''newGroupEvalDelay'' True [Optional] GString,
     Field ''renotify'' True [Optional] (GPtr RuleRenotify),
     Field ''usePolicy'' True [Optional] GBool]"

definition RuleObjectSpec :: gotype where
  "RuleObjectSpec = GStruct [
     Field ''alert'' False [Required, MinLength 1] GString,
     Field ''alertType'' False [Enum [''METRIC_BASED_ALERT'', ''TRACES_BASED_ALERT'',
       ''LOGS_BASED_ALERT'', ''EXCEPTIONS_BASED_ALERT'', ''AI_TRACES_BASED_ALERT''], Required] GString,
     Field ''condition'' False [Required] RuleCondition,
     Field ''evaluation'' False [Required] RuleEvaluation,
     Field ''notificationSettings'' False [Required] RuleNotificationSettings,
     Field ''ruleType'' False [Enum [''threshold_rule'', ''promql_rule'', ''anomaly_rule''],
       Required] GString,
     Field ''schemaVersion'' False [Enum [''v2alpha1''], Required] GString,
     Field ''annotations'' True [Optional] (GMap GString),
     Field ''description'' True [Optional] GString,
     Field ''disabled'' True [Optional] GBool,
     Field ''labels'' True [Optional] (GMap GString)]"

definition RuleObjectTemplate :: gotype where
  "RuleObjectTemplate = GStruct [
     Field ''spec'' True [Optional] (GPtr RuleObjectSpec),
     Field ''jsonSpec'' True [Optional, MinLength 1] (GPtr GString)]"

end
