(* ===== verification/SavedViewTypes.thy ===== *)
theory SavedViewTypes
  imports GoTypes
begin

text \<open>
  The typed specs of SavedView: one definition per struct of the
  generated files, its fields in order with their JSON names, \<open>omitempty\<close>, schema markers and types.
  Structs come after the ones they use.
\<close>

subsection \<open>zz_generated_savedview_types.go\<close>

definition SavedViewComparisonSpaceAggregationParam :: gotype where
  "SavedViewComparisonSpaceAggregationParam = GStruct [
     Field ''operator'' False [Required, MinLength 1] GString,
     Field ''threshold'' False [Required] GFloat64]"

definition SavedViewAggregation :: gotype where
  "SavedViewAggregation = GStruct [
     Field ''alias'' True [Optional] GString,
     Field ''comparisonSpaceAggregationParam'' True [Optional] (GPtr
       SavedViewComparisonSpaceAggregationParam),
     Field ''expression'' True [Optional] GString,
     Field ''metricName'' True [Optional] GString,
     Field ''reduceTo'' True [Enum [''sum'', ''count'', ''avg'', ''min'', ''max'', ''last'',
       ''median''], Optional] GString,
     Field ''spaceAggregation'' True [Enum [''sum'', ''avg'', ''min'', ''max'', ''count'', ''p50'',
       ''p75'', ''p90'', ''p95'', ''p99''], Optional] GString,
     Field ''temporality'' True [Enum [''delta'', ''cumulative'', ''unspecified''], Optional]
       GString,
     Field ''timeAggregation'' True [Enum [''latest'', ''sum'', ''avg'', ''min'', ''max'',
       ''count'', ''count_distinct'', ''rate'', ''increase''], Optional] GString]"

definition SavedViewBucketOptionsSpec :: gotype where
  "SavedViewBucketOptionsSpec = GStruct [
     Field ''maxValue'' True [Optional] GFloat64,
     Field ''numBuckets'' True [Optional] GInt64,
     Field ''scale'' True [Optional] (GPtr GInt64)]"

definition SavedViewBucketOptions :: gotype where
  "SavedViewBucketOptions = GStruct [
     Field ''kind'' False [Enum [''linear'', ''log''], Required] GString,
     Field ''spec'' False [Required] SavedViewBucketOptionsSpec]"

definition SavedViewFilter :: gotype where
  "SavedViewFilter = GStruct [
     Field ''expression'' True [Optional] GString]"

definition SavedViewArg :: gotype where
  "SavedViewArg = GStruct [
     Field ''name'' True [Optional] GString,
     Field ''value'' True [Optional, PreserveUnknownFields] (GPtr GJSON)]"

definition SavedViewFunction :: gotype where
  "SavedViewFunction = GStruct [
     Field ''args'' True [Optional] (GSlice SavedViewArg),
     Field ''name'' True [Enum [''cutoffmin'', ''cutoffmax'', ''clampmin'', ''clampmax'',
       ''absolute'', ''runningdiff'', ''log2'', ''log10'', ''cumulativesum'', ''ewma3'', ''ewma5'',
       ''ewma7'', ''median3'', ''median5'', ''median7'', ''timeshift'', ''anomaly'', ''fillzero''],
       Optional] GString]"

definition SavedViewGroupBy :: gotype where
  "SavedViewGroupBy = GStruct [
     Field ''name'' False [Required, MinLength 1] GString,
     Field ''description'' True [Optional] GString,
     Field ''fieldContext'' True [Enum [''metric'', ''log'', ''span'', ''trace'', ''resource'',
       ''scope'', ''attribute'', ''body''], Optional] GString,
     Field ''fieldDataType'' True [Enum [''string'', ''bool'', ''float64'', ''int64'', ''number''],
       Optional] GString,
     Field ''signal'' True [Enum [''traces'', ''logs'', ''metrics''], Optional] GString,
     Field ''unit'' True [Optional] GString]"

definition SavedViewHaving :: gotype where
  "SavedViewHaving = GStruct [
     Field ''expression'' True [Optional] GString]"

definition SavedViewLimitBy :: gotype where
  "SavedViewLimitBy = GStruct [
     Field ''keys'' True [Optional] (GSlice GString),
     Field ''value'' True [Optional] GString]"

definition SavedViewKey :: gotype where
  "SavedViewKey = GStruct [
     Field ''name'' False [Required, MinLength 1] GString,
     Field ''description'' True [Optional] GString,
     Field ''fieldContext'' True [Enum [''metric'', ''log'', ''span'', ''trace'', ''resource'',
       ''scope'', ''attribute'', ''body''], Optional] GString,
     Field ''fieldDataType'' True [Enum [''string'', ''bool'', ''float64'', ''int64'', ''number''],
       Optional] GString,
     Field ''signal'' True [Enum [''traces'', ''logs'', ''metrics''], Optional] GString,
     Field ''unit'' True [Optional] GString]"

definition SavedViewOrder :: gotype where
  "SavedViewOrder = GStruct [
     Field ''direction'' True [Enum [''asc'', ''desc''], Optional] GString,
     Field ''key'' True [Optional] (GPtr SavedViewKey)]"

definition SavedViewSecondaryAggregationGroupBy :: gotype where
  "SavedViewSecondaryAggregationGroupBy = GStruct [
     Field ''name'' False [Required, MinLength 1] GString,
     Field ''description'' True [Optional] GString,
     Field ''fieldContext'' True [Enum [''metric'', ''log'', ''span'', ''trace'', ''resource'',
       ''scope'', ''attribute'', ''body''], Optional] GString,
     Field ''fieldDataType'' True [Enum [''string'', ''bool'', ''float64'', ''int64'', ''number''],
       Optional] GString,
     Field ''signal'' True [Enum [''traces'', ''logs'', ''metrics''], Optional] GString,
     Field ''unit'' True [Optional] GString]"

definition SavedViewSecondaryAggregationLimitBy :: gotype where
  "SavedViewSecondaryAggregationLimitBy = GStruct [
     Field ''keys'' True [Optional] (GSlice GString),
     Field ''value'' True [Optional] GString]"

definition SavedViewSecondaryAggregationOrder :: gotype where
  "SavedViewSecondaryAggregationOrder = GStruct [
     Field ''direction'' True [Enum [''asc'', ''desc''], Optional] GString,
     Field ''key'' True [Optional] (GPtr SavedViewKey)]"

definition SavedViewSecondaryAggregation :: gotype where
  "SavedViewSecondaryAggregation = GStruct [
     Field ''alias'' True [Optional] GString,
     Field ''expression'' True [Optional] GString,
     Field ''groupBy'' True [Optional] (GSlice SavedViewSecondaryAggregationGroupBy),
     Field ''limit'' True [Optional] GInt64,
     Field ''limitBy'' True [Optional] (GPtr SavedViewSecondaryAggregationLimitBy),
     Field ''order'' True [Optional] (GSlice SavedViewSecondaryAggregationOrder),
     Field ''stepInterval'' True [Optional, PreserveUnknownFields] (GPtr GJSON)]"

definition SavedViewSelectField :: gotype where
  "SavedViewSelectField = GStruct [
     Field ''name'' False [Required, MinLength 1] GString,
     Field ''description'' True [Optional] GString,
     Field ''fieldContext'' True [Enum [''metric'', ''log'', ''span'', ''trace'', ''resource'',
       ''scope'', ''attribute'', ''body''], Optional] GString,
     Field ''fieldDataType'' True [Enum [''string'', ''bool'', ''float64'', ''int64'', ''number''],
       Optional] GString,
     Field ''signal'' True [Enum [''traces'', ''logs'', ''metrics''], Optional] GString,
     Field ''unit'' True [Optional] GString]"

definition SavedViewQuerySpec :: gotype where
  "SavedViewQuerySpec = GStruct [
     Field ''aggregations'' True [Optional] (GSlice SavedViewAggregation),
     Field ''bucketOptions'' True [Optional] (GPtr SavedViewBucketOptions),
     Field ''cursor'' True [Optional] GString,
     Field ''disabled'' True [Optional] GBool,
     Field ''expression'' True [Optional] GString,
     Field ''filter'' True [Optional] (GPtr SavedViewFilter),
     Field ''functions'' True [Optional] (GSlice SavedViewFunction),
     Field ''groupBy'' True [Optional] (GSlice SavedViewGroupBy),
     Field ''having'' True [Optional] (GPtr SavedViewHaving),
     Field ''legend'' True [Optional] GString,
     Field ''limit'' True [Optional] GInt64,
     Field ''limitBy'' True [Optional] (GPtr SavedViewLimitBy),
     Field ''name'' True [Optional] GString,
     Field ''offset'' True [Optional] GInt64,
     Field ''order'' True [Optional] (GSlice SavedViewOrder),
     Field ''query'' True [Optional] GString,
     Field ''returnSpansFrom'' True [Optional] GString,
     Field ''secondaryAggregations'' True [Optional] (GSlice SavedViewSecondaryAggregation),
     Field ''selectFields'' True [Optional] (GSlice SavedViewSelectField),
     Field ''signal'' True [Enum [''traces'', ''logs'', ''metrics''], Optional] GString,
     Field ''skipStepAlignment'' True [Optional] GBool,
     Field ''source'' True [Enum [''meter''], Optional] GString,
     Field ''stats'' True [Optional] GBool,
     Field ''step'' True [Optional, PreserveUnknownFields] (GPtr GJSON),
     Field ''stepInterval'' True [Optional, PreserveUnknownFields] (GPtr GJSON)]"

definition SavedViewQuery :: gotype where
  "SavedViewQuery = GStruct [
     Field ''type'' False [Enum [''builder_query'', ''builder_ai_query'', ''builder_formula'',
       ''builder_trace_operator'', ''promql'', ''clickhouse_sql''], Required] GString,
     Field ''spec'' True [Optional] (GPtr SavedViewQuerySpec)]"

definition SavedViewDisplay :: gotype where
  "SavedViewDisplay = GStruct [
     Field ''color'' True [Optional] GString,
     Field ''fontSize'' True [Optional] GString,
     Field ''format'' True [Optional] GString,
     Field ''maxLines'' True [Optional] GInt64]"

definition SavedViewSelectedField :: gotype where
  "SavedViewSelectedField = GStruct [
     Field ''name'' False [Required, MinLength 1] GString,
     Field ''description'' True [Optional] GString,
     Field ''fieldContext'' True [Enum [''metric'', ''log'', ''span'', ''trace'', ''resource'',
       ''scope'', ''attribute'', ''body''], Optional] GString,
     Field ''fieldDataType'' True [Enum [''string'', ''bool'', ''float64'', ''int64'', ''number''],
       Optional] GString,
     Field ''signal'' True [Enum [''traces'', ''logs'', ''metrics''], Optional] GString,
     Field ''unit'' True [Optional] GString]"

definition SavedViewSpecPayload :: gotype where
  "SavedViewSpecPayload = GStruct [
     Field ''displayName'' False [Required, MinLength 1] GString,
     Field ''panelType'' False [Enum [''value'', ''graph'', ''table'', ''list'', ''trace''],
       Required] GString,
     Field ''queries'' False [Required] (GSlice SavedViewQuery),
     Field ''requestType'' False [Enum [''scalar'', ''time_series'', ''raw'', ''raw_stream'',
       ''trace'', ''heatmap''], Required] GString,
     Field ''display'' True [Optional] (GPtr SavedViewDisplay),
     Field ''selectedFields'' True [Optional] (GSlice SavedViewSelectedField)]"

definition SavedViewObjectSpec :: gotype where
  "SavedViewObjectSpec = GStruct [
     Field ''schemaVersion'' False [Enum [''v2''], Required] GString,
     Field ''source'' False [Enum [''traces'', ''logs'', ''metrics'', ''meter'',
       ''ai_observability''], Required] GString,
     Field ''spec'' False [Required] SavedViewSpecPayload,
     Field ''name'' True [Optional] GString]"

definition SavedViewObjectTemplate :: gotype where
  "SavedViewObjectTemplate = GStruct [
     Field ''spec'' True [Optional] (GPtr SavedViewObjectSpec),
     Field ''jsonSpec'' True [Optional, MinLength 1] (GPtr GString)]"

end
