(* ===== verification/DashboardTypes.thy ===== *)
theory DashboardTypes
  imports GoTypes
begin

text \<open>
  The typed specs of Dashboard: one definition per struct of the
  generated files, its fields in order with their JSON names, \<open>omitempty\<close>, schema markers and types.
  Structs come after the ones they use.
\<close>

subsection \<open>zz_generated_dashboard_types.go\<close>

definition DashboardDisplay :: gotype where
  "DashboardDisplay = GStruct [
     Field ''name'' False [Required, MinLength 1] GString,
     Field ''description'' True [Optional] GString]"

definition DashboardCollapse :: gotype where
  "DashboardCollapse = GStruct [
     Field ''open'' True [Optional] GBool]"

definition DashboardLayoutSpecDisplay :: gotype where
  "DashboardLayoutSpecDisplay = GStruct [
     Field ''collapse'' True [Optional] (GPtr DashboardCollapse),
     Field ''title'' True [Optional] GString]"

definition DashboardContent :: gotype where
  "DashboardContent = GStruct [
     Field ''$ref'' True [Optional] GString]"

definition DashboardItem :: gotype where
  "DashboardItem = GStruct [
     Field ''content'' True [Optional] (GPtr DashboardContent),
     Field ''height'' True [Optional] GInt64,
     Field ''width'' True [Optional] GInt64,
     Field ''x'' True [Optional] GInt64,
     Field ''y'' True [Optional] GInt64]"

definition DashboardLayoutSpec :: gotype where
  "DashboardLayoutSpec = GStruct [
     Field ''display'' True [Optional] (GPtr DashboardLayoutSpecDisplay),
     Field ''items'' True [Optional] (GSlice DashboardItem),
     Field ''repeatVariable'' True [Optional] GString]"

definition DashboardLayout :: gotype where
  "DashboardLayout = GStruct [
     Field ''kind'' False [Enum [''Grid''], Required] GString,
     Field ''spec'' False [Required] DashboardLayoutSpec]"

definition DashboardY :: gotype where
  "DashboardY = GStruct [
     Field ''scale'' True [Enum [''auto'', ''linear'', ''log'', ''symlog''], Optional] GString]"

definition DashboardAxes :: gotype where
  "DashboardAxes = GStruct [
     Field ''isLogScale'' True [Optional] GBool,
     Field ''softMax'' True [Optional] (GPtr GFloat64),
     Field ''softMin'' True [Optional] (GPtr GFloat64),
     Field ''y'' True [Optional] (GPtr DashboardY)]"

definition DashboardColors :: gotype where
  "DashboardColors = GStruct [
     Field ''fill'' True [Optional] GString,
     Field ''maxCount'' True [Optional] (GPtr GFloat64),
     Field ''minCount'' True [Optional] (GPtr GFloat64),
     Field ''mode'' True [Enum [''palette'', ''opacity''], Optional] GString,
     Field ''palette'' True [Enum [''ice'', ''moss'', ''rust'', ''graphite'', ''ember'', ''lagoon'',
       ''orchid'', ''verdant'', ''lava'', ''beacon''], Optional] GString,
     Field ''scale'' True [Enum [''log'', ''sqrt'', ''linear''], Optional] GString,
     Field ''steps'' True [Optional] GInt64]"

definition DashboardSpanGaps :: gotype where
  "DashboardSpanGaps = GStruct [
     Field ''fillLessThan'' True [Optional] GString,
     Field ''fillOnlyBelow'' True [Optional] GBool]"

definition DashboardChartAppearance :: gotype where
  "DashboardChartAppearance = GStruct [
     Field ''colors'' True [Optional] (GPtr DashboardColors),
     Field ''fillMode'' True [Enum [''solid'', ''gradient'', ''none''], Optional] GString,
     Field ''fillOpacity'' True [Optional] (GPtr GFloat64),
     Field ''lineInterpolation'' True [Enum [''linear'', ''spline'', ''step_after'',
       ''step_before''], Optional] GString,
     Field ''lineStyle'' True [Enum [''solid'', ''dashed''], Optional] GString,
     Field ''showPoints'' True [Optional] GBool,
     Field ''spanGaps'' True [Optional] (GPtr DashboardSpanGaps)]"

definition DashboardFormatting :: gotype where
  "DashboardFormatting = GStruct [
     Field ''columnUnits'' True [Optional] (GMap GString),
     Field ''decimalPrecision'' True [Enum [''0'', ''1'', ''2'', ''3'', ''4'', ''full''], Optional]
       GString,
     Field ''unit'' True [Optional] GString]"

definition DashboardHeaderOptions :: gotype where
  "DashboardHeaderOptions = GStruct [
     Field ''hide'' True [Optional] GBool]"

definition DashboardHistogramBuckets :: gotype where
  "DashboardHistogramBuckets = GStruct [
     Field ''bucketCount'' True [Optional] (GPtr GFloat64),
     Field ''bucketWidth'' True [Optional] (GPtr GFloat64),
     Field ''mergeAllActiveQueries'' True [Optional] GBool]"

definition DashboardLegend :: gotype where
  "DashboardLegend = GStruct [
     Field ''customColors'' True [Optional] (GMap GString),
     Field ''mode'' True [Enum [''list''], Optional] GString,
     Field ''position'' True [Enum [''bottom'', ''right''], Optional] GString]"

definition DashboardPresentation :: gotype where
  "DashboardPresentation = GStruct [
     Field ''background'' True [Optional] GString,
     Field ''textAlign'' True [Enum [''left'', ''center'', ''right''], Optional] GString,
     Field ''verticalAlign'' True [Enum [''top'', ''center'', ''bottom''], Optional] GString]"

definition DashboardSelectField :: gotype where
  "DashboardSelectField = GStruct [
     Field ''name'' False [Required, MinLength 1] GString,
     Field ''description'' True [Optional] GString,
     Field ''fieldContext'' True [Enum [''metric'', ''log'', ''span'', ''trace'', ''resource'',
       ''scope'', ''attribute'', ''body''], Optional] GString,
     Field ''fieldDataType'' True [Enum [''string'', ''bool'', ''float64'', ''int64'', ''number''],
       Optional] GString,
     Field ''signal'' True [Enum [''traces'', ''logs'', ''metrics''], Optional] GString,
     Field ''unit'' True [Optional] GString]"

definition DashboardThreshold :: gotype where
  "DashboardThreshold = GStruct [
     Field ''color'' False [Required, MinLength 1] GString,
     Field ''value'' False [Required] GFloat64,
     Field ''columnName'' True [Optional] GString,
     Field ''format'' True [Enum [''text'', ''background''], Optional] GString,
     Field ''label'' True [Optional] GString,
     Field ''operator'' True [Enum [''above'', ''below'', ''above_or_equal'', ''below_or_equal'',
       ''equal'', ''not_equal''], Optional] GString,
     Field ''unit'' True [Optional] GString]"

definition DashboardVisualization :: gotype where
  "DashboardVisualization = GStruct [
     Field ''fillSpans'' True [Optional] GBool,
     Field ''stack'' True [Enum [''none'', ''normal'', ''percent''], Optional] GString,
     Field ''stackedBarChart'' True [Optional] GBool,
     Field ''timePreference'' True [Enum [''global_time'', ''last_5_min'', ''last_15_min'',
       ''last_30_min'', ''last_1_hr'', ''last_6_hr'', ''last_1_day'', ''last_3_days'',
       ''last_1_week'', ''last_1_month''], Optional] GString]"

definition DashboardPluginSpec :: gotype where
  "DashboardPluginSpec = GStruct [
     Field ''axes'' True [Optional] (GPtr DashboardAxes),
     Field ''chartAppearance'' True [Optional] (GPtr DashboardChartAppearance),
     Field ''formatting'' True [Optional] (GPtr DashboardFormatting),
     Field ''headerOptions'' True [Optional] (GPtr DashboardHeaderOptions),
     Field ''histogramBuckets'' True [Optional] (GPtr DashboardHistogramBuckets),
     Field ''legend'' True [Optional] (GPtr DashboardLegend),
     Field ''mode'' True [Enum [''markdown''], Optional] GString,
     Field ''presentation'' True [Optional] (GPtr DashboardPresentation),
     Field ''selectFields'' True [Optional] (GSlice DashboardSelectField),
     Field ''text'' True [Optional] GString,
     Field ''thresholds'' True [Optional] (GSlice DashboardThreshold),
     Field ''visualization'' True [Optional] (GPtr DashboardVisualization)]"

definition DashboardPlugin :: gotype where
  "DashboardPlugin = GStruct [
     Field ''kind'' False [Enum [''signoz/TimeSeriesPanel'', ''signoz/BarChartPanel'',
       ''signoz/AreaChartPanel'', ''signoz/NumberPanel'', ''signoz/PieChartPanel'',
       ''signoz/TablePanel'', ''signoz/HistogramPanel'', ''signoz/ListPanel'', ''signoz/TextPanel'',
       ''signoz/HeatmapPanel''], Required] GString,
     Field ''spec'' False [Required] DashboardPluginSpec]"

definition DashboardComparisonSpaceAggregationParam :: gotype where
  "DashboardComparisonSpaceAggregationParam = GStruct [
     Field ''operator'' False [Required, MinLength 1] GString,
     Field ''threshold'' False [Required] GFloat64]"

definition DashboardAggregation :: gotype where
  "DashboardAggregation = GStruct [
     Field ''alias'' True [Optional] GString,
     Field ''comparisonSpaceAggregationParam'' True [Optional] (GPtr
       DashboardComparisonSpaceAggregationParam),
     Field ''expression'' True [Optional] GString,
     Field ''metricName'' True [Optional] GString,
     Field ''reduceTo'' True [Enum [''sum'', ''count'', ''avg'', ''min'', ''max'', ''last'',
       ''median''], Optional] GString,
     Field ''spaceAggregation'' True [Enum [''sum'', ''avg'', ''min'', ''max'', ''count'', ''p50'',
       ''p75'', ''p90'', ''p95'', ''p99''], Optional] GString,
     Field ''temporality'' True [Enum [''delta'', ''cumulative'', ''unspecified''], Optional]
       GString,
     Field ''timeAggregation'' True [Enum [''latest'', ''sum'', ''avg'', ''min'', ''max'',
       ''count'', ''count_distinct'', ''rate'', ''increase''], Optional] GString]"

definition DashboardBucketOptionsSpec :: gotype where
  "DashboardBucketOptionsSpec = GStruct [
     Field ''maxValue'' True [Optional] GFloat64,
     Field ''numBuckets'' True [Optional] GInt64,
     Field ''scale'' True [Optional] (GPtr GInt64)]"

definition DashboardBucketOptions :: gotype where
  "DashboardBucketOptions = GStruct [
     Field ''kind'' False [Enum [''linear'', ''log''], Required] GString,
     Field ''spec'' False [Required] DashboardBucketOptionsSpec]"

definition DashboardFilter :: gotype where
  "DashboardFilter = GStruct [
     Field ''expression'' True [Optional] GString]"

definition DashboardArg :: gotype where
  "DashboardArg = GStruct [
     Field ''name'' True [Optional] GString,
     Field ''value'' True [Optional, PreserveUnknownFields] (GPtr GJSON)]"

definition DashboardFunction :: gotype where
  "DashboardFunction = GStruct [
     Field ''args'' True [Optional] (GSlice DashboardArg),
     Field ''name'' True [Enum [''cutoffmin'', ''cutoffmax'', ''clampmin'', ''clampmax'',
       ''absolute'', ''runningdiff'', ''log2'', ''log10'', ''cumulativesum'', ''ewma3'', ''ewma5'',
       ''ewma7'', ''median3'', ''median5'', ''median7'', ''timeshift'', ''anomaly'', ''fillzero''],
       Optional] GString]"

definition DashboardGroupBy :: gotype where
  "DashboardGroupBy = GStruct [
     Field ''name'' False [Required, MinLength 1] GString,
     Field ''description'' True [Optional] GString,
     Field ''fieldContext'' True [Enum [''metric'', ''log'', ''span'', ''trace'', ''resource'',
       ''scope'', ''attribute'', ''body''], Optional] GString,
     Field ''fieldDataType'' True [Enum [''string'', ''bool'', ''float64'', ''int64'', ''number''],
       Optional] GString,
     Field ''signal'' True [Enum [''traces'', ''logs'', ''metrics''], Optional] GString,
     Field ''unit'' True [Optional] GString]"

definition DashboardHaving :: gotype where
  "DashboardHaving = GStruct [
     Field ''expression'' True [Optional] GString]"

definition DashboardLimitBy :: gotype where
  "DashboardLimitBy = GStruct [
     Field ''keys'' True [Optional] (GSlice GString),
     Field ''value'' True [Optional] GString]"

definition DashboardKey :: gotype where
  "DashboardKey = GStruct [
     Field ''name'' False [Required, MinLength 1] GString,
     Field ''description'' True [Optional] GString,
     Field ''fieldContext'' True [Enum [''metric'', ''log'', ''span'', ''trace'', ''resource'',
       ''scope'', ''attribute'', ''body''], Optional] GString,
     Field ''fieldDataType'' True [Enum [''string'', ''bool'', ''float64'', ''int64'', ''number''],
       Optional] GString,
     Field ''signal'' True [Enum [''traces'', ''logs'', ''metrics''], Optional] GString,
     Field ''unit'' True [Optional] GString]"

definition DashboardOrder :: gotype where
  "DashboardOrder = GStruct [
     Field ''direction'' True [Enum [''asc'', ''desc''], Optional] GString,
     Field ''key'' True [Optional] (GPtr DashboardKey)]"

definition DashboardQuerySpecPluginSpecQuerySpecAggregation :: gotype where
  "DashboardQuerySpecPluginSpecQuerySpecAggregation = GStruct [
     Field ''alias'' True [Optional] GString,
     Field ''comparisonSpaceAggregationParam'' True [Optional] (GPtr
       DashboardComparisonSpaceAggregationParam),
     Field ''expression'' True [Optional] GString,
     Field ''metricName'' True [Optional] GString,
     Field ''reduceTo'' True [Enum [''sum'', ''count'', ''avg'', ''min'', ''max'', ''last'',
       ''median''], Optional] GString,
     Field ''spaceAggregation'' True [Enum [''sum'', ''avg'', ''min'', ''max'', ''count'', ''p50'',
       ''p75'', ''p90'', ''p95'', ''p99''], Optional] GString,
     Field ''temporality'' True [Enum [''delta'', ''cumulative'', ''unspecified''], Optional]
       GString,
     Field ''timeAggregation'' True [Enum [''latest'', ''sum'', ''avg'', ''min'', ''max'',
       ''count'', ''count_distinct'', ''rate'', ''increase''], Optional] GString]"

definition DashboardQuerySpecPluginSpecQuerySpecBucketOptionsSpec :: gotype where
  "DashboardQuerySpecPluginSpecQuerySpecBucketOptionsSpec = GStruct [
     Field ''maxValue'' True [Optional] GFloat64,
     Field ''numBuckets'' True [Optional] GInt64,
     Field ''scale'' True [Optional] (GPtr GInt64)]"

definition DashboardQuerySpecPluginSpecQuerySpecBucketOptions :: gotype where
  "DashboardQuerySpecPluginSpecQuerySpecBucketOptions = GStruct [
     Field ''kind'' False [Enum [''linear'', ''log''], Required] GString,
     Field ''spec'' False [Required] DashboardQuerySpecPluginSpecQuerySpecBucketOptionsSpec]"

definition DashboardQuerySpecPluginSpecQuerySpecFilter :: gotype where
  "DashboardQuerySpecPluginSpecQuerySpecFilter = GStruct [
     Field ''expression'' True [Optional] GString]"

definition DashboardQuerySpecPluginSpecQuerySpecFunction :: gotype where
  "DashboardQuerySpecPluginSpecQuerySpecFunction = GStruct [
     Field ''args'' True [Optional] (GSlice DashboardArg),
     Field ''name'' True [Enum [''cutoffmin'', ''cutoffmax'', ''clampmin'', ''clampmax'',
       ''absolute'', ''runningdiff'', ''log2'', ''log10'', ''cumulativesum'', ''ewma3'', ''ewma5'',
       ''ewma7'', ''median3'', ''median5'', ''median7'', ''timeshift'', ''anomaly'', ''fillzero''],
       Optional] GString]"

definition DashboardQuerySpecPluginSpecQuerySpecGroupBy :: gotype where
  "DashboardQuerySpecPluginSpecQuerySpecGroupBy = GStruct [
     Field ''name'' False [Required, MinLength 1] GString,
     Field ''description'' True [Optional] GString,
     Field ''fieldContext'' True [Enum [''metric'', ''log'', ''span'', ''trace'', ''resource'',
       ''scope'', ''attribute'', ''body''], Optional] GString,
     Field ''fieldDataType'' True [Enum [''string'', ''bool'', ''float64'', ''int64'', ''number''],
       Optional] GString,
     Field ''signal'' True [Enum [''traces'', ''logs'', ''metrics''], Optional] GString,
     Field ''unit'' True [Optional] GString]"

definition DashboardQuerySpecPluginSpecQuerySpecHaving :: gotype where
  "DashboardQuerySpecPluginSpecQuerySpecHaving = GStruct [
     Field ''expression'' True [Optional] GString]"

definition DashboardQuerySpecPluginSpecQuerySpecLimitBy :: gotype where
  "DashboardQuerySpecPluginSpecQuerySpecLimitBy = GStruct [
     Field ''keys'' True [Optional] (GSlice GString),
     Field ''value'' True [Optional] GString]"

definition DashboardQuerySpecPluginSpecQuerySpecOrder :: gotype where
  "DashboardQuerySpecPluginSpecQuerySpecOrder = GStruct [
     Field ''direction'' True [Enum [''asc'', ''desc''], Optional] GString,
     Field ''key'' True [Optional] (GPtr DashboardKey)]"

definition DashboardSecondaryAggregationGroupBy :: gotype where
  "DashboardSecondaryAggregationGroupBy = GStruct [
     Field ''name'' False [Required, MinLength 1] GString,
     Field ''description'' True [Optional] GString,
     Field ''fieldContext'' True [Enum [''metric'', ''log'', ''span'', ''trace'', ''resource'',
       ''scope'', ''attribute'', ''body''], Optional] GString,
     Field ''fieldDataType'' True [Enum [''string'', ''bool'', ''float64'', ''int64'', ''number''],
       Optional] GString,
     Field ''signal'' True [Enum [''traces'', ''logs'', ''metrics''], Optional] GString,
     Field ''unit'' True [Optional] GString]"

definition DashboardSecondaryAggregationLimitBy :: gotype where
  "DashboardSecondaryAggregationLimitBy = GStruct [
     Field ''keys'' True [Optional] (GSlice GString),
     Field ''value'' True [Optional] GString]"

definition DashboardSecondaryAggregationOrder :: gotype where
  "DashboardSecondaryAggregationOrder = GStruct [
     Field ''direction'' True [Enum [''asc'', ''desc''], Optional] GString,
     Field ''key'' True [Optional] (GPtr DashboardKey)]"

definition DashboardSecondaryAggregation :: gotype where
  "DashboardSecondaryAggregation = GStruct [
     Field ''alias'' True [Optional] GString,
     Field ''expression'' True [Optional] GString,
     Field ''groupBy'' True [Optional] (GSlice DashboardSecondaryAggregationGroupBy),
     Field ''limit'' True [Optional] GInt64,
     Field ''limitBy'' True [Optional] (GPtr DashboardSecondaryAggregationLimitBy),
     Field ''order'' True [Optional] (GSlice DashboardSecondaryAggregationOrder),
     Field ''stepInterval'' True [Optional, PreserveUnknownFields] (GPtr GJSON)]"

definition DashboardQuerySpecPluginSpecQuerySpecSelectField :: gotype where
  "DashboardQuerySpecPluginSpecQuerySpecSelectField = GStruct [
     Field ''name'' False [Required, MinLength 1] GString,
     Field ''description'' True [Optional] GString,
     Field ''fieldContext'' True [Enum [''metric'', ''log'', ''span'', ''trace'', ''resource'',
       ''scope'', ''attribute'', ''body''], Optional] GString,
     Field ''fieldDataType'' True [Enum [''string'', ''bool'', ''float64'', ''int64'', ''number''],
       Optional] GString,
     Field ''signal'' True [Enum [''traces'', ''logs'', ''metrics''], Optional] GString,
     Field ''unit'' True [Optional] GString]"

definition DashboardQuerySpecPluginSpecQuerySpec :: gotype where
  "DashboardQuerySpecPluginSpecQuerySpec = GStruct [
     Field ''aggregations'' True [Optional] (GSlice
       DashboardQuerySpecPluginSpecQuerySpecAggregation),
     Field ''bucketOptions'' True [Optional] (GPtr
       DashboardQuerySpecPluginSpecQuerySpecBucketOptions),
     Field ''cursor'' True [Optional] GString,
     Field ''disabled'' True [Optional] GBool,
     Field ''expression'' True [Optional] GString,
     Field ''filter'' True [Optional] (GPtr DashboardQuerySpecPluginSpecQuerySpecFilter),
     Field ''functions'' True [Optional] (GSlice DashboardQuerySpecPluginSpecQuerySpecFunction),
     Field ''groupBy'' True [Optional] (GSlice DashboardQuerySpecPluginSpecQuerySpecGroupBy),
     Field ''having'' True [Optional] (GPtr DashboardQuerySpecPluginSpecQuerySpecHaving),
     Field ''legend'' True [Optional] GString,
     Field ''limit'' True [Optional] GInt64,
     Field ''limitBy'' True [Optional] (GPtr DashboardQuerySpecPluginSpecQuerySpecLimitBy),
     Field ''name'' True [Optional] GString,
     Field ''offset'' True [Optional] GInt64,
     Field ''order'' True [Optional] (GSlice DashboardQuerySpecPluginSpecQuerySpecOrder),
     Field ''query'' True [Optional] GString,
     Field ''returnSpansFrom'' True [Optional] GString,
     Field ''secondaryAggregations'' True [Optional] (GSlice DashboardSecondaryAggregation),
     Field ''selectFields'' True [Optional] (GSlice
       DashboardQuerySpecPluginSpecQuerySpecSelectField),
     Field ''signal'' True [Enum [''traces'', ''logs'', ''metrics''], Optional] GString,
     Field ''skipStepAlignment'' True [Optional] GBool,
     Field ''source'' True [Enum [''meter''], Optional] GString,
     Field ''stats'' True [Optional] GBool,
     Field ''step'' True [Optional, PreserveUnknownFields] (GPtr GJSON),
     Field ''stepInterval'' True [Optional, PreserveUnknownFields] (GPtr GJSON)]"

definition DashboardQuerySpecPluginSpecQuery :: gotype where
  "DashboardQuerySpecPluginSpecQuery = GStruct [
     Field ''type'' False [Enum [''builder_query'', ''builder_ai_query'', ''builder_formula'',
       ''builder_trace_operator'', ''promql'', ''clickhouse_sql''], Required] GString,
     Field ''spec'' True [Optional] (GPtr DashboardQuerySpecPluginSpecQuerySpec)]"

definition DashboardQuerySpecPluginSpecSelectField :: gotype where
  "DashboardQuerySpecPluginSpecSelectField = GStruct [
     Field ''name'' False [Required, MinLength 1] GString,
     Field ''description'' True [Optional] GString,
     Field ''fieldContext'' True [Enum [''metric'', ''log'', ''span'', ''trace'', ''resource'',
       ''scope'', ''attribute'', ''body''], Optional] GString,
     Field ''fieldDataType'' True [Enum [''string'', ''bool'', ''float64'', ''int64'', ''number''],
       Optional] GString,
     Field ''signal'' True [Enum [''traces'', ''logs'', ''metrics''], Optional] GString,
     Field ''unit'' True [Optional] GString]"

definition DashboardQuerySpecPluginSpec :: gotype where
  "DashboardQuerySpecPluginSpec = GStruct [
     Field ''aggregations'' True [Optional] (GSlice DashboardAggregation),
     Field ''bucketOptions'' True [Optional] (GPtr DashboardBucketOptions),
     Field ''cursor'' True [Optional] GString,
     Field ''disabled'' True [Optional] GBool,
     Field ''expression'' True [Optional] GString,
     Field ''filter'' True [Optional] (GPtr DashboardFilter),
     Field ''functions'' True [Optional] (GSlice DashboardFunction),
     Field ''groupBy'' True [Optional] (GSlice DashboardGroupBy),
     Field ''having'' True [Optional] (GPtr DashboardHaving),
     Field ''legend'' True [Optional] GString,
     Field ''limit'' True [Optional] GInt64,
     Field ''limitBy'' True [Optional] (GPtr DashboardLimitBy),
     Field ''name'' True [Optional] GString,
     Field ''offset'' True [Optional] GInt64,
     Field ''order'' True [Optional] (GSlice DashboardOrder),
     Field ''queries'' True [Optional] (GSlice DashboardQuerySpecPluginSpecQuery),
     Field ''query'' True [Optional] GString,
     Field ''returnSpansFrom'' True [Optional] GString,
     Field ''secondaryAggregations'' True [Optional] (GSlice DashboardSecondaryAggregation),
     Field ''selectFields'' True [Optional] (GSlice DashboardQuerySpecPluginSpecSelectField),
     Field ''signal'' True [Enum [''logs'', ''metrics'', ''traces''], Optional] GString,
     Field ''skipStepAlignment'' True [Optional] GBool,
     Field ''source'' True [Enum [''meter''], Optional] GString,
     Field ''stats'' True [Optional] GBool,
     Field ''step'' True [Optional, PreserveUnknownFields] (GPtr GJSON),
     Field ''stepInterval'' True [Optional, PreserveUnknownFields] (GPtr GJSON)]"

definition DashboardQuerySpecPlugin :: gotype where
  "DashboardQuerySpecPlugin = GStruct [
     Field ''kind'' False [Enum [''signoz/BuilderQuery'', ''signoz/AIBuilderQuery'',
       ''signoz/CompositeQuery'', ''signoz/Formula'', ''signoz/PromQLQuery'',
       ''signoz/ClickHouseSQL'', ''signoz/TraceOperator''], Required] GString,
     Field ''spec'' False [Required] DashboardQuerySpecPluginSpec]"

definition DashboardQuerySpec :: gotype where
  "DashboardQuerySpec = GStruct [
     Field ''plugin'' False [Required] DashboardQuerySpecPlugin,
     Field ''name'' True [Optional] GString]"

definition DashboardQuery :: gotype where
  "DashboardQuery = GStruct [
     Field ''kind'' False [Enum [''scalar'', ''time_series'', ''raw'', ''raw_stream'', ''trace'',
       ''heatmap''], Required] GString,
     Field ''spec'' False [Required] DashboardQuerySpec]"

definition DashboardLink :: gotype where
  "DashboardLink = GStruct [
     Field ''name'' True [Optional] GString,
     Field ''renderVariables'' True [Optional] GBool,
     Field ''targetBlank'' True [Optional] GBool,
     Field ''tooltip'' True [Optional] GString,
     Field ''url'' True [Optional] GString]"

definition DashboardPanelSpec :: gotype where
  "DashboardPanelSpec = GStruct [
     Field ''display'' False [Required] DashboardDisplay,
     Field ''plugin'' False [Required] DashboardPlugin,
     Field ''queries'' False [Required] (GSlice DashboardQuery),
     Field ''links'' True [Optional] (GSlice DashboardLink)]"

definition DashboardPanel :: gotype where
  "DashboardPanel = GStruct [
     Field ''kind'' False [Enum [''Panel''], Required] GString,
     Field ''spec'' False [Required] DashboardPanelSpec]"

definition DashboardVariableSpecPluginSpec :: gotype where
  "DashboardVariableSpecPluginSpec = GStruct [
     Field ''customValue'' True [Optional] GString,
     Field ''name'' True [Optional] GString,
     Field ''queryValue'' True [Optional] GString,
     Field ''signal'' True [Enum [''traces'', ''logs'', ''metrics'', ''all''], Optional] GString]"

definition DashboardVariableSpecPlugin :: gotype where
  "DashboardVariableSpecPlugin = GStruct [
     Field ''kind'' False [Enum [''signoz/DynamicVariable'', ''signoz/QueryVariable'',
       ''signoz/CustomVariable''], Required] GString,
     Field ''spec'' False [Required] DashboardVariableSpecPluginSpec]"

definition DashboardVariableSpec :: gotype where
  "DashboardVariableSpec = GStruct [
     Field ''allowAllValue'' True [Optional] GBool,
     Field ''allowMultiple'' True [Optional] GBool,
     Field ''capturingRegexp'' True [Optional] GString,
     Field ''constant'' True [Optional] GBool,
     Field ''customAllValue'' True [Optional] GString,
     Field ''defaultValue'' True [Optional, PreserveUnknownFields] (GPtr GJSON),
     Field ''display'' True [Optional] (GPtr DashboardDisplay),
     Field ''name'' True [Optional] GString,
     Field ''plugin'' True [Optional] (GPtr DashboardVariableSpecPlugin),
     Field ''sort'' True [Enum [''none'', ''alphabetical-asc'', ''alphabetical-desc'',
       ''numerical-asc'', ''numerical-desc'', ''alphabetical-ci-asc'', ''alphabetical-ci-desc''],
       Optional] GString,
     Field ''value'' True [Optional] GString]"

definition DashboardVariable :: gotype where
  "DashboardVariable = GStruct [
     Field ''kind'' False [Enum [''ListVariable'', ''TextVariable''], Required] GString,
     Field ''spec'' False [Required] DashboardVariableSpec]"

definition DashboardSpecPayload :: gotype where
  "DashboardSpecPayload = GStruct [
     Field ''display'' False [Required] DashboardDisplay,
     Field ''layouts'' False [Required] (GSlice DashboardLayout),
     Field ''panels'' False [Required] (GMap DashboardPanel),
     Field ''variables'' False [Required] (GSlice DashboardVariable),
     Field ''duration'' True [Optional] GString,
     Field ''links'' True [Optional] (GSlice DashboardLink),
     Field ''refreshInterval'' True [Optional] GString]"

definition DashboardTag :: gotype where
  "DashboardTag = GStruct [
     Field ''key'' False [Required, MinLength 1] GString,
     Field ''value'' False [Required, MinLength 1] GString]"

definition DashboardObjectSpec :: gotype where
  "DashboardObjectSpec = GStruct [
     Field ''schemaVersion'' False [Required, MinLength 1] GString,
     Field ''spec'' False [Required] DashboardSpecPayload,
     Field ''tags'' False [Required] (GSlice DashboardTag),
     Field ''image'' True [Optional] GString,
     Field ''name'' True [Optional] GString]"

definition DashboardObjectTemplate :: gotype where
  "DashboardObjectTemplate = GStruct [
     Field ''spec'' True [Optional] (GPtr DashboardObjectSpec),
     Field ''jsonSpec'' True [Optional, MinLength 1] (GPtr GString)]"

end
