(* ===== verification/TypedSpecs.thy ===== *)
theory TypedSpecs
  imports Drift Specs ChannelSpec RuleTypes SavedViewTypes DashboardTypes
begin

text \<open>
  The typed specs in place: the spec and template type of each kind, the body \<open>json.Marshal\<close> makes
  of a typed spec, and what the rest of the operator relies on there: every field of a typed spec
  is one the kind compares, the identity is where the kind looks for it, and an edit shows in the
  body and its hash.
\<close>

subsection \<open>The types of a kind\<close>

fun spec_type :: "Kind \<Rightarrow> gotype" where
  "spec_type User = UserObjectSpec"
| "spec_type AuthDomain = AuthDomainObjectSpec"
| "spec_type Dashboard = DashboardObjectSpec"
| "spec_type SavedView = SavedViewObjectSpec"
| "spec_type PlannedMaintenance = PlannedMaintenanceObjectSpec"
| "spec_type Role = RoleObjectSpec"
| "spec_type RoutePolicy = RoutePolicyObjectSpec"
| "spec_type Rule = RuleObjectSpec"
| "spec_type ServiceAccount = ServiceAccountObjectSpec"
| "spec_type NotificationChannel = NotificationChannelObjectSpec"

fun template_type :: "Kind \<Rightarrow> gotype" where
  "template_type User = UserObjectTemplate"
| "template_type AuthDomain = AuthDomainObjectTemplate"
| "template_type Dashboard = DashboardObjectTemplate"
| "template_type SavedView = SavedViewObjectTemplate"
| "template_type PlannedMaintenance = PlannedMaintenanceObjectTemplate"
| "template_type Role = RoleObjectTemplate"
| "template_type RoutePolicy = RoutePolicyObjectTemplate"
| "template_type Rule = RuleObjectTemplate"
| "template_type ServiceAccount = ServiceAccountObjectTemplate"
| "template_type NotificationChannel = NotificationChannelObjectTemplate"

fun fields_of :: "gotype \<Rightarrow> gofield list" where
  "fields_of (GStruct fs) = fs"
| "fields_of _ = []"

text \<open>\<open>json.Marshal\<close> at a typed spec never fails: JSON has no NaN and no infinity, so no
  \<open>float64\<close> read from a manifest is one. \<open>kind_object\<close> is the kind with it in place.\<close>

definition marshal_spec :: "(rat \<Rightarrow> string) \<Rightarrow> Kind \<Rightarrow> goval \<Rightarrow> go_error + string" where
  "marshal_spec fmt kind v = Inr (marshal fmt (spec_type kind) v)"

definition kind_object :: "(rat \<Rightarrow> string) \<Rightarrow> libs \<Rightarrow> Kind \<Rightarrow> goval Object" where
  "kind_object fmt L kind = object_for kind L (marshal_spec fmt kind)"

definition typed :: "goval \<Rightarrow> goval ObjectTemplate" where
  "typed v = \<lparr>tmpl_Spec = Some v, tmpl_JSONSpec = None\<rparr>"

text \<open>A format for evaluation: integral floats as integers.\<close>

definition itoa_fmt :: "rat \<Rightarrow> string" where
  "itoa_fmt q = itoa \<lfloor>q\<rfloor>"

lemmas small_spec_defs = UserObjectSpec_def ServiceAccountObjectSpec_def RoleObjectSpec_def
  RoutePolicyObjectSpec_def PlannedMaintenanceObjectSpec_def AuthDomainObjectSpec_def

lemmas spec_defs = small_spec_defs NotificationChannelObjectSpec_def RuleObjectSpec_def
  SavedViewObjectSpec_def DashboardObjectSpec_def

lemma spec_type_struct: "spec_type kind = GStruct (fields_of (spec_type kind))"
  by (cases kind) (simp_all add: spec_defs)

lemma spec_type_wf: "wf_type (spec_type kind)"
  by (induction kind) code_simp+

lemma spec_fields:
  "set (map f_name (fields_of (spec_type kind)))
     = set (m_UpdatableFields (kind_object fmt L kind)) \<union> set (m_ImmutableFields (kind_object fmt L kind))"
  by (cases kind) (auto simp: spec_defs kind_object_def kind_defs object_of_def)

lemma body_typed: "m_Body (kind_object fmt L kind) (typed v) = Inr (marshal fmt (spec_type kind) v)"
proof -
  obtain coll idp upd imm where
    "object_for kind L (marshal_spec fmt kind) = object_of L (marshal_spec fmt kind) coll idp upd imm"
    using object_for_eq by blast
  then show ?thesis
    by (simp add: kind_object_def object_of_def object_Body_def Render_def typed_def marshal_spec_def)
qed

lemma spec_document:
  assumes "has_type (spec_type kind) v"
  obtains vs where "v = VStruct vs" "list_all2 has_field (fields_of (spec_type kind)) vs"
    "encode (spec_type kind) v = JObj (members (fields_of (spec_type kind)) vs)"
  using assms spec_type_struct [of kind] by (metis has_type_struct encode_struct)

subsection \<open>The JSON readers on compact texts\<close>

text \<open>Both readers the operator uses accept every compact text and return the value it stands for.\<close>

locale json_reader = gjson_lib L for L :: libs +
  assumes parse_valid: "renders v s \<Longrightarrow> gjson_ParseBytes L s = Some v"
    and unmarshal_valid: "renders v s \<Longrightarrow> json_Unmarshal L s = Inr v"
begin

lemma member_of_text:
  assumes "renders (JObj kvs) s" and "plain_key k"
  shows "gjson_GetBytes L s k = map_of kvs k"
  using bytes_parse [OF parse_valid [OF assms(1)]] get_plain [OF assms(2)] by simp

lemma hash_of_text:
  assumes "renders v s"
  shows "Hash L s = (case json_Marshal L v of Inl err \<Rightarrow> Inl err | Inr c \<Rightarrow> Inr (sha256_hex L c))"
  using unmarshal_valid [OF assms] by (simp add: Hash_def)

end

interpretation ref_reader: json_reader ref_libs
  by unfold_locales (simp_all add: parse_text_renders)

lemma spec_fields_plain:
  assumes "f \<in> set (fields_of (spec_type kind))"
  shows "plain_key (f_name f) \<and> simple_key (f_name f)"
  using assms by (cases kind) (auto simp: spec_defs plain_key_def simple_key_def)

subsection \<open>Bodies\<close>

text \<open>
  (C12) The body of a typed spec is one JSON object without repeated keys. Each of its keys is a field
  the kind compares as updatable or as immutable, so no part of a typed spec escapes the
  comparison, and each field without \<open>omitempty\<close> is there.
\<close>

theorem typed_body_conforms:
  assumes "has_type (spec_type kind) v" and "formats fmt v"
  shows "\<exists>body kvs. m_Body (kind_object fmt L kind) (typed v) = Inr body
    \<and> parse_text body = Some (JObj kvs) \<and> wf_json (JObj kvs)
    \<and> fst ` set kvs \<subseteq> set (m_UpdatableFields (kind_object fmt L kind)) \<union> set (m_ImmutableFields (kind_object fmt L kind))
    \<and> (\<forall>f \<in> set (fields_of (spec_type kind)). \<not> f_omitempty f \<longrightarrow> f_name f \<in> fst ` set kvs)"
proof -
  obtain vs where vs: "list_all2 has_field (fields_of (spec_type kind)) vs"
    and doc: "encode (spec_type kind) v = JObj (members (fields_of (spec_type kind)) vs)"
    using spec_document [OF assms(1)] by metis
  let ?kvs = "members (fields_of (spec_type kind)) vs"
  have "f_name f \<in> fst ` set ?kvs" if "f \<in> set (fields_of (spec_type kind))" "\<not> f_omitempty f" for f
    using members_present [OF vs that] .
  moreover have "wf_json (JObj ?kvs)" using encode_wf(1) [OF spec_type_wf assms(1)] by (simp add: doc)
  ultimately show ?thesis
    using body_typed [of fmt L kind v] parse_marshal [OF assms] members_keys [of "fields_of (spec_type kind)" vs]
      spec_fields [of kind fmt L] by (intro exI [of _ "marshal fmt (spec_type kind) v"] exI [of _ ?kvs]) (simp add: doc)
qed

theorem typed_body_conforms_witness:
  "\<exists>body kvs. m_Body (kind_object itoa_fmt ref_libs User) (typed (VStruct [VString ''a@b'', VString ''Ann''])) = Inr body
    \<and> parse_text body = Some (JObj kvs) \<and> wf_json (JObj kvs)
    \<and> fst ` set kvs \<subseteq> {''email'', ''displayName''} \<and> ''email'' \<in> fst ` set kvs"
proof -
  have "has_type (spec_type User) (VStruct [VString ''a@b'', VString ''Ann''])" by (simp add: UserObjectSpec_def)
  moreover have "formats itoa_fmt (VStruct [VString ''a@b'', VString ''Ann''])" by (simp add: formats_def)
  ultimately show ?thesis
    using typed_body_conforms [of User "VStruct [VString ''a@b'', VString ''Ann'']" itoa_fmt ref_libs]
    by (simp add: UserObjectSpec_def kind_object_def UserObject_def object_of_def)
qed

text \<open>
  (C13) Nothing of a typed spec is lost on the way: reading the body the operator sends back into the
  kind's struct gives the spec, up to what JSON does not tell apart (an empty list or map that is
  left out and a missing one, a pointer to null and a nil pointer).
\<close>

theorem typed_spec_is_recovered:
  assumes "has_type (spec_type kind) v" and "formats fmt v"
    and "m_Body (kind_object fmt L kind) (typed v) = Inr body"
  shows "\<exists>j. parse_text body = Some j \<and> recover (spec_type kind) j = normal (spec_type kind) v"
proof -
  have "body = marshal fmt (spec_type kind) v" using assms(3) by (simp add: body_typed)
  then show ?thesis
    using parse_marshal [OF assms(1,2)] recover_encode(1) [OF spec_type_wf assms(1)] by blast
qed

theorem typed_spec_is_recovered_witness:
  "\<exists>j. parse_text (marshal itoa_fmt RoleObjectSpec (VStruct [VString ''r'', VString [], VSlice []])) = Some j
    \<and> recover RoleObjectSpec j = VStruct [VString ''r'', VString [], VNil]"
proof -
  let ?v = "VStruct [VString ''r'', VString [], VSlice []]"
  have "has_type (spec_type Role) ?v" by (simp add: RoleObjectSpec_def)
  moreover have "formats itoa_fmt ?v" by (simp add: formats_def)
  moreover have "normal (spec_type Role) ?v = VStruct [VString ''r'', VString [], VNil]" by code_simp
  ultimately show ?thesis
    using typed_spec_is_recovered [of Role ?v itoa_fmt ref_libs "marshal itoa_fmt (spec_type Role) ?v"]
    by (simp add: body_typed)
qed

subsection \<open>Hashes\<close>

lemma hash_typed:
  assumes "json_reader L" and "has_type (spec_type kind) v" and "formats fmt v"
  shows "m_Hash (kind_object fmt L kind) (typed v) =
    (case json_Marshal L (encode (spec_type kind) v) of Inl err \<Rightarrow> Inl err | Inr c \<Rightarrow> Inr (sha256_hex L c))"
proof -
  obtain coll idp upd imm where
    "object_for kind L (marshal_spec fmt kind) = object_of L (marshal_spec fmt kind) coll idp upd imm"
    using object_for_eq by blast
  then show ?thesis
    using body_typed [of fmt L kind v] json_reader.hash_of_text [OF assms(1) marshal_renders(1) [OF assms(2,3)]]
    by (simp add: kind_object_def object_of_def object_Hash_def)
qed



subsection \<open>Identities\<close>

text \<open>The JSON path a kind derives its identity from, and the string a typed spec has there.\<close>

fun identity_path :: "Kind \<Rightarrow> string" where
  "identity_path User = ''email''"
| "identity_path Rule = ''alert''"
| "identity_path _ = ''name''"

fun spec_identity :: "Kind \<Rightarrow> goval \<Rightarrow> string" where
  "spec_identity kind (VStruct vs) =
     (case map_of (zip (map f_name (fields_of (spec_type kind))) vs) (identity_path kind) of
        Some (VString s) \<Rightarrow> s | _ \<Rightarrow> [])"
| "spec_identity kind _ = []"

lemma Identity_eq: "m_Identity (object_for kind L ms) = object_Identity L ms (identity_path kind)"
  by (cases kind) (simp_all add: kind_defs object_of_def)

lemma identity_field:
  "\<exists>om mk. Field (identity_path kind) om mk GString \<in> set (fields_of (spec_type kind))
     \<and> (kind \<notin> {Dashboard, SavedView, NotificationChannel} \<longrightarrow> \<not> om \<and> mk = [Required, MinLength 1])"
  by (cases kind) (auto simp: spec_defs)

lemma spec_identity_member:
  assumes "has_type (spec_type kind) (VStruct vs)" and "Field (identity_path kind) om mk GString \<in> set (fields_of (spec_type kind))"
  shows "map_of (members (fields_of (spec_type kind)) vs) (identity_path kind) =
    (if om \<and> spec_identity kind (VStruct vs) = [] then None else Some (JStr (spec_identity kind (VStruct vs))))"
proof -
  let ?fs = "fields_of (spec_type kind)"
  have vs: "list_all2 has_field ?fs vs" using assms(1) spec_type_struct [of kind] by (metis goval.inject(9) has_type_struct)
  have dist: "distinct (map f_name ?fs)"
    using spec_type_wf [of kind] spec_type_struct [of kind] by (metis wf_type.simps(9))
  obtain i where i: "i < length ?fs" "?fs ! i = Field (identity_path kind) om mk GString"
    using assms(2) by (auto simp: in_set_conv_nth)
  then have len: "i < length vs" and ty: "has_type GString (vs ! i)"
    using list_all2_lengthD [OF vs] list_all2_nthD [OF vs i(1)] by (auto simp: i(2))
  then obtain s where s: "vs ! i = VString s" by (cases "vs ! i") auto
  have "(?fs ! i, vs ! i) \<in> set (zip ?fs vs)" using i(1) len by (auto simp: set_zip)
  from map_of_members [OF dist this]
  have member: "map_of (members ?fs vs) (identity_path kind) = (if om \<and> s = [] then None else Some (JStr s))"
    by (simp add: i s)
  have "map_of (zip (map f_name ?fs) vs) (map f_name ?fs ! i) = Some (vs ! i)"
    using dist i(1) list_all2_lengthD [OF vs] by (intro map_of_zip_nth) auto
  then show ?thesis using member i by (simp add: s)
qed



end
