(* ===== verification/TypedDrift.thy ===== *)
theory TypedDrift
  imports TypedSpecs
begin

text \<open>
  Typed specs against what SigNoz holds: the comparison needs no assumption on the body any more,
  two edits the operator does not handle as its comments say, and the template around a spec.
\<close>

subsection \<open>Comparison\<close>

lemma members_simple:
  "list_all (\<lambda>kv. simple_key (fst kv)) (members (fields_of (spec_type kind)) vs)"
proof -
  have "simple_key k" if "k \<in> fst ` set (members (fields_of (spec_type kind)) vs)" for k
  proof -
    have "k \<in> f_name ` set (fields_of (spec_type kind))" using members_keys that by (rule subsetD)
    then show ?thesis using spec_fields_plain by (elim imageE) simp
  qed
  then show ?thesis by (simp add: list_all_iff)
qed

text \<open>What an answer may hold: an object without repeated keys, none of them empty or dotted.\<close>

definition plain_object :: "(string \<times> json) list \<Rightarrow> bool" where
  "plain_object ys \<longleftrightarrow> wf_json (JObj ys) \<and> list_all (\<lambda>kv. simple_key (fst kv)) ys"

lemma typed_Compare:
  assumes "json_reader L" and "cmp_laws L" and "has_type (spec_type kind) (VStruct vs)" and "formats fmt (VStruct vs)"
    and "gjson_GetBytes L response ''data'' = Some (JObj ys)" and "plain_object ys"
  shows "m_Compare (kind_object fmt L kind) (typed (VStruct vs)) response = Inr
    \<lparr>cr_UpdatableFields = filter (field_drift (members (fields_of (spec_type kind)) vs) ys) (m_UpdatableFields (kind_object fmt L kind)),
     cr_ImmutableFields = filter (field_drift (members (fields_of (spec_type kind)) vs) ys) (m_ImmutableFields (kind_object fmt L kind))\<rparr>"
proof -
  let ?xs = "members (fields_of (spec_type kind)) vs"
  have doc: "encode (spec_type kind) (VStruct vs) = JObj ?xs"
    using spec_type_struct [of kind] by (metis encode_struct)
  have r: "renders (JObj ?xs) (marshal fmt (spec_type kind) (VStruct vs))"
    using marshal_renders(1) [OF assms(3,4)] by (simp only: doc)
  have wf: "wf_json (JObj ?xs)" using encode_wf(1) [OF spec_type_wf assms(3)] by (simp only: doc)
  show ?thesis unfolding kind_object_def
  proof (rule Compare_drift [OF assms(2) _ json_reader.parse_valid [OF assms(1) r] assms(5)])
    show "m_Body (object_for kind L (marshal_spec fmt kind)) (typed (VStruct vs)) = Inr (marshal fmt (spec_type kind) (VStruct vs))"
      using body_typed [of fmt L kind] by (simp only: kind_object_def)
    show "comparable ?xs ys" using wf assms(6) members_simple by (simp add: comparable_def plain_object_def)
  qed
qed

subsection \<open>A cleared display name\<close>


definition user_answer :: string where
  "user_answer = print_json (JObj [(''data'', JObj [(''displayName'', JStr ''Ann''), (''email'', JStr ''a@b'')])])"


subsection \<open>A renamed dashboard\<close>

text \<open>
  The name of a dashboard is treated as updatable: a typed spec that names another dashboard than
  the one SigNoz holds is reported as drift to be sent with an update, never as a change of an
  immutable field.
\<close>

theorem dashboard_rename_is_sent:
  assumes "json_reader L" and "cmp_laws L" and "has_type DashboardObjectSpec v" and "formats fmt v"
    and "gjson_GetBytes L response ''data'' = Some (JObj ys)" and "plain_object ys"
    and "map_of ys ''name'' = Some (JStr n)" and "spec_identity Dashboard v \<noteq> n" and "spec_identity Dashboard v \<noteq> []"
  shows "\<exists>cr. m_Compare (kind_object fmt L Dashboard) (typed v) response = Inr cr
    \<and> ''name'' \<in> set (cr_UpdatableFields cr) \<and> cr_ImmutableFields cr = []"
proof -
  have t: "has_type (spec_type Dashboard) v" using assms(3) by simp
  obtain vs where v: "v = VStruct vs" using spec_document [OF t] by metis
  obtain om mk where f: "Field (identity_path Dashboard) om mk GString \<in> set (fields_of (spec_type Dashboard))"
    using identity_field by blast
  have "map_of (members (fields_of (spec_type Dashboard)) vs) ''name'' = Some (JStr (spec_identity Dashboard v))"
    using spec_identity_member [OF t [unfolded v] f] assms(9) by (simp add: v del: spec_identity.simps)
  then have "field_drift (members (fields_of (spec_type Dashboard)) vs) ys ''name''"
    using assms(7,8) by (simp add: field_drift_def del: spec_identity.simps)
  moreover have "''name'' \<in> set (m_UpdatableFields (kind_object fmt L Dashboard))" "m_ImmutableFields (kind_object fmt L Dashboard) = []"
    by (simp_all add: kind_object_def DashboardObject_def object_of_def)
  ultimately show ?thesis
    using typed_Compare [OF assms(1,2) t [unfolded v] assms(4) [unfolded v] assms(5,6)] by (simp add: v)
qed

definition small_dashboard :: "string \<Rightarrow> goval" where
  "small_dashboard name = VStruct [VString ''v6'', zero_value DashboardSpecPayload, VSlice [], VString [], VString name]"

lemma small_dashboard_type: "has_type DashboardObjectSpec (small_dashboard name)" "formats itoa_fmt (small_dashboard name)"
  by (simp_all add: small_dashboard_def DashboardObjectSpec_def DashboardSpecPayload_def DashboardDisplay_def formats_def)

definition dashboard_answer :: string where
  "dashboard_answer = print_json (JObj [(''data'', JObj [(''name'', JStr ''old'')])])"

theorem dashboard_rename_is_sent_witness:
  "\<exists>cr. m_Compare (kind_object itoa_fmt ref_libs Dashboard) (typed (small_dashboard ''new'')) dashboard_answer = Inr cr
    \<and> ''name'' \<in> set (cr_UpdatableFields cr) \<and> cr_ImmutableFields cr = []"
proof -
  have "Option.bind (parse_text dashboard_answer) (\<lambda>v. ref_get v ''data'') = Some (JObj [(''name'', JStr ''old'')])"
    by code_simp
  then have d: "gjson_GetBytes ref_libs dashboard_answer ''data'' = Some (JObj [(''name'', JStr ''old'')])"
    by (simp only: ref_libs_sel)
  have "spec_identity Dashboard (small_dashboard ''new'') = ''new''" by code_simp
  with d show ?thesis
    by (intro dashboard_rename_is_sent [OF ref_reader.json_reader_axioms cmp_laws_ref small_dashboard_type d, of "''old''"])
       (simp_all add: plain_object_def simple_key_def)
qed

subsection \<open>Templates\<close>

text \<open>The template of a resource as the generated struct has it: the two alternatives as pointers.\<close>

fun template_of :: "goval \<Rightarrow> goval ObjectTemplate" where
  "template_of (VStruct [sp, js]) =
     \<lparr>tmpl_Spec = (case sp of VPtr v \<Rightarrow> Some v | _ \<Rightarrow> None),
      tmpl_JSONSpec = (case js of VPtr (VString s) \<Rightarrow> Some s | _ \<Rightarrow> None)\<rparr>"
| "template_of _ = \<lparr>tmpl_Spec = None, tmpl_JSONSpec = None\<rparr>"

lemma template_type_fields:
  "template_type kind = GStruct [Field ''spec'' True [Optional] (GPtr (spec_type kind)),
     Field ''jsonSpec'' True [Optional, MinLength 1] (GPtr GString)]"
  by (cases kind) (simp_all add: UserObjectTemplate_def AuthDomainObjectTemplate_def DashboardObjectTemplate_def
      SavedViewObjectTemplate_def PlannedMaintenanceObjectTemplate_def RoleObjectTemplate_def RoutePolicyObjectTemplate_def
      RuleObjectTemplate_def ServiceAccountObjectTemplate_def NotificationChannelObjectTemplate_def)

lemma has_type_ptr: "has_type (GPtr ty) v \<longleftrightarrow> v = VNil \<or> (\<exists>w. v = VPtr w \<and> has_type ty w)"
  by (cases v) auto

lemma has_type_string: "has_type GString v \<longleftrightarrow> (\<exists>s. v = VString s)"
  by (cases v) auto



end
