(* ===== verification/PageBound.thy ===== *)
theory PageBound
  imports Transport
begin

text \<open>How many requests a lookup by pages sends: it ends whatever the backend answers.\<close>

text \<open>The backend never answers with a total above \<open>N\<close>.\<close>

definition totals_below :: "('t resource, 'w) ports \<Rightarrow> libs \<Rightarrow> signoz_client \<Rightarrow> ctx \<Rightarrow> string \<Rightarrow> int \<Rightarrow> bool" where
  "totals_below P L c ctx listKey N \<longleftrightarrow>
     (\<forall>s path status body t entries count.
        run_state (Exchange P L c ctx ''GET'' path None) s = (Inr (status, body), t) \<longrightarrow>
        read_page L listKey body = Inr (entries, count) \<longrightarrow> sint count \<le> N)"

definition pages_left :: "int \<Rightarrow> int \<Rightarrow> nat" where
  "pages_left N offset = nat ((N - offset + 99) div 100) + 1"

lemma pages_left_step:
  assumes "offset + int k < N" and "0 < k"
  shows "Suc (pages_left N (offset + findPageLimit)) \<le> pages_left N offset"
proof -
  define x where "x = N - offset + 99"
  have "100 \<le> x" using assms by (simp add: x_def)
  then have "x div 100 = (x - 100) div 100 + 1" by (intro div_pos_geq) auto
  moreover have "0 \<le> (x - 100) div 100" using \<open>100 \<le> x\<close> by simp
  moreover have "N - (offset + findPageLimit) + 99 = x - 100" by (simp add: x_def findPageLimit_def)
  ultimately show ?thesis by (simp add: pages_left_def x_def [symmetric])
qed

lemma totals_bounded: "totals_below P L c ctx listKey (2 ^ 63 - 1)"
proof -
  have "sint (w :: 64 word) \<le> 2 ^ 63 - 1" for w using sint_below [of w] by simp
  then show ?thesis by (simp add: totals_below_def)
qed

lemma Exchange_page:
  assumes "totals_below P L c ctx listKey N"
  shows "wp (Exchange P L c ctx ''GET'' path None) (\<lambda>r t. length (events t) \<le> Suc (length (events s))
    \<and> (\<forall>status body entries count. r = Inr (status, body) \<longrightarrow> read_page L listKey body = Inr (entries, count) \<longrightarrow> sint count \<le> N)) s"
proof (rule wp_conj)
  show "wp (Exchange P L c ctx ''GET'' path None) (\<lambda>r t. length (events t) \<le> Suc (length (events s))) s"
    by (rule wp_mono [OF trace_satD [OF Exchange_calls]]) (auto simp: at_most_one_def)
  show "wp (Exchange P L c ctx ''GET'' path None) (\<lambda>r t. \<forall>status body entries count.
      r = Inr (status, body) \<longrightarrow> read_page L listKey body = Inr (entries, count) \<longrightarrow> sint count \<le> N) s"
    using assms unfolding totals_below_def wp_def by (cases "run_state (Exchange P L c ctx ''GET'' path None) s") (simp, blast)
qed

lemma walk_pages_bounded:
  fixes s :: "('t resource, 'w) sys"
  assumes "totals_below P L c ctx listKey N"
  shows "wp (walk_pages P L c ctx path listKey identity matches offset)
    (\<lambda>_ t. length (events t) \<le> length (events s) + pages_left N offset) s"
proof (induction matches offset arbitrary: s rule: walk_pages_induct)
  case (1 matches offset s)
  have one: "1 \<le> pages_left N offset" by (simp add: pages_left_def)
  show ?case
    unfolding walk_pages.simps [of P L c ctx path listKey identity matches offset] wp_bind
  proof (rule wp_mono [OF Exchange_page [OF assms]], goal_cases)
    case (1 r t)
    have rec: "wp (walk_pages P L c ctx path listKey identity (matches @ found) (offset + findPageLimit))
        (\<lambda>_ u. length (events u) \<le> length (events s) + pages_left N offset) t"
      if "offset + int (length entries) < sint count" "entries \<noteq> []" "sint count \<le> N" for found entries and count :: "64 word"
    proof (rule wp_mono)
      show "wp (walk_pages P L c ctx path listKey identity (matches @ found) (offset + findPageLimit))
          (\<lambda>_ u. length (events u) \<le> length (events t) + pages_left N (offset + findPageLimit)) t"
        by (rule "1.IH") (use that sint_below [of count] in linarith)
      have "Suc (pages_left N (offset + findPageLimit)) \<le> pages_left N offset"
        using that by (intro pages_left_step [of _ "length entries"]) auto
      then show "length (events u) \<le> length (events t) + pages_left N (offset + findPageLimit) \<Longrightarrow>
          length (events u) \<le> length (events s) + pages_left N offset" for u :: "('t resource, 'w) sys"
        using 1 by linarith
    qed
    show ?case
      using 1 one by (auto simp: wp_simps not_le intro!: rec split: sum.split option.split)
  qed
qed

lemma run_bound: "wp m (\<lambda>_ t. length (events t) \<le> n) s \<Longrightarrow> length (events (snd (run_state m s))) \<le> n"
  by (simp add: wp_fst_snd)


lemma sint_2_64: "sint (2 :: 64 word) = 2"
  by simp

lemma one_page_totals: "totals_below one_page_ports ref_libs sample_client Background ''dashboards'' 2"
proof -
  have "count = 2"
    if run: "run_state (Exchange one_page_ports ref_libs sample_client Background ''GET'' path None) s = (Inr (status, body), t)"
      and page: "read_page ref_libs ''dashboards'' body = Inr (entries, count)" for s path status body t entries and count :: "64 word"
  proof -
    have "wp (Exchange one_page_ports ref_libs sample_client Background ''GET'' path None)
        (\<lambda>r _. \<forall>st b. r = Inr (st, b) \<longrightarrow> b = print_json page_json) s"
      unfolding wp_Exchange by (simp add: one_page_ports_def one_page_served split: sum.split)
    then have "body = print_json page_json" using run by (simp add: wp_def)
    then show ?thesis using page one_page_served(2) by simp
  qed
  then show ?thesis unfolding totals_below_def by (metis order_refl sint_2_64)
qed


end
