(* ===== verification/DeepCopy.thy ===== *)
theory DeepCopy
  imports GoTypes
begin

text \<open>
  Memory, and the operations the generated deep copies are written with
  (\<open>api/resources/v1alpha1/zz_generated.deepcopy.go\<close>). A struct is held in place; a pointer, a slice
  and a map are references to cells of a heap. A copier takes a value and the heap to a copy and the
  new heap; each \<open>DeepCopyInto\<close> is one, composed of the copiers of the fields it does not leave to
  the assignment \<open>*out = *in\<close>.

  The model of the other theories treats resources as values. What it relies on is shown here: a
  deep copy reads the same as its original, and no later write through the original can be seen in
  it.
\<close>

subsection \<open>Memory\<close>

datatype atom = AString string | ABool bool | AInt "64 word" | AFloat rat

datatype rval = RAtom atom | RNil | RRef nat | RStruct "(string \<times> rval) list"

datatype cell = CBox rval | CArr "rval list" | CMap "(string \<times> rval) list"

record heap =
  cells :: "nat \<rightharpoonup> cell"
  fresh :: nat

definition wf_heap :: "heap \<Rightarrow> bool" where
  "wf_heap h \<longleftrightarrow> dom (cells h) \<subseteq> {..<fresh h}"

type_synonym copier = "rval \<Rightarrow> heap \<Rightarrow> rval \<times> heap"

definition alloc :: "cell \<Rightarrow> heap \<Rightarrow> rval \<times> heap" where
  "alloc c h = (RRef (fresh h), h\<lparr>cells := (cells h)(fresh h \<mapsto> c), fresh := Suc (fresh h)\<rparr>)"

subsection \<open>The statements of a deep copy\<close>

text \<open>\<open>out.F = in.F\<close> and, for a whole struct, \<open>*out = *in\<close>.\<close>

definition assign :: copier where
  "assign v h = (v, h)"

fun copy_all :: "copier \<Rightarrow> rval list \<Rightarrow> heap \<Rightarrow> rval list \<times> heap" where
  "copy_all f [] h = ([], h)"
| "copy_all f (v # vs) h = (let (v', h1) = f v h; (vs', h2) = copy_all f vs h1 in (v' # vs', h2))"

fun copy_entries :: "(string \<Rightarrow> copier) \<Rightarrow> (string \<times> rval) list \<Rightarrow> heap \<Rightarrow> (string \<times> rval) list \<times> heap" where
  "copy_entries f [] h = ([], h)"
| "copy_entries f ((k, v) # kvs) h = (let (v', h1) = f k v h; (kvs', h2) = copy_entries f kvs h1 in ((k, v') # kvs', h2))"

text \<open>\<open>if in.F != nil { *out = new(T); ... }\<close>, with \<open>**out = **in\<close> or \<open>(*in).DeepCopyInto(*out)\<close> inside.\<close>

definition new_ptr :: "copier \<Rightarrow> copier" where
  "new_ptr f v h =
     (case v of
        RRef a \<Rightarrow> (case cells h a of Some (CBox w) \<Rightarrow> (let (w', h') = f w h in alloc (CBox w') h') | _ \<Rightarrow> (v, h))
      | _ \<Rightarrow> (v, h))"

text \<open>\<open>make([]T, len(*in))\<close> with \<open>copy(*out, *in)\<close> or a \<open>DeepCopyInto\<close> per element.\<close>

definition make_slice :: "copier \<Rightarrow> copier" where
  "make_slice f v h =
     (case v of
        RRef a \<Rightarrow> (case cells h a of Some (CArr vs) \<Rightarrow> (let (vs', h') = copy_all f vs h in alloc (CArr vs') h') | _ \<Rightarrow> (v, h))
      | _ \<Rightarrow> (v, h))"

text \<open>\<open>make(map[string]T, len(*in))\<close> and a loop over the entries.\<close>

definition make_map :: "copier \<Rightarrow> copier" where
  "make_map f v h =
     (case v of
        RRef a \<Rightarrow> (case cells h a of Some (CMap kvs) \<Rightarrow> (let (kvs', h') = copy_entries (\<lambda>_. f) kvs h in alloc (CMap kvs') h') | _ \<Rightarrow> (v, h))
      | _ \<Rightarrow> (v, h))"

text \<open>A \<open>DeepCopyInto\<close>: \<open>*out = *in\<close>, then the statements for single fields.\<close>

definition field_copier :: "(string \<times> copier) list \<Rightarrow> string \<Rightarrow> copier" where
  "field_copier plan n = (case map_of plan n of Some f \<Rightarrow> f | None \<Rightarrow> assign)"

definition DeepCopyInto :: "(string \<times> copier) list \<Rightarrow> copier" where
  "DeepCopyInto plan v h =
     (case v of RStruct kvs \<Rightarrow> (let (kvs', h') = copy_entries (field_copier plan) kvs h in (RStruct kvs', h')) | _ \<Rightarrow> (v, h))"

text \<open>\<open>DeepCopy\<close> of a pointer: nil for nil, else a new struct copied into.\<close>

definition DeepCopy_of :: "copier \<Rightarrow> copier" where
  "DeepCopy_of into v h = (if v = RNil then (RNil, h) else new_ptr into v h)"

text \<open>\<open>DeepCopyObject\<close> hands on what \<open>DeepCopy\<close> returns, nil for nil.\<close>

definition DeepCopyObject_of :: "copier \<Rightarrow> copier" where
  "DeepCopyObject_of copy v h = (case copy v h of (c, h') \<Rightarrow> if c \<noteq> RNil then (c, h') else (RNil, h'))"

subsection \<open>Shapes and contents\<close>

datatype shape = Flat | Ptr shape | Slice shape | Map shape | Struct "(string \<times> shape) list"

datatype content =
    TAtom atom | TNil | TBox content | TArr "content list" | TMap "(string \<times> content) list"
  | TStruct "(string \<times> content) list"

text \<open>The content read off a value, following references only to cells in \<open>R\<close>.\<close>

inductive reads_as :: "nat set \<Rightarrow> (nat \<rightharpoonup> cell) \<Rightarrow> rval \<Rightarrow> content \<Rightarrow> bool"
  and reads_all :: "nat set \<Rightarrow> (nat \<rightharpoonup> cell) \<Rightarrow> rval list \<Rightarrow> content list \<Rightarrow> bool"
  and reads_entries :: "nat set \<Rightarrow> (nat \<rightharpoonup> cell) \<Rightarrow> (string \<times> rval) list \<Rightarrow> (string \<times> content) list \<Rightarrow> bool"
  for R and m where
  read_atom: "reads_as R m (RAtom a) (TAtom a)"
| read_nil: "reads_as R m RNil TNil"
| read_box: "a \<in> R \<Longrightarrow> m a = Some (CBox v) \<Longrightarrow> reads_as R m v t \<Longrightarrow> reads_as R m (RRef a) (TBox t)"
| read_arr: "a \<in> R \<Longrightarrow> m a = Some (CArr vs) \<Longrightarrow> reads_all R m vs ts \<Longrightarrow> reads_as R m (RRef a) (TArr ts)"
| read_map: "a \<in> R \<Longrightarrow> m a = Some (CMap kvs) \<Longrightarrow> reads_entries R m kvs ts \<Longrightarrow> reads_as R m (RRef a) (TMap ts)"
| read_struct: "reads_entries R m kvs ts \<Longrightarrow> reads_as R m (RStruct kvs) (TStruct ts)"
| all_Nil: "reads_all R m [] []"
| all_Cons: "reads_as R m v t \<Longrightarrow> reads_all R m vs ts \<Longrightarrow> reads_all R m (v # vs) (t # ts)"
| entries_Nil: "reads_entries R m [] []"
| entries_Cons: "reads_as R m v t \<Longrightarrow> reads_entries R m kvs ts \<Longrightarrow> reads_entries R m ((k, v) # kvs) ((k, t) # ts)"

inductive_cases read_atomE: "reads_as R m v (TAtom a)"
inductive_cases read_nilE: "reads_as R m v TNil"
inductive_cases read_boxE: "reads_as R m v (TBox t)"
inductive_cases read_arrE: "reads_as R m v (TArr ts)"
inductive_cases read_mapE: "reads_as R m v (TMap ts)"
inductive_cases read_structE: "reads_as R m v (TStruct ts)"
inductive_cases all_NilE: "reads_all R m vs []"
inductive_cases all_ConsE: "reads_all R m vs (t # ts)"
inductive_cases entries_NilE: "reads_entries R m kvs []"
inductive_cases entries_ConsE: "reads_entries R m kvs (e # ts)"

text \<open>The contents a type can have. A flat value holds no reference.\<close>

fun flat_content :: "content \<Rightarrow> bool" where
  "flat_content (TAtom a) = True"
| "flat_content (TStruct ts) = list_all (\<lambda>e. flat_content (snd e)) ts"
| "flat_content _ = False"

fun fits :: "shape \<Rightarrow> content \<Rightarrow> bool" and fits_fields :: "(string \<times> shape) list \<Rightarrow> (string \<times> content) list \<Rightarrow> bool" where
  "fits Flat t = flat_content t"
| "fits (Ptr s) t = (case t of TNil \<Rightarrow> True | TBox u \<Rightarrow> fits s u | _ \<Rightarrow> False)"
| "fits (Slice s) t = (case t of TNil \<Rightarrow> True | TArr ts \<Rightarrow> list_all (fits s) ts | _ \<Rightarrow> False)"
| "fits (Map s) t = (case t of TNil \<Rightarrow> True | TMap ts \<Rightarrow> list_all (\<lambda>e. fits s (snd e)) ts | _ \<Rightarrow> False)"
| "fits (Struct fs) t = (case t of TStruct ts \<Rightarrow> fits_fields fs ts | _ \<Rightarrow> False)"
| "fits_fields [] ts = (ts = [])"
| "fits_fields ((n, s) # fs) ts = (case ts of (k, t) # ts' \<Rightarrow> k = n \<and> fits s t \<and> fits_fields fs ts' | [] \<Rightarrow> False)"

fun flat_shape :: "shape \<Rightarrow> bool" where
  "flat_shape Flat = True"
| "flat_shape (Struct fs) = list_all (\<lambda>f. flat_shape (snd f)) fs"
| "flat_shape _ = False"

subsection \<open>Reading a larger heap\<close>

lemma reads_mono:
  assumes "R \<subseteq> R'" and "\<And>a. a \<in> R \<Longrightarrow> m a \<noteq> None \<Longrightarrow> m' a = m a"
  shows "reads_as R m v t \<Longrightarrow> reads_as R' m' v t"
    and "reads_all R m vs ts \<Longrightarrow> reads_all R' m' vs ts"
    and "reads_entries R m kvs es \<Longrightarrow> reads_entries R' m' kvs es"
  using assms
  by (induction rule: reads_as_reads_all_reads_entries.inducts)
     (auto intro!: reads_as_reads_all_reads_entries.intros)

lemma flat_reads:
  "reads_as R m v t \<Longrightarrow> flat_content t \<Longrightarrow> reads_as {} m' v t"
  "reads_all R m vs ts \<Longrightarrow> list_all flat_content ts \<Longrightarrow> reads_all {} m' vs ts"
  "reads_entries R m kvs es \<Longrightarrow> list_all (\<lambda>e. flat_content (snd e)) es \<Longrightarrow> reads_entries {} m' kvs es"
  by (induction rule: reads_as_reads_all_reads_entries.inducts)
     (auto intro!: reads_as_reads_all_reads_entries.intros)

definition extends :: "heap \<Rightarrow> heap \<Rightarrow> bool" where
  "extends h h' \<longleftrightarrow> wf_heap h' \<and> fresh h \<le> fresh h' \<and> (\<forall>a. a < fresh h \<longrightarrow> cells h' a = cells h a)"

lemma extends_refl: "wf_heap h \<Longrightarrow> extends h h"
  by (simp add: extends_def)

lemma extends_trans: "extends h h1 \<Longrightarrow> extends h1 h2 \<Longrightarrow> extends h h2"
  by (auto simp: extends_def)

lemma wf_heap_below: "wf_heap h \<Longrightarrow> cells h a \<noteq> None \<Longrightarrow> a < fresh h"
  by (auto simp: wf_heap_def)

lemma reads_extends:
  assumes "extends h h'" and "wf_heap h" and "R \<subseteq> R'"
  shows "reads_as R (cells h) v t \<Longrightarrow> reads_as R' (cells h') v t"
    and "reads_all R (cells h) vs ts \<Longrightarrow> reads_all R' (cells h') vs ts"
    and "reads_entries R (cells h) kvs es \<Longrightarrow> reads_entries R' (cells h') kvs es"
proof -
  have same: "a \<in> R \<Longrightarrow> cells h a \<noteq> None \<Longrightarrow> cells h' a = cells h a" for a
    using assms(1) wf_heap_below [OF assms(2)] unfolding extends_def by blast
  show "reads_as R (cells h) v t \<Longrightarrow> reads_as R' (cells h') v t" by (rule reads_mono(1) [OF assms(3) same])
  show "reads_all R (cells h) vs ts \<Longrightarrow> reads_all R' (cells h') vs ts" by (rule reads_mono(2) [OF assms(3) same])
  show "reads_entries R (cells h) kvs es \<Longrightarrow> reads_entries R' (cells h') kvs es" by (rule reads_mono(3) [OF assms(3) same])
qed

lemma extends_alloc: "wf_heap h \<Longrightarrow> extends h (snd (alloc c h))"
  by (auto simp: extends_def alloc_def wf_heap_def)

subsection \<open>Deep copiers\<close>

text \<open>The new memory between two heaps, and what it is for a copier to make deep copies of a shape:
  old cells stay, and the copy reads the same through new cells only.\<close>

definition new_cells :: "heap \<Rightarrow> heap \<Rightarrow> nat set" where
  "new_cells h h' = {fresh h..<fresh h'}"

definition deep_copier :: "shape \<Rightarrow> copier \<Rightarrow> bool" where
  "deep_copier s f \<longleftrightarrow> (\<forall>h v t R v' h'. wf_heap h \<longrightarrow> fits s t \<longrightarrow> reads_as R (cells h) v t \<longrightarrow> f v h = (v', h') \<longrightarrow>
     extends h h' \<and> reads_as (new_cells h h') (cells h') v' t)"

named_theorems copier_rules \<open>how the copiers of a type are put together\<close>

lemma deep_copierD:
  assumes "deep_copier s f" and "wf_heap h" and "fits s t" and "reads_as R (cells h) v t" and "f v h = (v', h')"
  shows "extends h h' \<and> reads_as (new_cells h h') (cells h') v' t"
  using assms unfolding deep_copier_def by blast

lemma flat_shape_content: "flat_shape s \<Longrightarrow> fits s t \<Longrightarrow> flat_content t"
  "list_all (\<lambda>f. flat_shape (snd f)) fs \<Longrightarrow> fits_fields fs ts \<Longrightarrow> list_all (\<lambda>e. flat_content (snd e)) ts"
  by (induction s t and fs ts rule: fits_fits_fields.induct) (auto split: content.splits list.splits)

lemma copier_assign [copier_rules]:
  assumes "flat_shape s"
  shows "deep_copier s assign"
  unfolding deep_copier_def assign_def
proof (intro allI impI)
  fix h :: heap and v t R v' h'
  assume "wf_heap h" "fits s t" "reads_as R (cells h) v t" "(v, h) = (v', h')"
  then show "extends h h' \<and> reads_as (new_cells h h') (cells h') v' t"
    using flat_reads(1) flat_shape_content(1) [OF assms] reads_mono(1) [of "{}"]
    by (metis empty_iff empty_subsetI extends_refl prod.inject)
qed

text \<open>The new cells of two steps.\<close>

lemma new_cells_split:
  assumes "extends h h1" and "extends h1 h2"
  shows "new_cells h h1 \<subseteq> new_cells h h2" and "new_cells h1 h2 \<subseteq> new_cells h h2"
  using assms by (auto simp: new_cells_def extends_def)

lemma extends_wf: "extends h h' \<Longrightarrow> wf_heap h'"
  by (simp add: extends_def)

lemma copy_all_deep:
  assumes "deep_copier s f" and "wf_heap h" and "list_all (fits s) ts" and "reads_all R (cells h) vs ts"
    and "copy_all f vs h = (vs', h')"
  shows "extends h h' \<and> reads_all (new_cells h h') (cells h') vs' ts"
  using assms(2-)
proof (induction ts arbitrary: vs h vs' h')
  case Nil
  have "vs = []" using Nil.prems(3) by (rule all_NilE)
  then show ?case using Nil.prems by (auto intro: extends_refl all_Nil)
next
  case (Cons t ts)
  from Cons.prems(3) obtain v ws where vs: "vs = v # ws" and v: "reads_as R (cells h) v t" and ws: "reads_all R (cells h) ws ts"
    by (auto elim: all_ConsE)
  obtain v1 h1 where one: "f v h = (v1, h1)" by (cases "f v h")
  obtain ws1 where rest: "copy_all f ws h1 = (ws1, h')" and vs': "vs' = v1 # ws1"
    using Cons.prems(4) by (auto simp: vs one split: prod.splits)
  have e1: "extends h h1 \<and> reads_as (new_cells h h1) (cells h1) v1 t"
    using deep_copierD [OF assms(1) Cons.prems(1) _ v one] Cons.prems(2) by simp
  then have wf1: "wf_heap h1" by (auto dest: extends_wf)
  have e2: "extends h1 h' \<and> reads_all (new_cells h1 h') (cells h') ws1 ts"
    using Cons.IH [OF wf1 _ _ rest] Cons.prems(2) reads_extends(2) [OF _ Cons.prems(1) order_refl ws] e1 by simp
  note split = new_cells_split [of h h1 h']
  have "reads_as (new_cells h h') (cells h') v1 t"
    by (rule reads_extends(1) [of h1 h' "new_cells h h1"]) (use e1 e2 wf1 split in auto)
  moreover have "reads_all (new_cells h h') (cells h') ws1 ts"
    by (rule reads_mono(2) [of "new_cells h1 h'" _ "cells h'"]) (use e1 e2 split in auto)
  ultimately show ?case using e1 e2 by (auto simp: vs' intro: all_Cons extends_trans)
qed

lemma copy_entries_deep:
  assumes "wf_heap h" and "list_all (\<lambda>e. \<exists>s. fits s (snd e) \<and> deep_copier s (g (fst e))) ts"
    and "reads_entries R (cells h) kvs ts" and "copy_entries g kvs h = (kvs', h')"
  shows "extends h h' \<and> reads_entries (new_cells h h') (cells h') kvs' ts"
  using assms
proof (induction ts arbitrary: kvs h kvs' h')
  case Nil
  have "kvs = []" using Nil.prems(3) by (rule entries_NilE)
  then show ?case using Nil.prems by (auto intro: extends_refl entries_Nil)
next
  case (Cons e ts)
  from Cons.prems(3) obtain k v t ws where kvs: "kvs = (k, v) # ws" and et: "e = (k, t)"
    and v: "reads_as R (cells h) v t" and ws: "reads_entries R (cells h) ws ts"
    by (auto elim: entries_ConsE)
  obtain s where s: "fits s t" "deep_copier s (g k)" using Cons.prems(2) by (auto simp: et)
  obtain v1 h1 where one: "g k v h = (v1, h1)" by (cases "g k v h")
  obtain ws1 where rest: "copy_entries g ws h1 = (ws1, h')" and kvs': "kvs' = (k, v1) # ws1"
    using Cons.prems(4) by (auto simp: kvs one split: prod.splits)
  have e1: "extends h h1 \<and> reads_as (new_cells h h1) (cells h1) v1 t"
    by (rule deep_copierD [OF s(2) Cons.prems(1) s(1) v one])
  then have wf1: "wf_heap h1" by (auto dest: extends_wf)
  have e2: "extends h1 h' \<and> reads_entries (new_cells h1 h') (cells h') ws1 ts"
    using Cons.IH [OF wf1 _ _ rest] Cons.prems(2) reads_extends(3) [OF _ Cons.prems(1) order_refl ws] e1 by simp
  note split = new_cells_split [of h h1 h']
  have "reads_as (new_cells h h') (cells h') v1 t"
    by (rule reads_extends(1) [of h1 h' "new_cells h h1"]) (use e1 e2 wf1 split in auto)
  moreover have "reads_entries (new_cells h h') (cells h') ws1 ts"
    by (rule reads_mono(3) [of "new_cells h1 h'" _ "cells h'"]) (use e1 e2 split in auto)
  ultimately show ?case using e1 e2 by (auto simp: kvs' et intro: entries_Cons extends_trans)
qed

text \<open>A cell allocated after a copy: the copy is still read, through the new cells.\<close>

lemma alloc_after:
  assumes "extends h h1" and "alloc c h1 = (v', h')"
  shows "extends h h'" and "v' = RRef (fresh h1)" and "fresh h1 \<in> new_cells h h'" and "cells h' (fresh h1) = Some c"
    and "extends h1 h'" and "new_cells h h1 \<subseteq> new_cells h h'"
proof -
  have h': "h' = snd (alloc c h1)" using assms(2) by simp
  show e: "extends h1 h'" unfolding h' by (rule extends_alloc) (rule extends_wf [OF assms(1)])
  show "extends h h'" by (rule extends_trans [OF assms(1) e])
  show "v' = RRef (fresh h1)" "fresh h1 \<in> new_cells h h'" "cells h' (fresh h1) = Some c" "new_cells h h1 \<subseteq> new_cells h h'"
    using assms by (auto simp: alloc_def new_cells_def extends_def)
qed

lemma copier_ptr [copier_rules]:
  assumes "deep_copier s f"
  shows "deep_copier (Ptr s) (new_ptr f)"
  unfolding deep_copier_def
proof (intro allI impI)
  fix h :: heap and v t R v' h'
  assume wf: "wf_heap h" and t: "fits (Ptr s) t" and v: "reads_as R (cells h) v t" and run: "new_ptr f v h = (v', h')"
  from t consider "t = TNil" | u where "t = TBox u" "fits s u" by (auto split: content.splits)
  then show "extends h h' \<and> reads_as (new_cells h h') (cells h') v' t"
  proof cases
    case 1
    then have "v = RNil" using v by (auto elim: read_nilE)
    then show ?thesis using run wf 1 by (auto simp: new_ptr_def intro: extends_refl read_nil)
  next
    case (2 u)
    obtain a w where v': "v = RRef a" and a: "cells h a = Some (CBox w)" and w: "reads_as R (cells h) w u"
      using v 2(1) by (auto elim: read_boxE)
    obtain w1 h1 where one: "f w h = (w1, h1)" by (cases "f w h")
    have e1: "extends h h1 \<and> reads_as (new_cells h h1) (cells h1) w1 u"
      by (rule deep_copierD [OF assms wf 2(2) w one])
    have al: "alloc (CBox w1) h1 = (v', h')" using run by (simp add: v' a one new_ptr_def)
    note after = alloc_after [OF conjunct1 [OF e1] al]
    have "reads_as (new_cells h h') (cells h') w1 u"
      by (rule reads_extends(1) [OF after(5) extends_wf after(6)]) (use e1 in auto)
    then show ?thesis using after 2(1) by (auto intro: read_box)
  qed
qed

lemma copier_slice [copier_rules]:
  assumes "deep_copier s f"
  shows "deep_copier (Slice s) (make_slice f)"
  unfolding deep_copier_def
proof (intro allI impI)
  fix h :: heap and v t R v' h'
  assume wf: "wf_heap h" and t: "fits (Slice s) t" and v: "reads_as R (cells h) v t" and run: "make_slice f v h = (v', h')"
  from t consider "t = TNil" | ts where "t = TArr ts" "list_all (fits s) ts" by (auto split: content.splits)
  then show "extends h h' \<and> reads_as (new_cells h h') (cells h') v' t"
  proof cases
    case 1
    then have "v = RNil" using v by (auto elim: read_nilE)
    then show ?thesis using run wf 1 by (auto simp: make_slice_def intro: extends_refl read_nil)
  next
    case (2 ts)
    obtain a vs where v': "v = RRef a" and a: "cells h a = Some (CArr vs)" and vs: "reads_all R (cells h) vs ts"
      using v 2(1) by (auto elim: read_arrE)
    obtain vs1 h1 where all: "copy_all f vs h = (vs1, h1)" by (cases "copy_all f vs h")
    have e1: "extends h h1 \<and> reads_all (new_cells h h1) (cells h1) vs1 ts"
      by (rule copy_all_deep [OF assms wf 2(2) vs all])
    have al: "alloc (CArr vs1) h1 = (v', h')" using run by (simp add: v' a all make_slice_def)
    note after = alloc_after [OF conjunct1 [OF e1] al]
    have "reads_all (new_cells h h') (cells h') vs1 ts"
      by (rule reads_extends(2) [OF after(5) extends_wf after(6)]) (use e1 in auto)
    then show ?thesis using after 2(1) by (auto intro: read_arr)
  qed
qed

lemma copier_map [copier_rules]:
  assumes "deep_copier s f"
  shows "deep_copier (Map s) (make_map f)"
  unfolding deep_copier_def
proof (intro allI impI)
  fix h :: heap and v t R v' h'
  assume wf: "wf_heap h" and t: "fits (Map s) t" and v: "reads_as R (cells h) v t" and run: "make_map f v h = (v', h')"
  from t consider "t = TNil" | ts where "t = TMap ts" "list_all (\<lambda>e. fits s (snd e)) ts" by (auto split: content.splits)
  then show "extends h h' \<and> reads_as (new_cells h h') (cells h') v' t"
  proof cases
    case 1
    then have "v = RNil" using v by (auto elim: read_nilE)
    then show ?thesis using run wf 1 by (auto simp: make_map_def intro: extends_refl read_nil)
  next
    case (2 ts)
    obtain a kvs where v': "v = RRef a" and a: "cells h a = Some (CMap kvs)" and kvs: "reads_entries R (cells h) kvs ts"
      using v 2(1) by (auto elim: read_mapE)
    obtain kvs1 h1 where all: "copy_entries (\<lambda>_. f) kvs h = (kvs1, h1)" by (cases "copy_entries (\<lambda>_. f) kvs h")
    have e1: "extends h h1 \<and> reads_entries (new_cells h h1) (cells h1) kvs1 ts"
      by (rule copy_entries_deep [OF wf _ kvs all]) (use 2(2) assms in \<open>auto simp: list_all_iff\<close>)
    have al: "alloc (CMap kvs1) h1 = (v', h')" using run by (simp add: v' a all make_map_def)
    note after = alloc_after [OF conjunct1 [OF e1] al]
    have "reads_entries (new_cells h h') (cells h') kvs1 ts"
      by (rule reads_extends(3) [OF after(5) extends_wf after(6)]) (use e1 in auto)
    then show ?thesis using after 2(1) by (auto intro: read_map)
  qed
qed

text \<open>A struct: each field has a copier of its own or holds no reference.\<close>

lemma fits_fields_copiers:
  assumes "list_all (\<lambda>f. deep_copier (snd f) (g (fst f))) fs" and "fits_fields fs ts"
  shows "list_all (\<lambda>e. \<exists>s. fits s (snd e) \<and> deep_copier s (g (fst e))) ts"
  using assms
proof (induction fs arbitrary: ts)
  case (Cons f fs)
  then show ?case by (cases f) (auto split: list.splits)
qed simp

lemma copier_struct [copier_rules]:
  assumes "list_all (\<lambda>f. deep_copier (snd f) (field_copier plan (fst f))) fs"
  shows "deep_copier (Struct fs) (DeepCopyInto plan)"
  unfolding deep_copier_def
proof (intro allI impI)
  fix h :: heap and v t R v' h'
  assume wf: "wf_heap h" and t: "fits (Struct fs) t" and v: "reads_as R (cells h) v t" and run: "DeepCopyInto plan v h = (v', h')"
  from t obtain ts where ts: "t = TStruct ts" "fits_fields fs ts" by (auto split: content.splits)
  obtain kvs where kvs: "v = RStruct kvs" "reads_entries R (cells h) kvs ts" using v ts(1) by (auto elim: read_structE)
  obtain kvs1 where all: "copy_entries (field_copier plan) kvs h = (kvs1, h')" and v': "v' = RStruct kvs1"
    using run by (auto simp: DeepCopyInto_def kvs split: prod.splits)
  show "extends h h' \<and> reads_as (new_cells h h') (cells h') v' t"
    using copy_entries_deep [OF wf fits_fields_copiers [OF assms ts(2)] kvs(2) all]
    by (auto simp: v' ts intro: read_struct)
qed

lemma copier_DeepCopy [copier_rules]:
  assumes "deep_copier s f"
  shows "deep_copier (Ptr s) (DeepCopy_of f)"
proof -
  have "DeepCopy_of f = new_ptr f" by (auto simp: fun_eq_iff DeepCopy_of_def new_ptr_def)
  then show ?thesis using copier_ptr [OF assms] by simp
qed

lemma copier_DeepCopyObject: "deep_copier s f \<Longrightarrow> deep_copier s (DeepCopyObject_of f)"
proof -
  have "DeepCopyObject_of f = f" by (auto simp: fun_eq_iff DeepCopyObject_of_def split: prod.split)
  then show "deep_copier s f \<Longrightarrow> ?thesis" by simp
qed

subsection \<open>What a deep copy is good for\<close>

text \<open>Whatever is written to the memory that existed before the copy, the copy reads the same.\<close>

lemma copy_is_separate:
  assumes "deep_copier s f" and "wf_heap h" and "fits s t" and "reads_as R (cells h) v t" and "f v h = (v', h')"
    and "\<And>a. fresh h \<le> a \<Longrightarrow> m a = cells h' a"
  shows "reads_as UNIV m v' t"
proof -
  have "reads_as (new_cells h h') (cells h') v' t" using deep_copierD [OF assms(1-5)] by blast
  then show ?thesis by (rule reads_mono(1) [rotated 2]) (use assms(6) in \<open>auto simp: new_cells_def\<close>)
qed

end
