(* ===== verification/CopySpecs.thy ===== *)
theory CopySpecs
  imports DeepCopy Specs ChannelSpec RuleTypes SavedViewTypes DashboardTypes
begin

text \<open>
  The deep copies of the typed specs (\<open>zz_generated.deepcopy.go\<close>): for each struct the fields its
  \<open>DeepCopyInto\<close> copies after \<open>*out = *in\<close>, and how. A field is named by its JSON name. The types of
  other packages (\<open>metav1\<close>, \<open>corev1\<close>, \<open>apiextensionsv1\<close>) and their deep copies are the parameter \<open>ext\<close>.
\<close>

record ext =
  ext_shape :: "string \<Rightarrow> shape"
  ext_copy :: "string \<Rightarrow> copier"

text \<open>What the copies rely on: the packages' own deep copies are deep, and the two types that are
  copied by assignment hold no reference.\<close>

definition ext_ok :: "ext \<Rightarrow> bool" where
  "ext_ok E \<longleftrightarrow> (\<forall>n. deep_copier (ext_shape E n) (ext_copy E n))
     \<and> flat_shape (ext_shape E ''metav1.TypeMeta'') \<and> flat_shape (ext_shape E ''metav1.Duration'')"

primrec shape_of :: "ext \<Rightarrow> gotype \<Rightarrow> shape" and shape_field :: "ext \<Rightarrow> gofield \<Rightarrow> string \<times> shape" where
  "shape_of E GString = Flat"
| "shape_of E GBool = Flat"
| "shape_of E GInt64 = Flat"
| "shape_of E GFloat64 = Flat"
| "shape_of E GJSON = ext_shape E ''apiextensionsv1.JSON''"
| "shape_of E (GPtr t) = Ptr (shape_of E t)"
| "shape_of E (GSlice t) = Slice (shape_of E t)"
| "shape_of E (GMap t) = Map (shape_of E t)"
| "shape_of E (GStruct fs) = Struct (map (shape_field E) fs)"
| "shape_field E (Field n om ms t) = (n, shape_of E t)"

subsection \<open>AuthDomain\<close>

definition AuthDomainAttributeMapping_DeepCopyInto :: "ext \<Rightarrow> copier" where
  "AuthDomainAttributeMapping_DeepCopyInto E = DeepCopyInto []"

definition AuthDomainAttributeMapping_DeepCopy :: "ext \<Rightarrow> copier" where
  "AuthDomainAttributeMapping_DeepCopy E = DeepCopy_of (AuthDomainAttributeMapping_DeepCopyInto E)"

definition AuthDomainConfigSpec_DeepCopyInto :: "ext \<Rightarrow> copier" where
  "AuthDomainConfigSpec_DeepCopyInto E = DeepCopyInto [
     (''allowedGroups'', make_slice assign),
     (''attributeMapping'', new_ptr assign),
     (''claimMapping'', new_ptr assign),
     (''domainToAdminEmail'', make_map assign)]"

definition AuthDomainConfigSpec_DeepCopy :: "ext \<Rightarrow> copier" where
  "AuthDomainConfigSpec_DeepCopy E = DeepCopy_of (AuthDomainConfigSpec_DeepCopyInto E)"

definition AuthDomainConfig_DeepCopyInto :: "ext \<Rightarrow> copier" where
  "AuthDomainConfig_DeepCopyInto E = DeepCopyInto [
     (''spec'', AuthDomainConfigSpec_DeepCopyInto E)]"

definition AuthDomainConfig_DeepCopy :: "ext \<Rightarrow> copier" where
  "AuthDomainConfig_DeepCopy E = DeepCopy_of (AuthDomainConfig_DeepCopyInto E)"

definition AuthDomainRoleMapping_DeepCopyInto :: "ext \<Rightarrow> copier" where
  "AuthDomainRoleMapping_DeepCopyInto E = DeepCopyInto [
     (''groupMappings'', make_map assign)]"

definition AuthDomainRoleMapping_DeepCopy :: "ext \<Rightarrow> copier" where
  "AuthDomainRoleMapping_DeepCopy E = DeepCopy_of (AuthDomainRoleMapping_DeepCopyInto E)"

definition AuthDomainObjectSpec_DeepCopyInto :: "ext \<Rightarrow> copier" where
  "AuthDomainObjectSpec_DeepCopyInto E = DeepCopyInto [
     (''config'', AuthDomainConfig_DeepCopyInto E),
     (''roleMapping'', new_ptr (AuthDomainRoleMapping_DeepCopyInto E))]"

definition AuthDomainObjectSpec_DeepCopy :: "ext \<Rightarrow> copier" where
  "AuthDomainObjectSpec_DeepCopy E = DeepCopy_of (AuthDomainObjectSpec_DeepCopyInto E)"

definition AuthDomainObjectTemplate_DeepCopyInto :: "ext \<Rightarrow> copier" where
  "AuthDomainObjectTemplate_DeepCopyInto E = DeepCopyInto [
     (''spec'', new_ptr (AuthDomainObjectSpec_DeepCopyInto E)),
     (''jsonSpec'', new_ptr assign)]"

definition AuthDomainObjectTemplate_DeepCopy :: "ext \<Rightarrow> copier" where
  "AuthDomainObjectTemplate_DeepCopy E = DeepCopy_of (AuthDomainObjectTemplate_DeepCopyInto E)"

definition authdomain_copies :: "ext \<Rightarrow> (string \<times> shape \<times> copier) list" where
  "authdomain_copies E = [
     (''AuthDomainAttributeMapping'', Ptr (shape_of E AuthDomainAttributeMapping), AuthDomainAttributeMapping_DeepCopy E),
     (''AuthDomainConfigSpec'', Ptr (shape_of E AuthDomainConfigSpec), AuthDomainConfigSpec_DeepCopy E),
     (''AuthDomainConfig'', Ptr (shape_of E AuthDomainConfig), AuthDomainConfig_DeepCopy E),
     (''AuthDomainRoleMapping'', Ptr (shape_of E AuthDomainRoleMapping), AuthDomainRoleMapping_DeepCopy E),
     (''AuthDomainObjectSpec'', Ptr (shape_of E AuthDomainObjectSpec), AuthDomainObjectSpec_DeepCopy E),
     (''AuthDomainObjectTemplate'', Ptr (shape_of E AuthDomainObjectTemplate), AuthDomainObjectTemplate_DeepCopy E)]"

subsection \<open>Dashboard\<close>

definition DashboardDisplay_DeepCopyInto :: "ext \<Rightarrow> copier" where
  "DashboardDisplay_DeepCopyInto E = DeepCopyInto []"

definition DashboardDisplay_DeepCopy :: "ext \<Rightarrow> copier" where
  "DashboardDisplay_DeepCopy E = DeepCopy_of (DashboardDisplay_DeepCopyInto E)"

definition DashboardCollapse_DeepCopyInto :: "ext \<Rightarrow> copier" where
  "DashboardCollapse_DeepCopyInto E = DeepCopyInto []"

definition DashboardCollapse_DeepCopy :: "ext \<Rightarrow> copier" where
  "DashboardCollapse_DeepCopy E = DeepCopy_of (DashboardCollapse_DeepCopyInto E)"

definition DashboardLayoutSpecDisplay_DeepCopyInto :: "ext \<Rightarrow> copier" where
  "DashboardLayoutSpecDisplay_DeepCopyInto E = DeepCopyInto [
     (''collapse'', new_ptr assign)]"

definition DashboardLayoutSpecDisplay_DeepCopy :: "ext \<Rightarrow> copier" where
  "DashboardLayoutSpecDisplay_DeepCopy E = DeepCopy_of (DashboardLayoutSpecDisplay_DeepCopyInto E)"

definition DashboardContent_DeepCopyInto :: "ext \<Rightarrow> copier" where
  "DashboardContent_DeepCopyInto E = DeepCopyInto []"

definition DashboardContent_DeepCopy :: "ext \<Rightarrow> copier" where
  "DashboardContent_DeepCopy E = DeepCopy_of (DashboardContent_DeepCopyInto E)"

definition DashboardItem_DeepCopyInto :: "ext \<Rightarrow> copier" where
  "DashboardItem_DeepCopyInto E = DeepCopyInto [
     (''content'', new_ptr assign)]"

definition DashboardItem_DeepCopy :: "ext \<Rightarrow> copier" where
  "DashboardItem_DeepCopy E = DeepCopy_of (DashboardItem_DeepCopyInto E)"

definition DashboardLayoutSpec_DeepCopyInto :: "ext \<Rightarrow> copier" where
  "DashboardLayoutSpec_DeepCopyInto E = DeepCopyInto [
     (''display'', new_ptr (DashboardLayoutSpecDisplay_DeepCopyInto E)),
     (''items'', make_slice (DashboardItem_DeepCopyInto E))]"

definition DashboardLayoutSpec_DeepCopy :: "ext \<Rightarrow> copier" where
  "DashboardLayoutSpec_DeepCopy E = DeepCopy_of (DashboardLayoutSpec_DeepCopyInto E)"

definition DashboardLayout_DeepCopyInto :: "ext \<Rightarrow> copier" where
  "DashboardLayout_DeepCopyInto E = DeepCopyInto [
     (''spec'', DashboardLayoutSpec_DeepCopyInto E)]"

definition DashboardLayout_DeepCopy :: "ext \<Rightarrow> copier" where
  "DashboardLayout_DeepCopy E = DeepCopy_of (DashboardLayout_DeepCopyInto E)"

definition DashboardY_DeepCopyInto :: "ext \<Rightarrow> copier" where
  "DashboardY_DeepCopyInto E = DeepCopyInto []"

definition DashboardY_DeepCopy :: "ext \<Rightarrow> copier" where
  "DashboardY_DeepCopy E = DeepCopy_of (DashboardY_DeepCopyInto E)"

definition DashboardAxes_DeepCopyInto :: "ext \<Rightarrow> copier" where
  "DashboardAxes_DeepCopyInto E = DeepCopyInto [
     (''softMax'', new_ptr assign),
     (''softMin'', new_ptr assign),
     (''y'', new_ptr assign)]"

definition DashboardAxes_DeepCopy :: "ext \<Rightarrow> copier" where
  "DashboardAxes_DeepCopy E = DeepCopy_of (DashboardAxes_DeepCopyInto E)"

definition DashboardColors_DeepCopyInto :: "ext \<Rightarrow> copier" where
  "DashboardColors_DeepCopyInto E = DeepCopyInto [
     (''maxCount'', new_ptr assign),
     (''minCount'', new_ptr assign)]"

definition DashboardColors_DeepCopy :: "ext \<Rightarrow> copier" where
  "DashboardColors_DeepCopy E = DeepCopy_of (DashboardColors_DeepCopyInto E)"

definition DashboardSpanGaps_DeepCopyInto :: "ext \<Rightarrow> copier" where
  "DashboardSpanGaps_DeepCopyInto E = DeepCopyInto []"

definition DashboardSpanGaps_DeepCopy :: "ext \<Rightarrow> copier" where
  "DashboardSpanGaps_DeepCopy E = DeepCopy_of (DashboardSpanGaps_DeepCopyInto E)"

definition DashboardChartAppearance_DeepCopyInto :: "ext \<Rightarrow> copier" where
  "DashboardChartAppearance_DeepCopyInto E = DeepCopyInto [
     (''colors'', new_ptr (DashboardColors_DeepCopyInto E)),
     (''fillOpacity'', new_ptr assign),
     (''spanGaps'', new_ptr assign)]"

definition DashboardChartAppearance_DeepCopy :: "ext \<Rightarrow> copier" where
  "DashboardChartAppearance_DeepCopy E = DeepCopy_of (DashboardChartAppearance_DeepCopyInto E)"

definition DashboardFormatting_DeepCopyInto :: "ext \<Rightarrow> copier" where
  "DashboardFormatting_DeepCopyInto E = DeepCopyInto [
     (''columnUnits'', make_map assign)]"

definition DashboardFormatting_DeepCopy :: "ext \<Rightarrow> copier" where
  "DashboardFormatting_DeepCopy E = DeepCopy_of (DashboardFormatting_DeepCopyInto E)"

definition DashboardHeaderOptions_DeepCopyInto :: "ext \<Rightarrow> copier" where
  "DashboardHeaderOptions_DeepCopyInto E = DeepCopyInto []"

definition DashboardHeaderOptions_DeepCopy :: "ext \<Rightarrow> copier" where
  "DashboardHeaderOptions_DeepCopy E = DeepCopy_of (DashboardHeaderOptions_DeepCopyInto E)"

definition DashboardHistogramBuckets_DeepCopyInto :: "ext \<Rightarrow> copier" where
  "DashboardHistogramBuckets_DeepCopyInto E = DeepCopyInto [
     (''bucketCount'', new_ptr assign),
     (''bucketWidth'', new_ptr assign)]"

definition DashboardHistogramBuckets_DeepCopy :: "ext \<Rightarrow> copier" where
  "DashboardHistogramBuckets_DeepCopy E = DeepCopy_of (DashboardHistogramBuckets_DeepCopyInto E)"

definition DashboardLegend_DeepCopyInto :: "ext \<Rightarrow> copier" where
  "DashboardLegend_DeepCopyInto E = DeepCopyInto [
     (''customColors'', make_map assign)]"

definition DashboardLegend_DeepCopy :: "ext \<Rightarrow> copier" where
  "DashboardLegend_DeepCopy E = DeepCopy_of (DashboardLegend_DeepCopyInto E)"

definition DashboardPresentation_DeepCopyInto :: "ext \<Rightarrow> copier" where
  "DashboardPresentation_DeepCopyInto E = DeepCopyInto []"

definition DashboardPresentation_DeepCopy :: "ext \<Rightarrow> copier" where
  "DashboardPresentation_DeepCopy E = DeepCopy_of (DashboardPresentation_DeepCopyInto E)"

definition DashboardSelectField_DeepCopyInto :: "ext \<Rightarrow> copier" where
  "DashboardSelectField_DeepCopyInto E = DeepCopyInto []"

definition DashboardSelectField_DeepCopy :: "ext \<Rightarrow> copier" where
  "DashboardSelectField_DeepCopy E = DeepCopy_of (DashboardSelectField_DeepCopyInto E)"

definition DashboardThreshold_DeepCopyInto :: "ext \<Rightarrow> copier" where
  "DashboardThreshold_DeepCopyInto E = DeepCopyInto []"

definition DashboardThreshold_DeepCopy :: "ext \<Rightarrow> copier" where
  "DashboardThreshold_DeepCopy E = DeepCopy_of (DashboardThreshold_DeepCopyInto E)"

definition DashboardVisualization_DeepCopyInto :: "ext \<Rightarrow> copier" where
  "DashboardVisualization_DeepCopyInto E = DeepCopyInto []"

definition DashboardVisualization_DeepCopy :: "ext \<Rightarrow> copier" where
  "DashboardVisualization_DeepCopy E = DeepCopy_of (DashboardVisualization_DeepCopyInto E)"

definition DashboardPluginSpec_DeepCopyInto :: "ext \<Rightarrow> copier" where
  "DashboardPluginSpec_DeepCopyInto E = DeepCopyInto [
     (''axes'', new_ptr (DashboardAxes_DeepCopyInto E)),
     (''chartAppearance'', new_ptr (DashboardChartAppearance_DeepCopyInto E)),
     (''formatting'', new_ptr (DashboardFormatting_DeepCopyInto E)),
     (''headerOptions'', new_ptr assign),
     (''histogramBuckets'', new_ptr (DashboardHistogramBuckets_DeepCopyInto E)),
     (''legend'', new_ptr (DashboardLegend_DeepCopyInto E)),
     (''presentation'', new_ptr assign),
     (''selectFields'', make_slice assign),
     (''thresholds'', make_slice assign),
     (''visualization'', new_ptr assign)]"

definition DashboardPluginSpec_DeepCopy :: "ext \<Rightarrow> copier" where
  "DashboardPluginSpec_DeepCopy E = DeepCopy_of (DashboardPluginSpec_DeepCopyInto E)"

definition DashboardPlugin_DeepCopyInto :: "ext \<Rightarrow> copier" where
  "DashboardPlugin_DeepCopyInto E = DeepCopyInto [
     (''spec'', DashboardPluginSpec_DeepCopyInto E)]"

definition DashboardPlugin_DeepCopy :: "ext \<Rightarrow> copier" where
  "DashboardPlugin_DeepCopy E = DeepCopy_of (DashboardPlugin_DeepCopyInto E)"

definition DashboardComparisonSpaceAggregationParam_DeepCopyInto :: "ext \<Rightarrow> copier" where
  "DashboardComparisonSpaceAggregationParam_DeepCopyInto E = DeepCopyInto []"

definition DashboardComparisonSpaceAggregationParam_DeepCopy :: "ext \<Rightarrow> copier" where
  "DashboardComparisonSpaceAggregationParam_DeepCopy E = DeepCopy_of (DashboardComparisonSpaceAggregationParam_DeepCopyInto E)"

definition DashboardAggregation_DeepCopyInto :: "ext \<Rightarrow> copier" where
  "DashboardAggregation_DeepCopyInto E = DeepCopyInto [
     (''comparisonSpaceAggregationParam'', new_ptr assign)]"

definition DashboardAggregation_DeepCopy :: "ext \<Rightarrow> copier" where
  "DashboardAggregation_DeepCopy E = DeepCopy_of (DashboardAggregation_DeepCopyInto E)"

definition DashboardBucketOptionsSpec_DeepCopyInto :: "ext \<Rightarrow> copier" where
  "DashboardBucketOptionsSpec_DeepCopyInto E = DeepCopyInto [
     (''scale'', new_ptr assign)]"

definition DashboardBucketOptionsSpec_DeepCopy :: "ext \<Rightarrow> copier" where
  "DashboardBucketOptionsSpec_DeepCopy E = DeepCopy_of (DashboardBucketOptionsSpec_DeepCopyInto E)"

definition DashboardBucketOptions_DeepCopyInto :: "ext \<Rightarrow> copier" where
  "DashboardBucketOptions_DeepCopyInto E = DeepCopyInto [
     (''spec'', DashboardBucketOptionsSpec_DeepCopyInto E)]"

definition DashboardBucketOptions_DeepCopy :: "ext \<Rightarrow> copier" where
  "DashboardBucketOptions_DeepCopy E = DeepCopy_of (DashboardBucketOptions_DeepCopyInto E)"

definition DashboardFilter_DeepCopyInto :: "ext \<Rightarrow> copier" where
  "DashboardFilter_DeepCopyInto E = DeepCopyInto []"

definition DashboardFilter_DeepCopy :: "ext \<Rightarrow> copier" where
  "DashboardFilter_DeepCopy E = DeepCopy_of (DashboardFilter_DeepCopyInto E)"

definition DashboardArg_DeepCopyInto :: "ext \<Rightarrow> copier" where
  "DashboardArg_DeepCopyInto E = DeepCopyInto [
     (''value'', new_ptr (ext_copy E ''apiextensionsv1.JSON''))]"

definition DashboardArg_DeepCopy :: "ext \<Rightarrow> copier" where
  "DashboardArg_DeepCopy E = DeepCopy_of (DashboardArg_DeepCopyInto E)"

definition DashboardFunction_DeepCopyInto :: "ext \<Rightarrow> copier" where
  "DashboardFunction_DeepCopyInto E = DeepCopyInto [
     (''args'', make_slice (DashboardArg_DeepCopyInto E))]"

definition DashboardFunction_DeepCopy :: "ext \<Rightarrow> copier" where
  "DashboardFunction_DeepCopy E = DeepCopy_of (DashboardFunction_DeepCopyInto E)"

definition DashboardGroupBy_DeepCopyInto :: "ext \<Rightarrow> copier" where
  "DashboardGroupBy_DeepCopyInto E = DeepCopyInto []"

definition DashboardGroupBy_DeepCopy :: "ext \<Rightarrow> copier" where
  "DashboardGroupBy_DeepCopy E = DeepCopy_of (DashboardGroupBy_DeepCopyInto E)"

definition DashboardHaving_DeepCopyInto :: "ext \<Rightarrow> copier" where
  "DashboardHaving_DeepCopyInto E = DeepCopyInto []"

definition DashboardHaving_DeepCopy :: "ext \<Rightarrow> copier" where
  "DashboardHaving_DeepCopy E = DeepCopy_of (DashboardHaving_DeepCopyInto E)"

definition DashboardLimitBy_DeepCopyInto :: "ext \<Rightarrow> copier" where
  "DashboardLimitBy_DeepCopyInto E = DeepCopyInto [
     (''keys'', make_slice assign)]"

definition DashboardLimitBy_DeepCopy :: "ext \<Rightarrow> copier" where
  "DashboardLimitBy_DeepCopy E = DeepCopy_of (DashboardLimitBy_DeepCopyInto E)"

definition DashboardKey_DeepCopyInto :: "ext \<Rightarrow> copier" where
  "DashboardKey_DeepCopyInto E = DeepCopyInto []"

definition DashboardKey_DeepCopy :: "ext \<Rightarrow> copier" where
  "DashboardKey_DeepCopy E = DeepCopy_of (DashboardKey_DeepCopyInto E)"

definition DashboardOrder_DeepCopyInto :: "ext \<Rightarrow> copier" where
  "DashboardOrder_DeepCopyInto E = DeepCopyInto [
     (''key'', new_ptr assign)]"

definition DashboardOrder_DeepCopy :: "ext \<Rightarrow> copier" where
  "DashboardOrder_DeepCopy E = DeepCopy_of (DashboardOrder_DeepCopyInto E)"

definition DashboardQuerySpecPluginSpecQuerySpecAggregation_DeepCopyInto :: "ext \<Rightarrow> copier" where
  "DashboardQuerySpecPluginSpecQuerySpecAggregation_DeepCopyInto E = DeepCopyInto [
     (''comparisonSpaceAggregationParam'', new_ptr assign)]"

definition DashboardQuerySpecPluginSpecQuerySpecAggregation_DeepCopy :: "ext \<Rightarrow> copier" where
  "DashboardQuerySpecPluginSpecQuerySpecAggregation_DeepCopy E = DeepCopy_of (DashboardQuerySpecPluginSpecQuerySpecAggregation_DeepCopyInto E)"

definition DashboardQuerySpecPluginSpecQuerySpecBucketOptionsSpec_DeepCopyInto :: "ext \<Rightarrow> copier" where
  "DashboardQuerySpecPluginSpecQuerySpecBucketOptionsSpec_DeepCopyInto E = DeepCopyInto [
     (''scale'', new_ptr assign)]"

definition DashboardQuerySpecPluginSpecQuerySpecBucketOptionsSpec_DeepCopy :: "ext \<Rightarrow> copier" where
  "DashboardQuerySpecPluginSpecQuerySpecBucketOptionsSpec_DeepCopy E = DeepCopy_of (DashboardQuerySpecPluginSpecQuerySpecBucketOptionsSpec_DeepCopyInto E)"

definition DashboardQuerySpecPluginSpecQuerySpecBucketOptions_DeepCopyInto :: "ext \<Rightarrow> copier" where
  "DashboardQuerySpecPluginSpecQuerySpecBucketOptions_DeepCopyInto E = DeepCopyInto [
     (''spec'', DashboardQuerySpecPluginSpecQuerySpecBucketOptionsSpec_DeepCopyInto E)]"

definition DashboardQuerySpecPluginSpecQuerySpecBucketOptions_DeepCopy :: "ext \<Rightarrow> copier" where
  "DashboardQuerySpecPluginSpecQuerySpecBucketOptions_DeepCopy E = DeepCopy_of (DashboardQuerySpecPluginSpecQuerySpecBucketOptions_DeepCopyInto E)"

definition DashboardQuerySpecPluginSpecQuerySpecFilter_DeepCopyInto :: "ext \<Rightarrow> copier" where
  "DashboardQuerySpecPluginSpecQuerySpecFilter_DeepCopyInto E = DeepCopyInto []"

definition DashboardQuerySpecPluginSpecQuerySpecFilter_DeepCopy :: "ext \<Rightarrow> copier" where
  "DashboardQuerySpecPluginSpecQuerySpecFilter_DeepCopy E = DeepCopy_of (DashboardQuerySpecPluginSpecQuerySpecFilter_DeepCopyInto E)"

definition DashboardQuerySpecPluginSpecQuerySpecFunction_DeepCopyInto :: "ext \<Rightarrow> copier" where
  "DashboardQuerySpecPluginSpecQuerySpecFunction_DeepCopyInto E = DeepCopyInto [
     (''args'', make_slice (DashboardArg_DeepCopyInto E))]"

definition DashboardQuerySpecPluginSpecQuerySpecFunction_DeepCopy :: "ext \<Rightarrow> copier" where
  "DashboardQuerySpecPluginSpecQuerySpecFunction_DeepCopy E = DeepCopy_of (DashboardQuerySpecPluginSpecQuerySpecFunction_DeepCopyInto E)"

definition DashboardQuerySpecPluginSpecQuerySpecGroupBy_DeepCopyInto :: "ext \<Rightarrow> copier" where
  "DashboardQuerySpecPluginSpecQuerySpecGroupBy_DeepCopyInto E = DeepCopyInto []"

definition DashboardQuerySpecPluginSpecQuerySpecGroupBy_DeepCopy :: "ext \<Rightarrow> copier" where
  "DashboardQuerySpecPluginSpecQuerySpecGroupBy_DeepCopy E = DeepCopy_of (DashboardQuerySpecPluginSpecQuerySpecGroupBy_DeepCopyInto E)"

definition DashboardQuerySpecPluginSpecQuerySpecHaving_DeepCopyInto :: "ext \<Rightarrow> copier" where
  "DashboardQuerySpecPluginSpecQuerySpecHaving_DeepCopyInto E = DeepCopyInto []"

definition DashboardQuerySpecPluginSpecQuerySpecHaving_DeepCopy :: "ext \<Rightarrow> copier" where
  "DashboardQuerySpecPluginSpecQuerySpecHaving_DeepCopy E = DeepCopy_of (DashboardQuerySpecPluginSpecQuerySpecHaving_DeepCopyInto E)"

definition DashboardQuerySpecPluginSpecQuerySpecLimitBy_DeepCopyInto :: "ext \<Rightarrow> copier" where
  "DashboardQuerySpecPluginSpecQuerySpecLimitBy_DeepCopyInto E = DeepCopyInto [
     (''keys'', make_slice assign)]"

definition DashboardQuerySpecPluginSpecQuerySpecLimitBy_DeepCopy :: "ext \<Rightarrow> copier" where
  "DashboardQuerySpecPluginSpecQuerySpecLimitBy_DeepCopy E = DeepCopy_of (DashboardQuerySpecPluginSpecQuerySpecLimitBy_DeepCopyInto E)"

definition DashboardQuerySpecPluginSpecQuerySpecOrder_DeepCopyInto :: "ext \<Rightarrow> copier" where
  "DashboardQuerySpecPluginSpecQuerySpecOrder_DeepCopyInto E = DeepCopyInto [
     (''key'', new_ptr assign)]"

definition DashboardQuerySpecPluginSpecQuerySpecOrder_DeepCopy :: "ext \<Rightarrow> copier" where
  "DashboardQuerySpecPluginSpecQuerySpecOrder_DeepCopy E = DeepCopy_of (DashboardQuerySpecPluginSpecQuerySpecOrder_DeepCopyInto E)"

definition DashboardSecondaryAggregationGroupBy_DeepCopyInto :: "ext \<Rightarrow> copier" where
  "DashboardSecondaryAggregationGroupBy_DeepCopyInto E = DeepCopyInto []"

definition DashboardSecondaryAggregationGroupBy_DeepCopy :: "ext \<Rightarrow> copier" where
  "DashboardSecondaryAggregationGroupBy_DeepCopy E = DeepCopy_of (DashboardSecondaryAggregationGroupBy_DeepCopyInto E)"

definition DashboardSecondaryAggregationLimitBy_DeepCopyInto :: "ext \<Rightarrow> copier" where
  "DashboardSecondaryAggregationLimitBy_DeepCopyInto E = DeepCopyInto [
     (''keys'', make_slice assign)]"

definition DashboardSecondaryAggregationLimitBy_DeepCopy :: "ext \<Rightarrow> copier" where
  "DashboardSecondaryAggregationLimitBy_DeepCopy E = DeepCopy_of (DashboardSecondaryAggregationLimitBy_DeepCopyInto E)"

definition DashboardSecondaryAggregationOrder_DeepCopyInto :: "ext \<Rightarrow> copier" where
  "DashboardSecondaryAggregationOrder_DeepCopyInto E = DeepCopyInto [
     (''key'', new_ptr assign)]"

definition DashboardSecondaryAggregationOrder_DeepCopy :: "ext \<Rightarrow> copier" where
  "DashboardSecondaryAggregationOrder_DeepCopy E = DeepCopy_of (DashboardSecondaryAggregationOrder_DeepCopyInto E)"

definition DashboardSecondaryAggregation_DeepCopyInto :: "ext \<Rightarrow> copier" where
  "DashboardSecondaryAggregation_DeepCopyInto E = DeepCopyInto [
     (''groupBy'', make_slice assign),
     (''limitBy'', new_ptr (DashboardSecondaryAggregationLimitBy_DeepCopyInto E)),
     (''order'', make_slice (DashboardSecondaryAggregationOrder_DeepCopyInto E)),
     (''stepInterval'', new_ptr (ext_copy E ''apiextensionsv1.JSON''))]"

definition DashboardSecondaryAggregation_DeepCopy :: "ext \<Rightarrow> copier" where
  "DashboardSecondaryAggregation_DeepCopy E = DeepCopy_of (DashboardSecondaryAggregation_DeepCopyInto E)"

definition DashboardQuerySpecPluginSpecQuerySpecSelectField_DeepCopyInto :: "ext \<Rightarrow> copier" where
  "DashboardQuerySpecPluginSpecQuerySpecSelectField_DeepCopyInto E = DeepCopyInto []"

definition DashboardQuerySpecPluginSpecQuerySpecSelectField_DeepCopy :: "ext \<Rightarrow> copier" where
  "DashboardQuerySpecPluginSpecQuerySpecSelectField_DeepCopy E = DeepCopy_of (DashboardQuerySpecPluginSpecQuerySpecSelectField_DeepCopyInto E)"

definition DashboardQuerySpecPluginSpecQuerySpec_DeepCopyInto :: "ext \<Rightarrow> copier" where
  "DashboardQuerySpecPluginSpecQuerySpec_DeepCopyInto E = DeepCopyInto [
     (''aggregations'', make_slice (DashboardQuerySpecPluginSpecQuerySpecAggregation_DeepCopyInto E)),
     (''bucketOptions'', new_ptr (DashboardQuerySpecPluginSpecQuerySpecBucketOptions_DeepCopyInto E)),
     (''filter'', new_ptr assign),
     (''functions'', make_slice (DashboardQuerySpecPluginSpecQuerySpecFunction_DeepCopyInto E)),
     (''groupBy'', make_slice assign),
     (''having'', new_ptr assign),
     (''limitBy'', new_ptr (DashboardQuerySpecPluginSpecQuerySpecLimitBy_DeepCopyInto E)),
     (''order'', make_slice (DashboardQuerySpecPluginSpecQuerySpecOrder_DeepCopyInto E)),
     (''secondaryAggregations'', make_slice (DashboardSecondaryAggregation_DeepCopyInto E)),
     (''selectFields'', make_slice assign),
     (''step'', new_ptr (ext_copy E ''apiextensionsv1.JSON'')),
     (''stepInterval'', new_ptr (ext_copy E ''apiextensionsv1.JSON''))]"

definition DashboardQuerySpecPluginSpecQuerySpec_DeepCopy :: "ext \<Rightarrow> copier" where
  "DashboardQuerySpecPluginSpecQuerySpec_DeepCopy E = DeepCopy_of (DashboardQuerySpecPluginSpecQuerySpec_DeepCopyInto E)"

definition DashboardQuerySpecPluginSpecQuery_DeepCopyInto :: "ext \<Rightarrow> copier" where
  "DashboardQuerySpecPluginSpecQuery_DeepCopyInto E = DeepCopyInto [
     (''spec'', new_ptr (DashboardQuerySpecPluginSpecQuerySpec_DeepCopyInto E))]"

definition DashboardQuerySpecPluginSpecQuery_DeepCopy :: "ext \<Rightarrow> copier" where
  "DashboardQuerySpecPluginSpecQuery_DeepCopy E = DeepCopy_of (DashboardQuerySpecPluginSpecQuery_DeepCopyInto E)"

definition DashboardQuerySpecPluginSpecSelectField_DeepCopyInto :: "ext \<Rightarrow> copier" where
  "DashboardQuerySpecPluginSpecSelectField_DeepCopyInto E = DeepCopyInto []"

definition DashboardQuerySpecPluginSpecSelectField_DeepCopy :: "ext \<Rightarrow> copier" where
  "DashboardQuerySpecPluginSpecSelectField_DeepCopy E = DeepCopy_of (DashboardQuerySpecPluginSpecSelectField_DeepCopyInto E)"

definition DashboardQuerySpecPluginSpec_DeepCopyInto :: "ext \<Rightarrow> copier" where
  "DashboardQuerySpecPluginSpec_DeepCopyInto E = DeepCopyInto [
     (''aggregations'', make_slice (DashboardAggregation_DeepCopyInto E)),
     (''bucketOptions'', new_ptr (DashboardBucketOptions_DeepCopyInto E)),
     (''filter'', new_ptr assign),
     (''functions'', make_slice (DashboardFunction_DeepCopyInto E)),
     (''groupBy'', make_slice assign),
     (''having'', new_ptr assign),
     (''limitBy'', new_ptr (DashboardLimitBy_DeepCopyInto E)),
     (''order'', make_slice (DashboardOrder_DeepCopyInto E)),
     (''queries'', make_slice (DashboardQuerySpecPluginSpecQuery_DeepCopyInto E)),
     (''secondaryAggregations'', make_slice (DashboardSecondaryAggregation_DeepCopyInto E)),
     (''selectFields'', make_slice assign),
     (''step'', new_ptr (ext_copy E ''apiextensionsv1.JSON'')),
     (''stepInterval'', new_ptr (ext_copy E ''apiextensionsv1.JSON''))]"

definition DashboardQuerySpecPluginSpec_DeepCopy :: "ext \<Rightarrow> copier" where
  "DashboardQuerySpecPluginSpec_DeepCopy E = DeepCopy_of (DashboardQuerySpecPluginSpec_DeepCopyInto E)"

definition DashboardQuerySpecPlugin_DeepCopyInto :: "ext \<Rightarrow> copier" where
  "DashboardQuerySpecPlugin_DeepCopyInto E = DeepCopyInto [
     (''spec'', DashboardQuerySpecPluginSpec_DeepCopyInto E)]"

definition DashboardQuerySpecPlugin_DeepCopy :: "ext \<Rightarrow> copier" where
  "DashboardQuerySpecPlugin_DeepCopy E = DeepCopy_of (DashboardQuerySpecPlugin_DeepCopyInto E)"

definition DashboardQuerySpec_DeepCopyInto :: "ext \<Rightarrow> copier" where
  "DashboardQuerySpec_DeepCopyInto E = DeepCopyInto [
     (''plugin'', DashboardQuerySpecPlugin_DeepCopyInto E)]"

definition DashboardQuerySpec_DeepCopy :: "ext \<Rightarrow> copier" where
  "DashboardQuerySpec_DeepCopy E = DeepCopy_of (DashboardQuerySpec_DeepCopyInto E)"

definition DashboardQuery_DeepCopyInto :: "ext \<Rightarrow> copier" where
  "DashboardQuery_DeepCopyInto E = DeepCopyInto [
     (''spec'', DashboardQuerySpec_DeepCopyInto E)]"

definition DashboardQuery_DeepCopy :: "ext \<Rightarrow> copier" where
  "DashboardQuery_DeepCopy E = DeepCopy_of (DashboardQuery_DeepCopyInto E)"

definition DashboardLink_DeepCopyInto :: "ext \<Rightarrow> copier" where
  "DashboardLink_DeepCopyInto E = DeepCopyInto []"

definition DashboardLink_DeepCopy :: "ext \<Rightarrow> copier" where
  "DashboardLink_DeepCopy E = DeepCopy_of (DashboardLink_DeepCopyInto E)"

definition DashboardPanelSpec_DeepCopyInto :: "ext \<Rightarrow> copier" where
  "DashboardPanelSpec_DeepCopyInto E = DeepCopyInto [
     (''display'', assign),
     (''plugin'', DashboardPlugin_DeepCopyInto E),
     (''queries'', make_slice (DashboardQuery_DeepCopyInto E)),
     (''links'', make_slice assign)]"

definition DashboardPanelSpec_DeepCopy :: "ext \<Rightarrow> copier" where
  "DashboardPanelSpec_DeepCopy E = DeepCopy_of (DashboardPanelSpec_DeepCopyInto E)"

definition DashboardPanel_DeepCopyInto :: "ext \<Rightarrow> copier" where
  "DashboardPanel_DeepCopyInto E = DeepCopyInto [
     (''spec'', DashboardPanelSpec_DeepCopyInto E)]"

definition DashboardPanel_DeepCopy :: "ext \<Rightarrow> copier" where
  "DashboardPanel_DeepCopy E = DeepCopy_of (DashboardPanel_DeepCopyInto E)"

definition DashboardVariableSpecPluginSpec_DeepCopyInto :: "ext \<Rightarrow> copier" where
  "DashboardVariableSpecPluginSpec_DeepCopyInto E = DeepCopyInto []"

definition DashboardVariableSpecPluginSpec_DeepCopy :: "ext \<Rightarrow> copier" where
  "DashboardVariableSpecPluginSpec_DeepCopy E = DeepCopy_of (DashboardVariableSpecPluginSpec_DeepCopyInto E)"

definition DashboardVariableSpecPlugin_DeepCopyInto :: "ext \<Rightarrow> copier" where
  "DashboardVariableSpecPlugin_DeepCopyInto E = DeepCopyInto [
     (''spec'', assign)]"

definition DashboardVariableSpecPlugin_DeepCopy :: "ext \<Rightarrow> copier" where
  "DashboardVariableSpecPlugin_DeepCopy E = DeepCopy_of (DashboardVariableSpecPlugin_DeepCopyInto E)"

definition DashboardVariableSpec_DeepCopyInto :: "ext \<Rightarrow> copier" where
  "DashboardVariableSpec_DeepCopyInto E = DeepCopyInto [
     (''defaultValue'', new_ptr (ext_copy E ''apiextensionsv1.JSON'')),
     (''display'', new_ptr assign),
     (''plugin'', new_ptr assign)]"

definition DashboardVariableSpec_DeepCopy :: "ext \<Rightarrow> copier" where
  "DashboardVariableSpec_DeepCopy E = DeepCopy_of (DashboardVariableSpec_DeepCopyInto E)"

definition DashboardVariable_DeepCopyInto :: "ext \<Rightarrow> copier" where
  "DashboardVariable_DeepCopyInto E = DeepCopyInto [
     (''spec'', DashboardVariableSpec_DeepCopyInto E)]"

definition DashboardVariable_DeepCopy :: "ext \<Rightarrow> copier" where
  "DashboardVariable_DeepCopy E = DeepCopy_of (DashboardVariable_DeepCopyInto E)"

definition DashboardSpecPayload_DeepCopyInto :: "ext \<Rightarrow> copier" where
  "DashboardSpecPayload_DeepCopyInto E = DeepCopyInto [
     (''display'', assign),
     (''layouts'', make_slice (DashboardLayout_DeepCopyInto E)),
     (''panels'', make_map (DashboardPanel_DeepCopyInto E)),
     (''variables'', make_slice (DashboardVariable_DeepCopyInto E)),
     (''links'', make_slice assign)]"

definition DashboardSpecPayload_DeepCopy :: "ext \<Rightarrow> copier" where
  "DashboardSpecPayload_DeepCopy E = DeepCopy_of (DashboardSpecPayload_DeepCopyInto E)"

definition DashboardTag_DeepCopyInto :: "ext \<Rightarrow> copier" where
  "DashboardTag_DeepCopyInto E = DeepCopyInto []"

definition DashboardTag_DeepCopy :: "ext \<Rightarrow> copier" where
  "DashboardTag_DeepCopy E = DeepCopy_of (DashboardTag_DeepCopyInto E)"

definition DashboardObjectSpec_DeepCopyInto :: "ext \<Rightarrow> copier" where
  "DashboardObjectSpec_DeepCopyInto E = DeepCopyInto [
     (''spec'', DashboardSpecPayload_DeepCopyInto E),
     (''tags'', make_slice assign)]"

definition DashboardObjectSpec_DeepCopy :: "ext \<Rightarrow> copier" where
  "DashboardObjectSpec_DeepCopy E = DeepCopy_of (DashboardObjectSpec_DeepCopyInto E)"

definition DashboardObjectTemplate_DeepCopyInto :: "ext \<Rightarrow> copier" where
  "DashboardObjectTemplate_DeepCopyInto E = DeepCopyInto [
     (''spec'', new_ptr (DashboardObjectSpec_DeepCopyInto E)),
     (''jsonSpec'', new_ptr assign)]"

definition DashboardObjectTemplate_DeepCopy :: "ext \<Rightarrow> copier" where
  "DashboardObjectTemplate_DeepCopy E = DeepCopy_of (DashboardObjectTemplate_DeepCopyInto E)"

definition dashboard_copies :: "ext \<Rightarrow> (string \<times> shape \<times> copier) list" where
  "dashboard_copies E = [
     (''DashboardDisplay'', Ptr (shape_of E DashboardDisplay), DashboardDisplay_DeepCopy E),
     (''DashboardCollapse'', Ptr (shape_of E DashboardCollapse), DashboardCollapse_DeepCopy E),
     (''DashboardLayoutSpecDisplay'', Ptr (shape_of E DashboardLayoutSpecDisplay), DashboardLayoutSpecDisplay_DeepCopy E),
     (''DashboardContent'', Ptr (shape_of E DashboardContent), DashboardContent_DeepCopy E),
     (''DashboardItem'', Ptr (shape_of E DashboardItem), DashboardItem_DeepCopy E),
     (''DashboardLayoutSpec'', Ptr (shape_of E DashboardLayoutSpec), DashboardLayoutSpec_DeepCopy E),
     (''DashboardLayout'', Ptr (shape_of E DashboardLayout), DashboardLayout_DeepCopy E),
     (''DashboardY'', Ptr (shape_of E DashboardY), DashboardY_DeepCopy E),
     (''DashboardAxes'', Ptr (shape_of E DashboardAxes), DashboardAxes_DeepCopy E),
     (''DashboardColors'', Ptr (shape_of E DashboardColors), DashboardColors_DeepCopy E),
     (''DashboardSpanGaps'', Ptr (shape_of E DashboardSpanGaps), DashboardSpanGaps_DeepCopy E),
     (''DashboardChartAppearance'', Ptr (shape_of E DashboardChartAppearance), DashboardChartAppearance_DeepCopy E),
     (''DashboardFormatting'', Ptr (shape_of E DashboardFormatting), DashboardFormatting_DeepCopy E),
     (''DashboardHeaderOptions'', Ptr (shape_of E DashboardHeaderOptions), DashboardHeaderOptions_DeepCopy E),
     (''DashboardHistogramBuckets'', Ptr (shape_of E DashboardHistogramBuckets), DashboardHistogramBuckets_DeepCopy E),
     (''DashboardLegend'', Ptr (shape_of E DashboardLegend), DashboardLegend_DeepCopy E),
     (''DashboardPresentation'', Ptr (shape_of E DashboardPresentation), DashboardPresentation_DeepCopy E),
     (''DashboardSelectField'', Ptr (shape_of E DashboardSelectField), DashboardSelectField_DeepCopy E),
     (''DashboardThreshold'', Ptr (shape_of E DashboardThreshold), DashboardThreshold_DeepCopy E),
     (''DashboardVisualization'', Ptr (shape_of E DashboardVisualization), DashboardVisualization_DeepCopy E),
     (''DashboardPluginSpec'', Ptr (shape_of E DashboardPluginSpec), DashboardPluginSpec_DeepCopy E),
     (''DashboardPlugin'', Ptr (shape_of E DashboardPlugin), DashboardPlugin_DeepCopy E),
     (''DashboardComparisonSpaceAggregationParam'', Ptr (shape_of E DashboardComparisonSpaceAggregationParam), DashboardComparisonSpaceAggregationParam_DeepCopy E),
     (''DashboardAggregation'', Ptr (shape_of E DashboardAggregation), DashboardAggregation_DeepCopy E),
     (''DashboardBucketOptionsSpec'', Ptr (shape_of E DashboardBucketOptionsSpec), DashboardBucketOptionsSpec_DeepCopy E),
     (''DashboardBucketOptions'', Ptr (shape_of E DashboardBucketOptions), DashboardBucketOptions_DeepCopy E),
     (''DashboardFilter'', Ptr (shape_of E DashboardFilter), DashboardFilter_DeepCopy E),
     (''DashboardArg'', Ptr (shape_of E DashboardArg), DashboardArg_DeepCopy E),
     (''DashboardFunction'', Ptr (shape_of E DashboardFunction), DashboardFunction_DeepCopy E),
     (''DashboardGroupBy'', Ptr (shape_of E DashboardGroupBy), DashboardGroupBy_DeepCopy E),
     (''DashboardHaving'', Ptr (shape_of E DashboardHaving), DashboardHaving_DeepCopy E),
     (''DashboardLimitBy'', Ptr (shape_of E DashboardLimitBy), DashboardLimitBy_DeepCopy E),
     (''DashboardKey'', Ptr (shape_of E DashboardKey), DashboardKey_DeepCopy E),
     (''DashboardOrder'', Ptr (shape_of E DashboardOrder), DashboardOrder_DeepCopy E),
     (''DashboardQuerySpecPluginSpecQuerySpecAggregation'', Ptr (shape_of E DashboardQuerySpecPluginSpecQuerySpecAggregation), DashboardQuerySpecPluginSpecQuerySpecAggregation_DeepCopy E),
     (''DashboardQuerySpecPluginSpecQuerySpecBucketOptionsSpec'', Ptr (shape_of E DashboardQuerySpecPluginSpecQuerySpecBucketOptionsSpec), DashboardQuerySpecPluginSpecQuerySpecBucketOptionsSpec_DeepCopy E),
     (''DashboardQuerySpecPluginSpecQuerySpecBucketOptions'', Ptr (shape_of E DashboardQuerySpecPluginSpecQuerySpecBucketOptions), DashboardQuerySpecPluginSpecQuerySpecBucketOptions_DeepCopy E),
     (''DashboardQuerySpecPluginSpecQuerySpecFilter'', Ptr (shape_of E DashboardQuerySpecPluginSpecQuerySpecFilter), DashboardQuerySpecPluginSpecQuerySpecFilter_DeepCopy E),
     (''DashboardQuerySpecPluginSpecQuerySpecFunction'', Ptr (shape_of E DashboardQuerySpecPluginSpecQuerySpecFunction), DashboardQuerySpecPluginSpecQuerySpecFunction_DeepCopy E),
     (''DashboardQuerySpecPluginSpecQuerySpecGroupBy'', Ptr (shape_of E DashboardQuerySpecPluginSpecQuerySpecGroupBy), DashboardQuerySpecPluginSpecQuerySpecGroupBy_DeepCopy E),
     (''DashboardQuerySpecPluginSpecQuerySpecHaving'', Ptr (shape_of E DashboardQuerySpecPluginSpecQuerySpecHaving), DashboardQuerySpecPluginSpecQuerySpecHaving_DeepCopy E),
     (''DashboardQuerySpecPluginSpecQuerySpecLimitBy'', Ptr (shape_of E DashboardQuerySpecPluginSpecQuerySpecLimitBy), DashboardQuerySpecPluginSpecQuerySpecLimitBy_DeepCopy E),
     (''DashboardQuerySpecPluginSpecQuerySpecOrder'', Ptr (shape_of E DashboardQuerySpecPluginSpecQuerySpecOrder), DashboardQuerySpecPluginSpecQuerySpecOrder_DeepCopy E),
     (''DashboardSecondaryAggregationGroupBy'', Ptr (shape_of E DashboardSecondaryAggregationGroupBy), DashboardSecondaryAggregationGroupBy_DeepCopy E),
     (''DashboardSecondaryAggregationLimitBy'', Ptr (shape_of E DashboardSecondaryAggregationLimitBy), DashboardSecondaryAggregationLimitBy_DeepCopy E),
     (''DashboardSecondaryAggregationOrder'', Ptr (shape_of E DashboardSecondaryAggregationOrder), DashboardSecondaryAggregationOrder_DeepCopy E),
     (''DashboardSecondaryAggregation'', Ptr (shape_of E DashboardSecondaryAggregation), DashboardSecondaryAggregation_DeepCopy E),
     (''DashboardQuerySpecPluginSpecQuerySpecSelectField'', Ptr (shape_of E DashboardQuerySpecPluginSpecQuerySpecSelectField), DashboardQuerySpecPluginSpecQuerySpecSelectField_DeepCopy E),
     (''DashboardQuerySpecPluginSpecQuerySpec'', Ptr (shape_of E DashboardQuerySpecPluginSpecQuerySpec), DashboardQuerySpecPluginSpecQuerySpec_DeepCopy E),
     (''DashboardQuerySpecPluginSpecQuery'', Ptr (shape_of E DashboardQuerySpecPluginSpecQuery), DashboardQuerySpecPluginSpecQuery_DeepCopy E),
     (''DashboardQuerySpecPluginSpecSelectField'', Ptr (shape_of E DashboardQuerySpecPluginSpecSelectField), DashboardQuerySpecPluginSpecSelectField_DeepCopy E),
     (''DashboardQuerySpecPluginSpec'', Ptr (shape_of E DashboardQuerySpecPluginSpec), DashboardQuerySpecPluginSpec_DeepCopy E),
     (''DashboardQuerySpecPlugin'', Ptr (shape_of E DashboardQuerySpecPlugin), DashboardQuerySpecPlugin_DeepCopy E),
     (''DashboardQuerySpec'', Ptr (shape_of E DashboardQuerySpec), DashboardQuerySpec_DeepCopy E),
     (''DashboardQuery'', Ptr (shape_of E DashboardQuery), DashboardQuery_DeepCopy E),
     (''DashboardLink'', Ptr (shape_of E DashboardLink), DashboardLink_DeepCopy E),
     (''DashboardPanelSpec'', Ptr (shape_of E DashboardPanelSpec), DashboardPanelSpec_DeepCopy E),
     (''DashboardPanel'', Ptr (shape_of E DashboardPanel), DashboardPanel_DeepCopy E),
     (''DashboardVariableSpecPluginSpec'', Ptr (shape_of E DashboardVariableSpecPluginSpec), DashboardVariableSpecPluginSpec_DeepCopy E),
     (''DashboardVariableSpecPlugin'', Ptr (shape_of E DashboardVariableSpecPlugin), DashboardVariableSpecPlugin_DeepCopy E),
     (''DashboardVariableSpec'', Ptr (shape_of E DashboardVariableSpec), DashboardVariableSpec_DeepCopy E),
     (''DashboardVariable'', Ptr (shape_of E DashboardVariable), DashboardVariable_DeepCopy E),
     (''DashboardSpecPayload'', Ptr (shape_of E DashboardSpecPayload), DashboardSpecPayload_DeepCopy E),
     (''DashboardTag'', Ptr (shape_of E DashboardTag), DashboardTag_DeepCopy E),
     (''DashboardObjectSpec'', Ptr (shape_of E DashboardObjectSpec), DashboardObjectSpec_DeepCopy E),
     (''DashboardObjectTemplate'', Ptr (shape_of E DashboardObjectTemplate), DashboardObjectTemplate_DeepCopy E)]"

subsection \<open>NotificationChannel\<close>

definition NotificationChannelConfirm_DeepCopyInto :: "ext \<Rightarrow> copier" where
  "NotificationChannelConfirm_DeepCopyInto E = DeepCopyInto []"

definition NotificationChannelConfirm_DeepCopy :: "ext \<Rightarrow> copier" where
  "NotificationChannelConfirm_DeepCopy E = DeepCopy_of (NotificationChannelConfirm_DeepCopyInto E)"

definition NotificationChannelAction_DeepCopyInto :: "ext \<Rightarrow> copier" where
  "NotificationChannelAction_DeepCopyInto E = DeepCopyInto [
     (''confirm'', new_ptr assign)]"

definition NotificationChannelAction_DeepCopy :: "ext \<Rightarrow> copier" where
  "NotificationChannelAction_DeepCopy E = DeepCopy_of (NotificationChannelAction_DeepCopyInto E)"

definition NotificationChannelField_DeepCopyInto :: "ext \<Rightarrow> copier" where
  "NotificationChannelField_DeepCopyInto E = DeepCopyInto [
     (''short'', new_ptr assign)]"

definition NotificationChannelField_DeepCopy :: "ext \<Rightarrow> copier" where
  "NotificationChannelField_DeepCopy E = DeepCopy_of (NotificationChannelField_DeepCopyInto E)"

definition NotificationChannelConfigSpec_DeepCopyInto :: "ext \<Rightarrow> copier" where
  "NotificationChannelConfigSpec_DeepCopyInto E = DeepCopyInto [
     (''actions'', make_slice (NotificationChannelAction_DeepCopyInto E)),
     (''customFields'', new_ptr (ext_copy E ''apiextensionsv1.JSON'')),
     (''details'', make_map assign),
     (''fields'', make_slice (NotificationChannelField_DeepCopyInto E)),
     (''headers'', make_map assign),
     (''labels'', make_slice assign),
     (''metadata'', make_map assign),
     (''sendResolved'', new_ptr assign)]"

definition NotificationChannelConfigSpec_DeepCopy :: "ext \<Rightarrow> copier" where
  "NotificationChannelConfigSpec_DeepCopy E = DeepCopy_of (NotificationChannelConfigSpec_DeepCopyInto E)"

definition NotificationChannelConfig_DeepCopyInto :: "ext \<Rightarrow> copier" where
  "NotificationChannelConfig_DeepCopyInto E = DeepCopyInto [
     (''spec'', NotificationChannelConfigSpec_DeepCopyInto E)]"

definition NotificationChannelConfig_DeepCopy :: "ext \<Rightarrow> copier" where
  "NotificationChannelConfig_DeepCopy E = DeepCopy_of (NotificationChannelConfig_DeepCopyInto E)"

definition NotificationChannelObjectSpec_DeepCopyInto :: "ext \<Rightarrow> copier" where
  "NotificationChannelObjectSpec_DeepCopyInto E = DeepCopyInto [
     (''config'', NotificationChannelConfig_DeepCopyInto E)]"

definition NotificationChannelObjectSpec_DeepCopy :: "ext \<Rightarrow> copier" where
  "NotificationChannelObjectSpec_DeepCopy E = DeepCopy_of (NotificationChannelObjectSpec_DeepCopyInto E)"

definition NotificationChannelObjectTemplate_DeepCopyInto :: "ext \<Rightarrow> copier" where
  "NotificationChannelObjectTemplate_DeepCopyInto E = DeepCopyInto [
     (''spec'', new_ptr (NotificationChannelObjectSpec_DeepCopyInto E)),
     (''jsonSpec'', new_ptr assign)]"

definition NotificationChannelObjectTemplate_DeepCopy :: "ext \<Rightarrow> copier" where
  "NotificationChannelObjectTemplate_DeepCopy E = DeepCopy_of (NotificationChannelObjectTemplate_DeepCopyInto E)"

definition notificationchannel_copies :: "ext \<Rightarrow> (string \<times> shape \<times> copier) list" where
  "notificationchannel_copies E = [
     (''NotificationChannelConfirm'', Ptr (shape_of E NotificationChannelConfirm), NotificationChannelConfirm_DeepCopy E),
     (''NotificationChannelAction'', Ptr (shape_of E NotificationChannelAction), NotificationChannelAction_DeepCopy E),
     (''NotificationChannelField'', Ptr (shape_of E NotificationChannelField), NotificationChannelField_DeepCopy E),
     (''NotificationChannelConfigSpec'', Ptr (shape_of E NotificationChannelConfigSpec), NotificationChannelConfigSpec_DeepCopy E),
     (''NotificationChannelConfig'', Ptr (shape_of E NotificationChannelConfig), NotificationChannelConfig_DeepCopy E),
     (''NotificationChannelObjectSpec'', Ptr (shape_of E NotificationChannelObjectSpec), NotificationChannelObjectSpec_DeepCopy E),
     (''NotificationChannelObjectTemplate'', Ptr (shape_of E NotificationChannelObjectTemplate), NotificationChannelObjectTemplate_DeepCopy E)]"

subsection \<open>PlannedMaintenance\<close>

definition PlannedMaintenanceRecurrence_DeepCopyInto :: "ext \<Rightarrow> copier" where
  "PlannedMaintenanceRecurrence_DeepCopyInto E = DeepCopyInto [
     (''repeatOn'', make_slice assign)]"

definition PlannedMaintenanceRecurrence_DeepCopy :: "ext \<Rightarrow> copier" where
  "PlannedMaintenanceRecurrence_DeepCopy E = DeepCopy_of (PlannedMaintenanceRecurrence_DeepCopyInto E)"

definition PlannedMaintenanceSchedule_DeepCopyInto :: "ext \<Rightarrow> copier" where
  "PlannedMaintenanceSchedule_DeepCopyInto E = DeepCopyInto [
     (''recurrence'', new_ptr (PlannedMaintenanceRecurrence_DeepCopyInto E))]"

definition PlannedMaintenanceSchedule_DeepCopy :: "ext \<Rightarrow> copier" where
  "PlannedMaintenanceSchedule_DeepCopy E = DeepCopy_of (PlannedMaintenanceSchedule_DeepCopyInto E)"

definition PlannedMaintenanceObjectSpec_DeepCopyInto :: "ext \<Rightarrow> copier" where
  "PlannedMaintenanceObjectSpec_DeepCopyInto E = DeepCopyInto [
     (''schedule'', PlannedMaintenanceSchedule_DeepCopyInto E),
     (''alertIds'', make_slice assign)]"

definition PlannedMaintenanceObjectSpec_DeepCopy :: "ext \<Rightarrow> copier" where
  "PlannedMaintenanceObjectSpec_DeepCopy E = DeepCopy_of (PlannedMaintenanceObjectSpec_DeepCopyInto E)"

definition PlannedMaintenanceObjectTemplate_DeepCopyInto :: "ext \<Rightarrow> copier" where
  "PlannedMaintenanceObjectTemplate_DeepCopyInto E = DeepCopyInto [
     (''spec'', new_ptr (PlannedMaintenanceObjectSpec_DeepCopyInto E)),
     (''jsonSpec'', new_ptr assign)]"

definition PlannedMaintenanceObjectTemplate_DeepCopy :: "ext \<Rightarrow> copier" where
  "PlannedMaintenanceObjectTemplate_DeepCopy E = DeepCopy_of (PlannedMaintenanceObjectTemplate_DeepCopyInto E)"

definition plannedmaintenance_copies :: "ext \<Rightarrow> (string \<times> shape \<times> copier) list" where
  "plannedmaintenance_copies E = [
     (''PlannedMaintenanceRecurrence'', Ptr (shape_of E PlannedMaintenanceRecurrence), PlannedMaintenanceRecurrence_DeepCopy E),
     (''PlannedMaintenanceSchedule'', Ptr (shape_of E PlannedMaintenanceSchedule), PlannedMaintenanceSchedule_DeepCopy E),
     (''PlannedMaintenanceObjectSpec'', Ptr (shape_of E PlannedMaintenanceObjectSpec), PlannedMaintenanceObjectSpec_DeepCopy E),
     (''PlannedMaintenanceObjectTemplate'', Ptr (shape_of E PlannedMaintenanceObjectTemplate), PlannedMaintenanceObjectTemplate_DeepCopy E)]"

subsection \<open>Role\<close>

definition RoleResource_DeepCopyInto :: "ext \<Rightarrow> copier" where
  "RoleResource_DeepCopyInto E = DeepCopyInto []"

definition RoleResource_DeepCopy :: "ext \<Rightarrow> copier" where
  "RoleResource_DeepCopy E = DeepCopy_of (RoleResource_DeepCopyInto E)"

definition RoleObjectGroup_DeepCopyInto :: "ext \<Rightarrow> copier" where
  "RoleObjectGroup_DeepCopyInto E = DeepCopyInto [
     (''resource'', assign),
     (''selectors'', make_slice assign)]"

definition RoleObjectGroup_DeepCopy :: "ext \<Rightarrow> copier" where
  "RoleObjectGroup_DeepCopy E = DeepCopy_of (RoleObjectGroup_DeepCopyInto E)"

definition RoleTransactionGroup_DeepCopyInto :: "ext \<Rightarrow> copier" where
  "RoleTransactionGroup_DeepCopyInto E = DeepCopyInto [
     (''objectGroup'', RoleObjectGroup_DeepCopyInto E)]"

definition RoleTransactionGroup_DeepCopy :: "ext \<Rightarrow> copier" where
  "RoleTransactionGroup_DeepCopy E = DeepCopy_of (RoleTransactionGroup_DeepCopyInto E)"

definition RoleObjectSpec_DeepCopyInto :: "ext \<Rightarrow> copier" where
  "RoleObjectSpec_DeepCopyInto E = DeepCopyInto [
     (''transactionGroups'', make_slice (RoleTransactionGroup_DeepCopyInto E))]"

definition RoleObjectSpec_DeepCopy :: "ext \<Rightarrow> copier" where
  "RoleObjectSpec_DeepCopy E = DeepCopy_of (RoleObjectSpec_DeepCopyInto E)"

definition RoleObjectTemplate_DeepCopyInto :: "ext \<Rightarrow> copier" where
  "RoleObjectTemplate_DeepCopyInto E = DeepCopyInto [
     (''spec'', new_ptr (RoleObjectSpec_DeepCopyInto E)),
     (''jsonSpec'', new_ptr assign)]"

definition RoleObjectTemplate_DeepCopy :: "ext \<Rightarrow> copier" where
  "RoleObjectTemplate_DeepCopy E = DeepCopy_of (RoleObjectTemplate_DeepCopyInto E)"

definition role_copies :: "ext \<Rightarrow> (string \<times> shape \<times> copier) list" where
  "role_copies E = [
     (''RoleResource'', Ptr (shape_of E RoleResource), RoleResource_DeepCopy E),
     (''RoleObjectGroup'', Ptr (shape_of E RoleObjectGroup), RoleObjectGroup_DeepCopy E),
     (''RoleTransactionGroup'', Ptr (shape_of E RoleTransactionGroup), RoleTransactionGroup_DeepCopy E),
     (''RoleObjectSpec'', Ptr (shape_of E RoleObjectSpec), RoleObjectSpec_DeepCopy E),
     (''RoleObjectTemplate'', Ptr (shape_of E RoleObjectTemplate), RoleObjectTemplate_DeepCopy E)]"

subsection \<open>RoutePolicy\<close>

definition RoutePolicyObjectSpec_DeepCopyInto :: "ext \<Rightarrow> copier" where
  "RoutePolicyObjectSpec_DeepCopyInto E = DeepCopyInto [
     (''channels'', make_slice assign),
     (''tags'', make_slice assign)]"

definition RoutePolicyObjectSpec_DeepCopy :: "ext \<Rightarrow> copier" where
  "RoutePolicyObjectSpec_DeepCopy E = DeepCopy_of (RoutePolicyObjectSpec_DeepCopyInto E)"

definition RoutePolicyObjectTemplate_DeepCopyInto :: "ext \<Rightarrow> copier" where
  "RoutePolicyObjectTemplate_DeepCopyInto E = DeepCopyInto [
     (''spec'', new_ptr (RoutePolicyObjectSpec_DeepCopyInto E)),
     (''jsonSpec'', new_ptr assign)]"

definition RoutePolicyObjectTemplate_DeepCopy :: "ext \<Rightarrow> copier" where
  "RoutePolicyObjectTemplate_DeepCopy E = DeepCopy_of (RoutePolicyObjectTemplate_DeepCopyInto E)"

definition routepolicy_copies :: "ext \<Rightarrow> (string \<times> shape \<times> copier) list" where
  "routepolicy_copies E = [
     (''RoutePolicyObjectSpec'', Ptr (shape_of E RoutePolicyObjectSpec), RoutePolicyObjectSpec_DeepCopy E),
     (''RoutePolicyObjectTemplate'', Ptr (shape_of E RoutePolicyObjectTemplate), RoutePolicyObjectTemplate_DeepCopy E)]"

subsection \<open>Rule\<close>

definition RuleComparisonSpaceAggregationParam_DeepCopyInto :: "ext \<Rightarrow> copier" where
  "RuleComparisonSpaceAggregationParam_DeepCopyInto E = DeepCopyInto []"

definition RuleComparisonSpaceAggregationParam_DeepCopy :: "ext \<Rightarrow> copier" where
  "RuleComparisonSpaceAggregationParam_DeepCopy E = DeepCopy_of (RuleComparisonSpaceAggregationParam_DeepCopyInto E)"

definition RuleAggregation_DeepCopyInto :: "ext \<Rightarrow> copier" where
  "RuleAggregation_DeepCopyInto E = DeepCopyInto [
     (''comparisonSpaceAggregationParam'', new_ptr assign)]"

definition RuleAggregation_DeepCopy :: "ext \<Rightarrow> copier" where
  "RuleAggregation_DeepCopy E = DeepCopy_of (RuleAggregation_DeepCopyInto E)"

definition RuleBucketOptionsSpec_DeepCopyInto :: "ext \<Rightarrow> copier" where
  "RuleBucketOptionsSpec_DeepCopyInto E = DeepCopyInto [
     (''scale'', new_ptr assign)]"

definition RuleBucketOptionsSpec_DeepCopy :: "ext \<Rightarrow> copier" where
  "RuleBucketOptionsSpec_DeepCopy E = DeepCopy_of (RuleBucketOptionsSpec_DeepCopyInto E)"

definition RuleBucketOptions_DeepCopyInto :: "ext \<Rightarrow> copier" where
  "RuleBucketOptions_DeepCopyInto E = DeepCopyInto [
     (''spec'', RuleBucketOptionsSpec_DeepCopyInto E)]"

definition RuleBucketOptions_DeepCopy :: "ext \<Rightarrow> copier" where
  "RuleBucketOptions_DeepCopy E = DeepCopy_of (RuleBucketOptions_DeepCopyInto E)"

definition RuleFilter_DeepCopyInto :: "ext \<Rightarrow> copier" where
  "RuleFilter_DeepCopyInto E = DeepCopyInto []"

definition RuleFilter_DeepCopy :: "ext \<Rightarrow> copier" where
  "RuleFilter_DeepCopy E = DeepCopy_of (RuleFilter_DeepCopyInto E)"

definition RuleArg_DeepCopyInto :: "ext \<Rightarrow> copier" where
  "RuleArg_DeepCopyInto E = DeepCopyInto [
     (''value'', new_ptr (ext_copy E ''apiextensionsv1.JSON''))]"

definition RuleArg_DeepCopy :: "ext \<Rightarrow> copier" where
  "RuleArg_DeepCopy E = DeepCopy_of (RuleArg_DeepCopyInto E)"

definition RuleFunction_DeepCopyInto :: "ext \<Rightarrow> copier" where
  "RuleFunction_DeepCopyInto E = DeepCopyInto [
     (''args'', make_slice (RuleArg_DeepCopyInto E))]"

definition RuleFunction_DeepCopy :: "ext \<Rightarrow> copier" where
  "RuleFunction_DeepCopy E = DeepCopy_of (RuleFunction_DeepCopyInto E)"

definition RuleGroupBy_DeepCopyInto :: "ext \<Rightarrow> copier" where
  "RuleGroupBy_DeepCopyInto E = DeepCopyInto []"

definition RuleGroupBy_DeepCopy :: "ext \<Rightarrow> copier" where
  "RuleGroupBy_DeepCopy E = DeepCopy_of (RuleGroupBy_DeepCopyInto E)"

definition RuleHaving_DeepCopyInto :: "ext \<Rightarrow> copier" where
  "RuleHaving_DeepCopyInto E = DeepCopyInto []"

definition RuleHaving_DeepCopy :: "ext \<Rightarrow> copier" where
  "RuleHaving_DeepCopy E = DeepCopy_of (RuleHaving_DeepCopyInto E)"

definition RuleLimitBy_DeepCopyInto :: "ext \<Rightarrow> copier" where
  "RuleLimitBy_DeepCopyInto E = DeepCopyInto [
     (''keys'', make_slice assign)]"

definition RuleLimitBy_DeepCopy :: "ext \<Rightarrow> copier" where
  "RuleLimitBy_DeepCopy E = DeepCopy_of (RuleLimitBy_DeepCopyInto E)"

definition RuleKey_DeepCopyInto :: "ext \<Rightarrow> copier" where
  "RuleKey_DeepCopyInto E = DeepCopyInto []"

definition RuleKey_DeepCopy :: "ext \<Rightarrow> copier" where
  "RuleKey_DeepCopy E = DeepCopy_of (RuleKey_DeepCopyInto E)"

definition RuleOrder_DeepCopyInto :: "ext \<Rightarrow> copier" where
  "RuleOrder_DeepCopyInto E = DeepCopyInto [
     (''key'', new_ptr assign)]"

definition RuleOrder_DeepCopy :: "ext \<Rightarrow> copier" where
  "RuleOrder_DeepCopy E = DeepCopy_of (RuleOrder_DeepCopyInto E)"

definition RuleSecondaryAggregationGroupBy_DeepCopyInto :: "ext \<Rightarrow> copier" where
  "RuleSecondaryAggregationGroupBy_DeepCopyInto E = DeepCopyInto []"

definition RuleSecondaryAggregationGroupBy_DeepCopy :: "ext \<Rightarrow> copier" where
  "RuleSecondaryAggregationGroupBy_DeepCopy E = DeepCopy_of (RuleSecondaryAggregationGroupBy_DeepCopyInto E)"

definition RuleSecondaryAggregationLimitBy_DeepCopyInto :: "ext \<Rightarrow> copier" where
  "RuleSecondaryAggregationLimitBy_DeepCopyInto E = DeepCopyInto [
     (''keys'', make_slice assign)]"

definition RuleSecondaryAggregationLimitBy_DeepCopy :: "ext \<Rightarrow> copier" where
  "RuleSecondaryAggregationLimitBy_DeepCopy E = DeepCopy_of (RuleSecondaryAggregationLimitBy_DeepCopyInto E)"

definition RuleSecondaryAggregationOrder_DeepCopyInto :: "ext \<Rightarrow> copier" where
  "RuleSecondaryAggregationOrder_DeepCopyInto E = DeepCopyInto [
     (''key'', new_ptr assign)]"

definition RuleSecondaryAggregationOrder_DeepCopy :: "ext \<Rightarrow> copier" where
  "RuleSecondaryAggregationOrder_DeepCopy E = DeepCopy_of (RuleSecondaryAggregationOrder_DeepCopyInto E)"

definition RuleSecondaryAggregation_DeepCopyInto :: "ext \<Rightarrow> copier" where
  "RuleSecondaryAggregation_DeepCopyInto E = DeepCopyInto [
     (''groupBy'', make_slice assign),
     (''limitBy'', new_ptr (RuleSecondaryAggregationLimitBy_DeepCopyInto E)),
     (''order'', make_slice (RuleSecondaryAggregationOrder_DeepCopyInto E)),
     (''stepInterval'', new_ptr (ext_copy E ''apiextensionsv1.JSON''))]"

definition RuleSecondaryAggregation_DeepCopy :: "ext \<Rightarrow> copier" where
  "RuleSecondaryAggregation_DeepCopy E = DeepCopy_of (RuleSecondaryAggregation_DeepCopyInto E)"

definition RuleSelectField_DeepCopyInto :: "ext \<Rightarrow> copier" where
  "RuleSelectField_DeepCopyInto E = DeepCopyInto []"

definition RuleSelectField_DeepCopy :: "ext \<Rightarrow> copier" where
  "RuleSelectField_DeepCopy E = DeepCopy_of (RuleSelectField_DeepCopyInto E)"

definition RuleQuerySpec_DeepCopyInto :: "ext \<Rightarrow> copier" where
  "RuleQuerySpec_DeepCopyInto E = DeepCopyInto [
     (''aggregations'', make_slice (RuleAggregation_DeepCopyInto E)),
     (''bucketOptions'', new_ptr (RuleBucketOptions_DeepCopyInto E)),
     (''filter'', new_ptr assign),
     (''functions'', make_slice (RuleFunction_DeepCopyInto E)),
     (''groupBy'', make_slice assign),
     (''having'', new_ptr assign),
     (''limitBy'', new_ptr (RuleLimitBy_DeepCopyInto E)),
     (''order'', make_slice (RuleOrder_DeepCopyInto E)),
     (''secondaryAggregations'', make_slice (RuleSecondaryAggregation_DeepCopyInto E)),
     (''selectFields'', make_slice assign),
     (''step'', new_ptr (ext_copy E ''apiextensionsv1.JSON'')),
     (''stepInterval'', new_ptr (ext_copy E ''apiextensionsv1.JSON''))]"

definition RuleQuerySpec_DeepCopy :: "ext \<Rightarrow> copier" where
  "RuleQuerySpec_DeepCopy E = DeepCopy_of (RuleQuerySpec_DeepCopyInto E)"

definition RuleQuery_DeepCopyInto :: "ext \<Rightarrow> copier" where
  "RuleQuery_DeepCopyInto E = DeepCopyInto [
     (''spec'', new_ptr (RuleQuerySpec_DeepCopyInto E))]"

definition RuleQuery_DeepCopy :: "ext \<Rightarrow> copier" where
  "RuleQuery_DeepCopy E = DeepCopy_of (RuleQuery_DeepCopyInto E)"

definition RuleCompositeQuery_DeepCopyInto :: "ext \<Rightarrow> copier" where
  "RuleCompositeQuery_DeepCopyInto E = DeepCopyInto [
     (''queries'', make_slice (RuleQuery_DeepCopyInto E))]"

definition RuleCompositeQuery_DeepCopy :: "ext \<Rightarrow> copier" where
  "RuleCompositeQuery_DeepCopy E = DeepCopy_of (RuleCompositeQuery_DeepCopyInto E)"

definition RuleThresholdsSpec_DeepCopyInto :: "ext \<Rightarrow> copier" where
  "RuleThresholdsSpec_DeepCopyInto E = DeepCopyInto [
     (''channels'', make_slice assign),
     (''recoveryTarget'', new_ptr assign)]"

definition RuleThresholdsSpec_DeepCopy :: "ext \<Rightarrow> copier" where
  "RuleThresholdsSpec_DeepCopy E = DeepCopy_of (RuleThresholdsSpec_DeepCopyInto E)"

definition RuleThresholds_DeepCopyInto :: "ext \<Rightarrow> copier" where
  "RuleThresholds_DeepCopyInto E = DeepCopyInto [
     (''spec'', make_slice (RuleThresholdsSpec_DeepCopyInto E))]"

definition RuleThresholds_DeepCopy :: "ext \<Rightarrow> copier" where
  "RuleThresholds_DeepCopy E = DeepCopy_of (RuleThresholds_DeepCopyInto E)"

definition RuleCondition_DeepCopyInto :: "ext \<Rightarrow> copier" where
  "RuleCondition_DeepCopyInto E = DeepCopyInto [
     (''compositeQuery'', RuleCompositeQuery_DeepCopyInto E),
     (''thresholds'', RuleThresholds_DeepCopyInto E)]"

definition RuleCondition_DeepCopy :: "ext \<Rightarrow> copier" where
  "RuleCondition_DeepCopy E = DeepCopy_of (RuleCondition_DeepCopyInto E)"

definition RuleSchedule_DeepCopyInto :: "ext \<Rightarrow> copier" where
  "RuleSchedule_DeepCopyInto E = DeepCopyInto [
     (''day'', new_ptr assign),
     (''hour'', new_ptr assign),
     (''minute'', new_ptr assign),
     (''weekday'', new_ptr assign)]"

definition RuleSchedule_DeepCopy :: "ext \<Rightarrow> copier" where
  "RuleSchedule_DeepCopy E = DeepCopy_of (RuleSchedule_DeepCopyInto E)"

definition RuleEvaluationSpec_DeepCopyInto :: "ext \<Rightarrow> copier" where
  "RuleEvaluationSpec_DeepCopyInto E = DeepCopyInto [
     (''schedule'', new_ptr (RuleSchedule_DeepCopyInto E))]"

definition RuleEvaluationSpec_DeepCopy :: "ext \<Rightarrow> copier" where
  "RuleEvaluationSpec_DeepCopy E = DeepCopy_of (RuleEvaluationSpec_DeepCopyInto E)"

definition RuleEvaluation_DeepCopyInto :: "ext \<Rightarrow> copier" where
  "RuleEvaluation_DeepCopyInto E = DeepCopyInto [
     (''spec'', RuleEvaluationSpec_DeepCopyInto E)]"

definition RuleEvaluation_DeepCopy :: "ext \<Rightarrow> copier" where
  "RuleEvaluation_DeepCopy E = DeepCopy_of (RuleEvaluation_DeepCopyInto E)"

definition RuleRenotify_DeepCopyInto :: "ext \<Rightarrow> copier" where
  "RuleRenotify_DeepCopyInto E = DeepCopyInto [
     (''alertStates'', make_slice assign)]"

definition RuleRenotify_DeepCopy :: "ext \<Rightarrow> copier" where
  "RuleRenotify_DeepCopy E = DeepCopy_of (RuleRenotify_DeepCopyInto E)"

definition RuleNotificationSettings_DeepCopyInto :: "ext \<Rightarrow> copier" where
  "RuleNotificationSettings_DeepCopyInto E = DeepCopyInto [
     (''groupBy'', make_slice assign),
     (''renotify'', new_ptr (RuleRenotify_DeepCopyInto E))]"

definition RuleNotificationSettings_DeepCopy :: "ext \<Rightarrow> copier" where
  "RuleNotificationSettings_DeepCopy E = DeepCopy_of (RuleNotificationSettings_DeepCopyInto E)"

definition RuleObjectSpec_DeepCopyInto :: "ext \<Rightarrow> copier" where
  "RuleObjectSpec_DeepCopyInto E = DeepCopyInto [
     (''condition'', RuleCondition_DeepCopyInto E),
     (''evaluation'', RuleEvaluation_DeepCopyInto E),
     (''notificationSettings'', RuleNotificationSettings_DeepCopyInto E),
     (''annotations'', make_map assign),
     (''labels'', make_map assign)]"

definition RuleObjectSpec_DeepCopy :: "ext \<Rightarrow> copier" where
  "RuleObjectSpec_DeepCopy E = DeepCopy_of (RuleObjectSpec_DeepCopyInto E)"

definition RuleObjectTemplate_DeepCopyInto :: "ext \<Rightarrow> copier" where
  "RuleObjectTemplate_DeepCopyInto E = DeepCopyInto [
     (''spec'', new_ptr (RuleObjectSpec_DeepCopyInto E)),
     (''jsonSpec'', new_ptr assign)]"

definition RuleObjectTemplate_DeepCopy :: "ext \<Rightarrow> copier" where
  "RuleObjectTemplate_DeepCopy E = DeepCopy_of (RuleObjectTemplate_DeepCopyInto E)"

definition rule_copies :: "ext \<Rightarrow> (string \<times> shape \<times> copier) list" where
  "rule_copies E = [
     (''RuleComparisonSpaceAggregationParam'', Ptr (shape_of E RuleComparisonSpaceAggregationParam), RuleComparisonSpaceAggregationParam_DeepCopy E),
     (''RuleAggregation'', Ptr (shape_of E RuleAggregation), RuleAggregation_DeepCopy E),
     (''RuleBucketOptionsSpec'', Ptr (shape_of E RuleBucketOptionsSpec), RuleBucketOptionsSpec_DeepCopy E),
     (''RuleBucketOptions'', Ptr (shape_of E RuleBucketOptions), RuleBucketOptions_DeepCopy E),
     (''RuleFilter'', Ptr (shape_of E RuleFilter), RuleFilter_DeepCopy E),
     (''RuleArg'', Ptr (shape_of E RuleArg), RuleArg_DeepCopy E),
     (''RuleFunction'', Ptr (shape_of E RuleFunction), RuleFunction_DeepCopy E),
     (''RuleGroupBy'', Ptr (shape_of E RuleGroupBy), RuleGroupBy_DeepCopy E),
     (''RuleHaving'', Ptr (shape_of E RuleHaving), RuleHaving_DeepCopy E),
     (''RuleLimitBy'', Ptr (shape_of E RuleLimitBy), RuleLimitBy_DeepCopy E),
     (''RuleKey'', Ptr (shape_of E RuleKey), RuleKey_DeepCopy E),
     (''RuleOrder'', Ptr (shape_of E RuleOrder), RuleOrder_DeepCopy E),
     (''RuleSecondaryAggregationGroupBy'', Ptr (shape_of E RuleSecondaryAggregationGroupBy), RuleSecondaryAggregationGroupBy_DeepCopy E),
     (''RuleSecondaryAggregationLimitBy'', Ptr (shape_of E RuleSecondaryAggregationLimitBy), RuleSecondaryAggregationLimitBy_DeepCopy E),
     (''RuleSecondaryAggregationOrder'', Ptr (shape_of E RuleSecondaryAggregationOrder), RuleSecondaryAggregationOrder_DeepCopy E),
     (''RuleSecondaryAggregation'', Ptr (shape_of E RuleSecondaryAggregation), RuleSecondaryAggregation_DeepCopy E),
     (''RuleSelectField'', Ptr (shape_of E RuleSelectField), RuleSelectField_DeepCopy E),
     (''RuleQuerySpec'', Ptr (shape_of E RuleQuerySpec), RuleQuerySpec_DeepCopy E),
     (''RuleQuery'', Ptr (shape_of E RuleQuery), RuleQuery_DeepCopy E),
     (''RuleCompositeQuery'', Ptr (shape_of E RuleCompositeQuery), RuleCompositeQuery_DeepCopy E),
     (''RuleThresholdsSpec'', Ptr (shape_of E RuleThresholdsSpec), RuleThresholdsSpec_DeepCopy E),
     (''RuleThresholds'', Ptr (shape_of E RuleThresholds), RuleThresholds_DeepCopy E),
     (''RuleCondition'', Ptr (shape_of E RuleCondition), RuleCondition_DeepCopy E),
     (''RuleSchedule'', Ptr (shape_of E RuleSchedule), RuleSchedule_DeepCopy E),
     (''RuleEvaluationSpec'', Ptr (shape_of E RuleEvaluationSpec), RuleEvaluationSpec_DeepCopy E),
     (''RuleEvaluation'', Ptr (shape_of E RuleEvaluation), RuleEvaluation_DeepCopy E),
     (''RuleRenotify'', Ptr (shape_of E RuleRenotify), RuleRenotify_DeepCopy E),
     (''RuleNotificationSettings'', Ptr (shape_of E RuleNotificationSettings), RuleNotificationSettings_DeepCopy E),
     (''RuleObjectSpec'', Ptr (shape_of E RuleObjectSpec), RuleObjectSpec_DeepCopy E),
     (''RuleObjectTemplate'', Ptr (shape_of E RuleObjectTemplate), RuleObjectTemplate_DeepCopy E)]"

subsection \<open>SavedView\<close>

definition SavedViewComparisonSpaceAggregationParam_DeepCopyInto :: "ext \<Rightarrow> copier" where
  "SavedViewComparisonSpaceAggregationParam_DeepCopyInto E = DeepCopyInto []"

definition SavedViewComparisonSpaceAggregationParam_DeepCopy :: "ext \<Rightarrow> copier" where
  "SavedViewComparisonSpaceAggregationParam_DeepCopy E = DeepCopy_of (SavedViewComparisonSpaceAggregationParam_DeepCopyInto E)"

definition SavedViewAggregation_DeepCopyInto :: "ext \<Rightarrow> copier" where
  "SavedViewAggregation_DeepCopyInto E = DeepCopyInto [
     (''comparisonSpaceAggregationParam'', new_ptr assign)]"

definition SavedViewAggregation_DeepCopy :: "ext \<Rightarrow> copier" where
  "SavedViewAggregation_DeepCopy E = DeepCopy_of (SavedViewAggregation_DeepCopyInto E)"

definition SavedViewBucketOptionsSpec_DeepCopyInto :: "ext \<Rightarrow> copier" where
  "SavedViewBucketOptionsSpec_DeepCopyInto E = DeepCopyInto [
     (''scale'', new_ptr assign)]"

definition SavedViewBucketOptionsSpec_DeepCopy :: "ext \<Rightarrow> copier" where
  "SavedViewBucketOptionsSpec_DeepCopy E = DeepCopy_of (SavedViewBucketOptionsSpec_DeepCopyInto E)"

definition SavedViewBucketOptions_DeepCopyInto :: "ext \<Rightarrow> copier" where
  "SavedViewBucketOptions_DeepCopyInto E = DeepCopyInto [
     (''spec'', SavedViewBucketOptionsSpec_DeepCopyInto E)]"

definition SavedViewBucketOptions_DeepCopy :: "ext \<Rightarrow> copier" where
  "SavedViewBucketOptions_DeepCopy E = DeepCopy_of (SavedViewBucketOptions_DeepCopyInto E)"

definition SavedViewFilter_DeepCopyInto :: "ext \<Rightarrow> copier" where
  "SavedViewFilter_DeepCopyInto E = DeepCopyInto []"

definition SavedViewFilter_DeepCopy :: "ext \<Rightarrow> copier" where
  "SavedViewFilter_DeepCopy E = DeepCopy_of (SavedViewFilter_DeepCopyInto E)"

definition SavedViewArg_DeepCopyInto :: "ext \<Rightarrow> copier" where
  "SavedViewArg_DeepCopyInto E = DeepCopyInto [
     (''value'', new_ptr (ext_copy E ''apiextensionsv1.JSON''))]"

definition SavedViewArg_DeepCopy :: "ext \<Rightarrow> copier" where
  "SavedViewArg_DeepCopy E = DeepCopy_of (SavedViewArg_DeepCopyInto E)"

definition SavedViewFunction_DeepCopyInto :: "ext \<Rightarrow> copier" where
  "SavedViewFunction_DeepCopyInto E = DeepCopyInto [
     (''args'', make_slice (SavedViewArg_DeepCopyInto E))]"

definition SavedViewFunction_DeepCopy :: "ext \<Rightarrow> copier" where
  "SavedViewFunction_DeepCopy E = DeepCopy_of (SavedViewFunction_DeepCopyInto E)"

definition SavedViewGroupBy_DeepCopyInto :: "ext \<Rightarrow> copier" where
  "SavedViewGroupBy_DeepCopyInto E = DeepCopyInto []"

definition SavedViewGroupBy_DeepCopy :: "ext \<Rightarrow> copier" where
  "SavedViewGroupBy_DeepCopy E = DeepCopy_of (SavedViewGroupBy_DeepCopyInto E)"

definition SavedViewHaving_DeepCopyInto :: "ext \<Rightarrow> copier" where
  "SavedViewHaving_DeepCopyInto E = DeepCopyInto []"

definition SavedViewHaving_DeepCopy :: "ext \<Rightarrow> copier" where
  "SavedViewHaving_DeepCopy E = DeepCopy_of (SavedViewHaving_DeepCopyInto E)"

definition SavedViewLimitBy_DeepCopyInto :: "ext \<Rightarrow> copier" where
  "SavedViewLimitBy_DeepCopyInto E = DeepCopyInto [
     (''keys'', make_slice assign)]"

definition SavedViewLimitBy_DeepCopy :: "ext \<Rightarrow> copier" where
  "SavedViewLimitBy_DeepCopy E = DeepCopy_of (SavedViewLimitBy_DeepCopyInto E)"

definition SavedViewKey_DeepCopyInto :: "ext \<Rightarrow> copier" where
  "SavedViewKey_DeepCopyInto E = DeepCopyInto []"

definition SavedViewKey_DeepCopy :: "ext \<Rightarrow> copier" where
  "SavedViewKey_DeepCopy E = DeepCopy_of (SavedViewKey_DeepCopyInto E)"

definition SavedViewOrder_DeepCopyInto :: "ext \<Rightarrow> copier" where
  "SavedViewOrder_DeepCopyInto E = DeepCopyInto [
     (''key'', new_ptr assign)]"

definition SavedViewOrder_DeepCopy :: "ext \<Rightarrow> copier" where
  "SavedViewOrder_DeepCopy E = DeepCopy_of (SavedViewOrder_DeepCopyInto E)"

definition SavedViewSecondaryAggregationGroupBy_DeepCopyInto :: "ext \<Rightarrow> copier" where
  "SavedViewSecondaryAggregationGroupBy_DeepCopyInto E = DeepCopyInto []"

definition SavedViewSecondaryAggregationGroupBy_DeepCopy :: "ext \<Rightarrow> copier" where
  "SavedViewSecondaryAggregationGroupBy_DeepCopy E = DeepCopy_of (SavedViewSecondaryAggregationGroupBy_DeepCopyInto E)"

definition SavedViewSecondaryAggregationLimitBy_DeepCopyInto :: "ext \<Rightarrow> copier" where
  "SavedViewSecondaryAggregationLimitBy_DeepCopyInto E = DeepCopyInto [
     (''keys'', make_slice assign)]"

definition SavedViewSecondaryAggregationLimitBy_DeepCopy :: "ext \<Rightarrow> copier" where
  "SavedViewSecondaryAggregationLimitBy_DeepCopy E = DeepCopy_of (SavedViewSecondaryAggregationLimitBy_DeepCopyInto E)"

definition SavedViewSecondaryAggregationOrder_DeepCopyInto :: "ext \<Rightarrow> copier" where
  "SavedViewSecondaryAggregationOrder_DeepCopyInto E = DeepCopyInto [
     (''key'', new_ptr assign)]"

definition SavedViewSecondaryAggregationOrder_DeepCopy :: "ext \<Rightarrow> copier" where
  "SavedViewSecondaryAggregationOrder_DeepCopy E = DeepCopy_of (SavedViewSecondaryAggregationOrder_DeepCopyInto E)"

definition SavedViewSecondaryAggregation_DeepCopyInto :: "ext \<Rightarrow> copier" where
  "SavedViewSecondaryAggregation_DeepCopyInto E = DeepCopyInto [
     (''groupBy'', make_slice assign),
     (''limitBy'', new_ptr (SavedViewSecondaryAggregationLimitBy_DeepCopyInto E)),
     (''order'', make_slice (SavedViewSecondaryAggregationOrder_DeepCopyInto E)),
     (''stepInterval'', new_ptr (ext_copy E ''apiextensionsv1.JSON''))]"

definition SavedViewSecondaryAggregation_DeepCopy :: "ext \<Rightarrow> copier" where
  "SavedViewSecondaryAggregation_DeepCopy E = DeepCopy_of (SavedViewSecondaryAggregation_DeepCopyInto E)"

definition SavedViewSelectField_DeepCopyInto :: "ext \<Rightarrow> copier" where
  "SavedViewSelectField_DeepCopyInto E = DeepCopyInto []"

definition SavedViewSelectField_DeepCopy :: "ext \<Rightarrow> copier" where
  "SavedViewSelectField_DeepCopy E = DeepCopy_of (SavedViewSelectField_DeepCopyInto E)"

definition SavedViewQuerySpec_DeepCopyInto :: "ext \<Rightarrow> copier" where
  "SavedViewQuerySpec_DeepCopyInto E = DeepCopyInto [
     (''aggregations'', make_slice (SavedViewAggregation_DeepCopyInto E)),
     (''bucketOptions'', new_ptr (SavedViewBucketOptions_DeepCopyInto E)),
     (''filter'', new_ptr assign),
     (''functions'', make_slice (SavedViewFunction_DeepCopyInto E)),
     (''groupBy'', make_slice assign),
     (''having'', new_ptr assign),
     (''limitBy'', new_ptr (SavedViewLimitBy_DeepCopyInto E)),
     (''order'', make_slice (SavedViewOrder_DeepCopyInto E)),
     (''secondaryAggregations'', make_slice (SavedViewSecondaryAggregation_DeepCopyInto E)),
     (''selectFields'', make_slice assign),
     (''step'', new_ptr (ext_copy E ''apiextensionsv1.JSON'')),
     (''stepInterval'', new_ptr (ext_copy E ''apiextensionsv1.JSON''))]"

definition SavedViewQuerySpec_DeepCopy :: "ext \<Rightarrow> copier" where
  "SavedViewQuerySpec_DeepCopy E = DeepCopy_of (SavedViewQuerySpec_DeepCopyInto E)"

definition SavedViewQuery_DeepCopyInto :: "ext \<Rightarrow> copier" where
  "SavedViewQuery_DeepCopyInto E = DeepCopyInto [
     (''spec'', new_ptr (SavedViewQuerySpec_DeepCopyInto E))]"

definition SavedViewQuery_DeepCopy :: "ext \<Rightarrow> copier" where
  "SavedViewQuery_DeepCopy E = DeepCopy_of (SavedViewQuery_DeepCopyInto E)"

definition SavedViewDisplay_DeepCopyInto :: "ext \<Rightarrow> copier" where
  "SavedViewDisplay_DeepCopyInto E = DeepCopyInto []"

definition SavedViewDisplay_DeepCopy :: "ext \<Rightarrow> copier" where
  "SavedViewDisplay_DeepCopy E = DeepCopy_of (SavedViewDisplay_DeepCopyInto E)"

definition SavedViewSelectedField_DeepCopyInto :: "ext \<Rightarrow> copier" where
  "SavedViewSelectedField_DeepCopyInto E = DeepCopyInto []"

definition SavedViewSelectedField_DeepCopy :: "ext \<Rightarrow> copier" where
  "SavedViewSelectedField_DeepCopy E = DeepCopy_of (SavedViewSelectedField_DeepCopyInto E)"

definition SavedViewSpecPayload_DeepCopyInto :: "ext \<Rightarrow> copier" where
  "SavedViewSpecPayload_DeepCopyInto E = DeepCopyInto [
     (''queries'', make_slice (SavedViewQuery_DeepCopyInto E)),
     (''display'', new_ptr assign),
     (''selectedFields'', make_slice assign)]"

definition SavedViewSpecPayload_DeepCopy :: "ext \<Rightarrow> copier" where
  "SavedViewSpecPayload_DeepCopy E = DeepCopy_of (SavedViewSpecPayload_DeepCopyInto E)"

definition SavedViewObjectSpec_DeepCopyInto :: "ext \<Rightarrow> copier" where
  "SavedViewObjectSpec_DeepCopyInto E = DeepCopyInto [
     (''spec'', SavedViewSpecPayload_DeepCopyInto E)]"

definition SavedViewObjectSpec_DeepCopy :: "ext \<Rightarrow> copier" where
  "SavedViewObjectSpec_DeepCopy E = DeepCopy_of (SavedViewObjectSpec_DeepCopyInto E)"

definition SavedViewObjectTemplate_DeepCopyInto :: "ext \<Rightarrow> copier" where
  "SavedViewObjectTemplate_DeepCopyInto E = DeepCopyInto [
     (''spec'', new_ptr (SavedViewObjectSpec_DeepCopyInto E)),
     (''jsonSpec'', new_ptr assign)]"

definition SavedViewObjectTemplate_DeepCopy :: "ext \<Rightarrow> copier" where
  "SavedViewObjectTemplate_DeepCopy E = DeepCopy_of (SavedViewObjectTemplate_DeepCopyInto E)"

definition savedview_copies :: "ext \<Rightarrow> (string \<times> shape \<times> copier) list" where
  "savedview_copies E = [
     (''SavedViewComparisonSpaceAggregationParam'', Ptr (shape_of E SavedViewComparisonSpaceAggregationParam), SavedViewComparisonSpaceAggregationParam_DeepCopy E),
     (''SavedViewAggregation'', Ptr (shape_of E SavedViewAggregation), SavedViewAggregation_DeepCopy E),
     (''SavedViewBucketOptionsSpec'', Ptr (shape_of E SavedViewBucketOptionsSpec), SavedViewBucketOptionsSpec_DeepCopy E),
     (''SavedViewBucketOptions'', Ptr (shape_of E SavedViewBucketOptions), SavedViewBucketOptions_DeepCopy E),
     (''SavedViewFilter'', Ptr (shape_of E SavedViewFilter), SavedViewFilter_DeepCopy E),
     (''SavedViewArg'', Ptr (shape_of E SavedViewArg), SavedViewArg_DeepCopy E),
     (''SavedViewFunction'', Ptr (shape_of E SavedViewFunction), SavedViewFunction_DeepCopy E),
     (''SavedViewGroupBy'', Ptr (shape_of E SavedViewGroupBy), SavedViewGroupBy_DeepCopy E),
     (''SavedViewHaving'', Ptr (shape_of E SavedViewHaving), SavedViewHaving_DeepCopy E),
     (''SavedViewLimitBy'', Ptr (shape_of E SavedViewLimitBy), SavedViewLimitBy_DeepCopy E),
     (''SavedViewKey'', Ptr (shape_of E SavedViewKey), SavedViewKey_DeepCopy E),
     (''SavedViewOrder'', Ptr (shape_of E SavedViewOrder), SavedViewOrder_DeepCopy E),
     (''SavedViewSecondaryAggregationGroupBy'', Ptr (shape_of E SavedViewSecondaryAggregationGroupBy), SavedViewSecondaryAggregationGroupBy_DeepCopy E),
     (''SavedViewSecondaryAggregationLimitBy'', Ptr (shape_of E SavedViewSecondaryAggregationLimitBy), SavedViewSecondaryAggregationLimitBy_DeepCopy E),
     (''SavedViewSecondaryAggregationOrder'', Ptr (shape_of E SavedViewSecondaryAggregationOrder), SavedViewSecondaryAggregationOrder_DeepCopy E),
     (''SavedViewSecondaryAggregation'', Ptr (shape_of E SavedViewSecondaryAggregation), SavedViewSecondaryAggregation_DeepCopy E),
     (''SavedViewSelectField'', Ptr (shape_of E SavedViewSelectField), SavedViewSelectField_DeepCopy E),
     (''SavedViewQuerySpec'', Ptr (shape_of E SavedViewQuerySpec), SavedViewQuerySpec_DeepCopy E),
     (''SavedViewQuery'', Ptr (shape_of E SavedViewQuery), SavedViewQuery_DeepCopy E),
     (''SavedViewDisplay'', Ptr (shape_of E SavedViewDisplay), SavedViewDisplay_DeepCopy E),
     (''SavedViewSelectedField'', Ptr (shape_of E SavedViewSelectedField), SavedViewSelectedField_DeepCopy E),
     (''SavedViewSpecPayload'', Ptr (shape_of E SavedViewSpecPayload), SavedViewSpecPayload_DeepCopy E),
     (''SavedViewObjectSpec'', Ptr (shape_of E SavedViewObjectSpec), SavedViewObjectSpec_DeepCopy E),
     (''SavedViewObjectTemplate'', Ptr (shape_of E SavedViewObjectTemplate), SavedViewObjectTemplate_DeepCopy E)]"

subsection \<open>ServiceAccount\<close>

definition ServiceAccountObjectSpec_DeepCopyInto :: "ext \<Rightarrow> copier" where
  "ServiceAccountObjectSpec_DeepCopyInto E = DeepCopyInto []"

definition ServiceAccountObjectSpec_DeepCopy :: "ext \<Rightarrow> copier" where
  "ServiceAccountObjectSpec_DeepCopy E = DeepCopy_of (ServiceAccountObjectSpec_DeepCopyInto E)"

definition ServiceAccountObjectTemplate_DeepCopyInto :: "ext \<Rightarrow> copier" where
  "ServiceAccountObjectTemplate_DeepCopyInto E = DeepCopyInto [
     (''spec'', new_ptr assign),
     (''jsonSpec'', new_ptr assign)]"

definition ServiceAccountObjectTemplate_DeepCopy :: "ext \<Rightarrow> copier" where
  "ServiceAccountObjectTemplate_DeepCopy E = DeepCopy_of (ServiceAccountObjectTemplate_DeepCopyInto E)"

definition serviceaccount_copies :: "ext \<Rightarrow> (string \<times> shape \<times> copier) list" where
  "serviceaccount_copies E = [
     (''ServiceAccountObjectSpec'', Ptr (shape_of E ServiceAccountObjectSpec), ServiceAccountObjectSpec_DeepCopy E),
     (''ServiceAccountObjectTemplate'', Ptr (shape_of E ServiceAccountObjectTemplate), ServiceAccountObjectTemplate_DeepCopy E)]"

subsection \<open>User\<close>

definition UserObjectSpec_DeepCopyInto :: "ext \<Rightarrow> copier" where
  "UserObjectSpec_DeepCopyInto E = DeepCopyInto []"

definition UserObjectSpec_DeepCopy :: "ext \<Rightarrow> copier" where
  "UserObjectSpec_DeepCopy E = DeepCopy_of (UserObjectSpec_DeepCopyInto E)"

definition UserObjectTemplate_DeepCopyInto :: "ext \<Rightarrow> copier" where
  "UserObjectTemplate_DeepCopyInto E = DeepCopyInto [
     (''spec'', new_ptr assign),
     (''jsonSpec'', new_ptr assign)]"

definition UserObjectTemplate_DeepCopy :: "ext \<Rightarrow> copier" where
  "UserObjectTemplate_DeepCopy E = DeepCopy_of (UserObjectTemplate_DeepCopyInto E)"

definition user_copies :: "ext \<Rightarrow> (string \<times> shape \<times> copier) list" where
  "user_copies E = [
     (''UserObjectSpec'', Ptr (shape_of E UserObjectSpec), UserObjectSpec_DeepCopy E),
     (''UserObjectTemplate'', Ptr (shape_of E UserObjectTemplate), UserObjectTemplate_DeepCopy E)]"

subsection \<open>They are deep\<close>

named_theorems copies_deep \<open>what the copies of a type rely on: the copies of the types of its fields\<close>
named_theorems copies_flat \<open>the types without references\<close>

lemma ext_ok_copy [copies_deep]: "ext_ok E \<Longrightarrow> deep_copier (ext_shape E n) (ext_copy E n)"
  by (simp add: ext_ok_def)

lemma ext_ok_flat [copies_flat]:
  "ext_ok E \<Longrightarrow> flat_shape (ext_shape E ''metav1.TypeMeta'')"
  "ext_ok E \<Longrightarrow> flat_shape (ext_shape E ''metav1.Duration'')"
  by (simp_all add: ext_ok_def)

abbreviation all_deep :: "(string \<times> shape \<times> copier) list \<Rightarrow> bool" where
  "all_deep \<equiv> list_all (\<lambda>(_, s, f). deep_copier s f)"

lemma AuthDomainAttributeMapping_flat [copies_flat]: "flat_shape (shape_of E AuthDomainAttributeMapping)"
  by (simp add: AuthDomainAttributeMapping_def copies_flat)

lemma AuthDomainAttributeMapping_deep [copies_deep]: "ext_ok E \<Longrightarrow> deep_copier (shape_of E AuthDomainAttributeMapping) (AuthDomainAttributeMapping_DeepCopyInto E)"
  by (simp add: AuthDomainAttributeMapping_def AuthDomainAttributeMapping_DeepCopyInto_def field_copier_def copier_rules copies_deep copies_flat)

lemma AuthDomainConfigSpec_deep [copies_deep]: "ext_ok E \<Longrightarrow> deep_copier (shape_of E AuthDomainConfigSpec) (AuthDomainConfigSpec_DeepCopyInto E)"
  by (simp add: AuthDomainConfigSpec_def AuthDomainConfigSpec_DeepCopyInto_def field_copier_def copier_rules copies_deep copies_flat)

lemma AuthDomainConfig_deep [copies_deep]: "ext_ok E \<Longrightarrow> deep_copier (shape_of E AuthDomainConfig) (AuthDomainConfig_DeepCopyInto E)"
  by (simp add: AuthDomainConfig_def AuthDomainConfig_DeepCopyInto_def field_copier_def copier_rules copies_deep copies_flat)

lemma AuthDomainRoleMapping_deep [copies_deep]: "ext_ok E \<Longrightarrow> deep_copier (shape_of E AuthDomainRoleMapping) (AuthDomainRoleMapping_DeepCopyInto E)"
  by (simp add: AuthDomainRoleMapping_def AuthDomainRoleMapping_DeepCopyInto_def field_copier_def copier_rules copies_deep copies_flat)

lemma AuthDomainObjectSpec_deep [copies_deep]: "ext_ok E \<Longrightarrow> deep_copier (shape_of E AuthDomainObjectSpec) (AuthDomainObjectSpec_DeepCopyInto E)"
  by (simp add: AuthDomainObjectSpec_def AuthDomainObjectSpec_DeepCopyInto_def field_copier_def copier_rules copies_deep copies_flat)

lemma AuthDomainObjectTemplate_deep [copies_deep]: "ext_ok E \<Longrightarrow> deep_copier (shape_of E AuthDomainObjectTemplate) (AuthDomainObjectTemplate_DeepCopyInto E)"
  by (simp add: AuthDomainObjectTemplate_def AuthDomainObjectTemplate_DeepCopyInto_def field_copier_def copier_rules copies_deep copies_flat)

lemma authdomain_copies_deep: "ext_ok E \<Longrightarrow> all_deep (authdomain_copies E)"
  by (simp add: authdomain_copies_def copier_DeepCopy copier_DeepCopyObject copies_deep
      AuthDomainAttributeMapping_DeepCopy_def AuthDomainConfigSpec_DeepCopy_def AuthDomainConfig_DeepCopy_def
      AuthDomainRoleMapping_DeepCopy_def AuthDomainObjectSpec_DeepCopy_def AuthDomainObjectTemplate_DeepCopy_def)

lemma DashboardDisplay_flat [copies_flat]: "flat_shape (shape_of E DashboardDisplay)"
  by (simp add: DashboardDisplay_def copies_flat)

lemma DashboardDisplay_deep [copies_deep]: "ext_ok E \<Longrightarrow> deep_copier (shape_of E DashboardDisplay) (DashboardDisplay_DeepCopyInto E)"
  by (simp add: DashboardDisplay_def DashboardDisplay_DeepCopyInto_def field_copier_def copier_rules copies_deep copies_flat)

lemma DashboardCollapse_flat [copies_flat]: "flat_shape (shape_of E DashboardCollapse)"
  by (simp add: DashboardCollapse_def copies_flat)

lemma DashboardCollapse_deep [copies_deep]: "ext_ok E \<Longrightarrow> deep_copier (shape_of E DashboardCollapse) (DashboardCollapse_DeepCopyInto E)"
  by (simp add: DashboardCollapse_def DashboardCollapse_DeepCopyInto_def field_copier_def copier_rules copies_deep copies_flat)

lemma DashboardLayoutSpecDisplay_deep [copies_deep]: "ext_ok E \<Longrightarrow> deep_copier (shape_of E DashboardLayoutSpecDisplay) (DashboardLayoutSpecDisplay_DeepCopyInto E)"
  by (simp add: DashboardLayoutSpecDisplay_def DashboardLayoutSpecDisplay_DeepCopyInto_def field_copier_def copier_rules copies_deep copies_flat)

lemma DashboardContent_flat [copies_flat]: "flat_shape (shape_of E DashboardContent)"
  by (simp add: DashboardContent_def copies_flat)

lemma DashboardContent_deep [copies_deep]: "ext_ok E \<Longrightarrow> deep_copier (shape_of E DashboardContent) (DashboardContent_DeepCopyInto E)"
  by (simp add: DashboardContent_def DashboardContent_DeepCopyInto_def field_copier_def copier_rules copies_deep copies_flat)

lemma DashboardItem_deep [copies_deep]: "ext_ok E \<Longrightarrow> deep_copier (shape_of E DashboardItem) (DashboardItem_DeepCopyInto E)"
  by (simp add: DashboardItem_def DashboardItem_DeepCopyInto_def field_copier_def copier_rules copies_deep copies_flat)

lemma DashboardLayoutSpec_deep [copies_deep]: "ext_ok E \<Longrightarrow> deep_copier (shape_of E DashboardLayoutSpec) (DashboardLayoutSpec_DeepCopyInto E)"
  by (simp add: DashboardLayoutSpec_def DashboardLayoutSpec_DeepCopyInto_def field_copier_def copier_rules copies_deep copies_flat)

lemma DashboardLayout_deep [copies_deep]: "ext_ok E \<Longrightarrow> deep_copier (shape_of E DashboardLayout) (DashboardLayout_DeepCopyInto E)"
  by (simp add: DashboardLayout_def DashboardLayout_DeepCopyInto_def field_copier_def copier_rules copies_deep copies_flat)

lemma DashboardY_flat [copies_flat]: "flat_shape (shape_of E DashboardY)"
  by (simp add: DashboardY_def copies_flat)

lemma DashboardY_deep [copies_deep]: "ext_ok E \<Longrightarrow> deep_copier (shape_of E DashboardY) (DashboardY_DeepCopyInto E)"
  by (simp add: DashboardY_def DashboardY_DeepCopyInto_def field_copier_def copier_rules copies_deep copies_flat)

lemma DashboardAxes_deep [copies_deep]: "ext_ok E \<Longrightarrow> deep_copier (shape_of E DashboardAxes) (DashboardAxes_DeepCopyInto E)"
  by (simp add: DashboardAxes_def DashboardAxes_DeepCopyInto_def field_copier_def copier_rules copies_deep copies_flat)

lemma DashboardColors_deep [copies_deep]: "ext_ok E \<Longrightarrow> deep_copier (shape_of E DashboardColors) (DashboardColors_DeepCopyInto E)"
  by (simp add: DashboardColors_def DashboardColors_DeepCopyInto_def field_copier_def copier_rules copies_deep copies_flat)

lemma DashboardSpanGaps_flat [copies_flat]: "flat_shape (shape_of E DashboardSpanGaps)"
  by (simp add: DashboardSpanGaps_def copies_flat)

lemma DashboardSpanGaps_deep [copies_deep]: "ext_ok E \<Longrightarrow> deep_copier (shape_of E DashboardSpanGaps) (DashboardSpanGaps_DeepCopyInto E)"
  by (simp add: DashboardSpanGaps_def DashboardSpanGaps_DeepCopyInto_def field_copier_def copier_rules copies_deep copies_flat)

lemma DashboardChartAppearance_deep [copies_deep]: "ext_ok E \<Longrightarrow> deep_copier (shape_of E DashboardChartAppearance) (DashboardChartAppearance_DeepCopyInto E)"
  by (simp add: DashboardChartAppearance_def DashboardChartAppearance_DeepCopyInto_def field_copier_def copier_rules copies_deep copies_flat)

lemma DashboardFormatting_deep [copies_deep]: "ext_ok E \<Longrightarrow> deep_copier (shape_of E DashboardFormatting) (DashboardFormatting_DeepCopyInto E)"
  by (simp add: DashboardFormatting_def DashboardFormatting_DeepCopyInto_def field_copier_def copier_rules copies_deep copies_flat)

lemma DashboardHeaderOptions_flat [copies_flat]: "flat_shape (shape_of E DashboardHeaderOptions)"
  by (simp add: DashboardHeaderOptions_def copies_flat)

lemma DashboardHeaderOptions_deep [copies_deep]: "ext_ok E \<Longrightarrow> deep_copier (shape_of E DashboardHeaderOptions) (DashboardHeaderOptions_DeepCopyInto E)"
  by (simp add: DashboardHeaderOptions_def DashboardHeaderOptions_DeepCopyInto_def field_copier_def copier_rules copies_deep copies_flat)

lemma DashboardHistogramBuckets_deep [copies_deep]: "ext_ok E \<Longrightarrow> deep_copier (shape_of E DashboardHistogramBuckets) (DashboardHistogramBuckets_DeepCopyInto E)"
  by (simp add: DashboardHistogramBuckets_def DashboardHistogramBuckets_DeepCopyInto_def field_copier_def copier_rules copies_deep copies_flat)

lemma DashboardLegend_deep [copies_deep]: "ext_ok E \<Longrightarrow> deep_copier (shape_of E DashboardLegend) (DashboardLegend_DeepCopyInto E)"
  by (simp add: DashboardLegend_def DashboardLegend_DeepCopyInto_def field_copier_def copier_rules copies_deep copies_flat)

lemma DashboardPresentation_flat [copies_flat]: "flat_shape (shape_of E DashboardPresentation)"
  by (simp add: DashboardPresentation_def copies_flat)

lemma DashboardPresentation_deep [copies_deep]: "ext_ok E \<Longrightarrow> deep_copier (shape_of E DashboardPresentation) (DashboardPresentation_DeepCopyInto E)"
  by (simp add: DashboardPresentation_def DashboardPresentation_DeepCopyInto_def field_copier_def copier_rules copies_deep copies_flat)

lemma DashboardSelectField_flat [copies_flat]: "flat_shape (shape_of E DashboardSelectField)"
  by (simp add: DashboardSelectField_def copies_flat)

lemma DashboardSelectField_deep [copies_deep]: "ext_ok E \<Longrightarrow> deep_copier (shape_of E DashboardSelectField) (DashboardSelectField_DeepCopyInto E)"
  by (simp add: DashboardSelectField_def DashboardSelectField_DeepCopyInto_def field_copier_def copier_rules copies_deep copies_flat)

lemma DashboardThreshold_flat [copies_flat]: "flat_shape (shape_of E DashboardThreshold)"
  by (simp add: DashboardThreshold_def copies_flat)

lemma DashboardThreshold_deep [copies_deep]: "ext_ok E \<Longrightarrow> deep_copier (shape_of E DashboardThreshold) (DashboardThreshold_DeepCopyInto E)"
  by (simp add: DashboardThreshold_def DashboardThreshold_DeepCopyInto_def field_copier_def copier_rules copies_deep copies_flat)

lemma DashboardVisualization_flat [copies_flat]: "flat_shape (shape_of E DashboardVisualization)"
  by (simp add: DashboardVisualization_def copies_flat)

lemma DashboardVisualization_deep [copies_deep]: "ext_ok E \<Longrightarrow> deep_copier (shape_of E DashboardVisualization) (DashboardVisualization_DeepCopyInto E)"
  by (simp add: DashboardVisualization_def DashboardVisualization_DeepCopyInto_def field_copier_def copier_rules copies_deep copies_flat)

lemma DashboardPluginSpec_deep [copies_deep]: "ext_ok E \<Longrightarrow> deep_copier (shape_of E DashboardPluginSpec) (DashboardPluginSpec_DeepCopyInto E)"
  by (simp add: DashboardPluginSpec_def DashboardPluginSpec_DeepCopyInto_def field_copier_def copier_rules copies_deep copies_flat)

lemma DashboardPlugin_deep [copies_deep]: "ext_ok E \<Longrightarrow> deep_copier (shape_of E DashboardPlugin) (DashboardPlugin_DeepCopyInto E)"
  by (simp add: DashboardPlugin_def DashboardPlugin_DeepCopyInto_def field_copier_def copier_rules copies_deep copies_flat)

lemma DashboardComparisonSpaceAggregationParam_flat [copies_flat]: "flat_shape (shape_of E DashboardComparisonSpaceAggregationParam)"
  by (simp add: DashboardComparisonSpaceAggregationParam_def copies_flat)

lemma DashboardComparisonSpaceAggregationParam_deep [copies_deep]: "ext_ok E \<Longrightarrow> deep_copier (shape_of E DashboardComparisonSpaceAggregationParam) (DashboardComparisonSpaceAggregationParam_DeepCopyInto E)"
  by (simp add: DashboardComparisonSpaceAggregationParam_def DashboardComparisonSpaceAggregationParam_DeepCopyInto_def field_copier_def copier_rules copies_deep copies_flat)

lemma DashboardAggregation_deep [copies_deep]: "ext_ok E \<Longrightarrow> deep_copier (shape_of E DashboardAggregation) (DashboardAggregation_DeepCopyInto E)"
  by (simp add: DashboardAggregation_def DashboardAggregation_DeepCopyInto_def field_copier_def copier_rules copies_deep copies_flat)

lemma DashboardBucketOptionsSpec_deep [copies_deep]: "ext_ok E \<Longrightarrow> deep_copier (shape_of E DashboardBucketOptionsSpec) (DashboardBucketOptionsSpec_DeepCopyInto E)"
  by (simp add: DashboardBucketOptionsSpec_def DashboardBucketOptionsSpec_DeepCopyInto_def field_copier_def copier_rules copies_deep copies_flat)

lemma DashboardBucketOptions_deep [copies_deep]: "ext_ok E \<Longrightarrow> deep_copier (shape_of E DashboardBucketOptions) (DashboardBucketOptions_DeepCopyInto E)"
  by (simp add: DashboardBucketOptions_def DashboardBucketOptions_DeepCopyInto_def field_copier_def copier_rules copies_deep copies_flat)

lemma DashboardFilter_flat [copies_flat]: "flat_shape (shape_of E DashboardFilter)"
  by (simp add: DashboardFilter_def copies_flat)

lemma DashboardFilter_deep [copies_deep]: "ext_ok E \<Longrightarrow> deep_copier (shape_of E DashboardFilter) (DashboardFilter_DeepCopyInto E)"
  by (simp add: DashboardFilter_def DashboardFilter_DeepCopyInto_def field_copier_def copier_rules copies_deep copies_flat)

lemma DashboardArg_deep [copies_deep]: "ext_ok E \<Longrightarrow> deep_copier (shape_of E DashboardArg) (DashboardArg_DeepCopyInto E)"
  by (simp add: DashboardArg_def DashboardArg_DeepCopyInto_def field_copier_def copier_rules copies_deep copies_flat)

lemma DashboardFunction_deep [copies_deep]: "ext_ok E \<Longrightarrow> deep_copier (shape_of E DashboardFunction) (DashboardFunction_DeepCopyInto E)"
  by (simp add: DashboardFunction_def DashboardFunction_DeepCopyInto_def field_copier_def copier_rules copies_deep copies_flat)

lemma DashboardGroupBy_flat [copies_flat]: "flat_shape (shape_of E DashboardGroupBy)"
  by (simp add: DashboardGroupBy_def copies_flat)

lemma DashboardGroupBy_deep [copies_deep]: "ext_ok E \<Longrightarrow> deep_copier (shape_of E DashboardGroupBy) (DashboardGroupBy_DeepCopyInto E)"
  by (simp add: DashboardGroupBy_def DashboardGroupBy_DeepCopyInto_def field_copier_def copier_rules copies_deep copies_flat)

lemma DashboardHaving_flat [copies_flat]: "flat_shape (shape_of E DashboardHaving)"
  by (simp add: DashboardHaving_def copies_flat)

lemma DashboardHaving_deep [copies_deep]: "ext_ok E \<Longrightarrow> deep_copier (shape_of E DashboardHaving) (DashboardHaving_DeepCopyInto E)"
  by (simp add: DashboardHaving_def DashboardHaving_DeepCopyInto_def field_copier_def copier_rules copies_deep copies_flat)

lemma DashboardLimitBy_deep [copies_deep]: "ext_ok E \<Longrightarrow> deep_copier (shape_of E DashboardLimitBy) (DashboardLimitBy_DeepCopyInto E)"
  by (simp add: DashboardLimitBy_def DashboardLimitBy_DeepCopyInto_def field_copier_def copier_rules copies_deep copies_flat)

lemma DashboardKey_flat [copies_flat]: "flat_shape (shape_of E DashboardKey)"
  by (simp add: DashboardKey_def copies_flat)

lemma DashboardKey_deep [copies_deep]: "ext_ok E \<Longrightarrow> deep_copier (shape_of E DashboardKey) (DashboardKey_DeepCopyInto E)"
  by (simp add: DashboardKey_def DashboardKey_DeepCopyInto_def field_copier_def copier_rules copies_deep copies_flat)

lemma DashboardOrder_deep [copies_deep]: "ext_ok E \<Longrightarrow> deep_copier (shape_of E DashboardOrder) (DashboardOrder_DeepCopyInto E)"
  by (simp add: DashboardOrder_def DashboardOrder_DeepCopyInto_def field_copier_def copier_rules copies_deep copies_flat)

lemma DashboardQuerySpecPluginSpecQuerySpecAggregation_deep [copies_deep]: "ext_ok E \<Longrightarrow> deep_copier (shape_of E DashboardQuerySpecPluginSpecQuerySpecAggregation) (DashboardQuerySpecPluginSpecQuerySpecAggregation_DeepCopyInto E)"
  by (simp add: DashboardQuerySpecPluginSpecQuerySpecAggregation_def DashboardQuerySpecPluginSpecQuerySpecAggregation_DeepCopyInto_def field_copier_def copier_rules copies_deep copies_flat)

lemma DashboardQuerySpecPluginSpecQuerySpecBucketOptionsSpec_deep [copies_deep]: "ext_ok E \<Longrightarrow> deep_copier (shape_of E DashboardQuerySpecPluginSpecQuerySpecBucketOptionsSpec) (DashboardQuerySpecPluginSpecQuerySpecBucketOptionsSpec_DeepCopyInto E)"
  by (simp add: DashboardQuerySpecPluginSpecQuerySpecBucketOptionsSpec_def DashboardQuerySpecPluginSpecQuerySpecBucketOptionsSpec_DeepCopyInto_def field_copier_def copier_rules copies_deep copies_flat)

lemma DashboardQuerySpecPluginSpecQuerySpecBucketOptions_deep [copies_deep]: "ext_ok E \<Longrightarrow> deep_copier (shape_of E DashboardQuerySpecPluginSpecQuerySpecBucketOptions) (DashboardQuerySpecPluginSpecQuerySpecBucketOptions_DeepCopyInto E)"
  by (simp add: DashboardQuerySpecPluginSpecQuerySpecBucketOptions_def DashboardQuerySpecPluginSpecQuerySpecBucketOptions_DeepCopyInto_def field_copier_def copier_rules copies_deep copies_flat)

lemma DashboardQuerySpecPluginSpecQuerySpecFilter_flat [copies_flat]: "flat_shape (shape_of E DashboardQuerySpecPluginSpecQuerySpecFilter)"
  by (simp add: DashboardQuerySpecPluginSpecQuerySpecFilter_def copies_flat)

lemma DashboardQuerySpecPluginSpecQuerySpecFilter_deep [copies_deep]: "ext_ok E \<Longrightarrow> deep_copier (shape_of E DashboardQuerySpecPluginSpecQuerySpecFilter) (DashboardQuerySpecPluginSpecQuerySpecFilter_DeepCopyInto E)"
  by (simp add: DashboardQuerySpecPluginSpecQuerySpecFilter_def DashboardQuerySpecPluginSpecQuerySpecFilter_DeepCopyInto_def field_copier_def copier_rules copies_deep copies_flat)

lemma DashboardQuerySpecPluginSpecQuerySpecFunction_deep [copies_deep]: "ext_ok E \<Longrightarrow> deep_copier (shape_of E DashboardQuerySpecPluginSpecQuerySpecFunction) (DashboardQuerySpecPluginSpecQuerySpecFunction_DeepCopyInto E)"
  by (simp add: DashboardQuerySpecPluginSpecQuerySpecFunction_def DashboardQuerySpecPluginSpecQuerySpecFunction_DeepCopyInto_def field_copier_def copier_rules copies_deep copies_flat)

lemma DashboardQuerySpecPluginSpecQuerySpecGroupBy_flat [copies_flat]: "flat_shape (shape_of E DashboardQuerySpecPluginSpecQuerySpecGroupBy)"
  by (simp add: DashboardQuerySpecPluginSpecQuerySpecGroupBy_def copies_flat)

lemma DashboardQuerySpecPluginSpecQuerySpecGroupBy_deep [copies_deep]: "ext_ok E \<Longrightarrow> deep_copier (shape_of E DashboardQuerySpecPluginSpecQuerySpecGroupBy) (DashboardQuerySpecPluginSpecQuerySpecGroupBy_DeepCopyInto E)"
  by (simp add: DashboardQuerySpecPluginSpecQuerySpecGroupBy_def DashboardQuerySpecPluginSpecQuerySpecGroupBy_DeepCopyInto_def field_copier_def copier_rules copies_deep copies_flat)

lemma DashboardQuerySpecPluginSpecQuerySpecHaving_flat [copies_flat]: "flat_shape (shape_of E DashboardQuerySpecPluginSpecQuerySpecHaving)"
  by (simp add: DashboardQuerySpecPluginSpecQuerySpecHaving_def copies_flat)

lemma DashboardQuerySpecPluginSpecQuerySpecHaving_deep [copies_deep]: "ext_ok E \<Longrightarrow> deep_copier (shape_of E DashboardQuerySpecPluginSpecQuerySpecHaving) (DashboardQuerySpecPluginSpecQuerySpecHaving_DeepCopyInto E)"
  by (simp add: DashboardQuerySpecPluginSpecQuerySpecHaving_def DashboardQuerySpecPluginSpecQuerySpecHaving_DeepCopyInto_def field_copier_def copier_rules copies_deep copies_flat)

lemma DashboardQuerySpecPluginSpecQuerySpecLimitBy_deep [copies_deep]: "ext_ok E \<Longrightarrow> deep_copier (shape_of E DashboardQuerySpecPluginSpecQuerySpecLimitBy) (DashboardQuerySpecPluginSpecQuerySpecLimitBy_DeepCopyInto E)"
  by (simp add: DashboardQuerySpecPluginSpecQuerySpecLimitBy_def DashboardQuerySpecPluginSpecQuerySpecLimitBy_DeepCopyInto_def field_copier_def copier_rules copies_deep copies_flat)

lemma DashboardQuerySpecPluginSpecQuerySpecOrder_deep [copies_deep]: "ext_ok E \<Longrightarrow> deep_copier (shape_of E DashboardQuerySpecPluginSpecQuerySpecOrder) (DashboardQuerySpecPluginSpecQuerySpecOrder_DeepCopyInto E)"
  by (simp add: DashboardQuerySpecPluginSpecQuerySpecOrder_def DashboardQuerySpecPluginSpecQuerySpecOrder_DeepCopyInto_def field_copier_def copier_rules copies_deep copies_flat)

lemma DashboardSecondaryAggregationGroupBy_flat [copies_flat]: "flat_shape (shape_of E DashboardSecondaryAggregationGroupBy)"
  by (simp add: DashboardSecondaryAggregationGroupBy_def copies_flat)

lemma DashboardSecondaryAggregationGroupBy_deep [copies_deep]: "ext_ok E \<Longrightarrow> deep_copier (shape_of E DashboardSecondaryAggregationGroupBy) (DashboardSecondaryAggregationGroupBy_DeepCopyInto E)"
  by (simp add: DashboardSecondaryAggregationGroupBy_def DashboardSecondaryAggregationGroupBy_DeepCopyInto_def field_copier_def copier_rules copies_deep copies_flat)

lemma DashboardSecondaryAggregationLimitBy_deep [copies_deep]: "ext_ok E \<Longrightarrow> deep_copier (shape_of E DashboardSecondaryAggregationLimitBy) (DashboardSecondaryAggregationLimitBy_DeepCopyInto E)"
  by (simp add: DashboardSecondaryAggregationLimitBy_def DashboardSecondaryAggregationLimitBy_DeepCopyInto_def field_copier_def copier_rules copies_deep copies_flat)

lemma DashboardSecondaryAggregationOrder_deep [copies_deep]: "ext_ok E \<Longrightarrow> deep_copier (shape_of E DashboardSecondaryAggregationOrder) (DashboardSecondaryAggregationOrder_DeepCopyInto E)"
  by (simp add: DashboardSecondaryAggregationOrder_def DashboardSecondaryAggregationOrder_DeepCopyInto_def field_copier_def copier_rules copies_deep copies_flat)

lemma DashboardSecondaryAggregation_deep [copies_deep]: "ext_ok E \<Longrightarrow> deep_copier (shape_of E DashboardSecondaryAggregation) (DashboardSecondaryAggregation_DeepCopyInto E)"
  by (simp add: DashboardSecondaryAggregation_def DashboardSecondaryAggregation_DeepCopyInto_def field_copier_def copier_rules copies_deep copies_flat)

lemma DashboardQuerySpecPluginSpecQuerySpecSelectField_flat [copies_flat]: "flat_shape (shape_of E DashboardQuerySpecPluginSpecQuerySpecSelectField)"
  by (simp add: DashboardQuerySpecPluginSpecQuerySpecSelectField_def copies_flat)

lemma DashboardQuerySpecPluginSpecQuerySpecSelectField_deep [copies_deep]: "ext_ok E \<Longrightarrow> deep_copier (shape_of E DashboardQuerySpecPluginSpecQuerySpecSelectField) (DashboardQuerySpecPluginSpecQuerySpecSelectField_DeepCopyInto E)"
  by (simp add: DashboardQuerySpecPluginSpecQuerySpecSelectField_def DashboardQuerySpecPluginSpecQuerySpecSelectField_DeepCopyInto_def field_copier_def copier_rules copies_deep copies_flat)

lemma DashboardQuerySpecPluginSpecQuerySpec_deep [copies_deep]: "ext_ok E \<Longrightarrow> deep_copier (shape_of E DashboardQuerySpecPluginSpecQuerySpec) (DashboardQuerySpecPluginSpecQuerySpec_DeepCopyInto E)"
  by (simp add: DashboardQuerySpecPluginSpecQuerySpec_def DashboardQuerySpecPluginSpecQuerySpec_DeepCopyInto_def field_copier_def copier_rules copies_deep copies_flat)

lemma DashboardQuerySpecPluginSpecQuery_deep [copies_deep]: "ext_ok E \<Longrightarrow> deep_copier (shape_of E DashboardQuerySpecPluginSpecQuery) (DashboardQuerySpecPluginSpecQuery_DeepCopyInto E)"
  by (simp add: DashboardQuerySpecPluginSpecQuery_def DashboardQuerySpecPluginSpecQuery_DeepCopyInto_def field_copier_def copier_rules copies_deep copies_flat)

lemma DashboardQuerySpecPluginSpecSelectField_flat [copies_flat]: "flat_shape (shape_of E DashboardQuerySpecPluginSpecSelectField)"
  by (simp add: DashboardQuerySpecPluginSpecSelectField_def copies_flat)

lemma DashboardQuerySpecPluginSpecSelectField_deep [copies_deep]: "ext_ok E \<Longrightarrow> deep_copier (shape_of E DashboardQuerySpecPluginSpecSelectField) (DashboardQuerySpecPluginSpecSelectField_DeepCopyInto E)"
  by (simp add: DashboardQuerySpecPluginSpecSelectField_def DashboardQuerySpecPluginSpecSelectField_DeepCopyInto_def field_copier_def copier_rules copies_deep copies_flat)

lemma DashboardQuerySpecPluginSpec_deep [copies_deep]: "ext_ok E \<Longrightarrow> deep_copier (shape_of E DashboardQuerySpecPluginSpec) (DashboardQuerySpecPluginSpec_DeepCopyInto E)"
  by (simp add: DashboardQuerySpecPluginSpec_def DashboardQuerySpecPluginSpec_DeepCopyInto_def field_copier_def copier_rules copies_deep copies_flat)

lemma DashboardQuerySpecPlugin_deep [copies_deep]: "ext_ok E \<Longrightarrow> deep_copier (shape_of E DashboardQuerySpecPlugin) (DashboardQuerySpecPlugin_DeepCopyInto E)"
  by (simp add: DashboardQuerySpecPlugin_def DashboardQuerySpecPlugin_DeepCopyInto_def field_copier_def copier_rules copies_deep copies_flat)

lemma DashboardQuerySpec_deep [copies_deep]: "ext_ok E \<Longrightarrow> deep_copier (shape_of E DashboardQuerySpec) (DashboardQuerySpec_DeepCopyInto E)"
  by (simp add: DashboardQuerySpec_def DashboardQuerySpec_DeepCopyInto_def field_copier_def copier_rules copies_deep copies_flat)

lemma DashboardQuery_deep [copies_deep]: "ext_ok E \<Longrightarrow> deep_copier (shape_of E DashboardQuery) (DashboardQuery_DeepCopyInto E)"
  by (simp add: DashboardQuery_def DashboardQuery_DeepCopyInto_def field_copier_def copier_rules copies_deep copies_flat)

lemma DashboardLink_flat [copies_flat]: "flat_shape (shape_of E DashboardLink)"
  by (simp add: DashboardLink_def copies_flat)

lemma DashboardLink_deep [copies_deep]: "ext_ok E \<Longrightarrow> deep_copier (shape_of E DashboardLink) (DashboardLink_DeepCopyInto E)"
  by (simp add: DashboardLink_def DashboardLink_DeepCopyInto_def field_copier_def copier_rules copies_deep copies_flat)

lemma DashboardPanelSpec_deep [copies_deep]: "ext_ok E \<Longrightarrow> deep_copier (shape_of E DashboardPanelSpec) (DashboardPanelSpec_DeepCopyInto E)"
  by (simp add: DashboardPanelSpec_def DashboardPanelSpec_DeepCopyInto_def field_copier_def copier_rules copies_deep copies_flat)

lemma DashboardPanel_deep [copies_deep]: "ext_ok E \<Longrightarrow> deep_copier (shape_of E DashboardPanel) (DashboardPanel_DeepCopyInto E)"
  by (simp add: DashboardPanel_def DashboardPanel_DeepCopyInto_def field_copier_def copier_rules copies_deep copies_flat)

lemma DashboardVariableSpecPluginSpec_flat [copies_flat]: "flat_shape (shape_of E DashboardVariableSpecPluginSpec)"
  by (simp add: DashboardVariableSpecPluginSpec_def copies_flat)

lemma DashboardVariableSpecPluginSpec_deep [copies_deep]: "ext_ok E \<Longrightarrow> deep_copier (shape_of E DashboardVariableSpecPluginSpec) (DashboardVariableSpecPluginSpec_DeepCopyInto E)"
  by (simp add: DashboardVariableSpecPluginSpec_def DashboardVariableSpecPluginSpec_DeepCopyInto_def field_copier_def copier_rules copies_deep copies_flat)

lemma DashboardVariableSpecPlugin_flat [copies_flat]: "flat_shape (shape_of E DashboardVariableSpecPlugin)"
  by (simp add: DashboardVariableSpecPlugin_def copies_flat)

lemma DashboardVariableSpecPlugin_deep [copies_deep]: "ext_ok E \<Longrightarrow> deep_copier (shape_of E DashboardVariableSpecPlugin) (DashboardVariableSpecPlugin_DeepCopyInto E)"
  by (simp add: DashboardVariableSpecPlugin_def DashboardVariableSpecPlugin_DeepCopyInto_def field_copier_def copier_rules copies_deep copies_flat)

lemma DashboardVariableSpec_deep [copies_deep]: "ext_ok E \<Longrightarrow> deep_copier (shape_of E DashboardVariableSpec) (DashboardVariableSpec_DeepCopyInto E)"
  by (simp add: DashboardVariableSpec_def DashboardVariableSpec_DeepCopyInto_def field_copier_def copier_rules copies_deep copies_flat)

lemma DashboardVariable_deep [copies_deep]: "ext_ok E \<Longrightarrow> deep_copier (shape_of E DashboardVariable) (DashboardVariable_DeepCopyInto E)"
  by (simp add: DashboardVariable_def DashboardVariable_DeepCopyInto_def field_copier_def copier_rules copies_deep copies_flat)

lemma DashboardSpecPayload_deep [copies_deep]: "ext_ok E \<Longrightarrow> deep_copier (shape_of E DashboardSpecPayload) (DashboardSpecPayload_DeepCopyInto E)"
  by (simp add: DashboardSpecPayload_def DashboardSpecPayload_DeepCopyInto_def field_copier_def copier_rules copies_deep copies_flat)

lemma DashboardTag_flat [copies_flat]: "flat_shape (shape_of E DashboardTag)"
  by (simp add: DashboardTag_def copies_flat)

lemma DashboardTag_deep [copies_deep]: "ext_ok E \<Longrightarrow> deep_copier (shape_of E DashboardTag) (DashboardTag_DeepCopyInto E)"
  by (simp add: DashboardTag_def DashboardTag_DeepCopyInto_def field_copier_def copier_rules copies_deep copies_flat)

lemma DashboardObjectSpec_deep [copies_deep]: "ext_ok E \<Longrightarrow> deep_copier (shape_of E DashboardObjectSpec) (DashboardObjectSpec_DeepCopyInto E)"
  by (simp add: DashboardObjectSpec_def DashboardObjectSpec_DeepCopyInto_def field_copier_def copier_rules copies_deep copies_flat)

lemma DashboardObjectTemplate_deep [copies_deep]: "ext_ok E \<Longrightarrow> deep_copier (shape_of E DashboardObjectTemplate) (DashboardObjectTemplate_DeepCopyInto E)"
  by (simp add: DashboardObjectTemplate_def DashboardObjectTemplate_DeepCopyInto_def field_copier_def copier_rules copies_deep copies_flat)

lemma dashboard_copies_deep: "ext_ok E \<Longrightarrow> all_deep (dashboard_copies E)"
  by (simp add: dashboard_copies_def copier_DeepCopy copier_DeepCopyObject copies_deep
      DashboardDisplay_DeepCopy_def DashboardCollapse_DeepCopy_def DashboardLayoutSpecDisplay_DeepCopy_def
      DashboardContent_DeepCopy_def DashboardItem_DeepCopy_def DashboardLayoutSpec_DeepCopy_def
      DashboardLayout_DeepCopy_def DashboardY_DeepCopy_def DashboardAxes_DeepCopy_def DashboardColors_DeepCopy_def
      DashboardSpanGaps_DeepCopy_def DashboardChartAppearance_DeepCopy_def DashboardFormatting_DeepCopy_def
      DashboardHeaderOptions_DeepCopy_def DashboardHistogramBuckets_DeepCopy_def DashboardLegend_DeepCopy_def
      DashboardPresentation_DeepCopy_def DashboardSelectField_DeepCopy_def DashboardThreshold_DeepCopy_def
      DashboardVisualization_DeepCopy_def DashboardPluginSpec_DeepCopy_def DashboardPlugin_DeepCopy_def
      DashboardComparisonSpaceAggregationParam_DeepCopy_def DashboardAggregation_DeepCopy_def
      DashboardBucketOptionsSpec_DeepCopy_def DashboardBucketOptions_DeepCopy_def DashboardFilter_DeepCopy_def
      DashboardArg_DeepCopy_def DashboardFunction_DeepCopy_def DashboardGroupBy_DeepCopy_def
      DashboardHaving_DeepCopy_def DashboardLimitBy_DeepCopy_def DashboardKey_DeepCopy_def
      DashboardOrder_DeepCopy_def DashboardQuerySpecPluginSpecQuerySpecAggregation_DeepCopy_def
      DashboardQuerySpecPluginSpecQuerySpecBucketOptionsSpec_DeepCopy_def
      DashboardQuerySpecPluginSpecQuerySpecBucketOptions_DeepCopy_def
      DashboardQuerySpecPluginSpecQuerySpecFilter_DeepCopy_def
      DashboardQuerySpecPluginSpecQuerySpecFunction_DeepCopy_def
      DashboardQuerySpecPluginSpecQuerySpecGroupBy_DeepCopy_def
      DashboardQuerySpecPluginSpecQuerySpecHaving_DeepCopy_def
      DashboardQuerySpecPluginSpecQuerySpecLimitBy_DeepCopy_def
      DashboardQuerySpecPluginSpecQuerySpecOrder_DeepCopy_def DashboardSecondaryAggregationGroupBy_DeepCopy_def
      DashboardSecondaryAggregationLimitBy_DeepCopy_def DashboardSecondaryAggregationOrder_DeepCopy_def
      DashboardSecondaryAggregation_DeepCopy_def DashboardQuerySpecPluginSpecQuerySpecSelectField_DeepCopy_def
      DashboardQuerySpecPluginSpecQuerySpec_DeepCopy_def DashboardQuerySpecPluginSpecQuery_DeepCopy_def
      DashboardQuerySpecPluginSpecSelectField_DeepCopy_def DashboardQuerySpecPluginSpec_DeepCopy_def
      DashboardQuerySpecPlugin_DeepCopy_def DashboardQuerySpec_DeepCopy_def DashboardQuery_DeepCopy_def
      DashboardLink_DeepCopy_def DashboardPanelSpec_DeepCopy_def DashboardPanel_DeepCopy_def
      DashboardVariableSpecPluginSpec_DeepCopy_def DashboardVariableSpecPlugin_DeepCopy_def
      DashboardVariableSpec_DeepCopy_def DashboardVariable_DeepCopy_def DashboardSpecPayload_DeepCopy_def
      DashboardTag_DeepCopy_def DashboardObjectSpec_DeepCopy_def DashboardObjectTemplate_DeepCopy_def)

lemma NotificationChannelConfirm_flat [copies_flat]: "flat_shape (shape_of E NotificationChannelConfirm)"
  by (simp add: NotificationChannelConfirm_def copies_flat)

lemma NotificationChannelConfirm_deep [copies_deep]: "ext_ok E \<Longrightarrow> deep_copier (shape_of E NotificationChannelConfirm) (NotificationChannelConfirm_DeepCopyInto E)"
  by (simp add: NotificationChannelConfirm_def NotificationChannelConfirm_DeepCopyInto_def field_copier_def copier_rules copies_deep copies_flat)

lemma NotificationChannelAction_deep [copies_deep]: "ext_ok E \<Longrightarrow> deep_copier (shape_of E NotificationChannelAction) (NotificationChannelAction_DeepCopyInto E)"
  by (simp add: NotificationChannelAction_def NotificationChannelAction_DeepCopyInto_def field_copier_def copier_rules copies_deep copies_flat)

lemma NotificationChannelField_deep [copies_deep]: "ext_ok E \<Longrightarrow> deep_copier (shape_of E NotificationChannelField) (NotificationChannelField_DeepCopyInto E)"
  by (simp add: NotificationChannelField_def NotificationChannelField_DeepCopyInto_def field_copier_def copier_rules copies_deep copies_flat)

lemma NotificationChannelConfigSpec_deep [copies_deep]: "ext_ok E \<Longrightarrow> deep_copier (shape_of E NotificationChannelConfigSpec) (NotificationChannelConfigSpec_DeepCopyInto E)"
  by (simp add: NotificationChannelConfigSpec_def NotificationChannelConfigSpec_DeepCopyInto_def field_copier_def copier_rules copies_deep copies_flat)

lemma NotificationChannelConfig_deep [copies_deep]: "ext_ok E \<Longrightarrow> deep_copier (shape_of E NotificationChannelConfig) (NotificationChannelConfig_DeepCopyInto E)"
  by (simp add: NotificationChannelConfig_def NotificationChannelConfig_DeepCopyInto_def field_copier_def copier_rules copies_deep copies_flat)

lemma NotificationChannelObjectSpec_deep [copies_deep]: "ext_ok E \<Longrightarrow> deep_copier (shape_of E NotificationChannelObjectSpec) (NotificationChannelObjectSpec_DeepCopyInto E)"
  by (simp add: NotificationChannelObjectSpec_def NotificationChannelObjectSpec_DeepCopyInto_def field_copier_def copier_rules copies_deep copies_flat)

lemma NotificationChannelObjectTemplate_deep [copies_deep]: "ext_ok E \<Longrightarrow> deep_copier (shape_of E NotificationChannelObjectTemplate) (NotificationChannelObjectTemplate_DeepCopyInto E)"
  by (simp add: NotificationChannelObjectTemplate_def NotificationChannelObjectTemplate_DeepCopyInto_def field_copier_def copier_rules copies_deep copies_flat)

lemma notificationchannel_copies_deep: "ext_ok E \<Longrightarrow> all_deep (notificationchannel_copies E)"
  by (simp add: notificationchannel_copies_def copier_DeepCopy copier_DeepCopyObject copies_deep
      NotificationChannelConfirm_DeepCopy_def NotificationChannelAction_DeepCopy_def
      NotificationChannelField_DeepCopy_def NotificationChannelConfigSpec_DeepCopy_def
      NotificationChannelConfig_DeepCopy_def NotificationChannelObjectSpec_DeepCopy_def
      NotificationChannelObjectTemplate_DeepCopy_def)

lemma PlannedMaintenanceRecurrence_deep [copies_deep]: "ext_ok E \<Longrightarrow> deep_copier (shape_of E PlannedMaintenanceRecurrence) (PlannedMaintenanceRecurrence_DeepCopyInto E)"
  by (simp add: PlannedMaintenanceRecurrence_def PlannedMaintenanceRecurrence_DeepCopyInto_def field_copier_def copier_rules copies_deep copies_flat)

lemma PlannedMaintenanceSchedule_deep [copies_deep]: "ext_ok E \<Longrightarrow> deep_copier (shape_of E PlannedMaintenanceSchedule) (PlannedMaintenanceSchedule_DeepCopyInto E)"
  by (simp add: PlannedMaintenanceSchedule_def PlannedMaintenanceSchedule_DeepCopyInto_def field_copier_def copier_rules copies_deep copies_flat)

lemma PlannedMaintenanceObjectSpec_deep [copies_deep]: "ext_ok E \<Longrightarrow> deep_copier (shape_of E PlannedMaintenanceObjectSpec) (PlannedMaintenanceObjectSpec_DeepCopyInto E)"
  by (simp add: PlannedMaintenanceObjectSpec_def PlannedMaintenanceObjectSpec_DeepCopyInto_def field_copier_def copier_rules copies_deep copies_flat)

lemma PlannedMaintenanceObjectTemplate_deep [copies_deep]: "ext_ok E \<Longrightarrow> deep_copier (shape_of E PlannedMaintenanceObjectTemplate) (PlannedMaintenanceObjectTemplate_DeepCopyInto E)"
  by (simp add: PlannedMaintenanceObjectTemplate_def PlannedMaintenanceObjectTemplate_DeepCopyInto_def field_copier_def copier_rules copies_deep copies_flat)

lemma plannedmaintenance_copies_deep: "ext_ok E \<Longrightarrow> all_deep (plannedmaintenance_copies E)"
  by (simp add: plannedmaintenance_copies_def copier_DeepCopy copier_DeepCopyObject copies_deep
      PlannedMaintenanceRecurrence_DeepCopy_def PlannedMaintenanceSchedule_DeepCopy_def
      PlannedMaintenanceObjectSpec_DeepCopy_def PlannedMaintenanceObjectTemplate_DeepCopy_def)

lemma RoleResource_flat [copies_flat]: "flat_shape (shape_of E RoleResource)"
  by (simp add: RoleResource_def copies_flat)

lemma RoleResource_deep [copies_deep]: "ext_ok E \<Longrightarrow> deep_copier (shape_of E RoleResource) (RoleResource_DeepCopyInto E)"
  by (simp add: RoleResource_def RoleResource_DeepCopyInto_def field_copier_def copier_rules copies_deep copies_flat)

lemma RoleObjectGroup_deep [copies_deep]: "ext_ok E \<Longrightarrow> deep_copier (shape_of E RoleObjectGroup) (RoleObjectGroup_DeepCopyInto E)"
  by (simp add: RoleObjectGroup_def RoleObjectGroup_DeepCopyInto_def field_copier_def copier_rules copies_deep copies_flat)

lemma RoleTransactionGroup_deep [copies_deep]: "ext_ok E \<Longrightarrow> deep_copier (shape_of E RoleTransactionGroup) (RoleTransactionGroup_DeepCopyInto E)"
  by (simp add: RoleTransactionGroup_def RoleTransactionGroup_DeepCopyInto_def field_copier_def copier_rules copies_deep copies_flat)

lemma RoleObjectSpec_deep [copies_deep]: "ext_ok E \<Longrightarrow> deep_copier (shape_of E RoleObjectSpec) (RoleObjectSpec_DeepCopyInto E)"
  by (simp add: RoleObjectSpec_def RoleObjectSpec_DeepCopyInto_def field_copier_def copier_rules copies_deep copies_flat)

lemma RoleObjectTemplate_deep [copies_deep]: "ext_ok E \<Longrightarrow> deep_copier (shape_of E RoleObjectTemplate) (RoleObjectTemplate_DeepCopyInto E)"
  by (simp add: RoleObjectTemplate_def RoleObjectTemplate_DeepCopyInto_def field_copier_def copier_rules copies_deep copies_flat)

lemma role_copies_deep: "ext_ok E \<Longrightarrow> all_deep (role_copies E)"
  by (simp add: role_copies_def copier_DeepCopy copier_DeepCopyObject copies_deep
      RoleResource_DeepCopy_def RoleObjectGroup_DeepCopy_def RoleTransactionGroup_DeepCopy_def
      RoleObjectSpec_DeepCopy_def RoleObjectTemplate_DeepCopy_def)

lemma RoutePolicyObjectSpec_deep [copies_deep]: "ext_ok E \<Longrightarrow> deep_copier (shape_of E RoutePolicyObjectSpec) (RoutePolicyObjectSpec_DeepCopyInto E)"
  by (simp add: RoutePolicyObjectSpec_def RoutePolicyObjectSpec_DeepCopyInto_def field_copier_def copier_rules copies_deep copies_flat)

lemma RoutePolicyObjectTemplate_deep [copies_deep]: "ext_ok E \<Longrightarrow> deep_copier (shape_of E RoutePolicyObjectTemplate) (RoutePolicyObjectTemplate_DeepCopyInto E)"
  by (simp add: RoutePolicyObjectTemplate_def RoutePolicyObjectTemplate_DeepCopyInto_def field_copier_def copier_rules copies_deep copies_flat)

lemma routepolicy_copies_deep: "ext_ok E \<Longrightarrow> all_deep (routepolicy_copies E)"
  by (simp add: routepolicy_copies_def copier_DeepCopy copier_DeepCopyObject copies_deep
      RoutePolicyObjectSpec_DeepCopy_def RoutePolicyObjectTemplate_DeepCopy_def)

lemma RuleComparisonSpaceAggregationParam_flat [copies_flat]: "flat_shape (shape_of E RuleComparisonSpaceAggregationParam)"
  by (simp add: RuleComparisonSpaceAggregationParam_def copies_flat)

lemma RuleComparisonSpaceAggregationParam_deep [copies_deep]: "ext_ok E \<Longrightarrow> deep_copier (shape_of E RuleComparisonSpaceAggregationParam) (RuleComparisonSpaceAggregationParam_DeepCopyInto E)"
  by (simp add: RuleComparisonSpaceAggregationParam_def RuleComparisonSpaceAggregationParam_DeepCopyInto_def field_copier_def copier_rules copies_deep copies_flat)

lemma RuleAggregation_deep [copies_deep]: "ext_ok E \<Longrightarrow> deep_copier (shape_of E RuleAggregation) (RuleAggregation_DeepCopyInto E)"
  by (simp add: RuleAggregation_def RuleAggregation_DeepCopyInto_def field_copier_def copier_rules copies_deep copies_flat)

lemma RuleBucketOptionsSpec_deep [copies_deep]: "ext_ok E \<Longrightarrow> deep_copier (shape_of E RuleBucketOptionsSpec) (RuleBucketOptionsSpec_DeepCopyInto E)"
  by (simp add: RuleBucketOptionsSpec_def RuleBucketOptionsSpec_DeepCopyInto_def field_copier_def copier_rules copies_deep copies_flat)

lemma RuleBucketOptions_deep [copies_deep]: "ext_ok E \<Longrightarrow> deep_copier (shape_of E RuleBucketOptions) (RuleBucketOptions_DeepCopyInto E)"
  by (simp add: RuleBucketOptions_def RuleBucketOptions_DeepCopyInto_def field_copier_def copier_rules copies_deep copies_flat)

lemma RuleFilter_flat [copies_flat]: "flat_shape (shape_of E RuleFilter)"
  by (simp add: RuleFilter_def copies_flat)

lemma RuleFilter_deep [copies_deep]: "ext_ok E \<Longrightarrow> deep_copier (shape_of E RuleFilter) (RuleFilter_DeepCopyInto E)"
  by (simp add: RuleFilter_def RuleFilter_DeepCopyInto_def field_copier_def copier_rules copies_deep copies_flat)

lemma RuleArg_deep [copies_deep]: "ext_ok E \<Longrightarrow> deep_copier (shape_of E RuleArg) (RuleArg_DeepCopyInto E)"
  by (simp add: RuleArg_def RuleArg_DeepCopyInto_def field_copier_def copier_rules copies_deep copies_flat)

lemma RuleFunction_deep [copies_deep]: "ext_ok E \<Longrightarrow> deep_copier (shape_of E RuleFunction) (RuleFunction_DeepCopyInto E)"
  by (simp add: RuleFunction_def RuleFunction_DeepCopyInto_def field_copier_def copier_rules copies_deep copies_flat)

lemma RuleGroupBy_flat [copies_flat]: "flat_shape (shape_of E RuleGroupBy)"
  by (simp add: RuleGroupBy_def copies_flat)

lemma RuleGroupBy_deep [copies_deep]: "ext_ok E \<Longrightarrow> deep_copier (shape_of E RuleGroupBy) (RuleGroupBy_DeepCopyInto E)"
  by (simp add: RuleGroupBy_def RuleGroupBy_DeepCopyInto_def field_copier_def copier_rules copies_deep copies_flat)

lemma RuleHaving_flat [copies_flat]: "flat_shape (shape_of E RuleHaving)"
  by (simp add: RuleHaving_def copies_flat)

lemma RuleHaving_deep [copies_deep]: "ext_ok E \<Longrightarrow> deep_copier (shape_of E RuleHaving) (RuleHaving_DeepCopyInto E)"
  by (simp add: RuleHaving_def RuleHaving_DeepCopyInto_def field_copier_def copier_rules copies_deep copies_flat)

lemma RuleLimitBy_deep [copies_deep]: "ext_ok E \<Longrightarrow> deep_copier (shape_of E RuleLimitBy) (RuleLimitBy_DeepCopyInto E)"
  by (simp add: RuleLimitBy_def RuleLimitBy_DeepCopyInto_def field_copier_def copier_rules copies_deep copies_flat)

lemma RuleKey_flat [copies_flat]: "flat_shape (shape_of E RuleKey)"
  by (simp add: RuleKey_def copies_flat)

lemma RuleKey_deep [copies_deep]: "ext_ok E \<Longrightarrow> deep_copier (shape_of E RuleKey) (RuleKey_DeepCopyInto E)"
  by (simp add: RuleKey_def RuleKey_DeepCopyInto_def field_copier_def copier_rules copies_deep copies_flat)

lemma RuleOrder_deep [copies_deep]: "ext_ok E \<Longrightarrow> deep_copier (shape_of E RuleOrder) (RuleOrder_DeepCopyInto E)"
  by (simp add: RuleOrder_def RuleOrder_DeepCopyInto_def field_copier_def copier_rules copies_deep copies_flat)

lemma RuleSecondaryAggregationGroupBy_flat [copies_flat]: "flat_shape (shape_of E RuleSecondaryAggregationGroupBy)"
  by (simp add: RuleSecondaryAggregationGroupBy_def copies_flat)

lemma RuleSecondaryAggregationGroupBy_deep [copies_deep]: "ext_ok E \<Longrightarrow> deep_copier (shape_of E RuleSecondaryAggregationGroupBy) (RuleSecondaryAggregationGroupBy_DeepCopyInto E)"
  by (simp add: RuleSecondaryAggregationGroupBy_def RuleSecondaryAggregationGroupBy_DeepCopyInto_def field_copier_def copier_rules copies_deep copies_flat)

lemma RuleSecondaryAggregationLimitBy_deep [copies_deep]: "ext_ok E \<Longrightarrow> deep_copier (shape_of E RuleSecondaryAggregationLimitBy) (RuleSecondaryAggregationLimitBy_DeepCopyInto E)"
  by (simp add: RuleSecondaryAggregationLimitBy_def RuleSecondaryAggregationLimitBy_DeepCopyInto_def field_copier_def copier_rules copies_deep copies_flat)

lemma RuleSecondaryAggregationOrder_deep [copies_deep]: "ext_ok E \<Longrightarrow> deep_copier (shape_of E RuleSecondaryAggregationOrder) (RuleSecondaryAggregationOrder_DeepCopyInto E)"
  by (simp add: RuleSecondaryAggregationOrder_def RuleSecondaryAggregationOrder_DeepCopyInto_def field_copier_def copier_rules copies_deep copies_flat)

lemma RuleSecondaryAggregation_deep [copies_deep]: "ext_ok E \<Longrightarrow> deep_copier (shape_of E RuleSecondaryAggregation) (RuleSecondaryAggregation_DeepCopyInto E)"
  by (simp add: RuleSecondaryAggregation_def RuleSecondaryAggregation_DeepCopyInto_def field_copier_def copier_rules copies_deep copies_flat)

lemma RuleSelectField_flat [copies_flat]: "flat_shape (shape_of E RuleSelectField)"
  by (simp add: RuleSelectField_def copies_flat)

lemma RuleSelectField_deep [copies_deep]: "ext_ok E \<Longrightarrow> deep_copier (shape_of E RuleSelectField) (RuleSelectField_DeepCopyInto E)"
  by (simp add: RuleSelectField_def RuleSelectField_DeepCopyInto_def field_copier_def copier_rules copies_deep copies_flat)

lemma RuleQuerySpec_deep [copies_deep]: "ext_ok E \<Longrightarrow> deep_copier (shape_of E RuleQuerySpec) (RuleQuerySpec_DeepCopyInto E)"
  by (simp add: RuleQuerySpec_def RuleQuerySpec_DeepCopyInto_def field_copier_def copier_rules copies_deep copies_flat)

lemma RuleQuery_deep [copies_deep]: "ext_ok E \<Longrightarrow> deep_copier (shape_of E RuleQuery) (RuleQuery_DeepCopyInto E)"
  by (simp add: RuleQuery_def RuleQuery_DeepCopyInto_def field_copier_def copier_rules copies_deep copies_flat)

lemma RuleCompositeQuery_deep [copies_deep]: "ext_ok E \<Longrightarrow> deep_copier (shape_of E RuleCompositeQuery) (RuleCompositeQuery_DeepCopyInto E)"
  by (simp add: RuleCompositeQuery_def RuleCompositeQuery_DeepCopyInto_def field_copier_def copier_rules copies_deep copies_flat)

lemma RuleThresholdsSpec_deep [copies_deep]: "ext_ok E \<Longrightarrow> deep_copier (shape_of E RuleThresholdsSpec) (RuleThresholdsSpec_DeepCopyInto E)"
  by (simp add: RuleThresholdsSpec_def RuleThresholdsSpec_DeepCopyInto_def field_copier_def copier_rules copies_deep copies_flat)

lemma RuleThresholds_deep [copies_deep]: "ext_ok E \<Longrightarrow> deep_copier (shape_of E RuleThresholds) (RuleThresholds_DeepCopyInto E)"
  by (simp add: RuleThresholds_def RuleThresholds_DeepCopyInto_def field_copier_def copier_rules copies_deep copies_flat)

lemma RuleCondition_deep [copies_deep]: "ext_ok E \<Longrightarrow> deep_copier (shape_of E RuleCondition) (RuleCondition_DeepCopyInto E)"
  by (simp add: RuleCondition_def RuleCondition_DeepCopyInto_def field_copier_def copier_rules copies_deep copies_flat)

lemma RuleSchedule_deep [copies_deep]: "ext_ok E \<Longrightarrow> deep_copier (shape_of E RuleSchedule) (RuleSchedule_DeepCopyInto E)"
  by (simp add: RuleSchedule_def RuleSchedule_DeepCopyInto_def field_copier_def copier_rules copies_deep copies_flat)

lemma RuleEvaluationSpec_deep [copies_deep]: "ext_ok E \<Longrightarrow> deep_copier (shape_of E RuleEvaluationSpec) (RuleEvaluationSpec_DeepCopyInto E)"
  by (simp add: RuleEvaluationSpec_def RuleEvaluationSpec_DeepCopyInto_def field_copier_def copier_rules copies_deep copies_flat)

lemma RuleEvaluation_deep [copies_deep]: "ext_ok E \<Longrightarrow> deep_copier (shape_of E RuleEvaluation) (RuleEvaluation_DeepCopyInto E)"
  by (simp add: RuleEvaluation_def RuleEvaluation_DeepCopyInto_def field_copier_def copier_rules copies_deep copies_flat)

lemma RuleRenotify_deep [copies_deep]: "ext_ok E \<Longrightarrow> deep_copier (shape_of E RuleRenotify) (RuleRenotify_DeepCopyInto E)"
  by (simp add: RuleRenotify_def RuleRenotify_DeepCopyInto_def field_copier_def copier_rules copies_deep copies_flat)

lemma RuleNotificationSettings_deep [copies_deep]: "ext_ok E \<Longrightarrow> deep_copier (shape_of E RuleNotificationSettings) (RuleNotificationSettings_DeepCopyInto E)"
  by (simp add: RuleNotificationSettings_def RuleNotificationSettings_DeepCopyInto_def field_copier_def copier_rules copies_deep copies_flat)

lemma RuleObjectSpec_deep [copies_deep]: "ext_ok E \<Longrightarrow> deep_copier (shape_of E RuleObjectSpec) (RuleObjectSpec_DeepCopyInto E)"
  by (simp add: RuleObjectSpec_def RuleObjectSpec_DeepCopyInto_def field_copier_def copier_rules copies_deep copies_flat)

lemma RuleObjectTemplate_deep [copies_deep]: "ext_ok E \<Longrightarrow> deep_copier (shape_of E RuleObjectTemplate) (RuleObjectTemplate_DeepCopyInto E)"
  by (simp add: RuleObjectTemplate_def RuleObjectTemplate_DeepCopyInto_def field_copier_def copier_rules copies_deep copies_flat)

lemma rule_copies_deep: "ext_ok E \<Longrightarrow> all_deep (rule_copies E)"
  by (simp add: rule_copies_def copier_DeepCopy copier_DeepCopyObject copies_deep
      RuleComparisonSpaceAggregationParam_DeepCopy_def RuleAggregation_DeepCopy_def
      RuleBucketOptionsSpec_DeepCopy_def RuleBucketOptions_DeepCopy_def RuleFilter_DeepCopy_def
      RuleArg_DeepCopy_def RuleFunction_DeepCopy_def RuleGroupBy_DeepCopy_def RuleHaving_DeepCopy_def
      RuleLimitBy_DeepCopy_def RuleKey_DeepCopy_def RuleOrder_DeepCopy_def
      RuleSecondaryAggregationGroupBy_DeepCopy_def RuleSecondaryAggregationLimitBy_DeepCopy_def
      RuleSecondaryAggregationOrder_DeepCopy_def RuleSecondaryAggregation_DeepCopy_def
      RuleSelectField_DeepCopy_def RuleQuerySpec_DeepCopy_def RuleQuery_DeepCopy_def
      RuleCompositeQuery_DeepCopy_def RuleThresholdsSpec_DeepCopy_def RuleThresholds_DeepCopy_def
      RuleCondition_DeepCopy_def RuleSchedule_DeepCopy_def RuleEvaluationSpec_DeepCopy_def
      RuleEvaluation_DeepCopy_def RuleRenotify_DeepCopy_def RuleNotificationSettings_DeepCopy_def
      RuleObjectSpec_DeepCopy_def RuleObjectTemplate_DeepCopy_def)

lemma SavedViewComparisonSpaceAggregationParam_flat [copies_flat]: "flat_shape (shape_of E SavedViewComparisonSpaceAggregationParam)"
  by (simp add: SavedViewComparisonSpaceAggregationParam_def copies_flat)

lemma SavedViewComparisonSpaceAggregationParam_deep [copies_deep]: "ext_ok E \<Longrightarrow> deep_copier (shape_of E SavedViewComparisonSpaceAggregationParam) (SavedViewComparisonSpaceAggregationParam_DeepCopyInto E)"
  by (simp add: SavedViewComparisonSpaceAggregationParam_def SavedViewComparisonSpaceAggregationParam_DeepCopyInto_def field_copier_def copier_rules copies_deep copies_flat)

lemma SavedViewAggregation_deep [copies_deep]: "ext_ok E \<Longrightarrow> deep_copier (shape_of E SavedViewAggregation) (SavedViewAggregation_DeepCopyInto E)"
  by (simp add: SavedViewAggregation_def SavedViewAggregation_DeepCopyInto_def field_copier_def copier_rules copies_deep copies_flat)

lemma SavedViewBucketOptionsSpec_deep [copies_deep]: "ext_ok E \<Longrightarrow> deep_copier (shape_of E SavedViewBucketOptionsSpec) (SavedViewBucketOptionsSpec_DeepCopyInto E)"
  by (simp add: SavedViewBucketOptionsSpec_def SavedViewBucketOptionsSpec_DeepCopyInto_def field_copier_def copier_rules copies_deep copies_flat)

lemma SavedViewBucketOptions_deep [copies_deep]: "ext_ok E \<Longrightarrow> deep_copier (shape_of E SavedViewBucketOptions) (SavedViewBucketOptions_DeepCopyInto E)"
  by (simp add: SavedViewBucketOptions_def SavedViewBucketOptions_DeepCopyInto_def field_copier_def copier_rules copies_deep copies_flat)

lemma SavedViewFilter_flat [copies_flat]: "flat_shape (shape_of E SavedViewFilter)"
  by (simp add: SavedViewFilter_def copies_flat)

lemma SavedViewFilter_deep [copies_deep]: "ext_ok E \<Longrightarrow> deep_copier (shape_of E SavedViewFilter) (SavedViewFilter_DeepCopyInto E)"
  by (simp add: SavedViewFilter_def SavedViewFilter_DeepCopyInto_def field_copier_def copier_rules copies_deep copies_flat)

lemma SavedViewArg_deep [copies_deep]: "ext_ok E \<Longrightarrow> deep_copier (shape_of E SavedViewArg) (SavedViewArg_DeepCopyInto E)"
  by (simp add: SavedViewArg_def SavedViewArg_DeepCopyInto_def field_copier_def copier_rules copies_deep copies_flat)

lemma SavedViewFunction_deep [copies_deep]: "ext_ok E \<Longrightarrow> deep_copier (shape_of E SavedViewFunction) (SavedViewFunction_DeepCopyInto E)"
  by (simp add: SavedViewFunction_def SavedViewFunction_DeepCopyInto_def field_copier_def copier_rules copies_deep copies_flat)

lemma SavedViewGroupBy_flat [copies_flat]: "flat_shape (shape_of E SavedViewGroupBy)"
  by (simp add: SavedViewGroupBy_def copies_flat)

lemma SavedViewGroupBy_deep [copies_deep]: "ext_ok E \<Longrightarrow> deep_copier (shape_of E SavedViewGroupBy) (SavedViewGroupBy_DeepCopyInto E)"
  by (simp add: SavedViewGroupBy_def SavedViewGroupBy_DeepCopyInto_def field_copier_def copier_rules copies_deep copies_flat)

lemma SavedViewHaving_flat [copies_flat]: "flat_shape (shape_of E SavedViewHaving)"
  by (simp add: SavedViewHaving_def copies_flat)

lemma SavedViewHaving_deep [copies_deep]: "ext_ok E \<Longrightarrow> deep_copier (shape_of E SavedViewHaving) (SavedViewHaving_DeepCopyInto E)"
  by (simp add: SavedViewHaving_def SavedViewHaving_DeepCopyInto_def field_copier_def copier_rules copies_deep copies_flat)

lemma SavedViewLimitBy_deep [copies_deep]: "ext_ok E \<Longrightarrow> deep_copier (shape_of E SavedViewLimitBy) (SavedViewLimitBy_DeepCopyInto E)"
  by (simp add: SavedViewLimitBy_def SavedViewLimitBy_DeepCopyInto_def field_copier_def copier_rules copies_deep copies_flat)

lemma SavedViewKey_flat [copies_flat]: "flat_shape (shape_of E SavedViewKey)"
  by (simp add: SavedViewKey_def copies_flat)

lemma SavedViewKey_deep [copies_deep]: "ext_ok E \<Longrightarrow> deep_copier (shape_of E SavedViewKey) (SavedViewKey_DeepCopyInto E)"
  by (simp add: SavedViewKey_def SavedViewKey_DeepCopyInto_def field_copier_def copier_rules copies_deep copies_flat)

lemma SavedViewOrder_deep [copies_deep]: "ext_ok E \<Longrightarrow> deep_copier (shape_of E SavedViewOrder) (SavedViewOrder_DeepCopyInto E)"
  by (simp add: SavedViewOrder_def SavedViewOrder_DeepCopyInto_def field_copier_def copier_rules copies_deep copies_flat)

lemma SavedViewSecondaryAggregationGroupBy_flat [copies_flat]: "flat_shape (shape_of E SavedViewSecondaryAggregationGroupBy)"
  by (simp add: SavedViewSecondaryAggregationGroupBy_def copies_flat)

lemma SavedViewSecondaryAggregationGroupBy_deep [copies_deep]: "ext_ok E \<Longrightarrow> deep_copier (shape_of E SavedViewSecondaryAggregationGroupBy) (SavedViewSecondaryAggregationGroupBy_DeepCopyInto E)"
  by (simp add: SavedViewSecondaryAggregationGroupBy_def SavedViewSecondaryAggregationGroupBy_DeepCopyInto_def field_copier_def copier_rules copies_deep copies_flat)

lemma SavedViewSecondaryAggregationLimitBy_deep [copies_deep]: "ext_ok E \<Longrightarrow> deep_copier (shape_of E SavedViewSecondaryAggregationLimitBy) (SavedViewSecondaryAggregationLimitBy_DeepCopyInto E)"
  by (simp add: SavedViewSecondaryAggregationLimitBy_def SavedViewSecondaryAggregationLimitBy_DeepCopyInto_def field_copier_def copier_rules copies_deep copies_flat)

lemma SavedViewSecondaryAggregationOrder_deep [copies_deep]: "ext_ok E \<Longrightarrow> deep_copier (shape_of E SavedViewSecondaryAggregationOrder) (SavedViewSecondaryAggregationOrder_DeepCopyInto E)"
  by (simp add: SavedViewSecondaryAggregationOrder_def SavedViewSecondaryAggregationOrder_DeepCopyInto_def field_copier_def copier_rules copies_deep copies_flat)

lemma SavedViewSecondaryAggregation_deep [copies_deep]: "ext_ok E \<Longrightarrow> deep_copier (shape_of E SavedViewSecondaryAggregation) (SavedViewSecondaryAggregation_DeepCopyInto E)"
  by (simp add: SavedViewSecondaryAggregation_def SavedViewSecondaryAggregation_DeepCopyInto_def field_copier_def copier_rules copies_deep copies_flat)

lemma SavedViewSelectField_flat [copies_flat]: "flat_shape (shape_of E SavedViewSelectField)"
  by (simp add: SavedViewSelectField_def copies_flat)

lemma SavedViewSelectField_deep [copies_deep]: "ext_ok E \<Longrightarrow> deep_copier (shape_of E SavedViewSelectField) (SavedViewSelectField_DeepCopyInto E)"
  by (simp add: SavedViewSelectField_def SavedViewSelectField_DeepCopyInto_def field_copier_def copier_rules copies_deep copies_flat)

lemma SavedViewQuerySpec_deep [copies_deep]: "ext_ok E \<Longrightarrow> deep_copier (shape_of E SavedViewQuerySpec) (SavedViewQuerySpec_DeepCopyInto E)"
  by (simp add: SavedViewQuerySpec_def SavedViewQuerySpec_DeepCopyInto_def field_copier_def copier_rules copies_deep copies_flat)

lemma SavedViewQuery_deep [copies_deep]: "ext_ok E \<Longrightarrow> deep_copier (shape_of E SavedViewQuery) (SavedViewQuery_DeepCopyInto E)"
  by (simp add: SavedViewQuery_def SavedViewQuery_DeepCopyInto_def field_copier_def copier_rules copies_deep copies_flat)

lemma SavedViewDisplay_flat [copies_flat]: "flat_shape (shape_of E SavedViewDisplay)"
  by (simp add: SavedViewDisplay_def copies_flat)

lemma SavedViewDisplay_deep [copies_deep]: "ext_ok E \<Longrightarrow> deep_copier (shape_of E SavedViewDisplay) (SavedViewDisplay_DeepCopyInto E)"
  by (simp add: SavedViewDisplay_def SavedViewDisplay_DeepCopyInto_def field_copier_def copier_rules copies_deep copies_flat)

lemma SavedViewSelectedField_flat [copies_flat]: "flat_shape (shape_of E SavedViewSelectedField)"
  by (simp add: SavedViewSelectedField_def copies_flat)

lemma SavedViewSelectedField_deep [copies_deep]: "ext_ok E \<Longrightarrow> deep_copier (shape_of E SavedViewSelectedField) (SavedViewSelectedField_DeepCopyInto E)"
  by (simp add: SavedViewSelectedField_def SavedViewSelectedField_DeepCopyInto_def field_copier_def copier_rules copies_deep copies_flat)

lemma SavedViewSpecPayload_deep [copies_deep]: "ext_ok E \<Longrightarrow> deep_copier (shape_of E SavedViewSpecPayload) (SavedViewSpecPayload_DeepCopyInto E)"
  by (simp add: SavedViewSpecPayload_def SavedViewSpecPayload_DeepCopyInto_def field_copier_def copier_rules copies_deep copies_flat)

lemma SavedViewObjectSpec_deep [copies_deep]: "ext_ok E \<Longrightarrow> deep_copier (shape_of E SavedViewObjectSpec) (SavedViewObjectSpec_DeepCopyInto E)"
  by (simp add: SavedViewObjectSpec_def SavedViewObjectSpec_DeepCopyInto_def field_copier_def copier_rules copies_deep copies_flat)

lemma SavedViewObjectTemplate_deep [copies_deep]: "ext_ok E \<Longrightarrow> deep_copier (shape_of E SavedViewObjectTemplate) (SavedViewObjectTemplate_DeepCopyInto E)"
  by (simp add: SavedViewObjectTemplate_def SavedViewObjectTemplate_DeepCopyInto_def field_copier_def copier_rules copies_deep copies_flat)

lemma savedview_copies_deep: "ext_ok E \<Longrightarrow> all_deep (savedview_copies E)"
  by (simp add: savedview_copies_def copier_DeepCopy copier_DeepCopyObject copies_deep
      SavedViewComparisonSpaceAggregationParam_DeepCopy_def SavedViewAggregation_DeepCopy_def
      SavedViewBucketOptionsSpec_DeepCopy_def SavedViewBucketOptions_DeepCopy_def SavedViewFilter_DeepCopy_def
      SavedViewArg_DeepCopy_def SavedViewFunction_DeepCopy_def SavedViewGroupBy_DeepCopy_def
      SavedViewHaving_DeepCopy_def SavedViewLimitBy_DeepCopy_def SavedViewKey_DeepCopy_def
      SavedViewOrder_DeepCopy_def SavedViewSecondaryAggregationGroupBy_DeepCopy_def
      SavedViewSecondaryAggregationLimitBy_DeepCopy_def SavedViewSecondaryAggregationOrder_DeepCopy_def
      SavedViewSecondaryAggregation_DeepCopy_def SavedViewSelectField_DeepCopy_def SavedViewQuerySpec_DeepCopy_def
      SavedViewQuery_DeepCopy_def SavedViewDisplay_DeepCopy_def SavedViewSelectedField_DeepCopy_def
      SavedViewSpecPayload_DeepCopy_def SavedViewObjectSpec_DeepCopy_def SavedViewObjectTemplate_DeepCopy_def)

lemma ServiceAccountObjectSpec_flat [copies_flat]: "flat_shape (shape_of E ServiceAccountObjectSpec)"
  by (simp add: ServiceAccountObjectSpec_def copies_flat)

lemma ServiceAccountObjectSpec_deep [copies_deep]: "ext_ok E \<Longrightarrow> deep_copier (shape_of E ServiceAccountObjectSpec) (ServiceAccountObjectSpec_DeepCopyInto E)"
  by (simp add: ServiceAccountObjectSpec_def ServiceAccountObjectSpec_DeepCopyInto_def field_copier_def copier_rules copies_deep copies_flat)

lemma ServiceAccountObjectTemplate_deep [copies_deep]: "ext_ok E \<Longrightarrow> deep_copier (shape_of E ServiceAccountObjectTemplate) (ServiceAccountObjectTemplate_DeepCopyInto E)"
  by (simp add: ServiceAccountObjectTemplate_def ServiceAccountObjectTemplate_DeepCopyInto_def field_copier_def copier_rules copies_deep copies_flat)

lemma serviceaccount_copies_deep: "ext_ok E \<Longrightarrow> all_deep (serviceaccount_copies E)"
  by (simp add: serviceaccount_copies_def copier_DeepCopy copier_DeepCopyObject copies_deep
      ServiceAccountObjectSpec_DeepCopy_def ServiceAccountObjectTemplate_DeepCopy_def)

lemma UserObjectSpec_flat [copies_flat]: "flat_shape (shape_of E UserObjectSpec)"
  by (simp add: UserObjectSpec_def copies_flat)

lemma UserObjectSpec_deep [copies_deep]: "ext_ok E \<Longrightarrow> deep_copier (shape_of E UserObjectSpec) (UserObjectSpec_DeepCopyInto E)"
  by (simp add: UserObjectSpec_def UserObjectSpec_DeepCopyInto_def field_copier_def copier_rules copies_deep copies_flat)

lemma UserObjectTemplate_deep [copies_deep]: "ext_ok E \<Longrightarrow> deep_copier (shape_of E UserObjectTemplate) (UserObjectTemplate_DeepCopyInto E)"
  by (simp add: UserObjectTemplate_def UserObjectTemplate_DeepCopyInto_def field_copier_def copier_rules copies_deep copies_flat)

lemma user_copies_deep: "ext_ok E \<Longrightarrow> all_deep (user_copies E)"
  by (simp add: user_copies_def copier_DeepCopy copier_DeepCopyObject copies_deep
      UserObjectSpec_DeepCopy_def UserObjectTemplate_DeepCopy_def)

end
