(* ===== verification/CopyApi.thy ===== *)
theory CopyApi
  imports CopySpecs Objects
begin

text \<open>
  The deep copies of the other API types: core spec and status, provider configurations, and the
  ten resources with their lists. The shape of each type is read off its struct; an embedded field
  without a JSON name goes by its type.
\<close>

definition ValueSource_shape :: "ext \<Rightarrow> shape" where
  "ValueSource_shape E = Struct [
     (''secretKeyRef'', Ptr (ext_shape E ''corev1.SecretKeySelector'')),
     (''configMapKeyRef'', Ptr (ext_shape E ''corev1.ConfigMapKeySelector''))]"

definition ValueSource_DeepCopyInto :: "ext \<Rightarrow> copier" where
  "ValueSource_DeepCopyInto E = DeepCopyInto [
     (''secretKeyRef'', new_ptr (ext_copy E ''corev1.SecretKeySelector'')),
     (''configMapKeyRef'', new_ptr (ext_copy E ''corev1.ConfigMapKeySelector''))]"

definition ValueSource_DeepCopy :: "ext \<Rightarrow> copier" where
  "ValueSource_DeepCopy E = DeepCopy_of (ValueSource_DeepCopyInto E)"

definition Endpoint_shape :: "ext \<Rightarrow> shape" where
  "Endpoint_shape E = Struct [
     (''value'', Flat),
     (''valueFrom'', Ptr (ValueSource_shape E))]"

definition Endpoint_DeepCopyInto :: "ext \<Rightarrow> copier" where
  "Endpoint_DeepCopyInto E = DeepCopyInto [
     (''valueFrom'', new_ptr (ValueSource_DeepCopyInto E))]"

definition Endpoint_DeepCopy :: "ext \<Rightarrow> copier" where
  "Endpoint_DeepCopy E = DeepCopy_of (Endpoint_DeepCopyInto E)"

definition HeaderAuth_shape :: "ext \<Rightarrow> shape" where
  "HeaderAuth_shape E = Struct [
     (''name'', Flat),
     (''scheme'', Flat),
     (''value'', Flat),
     (''valueFrom'', Ptr (ValueSource_shape E))]"

definition HeaderAuth_DeepCopyInto :: "ext \<Rightarrow> copier" where
  "HeaderAuth_DeepCopyInto E = DeepCopyInto [
     (''valueFrom'', new_ptr (ValueSource_DeepCopyInto E))]"

definition HeaderAuth_DeepCopy :: "ext \<Rightarrow> copier" where
  "HeaderAuth_DeepCopy E = DeepCopy_of (HeaderAuth_DeepCopyInto E)"

definition Authentication_shape :: "ext \<Rightarrow> shape" where
  "Authentication_shape E = Struct [
     (''header'', Ptr (HeaderAuth_shape E))]"

definition Authentication_DeepCopyInto :: "ext \<Rightarrow> copier" where
  "Authentication_DeepCopyInto E = DeepCopyInto [
     (''header'', new_ptr (HeaderAuth_DeepCopyInto E))]"

definition Authentication_DeepCopy :: "ext \<Rightarrow> copier" where
  "Authentication_DeepCopy E = DeepCopy_of (Authentication_DeepCopyInto E)"

definition TLSConfig_shape :: "ext \<Rightarrow> shape" where
  "TLSConfig_shape E = Struct [
     (''insecureSkipVerify'', Flat),
     (''caSecretRef'', Ptr (ext_shape E ''corev1.SecretKeySelector''))]"

definition TLSConfig_DeepCopyInto :: "ext \<Rightarrow> copier" where
  "TLSConfig_DeepCopyInto E = DeepCopyInto [
     (''caSecretRef'', new_ptr (ext_copy E ''corev1.SecretKeySelector''))]"

definition TLSConfig_DeepCopy :: "ext \<Rightarrow> copier" where
  "TLSConfig_DeepCopy E = DeepCopy_of (TLSConfig_DeepCopyInto E)"

definition ProviderConfigSpec_shape :: "ext \<Rightarrow> shape" where
  "ProviderConfigSpec_shape E = Struct [
     (''endpoint'', Endpoint_shape E),
     (''auth'', Authentication_shape E),
     (''tls'', Ptr (TLSConfig_shape E))]"

definition ProviderConfigSpec_DeepCopyInto :: "ext \<Rightarrow> copier" where
  "ProviderConfigSpec_DeepCopyInto E = DeepCopyInto [
     (''endpoint'', Endpoint_DeepCopyInto E),
     (''auth'', Authentication_DeepCopyInto E),
     (''tls'', new_ptr (TLSConfig_DeepCopyInto E))]"

definition ProviderConfigSpec_DeepCopy :: "ext \<Rightarrow> copier" where
  "ProviderConfigSpec_DeepCopy E = DeepCopy_of (ProviderConfigSpec_DeepCopyInto E)"

definition ProviderConfigStatus_shape :: "ext \<Rightarrow> shape" where
  "ProviderConfigStatus_shape E = Struct [
     (''conditions'', Slice (ext_shape E ''metav1.Condition'')),
     (''observedGeneration'', Flat),
     (''observedRefVersions'', Map (Map Flat))]"

definition ProviderConfigStatus_DeepCopyInto :: "ext \<Rightarrow> copier" where
  "ProviderConfigStatus_DeepCopyInto E = DeepCopyInto [
     (''conditions'', make_slice (ext_copy E ''metav1.Condition'')),
     (''observedRefVersions'', make_map (make_map assign))]"

definition ProviderConfigStatus_DeepCopy :: "ext \<Rightarrow> copier" where
  "ProviderConfigStatus_DeepCopy E = DeepCopy_of (ProviderConfigStatus_DeepCopyInto E)"

definition ClusterProviderConfig_shape :: "ext \<Rightarrow> shape" where
  "ClusterProviderConfig_shape E = Struct [
     (''TypeMeta'', ext_shape E ''metav1.TypeMeta''),
     (''metadata'', ext_shape E ''metav1.ObjectMeta''),
     (''spec'', ProviderConfigSpec_shape E),
     (''status'', ProviderConfigStatus_shape E)]"

definition ClusterProviderConfig_DeepCopyInto :: "ext \<Rightarrow> copier" where
  "ClusterProviderConfig_DeepCopyInto E = DeepCopyInto [
     (''TypeMeta'', assign),
     (''metadata'', ext_copy E ''metav1.ObjectMeta''),
     (''spec'', ProviderConfigSpec_DeepCopyInto E),
     (''status'', ProviderConfigStatus_DeepCopyInto E)]"

definition ClusterProviderConfig_DeepCopy :: "ext \<Rightarrow> copier" where
  "ClusterProviderConfig_DeepCopy E = DeepCopy_of (ClusterProviderConfig_DeepCopyInto E)"

definition ClusterProviderConfig_DeepCopyObject :: "ext \<Rightarrow> copier" where
  "ClusterProviderConfig_DeepCopyObject E = DeepCopyObject_of (ClusterProviderConfig_DeepCopy E)"

definition ClusterProviderConfigList_shape :: "ext \<Rightarrow> shape" where
  "ClusterProviderConfigList_shape E = Struct [
     (''TypeMeta'', ext_shape E ''metav1.TypeMeta''),
     (''metadata'', ext_shape E ''metav1.ListMeta''),
     (''items'', Slice (ClusterProviderConfig_shape E))]"

definition ClusterProviderConfigList_DeepCopyInto :: "ext \<Rightarrow> copier" where
  "ClusterProviderConfigList_DeepCopyInto E = DeepCopyInto [
     (''TypeMeta'', assign),
     (''metadata'', ext_copy E ''metav1.ListMeta''),
     (''items'', make_slice (ClusterProviderConfig_DeepCopyInto E))]"

definition ClusterProviderConfigList_DeepCopy :: "ext \<Rightarrow> copier" where
  "ClusterProviderConfigList_DeepCopy E = DeepCopy_of (ClusterProviderConfigList_DeepCopyInto E)"

definition ClusterProviderConfigList_DeepCopyObject :: "ext \<Rightarrow> copier" where
  "ClusterProviderConfigList_DeepCopyObject E = DeepCopyObject_of (ClusterProviderConfigList_DeepCopy E)"

definition ProviderConfigRef_shape :: "ext \<Rightarrow> shape" where
  "ProviderConfigRef_shape E = Struct [
     (''name'', Flat),
     (''kind'', Flat)]"

definition ProviderConfigRef_DeepCopyInto :: "ext \<Rightarrow> copier" where
  "ProviderConfigRef_DeepCopyInto E = DeepCopyInto []"

definition ProviderConfigRef_DeepCopy :: "ext \<Rightarrow> copier" where
  "ProviderConfigRef_DeepCopy E = DeepCopy_of (ProviderConfigRef_DeepCopyInto E)"

definition CoreSpec_shape :: "ext \<Rightarrow> shape" where
  "CoreSpec_shape E = Struct [
     (''providerConfigRef'', ProviderConfigRef_shape E),
     (''interval'', Ptr (ext_shape E ''metav1.Duration'')),
     (''retryInterval'', Ptr (ext_shape E ''metav1.Duration'')),
     (''timeout'', Ptr (ext_shape E ''metav1.Duration'')),
     (''suspend'', Flat),
     (''reclaimPolicy'', Flat)]"

definition CoreSpec_DeepCopyInto :: "ext \<Rightarrow> copier" where
  "CoreSpec_DeepCopyInto E = DeepCopyInto [
     (''providerConfigRef'', assign),
     (''interval'', new_ptr assign),
     (''retryInterval'', new_ptr assign),
     (''timeout'', new_ptr assign)]"

definition CoreSpec_DeepCopy :: "ext \<Rightarrow> copier" where
  "CoreSpec_DeepCopy E = DeepCopy_of (CoreSpec_DeepCopyInto E)"

definition SigNozResource_shape :: "ext \<Rightarrow> shape" where
  "SigNozResource_shape E = Struct [
     (''id'', Ptr Flat)]"

definition SigNozResource_DeepCopyInto :: "ext \<Rightarrow> copier" where
  "SigNozResource_DeepCopyInto E = DeepCopyInto [
     (''id'', new_ptr assign)]"

definition SigNozResource_DeepCopy :: "ext \<Rightarrow> copier" where
  "SigNozResource_DeepCopy E = DeepCopy_of (SigNozResource_DeepCopyInto E)"

definition CoreStatus_shape :: "ext \<Rightarrow> shape" where
  "CoreStatus_shape E = Struct [
     (''conditions'', Slice (ext_shape E ''metav1.Condition'')),
     (''signozResource'', Ptr (SigNozResource_shape E)),
     (''observedGeneration'', Flat),
     (''observedHash'', Flat),
     (''reconciledAt'', ext_shape E ''metav1.Time'')]"

definition CoreStatus_DeepCopyInto :: "ext \<Rightarrow> copier" where
  "CoreStatus_DeepCopyInto E = DeepCopyInto [
     (''conditions'', make_slice (ext_copy E ''metav1.Condition'')),
     (''signozResource'', new_ptr (SigNozResource_DeepCopyInto E)),
     (''reconciledAt'', ext_copy E ''metav1.Time'')]"

definition CoreStatus_DeepCopy :: "ext \<Rightarrow> copier" where
  "CoreStatus_DeepCopy E = DeepCopy_of (CoreStatus_DeepCopyInto E)"

definition ProviderConfig_shape :: "ext \<Rightarrow> shape" where
  "ProviderConfig_shape E = Struct [
     (''TypeMeta'', ext_shape E ''metav1.TypeMeta''),
     (''metadata'', ext_shape E ''metav1.ObjectMeta''),
     (''spec'', ProviderConfigSpec_shape E),
     (''status'', ProviderConfigStatus_shape E)]"

definition ProviderConfig_DeepCopyInto :: "ext \<Rightarrow> copier" where
  "ProviderConfig_DeepCopyInto E = DeepCopyInto [
     (''TypeMeta'', assign),
     (''metadata'', ext_copy E ''metav1.ObjectMeta''),
     (''spec'', ProviderConfigSpec_DeepCopyInto E),
     (''status'', ProviderConfigStatus_DeepCopyInto E)]"

definition ProviderConfig_DeepCopy :: "ext \<Rightarrow> copier" where
  "ProviderConfig_DeepCopy E = DeepCopy_of (ProviderConfig_DeepCopyInto E)"

definition ProviderConfig_DeepCopyObject :: "ext \<Rightarrow> copier" where
  "ProviderConfig_DeepCopyObject E = DeepCopyObject_of (ProviderConfig_DeepCopy E)"

definition ProviderConfigList_shape :: "ext \<Rightarrow> shape" where
  "ProviderConfigList_shape E = Struct [
     (''TypeMeta'', ext_shape E ''metav1.TypeMeta''),
     (''metadata'', ext_shape E ''metav1.ListMeta''),
     (''items'', Slice (ProviderConfig_shape E))]"

definition ProviderConfigList_DeepCopyInto :: "ext \<Rightarrow> copier" where
  "ProviderConfigList_DeepCopyInto E = DeepCopyInto [
     (''TypeMeta'', assign),
     (''metadata'', ext_copy E ''metav1.ListMeta''),
     (''items'', make_slice (ProviderConfig_DeepCopyInto E))]"

definition ProviderConfigList_DeepCopy :: "ext \<Rightarrow> copier" where
  "ProviderConfigList_DeepCopy E = DeepCopy_of (ProviderConfigList_DeepCopyInto E)"

definition ProviderConfigList_DeepCopyObject :: "ext \<Rightarrow> copier" where
  "ProviderConfigList_DeepCopyObject E = DeepCopyObject_of (ProviderConfigList_DeepCopy E)"

definition AuthDomainSpec_shape :: "ext \<Rightarrow> shape" where
  "AuthDomainSpec_shape E = Struct [
     (''CoreSpec'', CoreSpec_shape E),
     (''objectTemplate'', shape_of E AuthDomainObjectTemplate)]"

definition AuthDomainSpec_DeepCopyInto :: "ext \<Rightarrow> copier" where
  "AuthDomainSpec_DeepCopyInto E = DeepCopyInto [
     (''CoreSpec'', CoreSpec_DeepCopyInto E),
     (''objectTemplate'', AuthDomainObjectTemplate_DeepCopyInto E)]"

definition AuthDomainSpec_DeepCopy :: "ext \<Rightarrow> copier" where
  "AuthDomainSpec_DeepCopy E = DeepCopy_of (AuthDomainSpec_DeepCopyInto E)"

definition AuthDomainStatus_shape :: "ext \<Rightarrow> shape" where
  "AuthDomainStatus_shape E = Struct [
     (''CoreStatus'', CoreStatus_shape E)]"

definition AuthDomainStatus_DeepCopyInto :: "ext \<Rightarrow> copier" where
  "AuthDomainStatus_DeepCopyInto E = DeepCopyInto [
     (''CoreStatus'', CoreStatus_DeepCopyInto E)]"

definition AuthDomainStatus_DeepCopy :: "ext \<Rightarrow> copier" where
  "AuthDomainStatus_DeepCopy E = DeepCopy_of (AuthDomainStatus_DeepCopyInto E)"

definition AuthDomain_shape :: "ext \<Rightarrow> shape" where
  "AuthDomain_shape E = Struct [
     (''TypeMeta'', ext_shape E ''metav1.TypeMeta''),
     (''metadata'', ext_shape E ''metav1.ObjectMeta''),
     (''spec'', AuthDomainSpec_shape E),
     (''status'', AuthDomainStatus_shape E)]"

definition AuthDomain_DeepCopyInto :: "ext \<Rightarrow> copier" where
  "AuthDomain_DeepCopyInto E = DeepCopyInto [
     (''TypeMeta'', assign),
     (''metadata'', ext_copy E ''metav1.ObjectMeta''),
     (''spec'', AuthDomainSpec_DeepCopyInto E),
     (''status'', AuthDomainStatus_DeepCopyInto E)]"

definition AuthDomain_DeepCopy :: "ext \<Rightarrow> copier" where
  "AuthDomain_DeepCopy E = DeepCopy_of (AuthDomain_DeepCopyInto E)"

definition AuthDomain_DeepCopyObject :: "ext \<Rightarrow> copier" where
  "AuthDomain_DeepCopyObject E = DeepCopyObject_of (AuthDomain_DeepCopy E)"

definition AuthDomainList_shape :: "ext \<Rightarrow> shape" where
  "AuthDomainList_shape E = Struct [
     (''TypeMeta'', ext_shape E ''metav1.TypeMeta''),
     (''metadata'', ext_shape E ''metav1.ListMeta''),
     (''items'', Slice (AuthDomain_shape E))]"

definition AuthDomainList_DeepCopyInto :: "ext \<Rightarrow> copier" where
  "AuthDomainList_DeepCopyInto E = DeepCopyInto [
     (''TypeMeta'', assign),
     (''metadata'', ext_copy E ''metav1.ListMeta''),
     (''items'', make_slice (AuthDomain_DeepCopyInto E))]"

definition AuthDomainList_DeepCopy :: "ext \<Rightarrow> copier" where
  "AuthDomainList_DeepCopy E = DeepCopy_of (AuthDomainList_DeepCopyInto E)"

definition AuthDomainList_DeepCopyObject :: "ext \<Rightarrow> copier" where
  "AuthDomainList_DeepCopyObject E = DeepCopyObject_of (AuthDomainList_DeepCopy E)"

definition DashboardSpec_shape :: "ext \<Rightarrow> shape" where
  "DashboardSpec_shape E = Struct [
     (''CoreSpec'', CoreSpec_shape E),
     (''objectTemplate'', shape_of E DashboardObjectTemplate)]"

definition DashboardSpec_DeepCopyInto :: "ext \<Rightarrow> copier" where
  "DashboardSpec_DeepCopyInto E = DeepCopyInto [
     (''CoreSpec'', CoreSpec_DeepCopyInto E),
     (''objectTemplate'', DashboardObjectTemplate_DeepCopyInto E)]"

definition DashboardSpec_DeepCopy :: "ext \<Rightarrow> copier" where
  "DashboardSpec_DeepCopy E = DeepCopy_of (DashboardSpec_DeepCopyInto E)"

definition DashboardStatus_shape :: "ext \<Rightarrow> shape" where
  "DashboardStatus_shape E = Struct [
     (''CoreStatus'', CoreStatus_shape E)]"

definition DashboardStatus_DeepCopyInto :: "ext \<Rightarrow> copier" where
  "DashboardStatus_DeepCopyInto E = DeepCopyInto [
     (''CoreStatus'', CoreStatus_DeepCopyInto E)]"

definition DashboardStatus_DeepCopy :: "ext \<Rightarrow> copier" where
  "DashboardStatus_DeepCopy E = DeepCopy_of (DashboardStatus_DeepCopyInto E)"

definition Dashboard_shape :: "ext \<Rightarrow> shape" where
  "Dashboard_shape E = Struct [
     (''TypeMeta'', ext_shape E ''metav1.TypeMeta''),
     (''metadata'', ext_shape E ''metav1.ObjectMeta''),
     (''spec'', DashboardSpec_shape E),
     (''status'', DashboardStatus_shape E)]"

definition Dashboard_DeepCopyInto :: "ext \<Rightarrow> copier" where
  "Dashboard_DeepCopyInto E = DeepCopyInto [
     (''TypeMeta'', assign),
     (''metadata'', ext_copy E ''metav1.ObjectMeta''),
     (''spec'', DashboardSpec_DeepCopyInto E),
     (''status'', DashboardStatus_DeepCopyInto E)]"

definition Dashboard_DeepCopy :: "ext \<Rightarrow> copier" where
  "Dashboard_DeepCopy E = DeepCopy_of (Dashboard_DeepCopyInto E)"

definition Dashboard_DeepCopyObject :: "ext \<Rightarrow> copier" where
  "Dashboard_DeepCopyObject E = DeepCopyObject_of (Dashboard_DeepCopy E)"

definition DashboardList_shape :: "ext \<Rightarrow> shape" where
  "DashboardList_shape E = Struct [
     (''TypeMeta'', ext_shape E ''metav1.TypeMeta''),
     (''metadata'', ext_shape E ''metav1.ListMeta''),
     (''items'', Slice (Dashboard_shape E))]"

definition DashboardList_DeepCopyInto :: "ext \<Rightarrow> copier" where
  "DashboardList_DeepCopyInto E = DeepCopyInto [
     (''TypeMeta'', assign),
     (''metadata'', ext_copy E ''metav1.ListMeta''),
     (''items'', make_slice (Dashboard_DeepCopyInto E))]"

definition DashboardList_DeepCopy :: "ext \<Rightarrow> copier" where
  "DashboardList_DeepCopy E = DeepCopy_of (DashboardList_DeepCopyInto E)"

definition DashboardList_DeepCopyObject :: "ext \<Rightarrow> copier" where
  "DashboardList_DeepCopyObject E = DeepCopyObject_of (DashboardList_DeepCopy E)"

definition NotificationChannelSpec_shape :: "ext \<Rightarrow> shape" where
  "NotificationChannelSpec_shape E = Struct [
     (''CoreSpec'', CoreSpec_shape E),
     (''objectTemplate'', shape_of E NotificationChannelObjectTemplate)]"

definition NotificationChannelSpec_DeepCopyInto :: "ext \<Rightarrow> copier" where
  "NotificationChannelSpec_DeepCopyInto E = DeepCopyInto [
     (''CoreSpec'', CoreSpec_DeepCopyInto E),
     (''objectTemplate'', NotificationChannelObjectTemplate_DeepCopyInto E)]"

definition NotificationChannelSpec_DeepCopy :: "ext \<Rightarrow> copier" where
  "NotificationChannelSpec_DeepCopy E = DeepCopy_of (NotificationChannelSpec_DeepCopyInto E)"

definition NotificationChannelStatus_shape :: "ext \<Rightarrow> shape" where
  "NotificationChannelStatus_shape E = Struct [
     (''CoreStatus'', CoreStatus_shape E)]"

definition NotificationChannelStatus_DeepCopyInto :: "ext \<Rightarrow> copier" where
  "NotificationChannelStatus_DeepCopyInto E = DeepCopyInto [
     (''CoreStatus'', CoreStatus_DeepCopyInto E)]"

definition NotificationChannelStatus_DeepCopy :: "ext \<Rightarrow> copier" where
  "NotificationChannelStatus_DeepCopy E = DeepCopy_of (NotificationChannelStatus_DeepCopyInto E)"

definition NotificationChannel_shape :: "ext \<Rightarrow> shape" where
  "NotificationChannel_shape E = Struct [
     (''TypeMeta'', ext_shape E ''metav1.TypeMeta''),
     (''metadata'', ext_shape E ''metav1.ObjectMeta''),
     (''spec'', NotificationChannelSpec_shape E),
     (''status'', NotificationChannelStatus_shape E)]"

definition NotificationChannel_DeepCopyInto :: "ext \<Rightarrow> copier" where
  "NotificationChannel_DeepCopyInto E = DeepCopyInto [
     (''TypeMeta'', assign),
     (''metadata'', ext_copy E ''metav1.ObjectMeta''),
     (''spec'', NotificationChannelSpec_DeepCopyInto E),
     (''status'', NotificationChannelStatus_DeepCopyInto E)]"

definition NotificationChannel_DeepCopy :: "ext \<Rightarrow> copier" where
  "NotificationChannel_DeepCopy E = DeepCopy_of (NotificationChannel_DeepCopyInto E)"

definition NotificationChannel_DeepCopyObject :: "ext \<Rightarrow> copier" where
  "NotificationChannel_DeepCopyObject E = DeepCopyObject_of (NotificationChannel_DeepCopy E)"

definition NotificationChannelList_shape :: "ext \<Rightarrow> shape" where
  "NotificationChannelList_shape E = Struct [
     (''TypeMeta'', ext_shape E ''metav1.TypeMeta''),
     (''metadata'', ext_shape E ''metav1.ListMeta''),
     (''items'', Slice (NotificationChannel_shape E))]"

definition NotificationChannelList_DeepCopyInto :: "ext \<Rightarrow> copier" where
  "NotificationChannelList_DeepCopyInto E = DeepCopyInto [
     (''TypeMeta'', assign),
     (''metadata'', ext_copy E ''metav1.ListMeta''),
     (''items'', make_slice (NotificationChannel_DeepCopyInto E))]"

definition NotificationChannelList_DeepCopy :: "ext \<Rightarrow> copier" where
  "NotificationChannelList_DeepCopy E = DeepCopy_of (NotificationChannelList_DeepCopyInto E)"

definition NotificationChannelList_DeepCopyObject :: "ext \<Rightarrow> copier" where
  "NotificationChannelList_DeepCopyObject E = DeepCopyObject_of (NotificationChannelList_DeepCopy E)"

definition PlannedMaintenanceSpec_shape :: "ext \<Rightarrow> shape" where
  "PlannedMaintenanceSpec_shape E = Struct [
     (''CoreSpec'', CoreSpec_shape E),
     (''objectTemplate'', shape_of E PlannedMaintenanceObjectTemplate)]"

definition PlannedMaintenanceSpec_DeepCopyInto :: "ext \<Rightarrow> copier" where
  "PlannedMaintenanceSpec_DeepCopyInto E = DeepCopyInto [
     (''CoreSpec'', CoreSpec_DeepCopyInto E),
     (''objectTemplate'', PlannedMaintenanceObjectTemplate_DeepCopyInto E)]"

definition PlannedMaintenanceSpec_DeepCopy :: "ext \<Rightarrow> copier" where
  "PlannedMaintenanceSpec_DeepCopy E = DeepCopy_of (PlannedMaintenanceSpec_DeepCopyInto E)"

definition PlannedMaintenanceStatus_shape :: "ext \<Rightarrow> shape" where
  "PlannedMaintenanceStatus_shape E = Struct [
     (''CoreStatus'', CoreStatus_shape E)]"

definition PlannedMaintenanceStatus_DeepCopyInto :: "ext \<Rightarrow> copier" where
  "PlannedMaintenanceStatus_DeepCopyInto E = DeepCopyInto [
     (''CoreStatus'', CoreStatus_DeepCopyInto E)]"

definition PlannedMaintenanceStatus_DeepCopy :: "ext \<Rightarrow> copier" where
  "PlannedMaintenanceStatus_DeepCopy E = DeepCopy_of (PlannedMaintenanceStatus_DeepCopyInto E)"

definition PlannedMaintenance_shape :: "ext \<Rightarrow> shape" where
  "PlannedMaintenance_shape E = Struct [
     (''TypeMeta'', ext_shape E ''metav1.TypeMeta''),
     (''metadata'', ext_shape E ''metav1.ObjectMeta''),
     (''spec'', PlannedMaintenanceSpec_shape E),
     (''status'', PlannedMaintenanceStatus_shape E)]"

definition PlannedMaintenance_DeepCopyInto :: "ext \<Rightarrow> copier" where
  "PlannedMaintenance_DeepCopyInto E = DeepCopyInto [
     (''TypeMeta'', assign),
     (''metadata'', ext_copy E ''metav1.ObjectMeta''),
     (''spec'', PlannedMaintenanceSpec_DeepCopyInto E),
     (''status'', PlannedMaintenanceStatus_DeepCopyInto E)]"

definition PlannedMaintenance_DeepCopy :: "ext \<Rightarrow> copier" where
  "PlannedMaintenance_DeepCopy E = DeepCopy_of (PlannedMaintenance_DeepCopyInto E)"

definition PlannedMaintenance_DeepCopyObject :: "ext \<Rightarrow> copier" where
  "PlannedMaintenance_DeepCopyObject E = DeepCopyObject_of (PlannedMaintenance_DeepCopy E)"

definition PlannedMaintenanceList_shape :: "ext \<Rightarrow> shape" where
  "PlannedMaintenanceList_shape E = Struct [
     (''TypeMeta'', ext_shape E ''metav1.TypeMeta''),
     (''metadata'', ext_shape E ''metav1.ListMeta''),
     (''items'', Slice (PlannedMaintenance_shape E))]"

definition PlannedMaintenanceList_DeepCopyInto :: "ext \<Rightarrow> copier" where
  "PlannedMaintenanceList_DeepCopyInto E = DeepCopyInto [
     (''TypeMeta'', assign),
     (''metadata'', ext_copy E ''metav1.ListMeta''),
     (''items'', make_slice (PlannedMaintenance_DeepCopyInto E))]"

definition PlannedMaintenanceList_DeepCopy :: "ext \<Rightarrow> copier" where
  "PlannedMaintenanceList_DeepCopy E = DeepCopy_of (PlannedMaintenanceList_DeepCopyInto E)"

definition PlannedMaintenanceList_DeepCopyObject :: "ext \<Rightarrow> copier" where
  "PlannedMaintenanceList_DeepCopyObject E = DeepCopyObject_of (PlannedMaintenanceList_DeepCopy E)"

definition RoleSpec_shape :: "ext \<Rightarrow> shape" where
  "RoleSpec_shape E = Struct [
     (''CoreSpec'', CoreSpec_shape E),
     (''objectTemplate'', shape_of E RoleObjectTemplate)]"

definition RoleSpec_DeepCopyInto :: "ext \<Rightarrow> copier" where
  "RoleSpec_DeepCopyInto E = DeepCopyInto [
     (''CoreSpec'', CoreSpec_DeepCopyInto E),
     (''objectTemplate'', RoleObjectTemplate_DeepCopyInto E)]"

definition RoleSpec_DeepCopy :: "ext \<Rightarrow> copier" where
  "RoleSpec_DeepCopy E = DeepCopy_of (RoleSpec_DeepCopyInto E)"

definition RoleStatus_shape :: "ext \<Rightarrow> shape" where
  "RoleStatus_shape E = Struct [
     (''CoreStatus'', CoreStatus_shape E)]"

definition RoleStatus_DeepCopyInto :: "ext \<Rightarrow> copier" where
  "RoleStatus_DeepCopyInto E = DeepCopyInto [
     (''CoreStatus'', CoreStatus_DeepCopyInto E)]"

definition RoleStatus_DeepCopy :: "ext \<Rightarrow> copier" where
  "RoleStatus_DeepCopy E = DeepCopy_of (RoleStatus_DeepCopyInto E)"

definition Role_shape :: "ext \<Rightarrow> shape" where
  "Role_shape E = Struct [
     (''TypeMeta'', ext_shape E ''metav1.TypeMeta''),
     (''metadata'', ext_shape E ''metav1.ObjectMeta''),
     (''spec'', RoleSpec_shape E),
     (''status'', RoleStatus_shape E)]"

definition Role_DeepCopyInto :: "ext \<Rightarrow> copier" where
  "Role_DeepCopyInto E = DeepCopyInto [
     (''TypeMeta'', assign),
     (''metadata'', ext_copy E ''metav1.ObjectMeta''),
     (''spec'', RoleSpec_DeepCopyInto E),
     (''status'', RoleStatus_DeepCopyInto E)]"

definition Role_DeepCopy :: "ext \<Rightarrow> copier" where
  "Role_DeepCopy E = DeepCopy_of (Role_DeepCopyInto E)"

definition Role_DeepCopyObject :: "ext \<Rightarrow> copier" where
  "Role_DeepCopyObject E = DeepCopyObject_of (Role_DeepCopy E)"

definition RoleList_shape :: "ext \<Rightarrow> shape" where
  "RoleList_shape E = Struct [
     (''TypeMeta'', ext_shape E ''metav1.TypeMeta''),
     (''metadata'', ext_shape E ''metav1.ListMeta''),
     (''items'', Slice (Role_shape E))]"

definition RoleList_DeepCopyInto :: "ext \<Rightarrow> copier" where
  "RoleList_DeepCopyInto E = DeepCopyInto [
     (''TypeMeta'', assign),
     (''metadata'', ext_copy E ''metav1.ListMeta''),
     (''items'', make_slice (Role_DeepCopyInto E))]"

definition RoleList_DeepCopy :: "ext \<Rightarrow> copier" where
  "RoleList_DeepCopy E = DeepCopy_of (RoleList_DeepCopyInto E)"

definition RoleList_DeepCopyObject :: "ext \<Rightarrow> copier" where
  "RoleList_DeepCopyObject E = DeepCopyObject_of (RoleList_DeepCopy E)"

definition RoutePolicySpec_shape :: "ext \<Rightarrow> shape" where
  "RoutePolicySpec_shape E = Struct [
     (''CoreSpec'', CoreSpec_shape E),
     (''objectTemplate'', shape_of E RoutePolicyObjectTemplate)]"

definition RoutePolicySpec_DeepCopyInto :: "ext \<Rightarrow> copier" where
  "RoutePolicySpec_DeepCopyInto E = DeepCopyInto [
     (''CoreSpec'', CoreSpec_DeepCopyInto E),
     (''objectTemplate'', RoutePolicyObjectTemplate_DeepCopyInto E)]"

definition RoutePolicySpec_DeepCopy :: "ext \<Rightarrow> copier" where
  "RoutePolicySpec_DeepCopy E = DeepCopy_of (RoutePolicySpec_DeepCopyInto E)"

definition RoutePolicyStatus_shape :: "ext \<Rightarrow> shape" where
  "RoutePolicyStatus_shape E = Struct [
     (''CoreStatus'', CoreStatus_shape E)]"

definition RoutePolicyStatus_DeepCopyInto :: "ext \<Rightarrow> copier" where
  "RoutePolicyStatus_DeepCopyInto E = DeepCopyInto [
     (''CoreStatus'', CoreStatus_DeepCopyInto E)]"

definition RoutePolicyStatus_DeepCopy :: "ext \<Rightarrow> copier" where
  "RoutePolicyStatus_DeepCopy E = DeepCopy_of (RoutePolicyStatus_DeepCopyInto E)"

definition RoutePolicy_shape :: "ext \<Rightarrow> shape" where
  "RoutePolicy_shape E = Struct [
     (''TypeMeta'', ext_shape E ''metav1.TypeMeta''),
     (''metadata'', ext_shape E ''metav1.ObjectMeta''),
     (''spec'', RoutePolicySpec_shape E),
     (''status'', RoutePolicyStatus_shape E)]"

definition RoutePolicy_DeepCopyInto :: "ext \<Rightarrow> copier" where
  "RoutePolicy_DeepCopyInto E = DeepCopyInto [
     (''TypeMeta'', assign),
     (''metadata'', ext_copy E ''metav1.ObjectMeta''),
     (''spec'', RoutePolicySpec_DeepCopyInto E),
     (''status'', RoutePolicyStatus_DeepCopyInto E)]"

definition RoutePolicy_DeepCopy :: "ext \<Rightarrow> copier" where
  "RoutePolicy_DeepCopy E = DeepCopy_of (RoutePolicy_DeepCopyInto E)"

definition RoutePolicy_DeepCopyObject :: "ext \<Rightarrow> copier" where
  "RoutePolicy_DeepCopyObject E = DeepCopyObject_of (RoutePolicy_DeepCopy E)"

definition RoutePolicyList_shape :: "ext \<Rightarrow> shape" where
  "RoutePolicyList_shape E = Struct [
     (''TypeMeta'', ext_shape E ''metav1.TypeMeta''),
     (''metadata'', ext_shape E ''metav1.ListMeta''),
     (''items'', Slice (RoutePolicy_shape E))]"

definition RoutePolicyList_DeepCopyInto :: "ext \<Rightarrow> copier" where
  "RoutePolicyList_DeepCopyInto E = DeepCopyInto [
     (''TypeMeta'', assign),
     (''metadata'', ext_copy E ''metav1.ListMeta''),
     (''items'', make_slice (RoutePolicy_DeepCopyInto E))]"

definition RoutePolicyList_DeepCopy :: "ext \<Rightarrow> copier" where
  "RoutePolicyList_DeepCopy E = DeepCopy_of (RoutePolicyList_DeepCopyInto E)"

definition RoutePolicyList_DeepCopyObject :: "ext \<Rightarrow> copier" where
  "RoutePolicyList_DeepCopyObject E = DeepCopyObject_of (RoutePolicyList_DeepCopy E)"

definition RuleSpec_shape :: "ext \<Rightarrow> shape" where
  "RuleSpec_shape E = Struct [
     (''CoreSpec'', CoreSpec_shape E),
     (''objectTemplate'', shape_of E RuleObjectTemplate)]"

definition RuleSpec_DeepCopyInto :: "ext \<Rightarrow> copier" where
  "RuleSpec_DeepCopyInto E = DeepCopyInto [
     (''CoreSpec'', CoreSpec_DeepCopyInto E),
     (''objectTemplate'', RuleObjectTemplate_DeepCopyInto E)]"

definition RuleSpec_DeepCopy :: "ext \<Rightarrow> copier" where
  "RuleSpec_DeepCopy E = DeepCopy_of (RuleSpec_DeepCopyInto E)"

definition RuleStatus_shape :: "ext \<Rightarrow> shape" where
  "RuleStatus_shape E = Struct [
     (''CoreStatus'', CoreStatus_shape E)]"

definition RuleStatus_DeepCopyInto :: "ext \<Rightarrow> copier" where
  "RuleStatus_DeepCopyInto E = DeepCopyInto [
     (''CoreStatus'', CoreStatus_DeepCopyInto E)]"

definition RuleStatus_DeepCopy :: "ext \<Rightarrow> copier" where
  "RuleStatus_DeepCopy E = DeepCopy_of (RuleStatus_DeepCopyInto E)"

definition Rule_shape :: "ext \<Rightarrow> shape" where
  "Rule_shape E = Struct [
     (''TypeMeta'', ext_shape E ''metav1.TypeMeta''),
     (''metadata'', ext_shape E ''metav1.ObjectMeta''),
     (''spec'', RuleSpec_shape E),
     (''status'', RuleStatus_shape E)]"

definition Rule_DeepCopyInto :: "ext \<Rightarrow> copier" where
  "Rule_DeepCopyInto E = DeepCopyInto [
     (''TypeMeta'', assign),
     (''metadata'', ext_copy E ''metav1.ObjectMeta''),
     (''spec'', RuleSpec_DeepCopyInto E),
     (''status'', RuleStatus_DeepCopyInto E)]"

definition Rule_DeepCopy :: "ext \<Rightarrow> copier" where
  "Rule_DeepCopy E = DeepCopy_of (Rule_DeepCopyInto E)"

definition Rule_DeepCopyObject :: "ext \<Rightarrow> copier" where
  "Rule_DeepCopyObject E = DeepCopyObject_of (Rule_DeepCopy E)"

definition RuleList_shape :: "ext \<Rightarrow> shape" where
  "RuleList_shape E = Struct [
     (''TypeMeta'', ext_shape E ''metav1.TypeMeta''),
     (''metadata'', ext_shape E ''metav1.ListMeta''),
     (''items'', Slice (Rule_shape E))]"

definition RuleList_DeepCopyInto :: "ext \<Rightarrow> copier" where
  "RuleList_DeepCopyInto E = DeepCopyInto [
     (''TypeMeta'', assign),
     (''metadata'', ext_copy E ''metav1.ListMeta''),
     (''items'', make_slice (Rule_DeepCopyInto E))]"

definition RuleList_DeepCopy :: "ext \<Rightarrow> copier" where
  "RuleList_DeepCopy E = DeepCopy_of (RuleList_DeepCopyInto E)"

definition RuleList_DeepCopyObject :: "ext \<Rightarrow> copier" where
  "RuleList_DeepCopyObject E = DeepCopyObject_of (RuleList_DeepCopy E)"

definition SavedViewSpec_shape :: "ext \<Rightarrow> shape" where
  "SavedViewSpec_shape E = Struct [
     (''CoreSpec'', CoreSpec_shape E),
     (''objectTemplate'', shape_of E SavedViewObjectTemplate)]"

definition SavedViewSpec_DeepCopyInto :: "ext \<Rightarrow> copier" where
  "SavedViewSpec_DeepCopyInto E = DeepCopyInto [
     (''CoreSpec'', CoreSpec_DeepCopyInto E),
     (''objectTemplate'', SavedViewObjectTemplate_DeepCopyInto E)]"

definition SavedViewSpec_DeepCopy :: "ext \<Rightarrow> copier" where
  "SavedViewSpec_DeepCopy E = DeepCopy_of (SavedViewSpec_DeepCopyInto E)"

definition SavedViewStatus_shape :: "ext \<Rightarrow> shape" where
  "SavedViewStatus_shape E = Struct [
     (''CoreStatus'', CoreStatus_shape E)]"

definition SavedViewStatus_DeepCopyInto :: "ext \<Rightarrow> copier" where
  "SavedViewStatus_DeepCopyInto E = DeepCopyInto [
     (''CoreStatus'', CoreStatus_DeepCopyInto E)]"

definition SavedViewStatus_DeepCopy :: "ext \<Rightarrow> copier" where
  "SavedViewStatus_DeepCopy E = DeepCopy_of (SavedViewStatus_DeepCopyInto E)"

definition SavedView_shape :: "ext \<Rightarrow> shape" where
  "SavedView_shape E = Struct [
     (''TypeMeta'', ext_shape E ''metav1.TypeMeta''),
     (''metadata'', ext_shape E ''metav1.ObjectMeta''),
     (''spec'', SavedViewSpec_shape E),
     (''status'', SavedViewStatus_shape E)]"

definition SavedView_DeepCopyInto :: "ext \<Rightarrow> copier" where
  "SavedView_DeepCopyInto E = DeepCopyInto [
     (''TypeMeta'', assign),
     (''metadata'', ext_copy E ''metav1.ObjectMeta''),
     (''spec'', SavedViewSpec_DeepCopyInto E),
     (''status'', SavedViewStatus_DeepCopyInto E)]"

definition SavedView_DeepCopy :: "ext \<Rightarrow> copier" where
  "SavedView_DeepCopy E = DeepCopy_of (SavedView_DeepCopyInto E)"

definition SavedView_DeepCopyObject :: "ext \<Rightarrow> copier" where
  "SavedView_DeepCopyObject E = DeepCopyObject_of (SavedView_DeepCopy E)"

definition SavedViewList_shape :: "ext \<Rightarrow> shape" where
  "SavedViewList_shape E = Struct [
     (''TypeMeta'', ext_shape E ''metav1.TypeMeta''),
     (''metadata'', ext_shape E ''metav1.ListMeta''),
     (''items'', Slice (SavedView_shape E))]"

definition SavedViewList_DeepCopyInto :: "ext \<Rightarrow> copier" where
  "SavedViewList_DeepCopyInto E = DeepCopyInto [
     (''TypeMeta'', assign),
     (''metadata'', ext_copy E ''metav1.ListMeta''),
     (''items'', make_slice (SavedView_DeepCopyInto E))]"

definition SavedViewList_DeepCopy :: "ext \<Rightarrow> copier" where
  "SavedViewList_DeepCopy E = DeepCopy_of (SavedViewList_DeepCopyInto E)"

definition SavedViewList_DeepCopyObject :: "ext \<Rightarrow> copier" where
  "SavedViewList_DeepCopyObject E = DeepCopyObject_of (SavedViewList_DeepCopy E)"

definition ServiceAccountSpec_shape :: "ext \<Rightarrow> shape" where
  "ServiceAccountSpec_shape E = Struct [
     (''CoreSpec'', CoreSpec_shape E),
     (''objectTemplate'', shape_of E ServiceAccountObjectTemplate)]"

definition ServiceAccountSpec_DeepCopyInto :: "ext \<Rightarrow> copier" where
  "ServiceAccountSpec_DeepCopyInto E = DeepCopyInto [
     (''CoreSpec'', CoreSpec_DeepCopyInto E),
     (''objectTemplate'', ServiceAccountObjectTemplate_DeepCopyInto E)]"

definition ServiceAccountSpec_DeepCopy :: "ext \<Rightarrow> copier" where
  "ServiceAccountSpec_DeepCopy E = DeepCopy_of (ServiceAccountSpec_DeepCopyInto E)"

definition ServiceAccountStatus_shape :: "ext \<Rightarrow> shape" where
  "ServiceAccountStatus_shape E = Struct [
     (''CoreStatus'', CoreStatus_shape E)]"

definition ServiceAccountStatus_DeepCopyInto :: "ext \<Rightarrow> copier" where
  "ServiceAccountStatus_DeepCopyInto E = DeepCopyInto [
     (''CoreStatus'', CoreStatus_DeepCopyInto E)]"

definition ServiceAccountStatus_DeepCopy :: "ext \<Rightarrow> copier" where
  "ServiceAccountStatus_DeepCopy E = DeepCopy_of (ServiceAccountStatus_DeepCopyInto E)"

definition ServiceAccount_shape :: "ext \<Rightarrow> shape" where
  "ServiceAccount_shape E = Struct [
     (''TypeMeta'', ext_shape E ''metav1.TypeMeta''),
     (''metadata'', ext_shape E ''metav1.ObjectMeta''),
     (''spec'', ServiceAccountSpec_shape E),
     (''status'', ServiceAccountStatus_shape E)]"

definition ServiceAccount_DeepCopyInto :: "ext \<Rightarrow> copier" where
  "ServiceAccount_DeepCopyInto E = DeepCopyInto [
     (''TypeMeta'', assign),
     (''metadata'', ext_copy E ''metav1.ObjectMeta''),
     (''spec'', ServiceAccountSpec_DeepCopyInto E),
     (''status'', ServiceAccountStatus_DeepCopyInto E)]"

definition ServiceAccount_DeepCopy :: "ext \<Rightarrow> copier" where
  "ServiceAccount_DeepCopy E = DeepCopy_of (ServiceAccount_DeepCopyInto E)"

definition ServiceAccount_DeepCopyObject :: "ext \<Rightarrow> copier" where
  "ServiceAccount_DeepCopyObject E = DeepCopyObject_of (ServiceAccount_DeepCopy E)"

definition ServiceAccountList_shape :: "ext \<Rightarrow> shape" where
  "ServiceAccountList_shape E = Struct [
     (''TypeMeta'', ext_shape E ''metav1.TypeMeta''),
     (''metadata'', ext_shape E ''metav1.ListMeta''),
     (''items'', Slice (ServiceAccount_shape E))]"

definition ServiceAccountList_DeepCopyInto :: "ext \<Rightarrow> copier" where
  "ServiceAccountList_DeepCopyInto E = DeepCopyInto [
     (''TypeMeta'', assign),
     (''metadata'', ext_copy E ''metav1.ListMeta''),
     (''items'', make_slice (ServiceAccount_DeepCopyInto E))]"

definition ServiceAccountList_DeepCopy :: "ext \<Rightarrow> copier" where
  "ServiceAccountList_DeepCopy E = DeepCopy_of (ServiceAccountList_DeepCopyInto E)"

definition ServiceAccountList_DeepCopyObject :: "ext \<Rightarrow> copier" where
  "ServiceAccountList_DeepCopyObject E = DeepCopyObject_of (ServiceAccountList_DeepCopy E)"

definition UserSpec_shape :: "ext \<Rightarrow> shape" where
  "UserSpec_shape E = Struct [
     (''CoreSpec'', CoreSpec_shape E),
     (''objectTemplate'', shape_of E UserObjectTemplate)]"

definition UserSpec_DeepCopyInto :: "ext \<Rightarrow> copier" where
  "UserSpec_DeepCopyInto E = DeepCopyInto [
     (''CoreSpec'', CoreSpec_DeepCopyInto E),
     (''objectTemplate'', UserObjectTemplate_DeepCopyInto E)]"

definition UserSpec_DeepCopy :: "ext \<Rightarrow> copier" where
  "UserSpec_DeepCopy E = DeepCopy_of (UserSpec_DeepCopyInto E)"

definition UserStatus_shape :: "ext \<Rightarrow> shape" where
  "UserStatus_shape E = Struct [
     (''CoreStatus'', CoreStatus_shape E)]"

definition UserStatus_DeepCopyInto :: "ext \<Rightarrow> copier" where
  "UserStatus_DeepCopyInto E = DeepCopyInto [
     (''CoreStatus'', CoreStatus_DeepCopyInto E)]"

definition UserStatus_DeepCopy :: "ext \<Rightarrow> copier" where
  "UserStatus_DeepCopy E = DeepCopy_of (UserStatus_DeepCopyInto E)"

definition User_shape :: "ext \<Rightarrow> shape" where
  "User_shape E = Struct [
     (''TypeMeta'', ext_shape E ''metav1.TypeMeta''),
     (''metadata'', ext_shape E ''metav1.ObjectMeta''),
     (''spec'', UserSpec_shape E),
     (''status'', UserStatus_shape E)]"

definition User_DeepCopyInto :: "ext \<Rightarrow> copier" where
  "User_DeepCopyInto E = DeepCopyInto [
     (''TypeMeta'', assign),
     (''metadata'', ext_copy E ''metav1.ObjectMeta''),
     (''spec'', UserSpec_DeepCopyInto E),
     (''status'', UserStatus_DeepCopyInto E)]"

definition User_DeepCopy :: "ext \<Rightarrow> copier" where
  "User_DeepCopy E = DeepCopy_of (User_DeepCopyInto E)"

definition User_DeepCopyObject :: "ext \<Rightarrow> copier" where
  "User_DeepCopyObject E = DeepCopyObject_of (User_DeepCopy E)"

definition UserList_shape :: "ext \<Rightarrow> shape" where
  "UserList_shape E = Struct [
     (''TypeMeta'', ext_shape E ''metav1.TypeMeta''),
     (''metadata'', ext_shape E ''metav1.ListMeta''),
     (''items'', Slice (User_shape E))]"

definition UserList_DeepCopyInto :: "ext \<Rightarrow> copier" where
  "UserList_DeepCopyInto E = DeepCopyInto [
     (''TypeMeta'', assign),
     (''metadata'', ext_copy E ''metav1.ListMeta''),
     (''items'', make_slice (User_DeepCopyInto E))]"

definition UserList_DeepCopy :: "ext \<Rightarrow> copier" where
  "UserList_DeepCopy E = DeepCopy_of (UserList_DeepCopyInto E)"

definition UserList_DeepCopyObject :: "ext \<Rightarrow> copier" where
  "UserList_DeepCopyObject E = DeepCopyObject_of (UserList_DeepCopy E)"

definition api_copies :: "ext \<Rightarrow> (string \<times> shape \<times> copier) list" where
  "api_copies E = [
     (''ValueSource'', Ptr (ValueSource_shape E), ValueSource_DeepCopy E),
     (''Endpoint'', Ptr (Endpoint_shape E), Endpoint_DeepCopy E),
     (''HeaderAuth'', Ptr (HeaderAuth_shape E), HeaderAuth_DeepCopy E),
     (''Authentication'', Ptr (Authentication_shape E), Authentication_DeepCopy E),
     (''TLSConfig'', Ptr (TLSConfig_shape E), TLSConfig_DeepCopy E),
     (''ProviderConfigSpec'', Ptr (ProviderConfigSpec_shape E), ProviderConfigSpec_DeepCopy E),
     (''ProviderConfigStatus'', Ptr (ProviderConfigStatus_shape E), ProviderConfigStatus_DeepCopy E),
     (''ClusterProviderConfig'', Ptr (ClusterProviderConfig_shape E), ClusterProviderConfig_DeepCopy E),
     (''ClusterProviderConfigList'', Ptr (ClusterProviderConfigList_shape E), ClusterProviderConfigList_DeepCopy E),
     (''ProviderConfigRef'', Ptr (ProviderConfigRef_shape E), ProviderConfigRef_DeepCopy E),
     (''CoreSpec'', Ptr (CoreSpec_shape E), CoreSpec_DeepCopy E),
     (''SigNozResource'', Ptr (SigNozResource_shape E), SigNozResource_DeepCopy E),
     (''CoreStatus'', Ptr (CoreStatus_shape E), CoreStatus_DeepCopy E),
     (''ProviderConfig'', Ptr (ProviderConfig_shape E), ProviderConfig_DeepCopy E),
     (''ProviderConfigList'', Ptr (ProviderConfigList_shape E), ProviderConfigList_DeepCopy E),
     (''AuthDomainSpec'', Ptr (AuthDomainSpec_shape E), AuthDomainSpec_DeepCopy E),
     (''AuthDomainStatus'', Ptr (AuthDomainStatus_shape E), AuthDomainStatus_DeepCopy E),
     (''AuthDomain'', Ptr (AuthDomain_shape E), AuthDomain_DeepCopy E),
     (''AuthDomainList'', Ptr (AuthDomainList_shape E), AuthDomainList_DeepCopy E),
     (''DashboardSpec'', Ptr (DashboardSpec_shape E), DashboardSpec_DeepCopy E),
     (''DashboardStatus'', Ptr (DashboardStatus_shape E), DashboardStatus_DeepCopy E),
     (''Dashboard'', Ptr (Dashboard_shape E), Dashboard_DeepCopy E),
     (''DashboardList'', Ptr (DashboardList_shape E), DashboardList_DeepCopy E),
     (''NotificationChannelSpec'', Ptr (NotificationChannelSpec_shape E), NotificationChannelSpec_DeepCopy E),
     (''NotificationChannelStatus'', Ptr (NotificationChannelStatus_shape E), NotificationChannelStatus_DeepCopy E),
     (''NotificationChannel'', Ptr (NotificationChannel_shape E), NotificationChannel_DeepCopy E),
     (''NotificationChannelList'', Ptr (NotificationChannelList_shape E), NotificationChannelList_DeepCopy E),
     (''PlannedMaintenanceSpec'', Ptr (PlannedMaintenanceSpec_shape E), PlannedMaintenanceSpec_DeepCopy E),
     (''PlannedMaintenanceStatus'', Ptr (PlannedMaintenanceStatus_shape E), PlannedMaintenanceStatus_DeepCopy E),
     (''PlannedMaintenance'', Ptr (PlannedMaintenance_shape E), PlannedMaintenance_DeepCopy E),
     (''PlannedMaintenanceList'', Ptr (PlannedMaintenanceList_shape E), PlannedMaintenanceList_DeepCopy E),
     (''RoleSpec'', Ptr (RoleSpec_shape E), RoleSpec_DeepCopy E),
     (''RoleStatus'', Ptr (RoleStatus_shape E), RoleStatus_DeepCopy E),
     (''Role'', Ptr (Role_shape E), Role_DeepCopy E),
     (''RoleList'', Ptr (RoleList_shape E), RoleList_DeepCopy E),
     (''RoutePolicySpec'', Ptr (RoutePolicySpec_shape E), RoutePolicySpec_DeepCopy E),
     (''RoutePolicyStatus'', Ptr (RoutePolicyStatus_shape E), RoutePolicyStatus_DeepCopy E),
     (''RoutePolicy'', Ptr (RoutePolicy_shape E), RoutePolicy_DeepCopy E),
     (''RoutePolicyList'', Ptr (RoutePolicyList_shape E), RoutePolicyList_DeepCopy E),
     (''RuleSpec'', Ptr (RuleSpec_shape E), RuleSpec_DeepCopy E),
     (''RuleStatus'', Ptr (RuleStatus_shape E), RuleStatus_DeepCopy E),
     (''Rule'', Ptr (Rule_shape E), Rule_DeepCopy E),
     (''RuleList'', Ptr (RuleList_shape E), RuleList_DeepCopy E),
     (''SavedViewSpec'', Ptr (SavedViewSpec_shape E), SavedViewSpec_DeepCopy E),
     (''SavedViewStatus'', Ptr (SavedViewStatus_shape E), SavedViewStatus_DeepCopy E),
     (''SavedView'', Ptr (SavedView_shape E), SavedView_DeepCopy E),
     (''SavedViewList'', Ptr (SavedViewList_shape E), SavedViewList_DeepCopy E),
     (''ServiceAccountSpec'', Ptr (ServiceAccountSpec_shape E), ServiceAccountSpec_DeepCopy E),
     (''ServiceAccountStatus'', Ptr (ServiceAccountStatus_shape E), ServiceAccountStatus_DeepCopy E),
     (''ServiceAccount'', Ptr (ServiceAccount_shape E), ServiceAccount_DeepCopy E),
     (''ServiceAccountList'', Ptr (ServiceAccountList_shape E), ServiceAccountList_DeepCopy E),
     (''UserSpec'', Ptr (UserSpec_shape E), UserSpec_DeepCopy E),
     (''UserStatus'', Ptr (UserStatus_shape E), UserStatus_DeepCopy E),
     (''User'', Ptr (User_shape E), User_DeepCopy E),
     (''UserList'', Ptr (UserList_shape E), UserList_DeepCopy E)]"

definition object_copies :: "ext \<Rightarrow> (string \<times> shape \<times> copier) list" where
  "object_copies E = [
     (''ClusterProviderConfig'', Ptr (ClusterProviderConfig_shape E), ClusterProviderConfig_DeepCopyObject E),
     (''ClusterProviderConfigList'', Ptr (ClusterProviderConfigList_shape E), ClusterProviderConfigList_DeepCopyObject E),
     (''ProviderConfig'', Ptr (ProviderConfig_shape E), ProviderConfig_DeepCopyObject E),
     (''ProviderConfigList'', Ptr (ProviderConfigList_shape E), ProviderConfigList_DeepCopyObject E),
     (''AuthDomain'', Ptr (AuthDomain_shape E), AuthDomain_DeepCopyObject E),
     (''AuthDomainList'', Ptr (AuthDomainList_shape E), AuthDomainList_DeepCopyObject E),
     (''Dashboard'', Ptr (Dashboard_shape E), Dashboard_DeepCopyObject E),
     (''DashboardList'', Ptr (DashboardList_shape E), DashboardList_DeepCopyObject E),
     (''NotificationChannel'', Ptr (NotificationChannel_shape E), NotificationChannel_DeepCopyObject E),
     (''NotificationChannelList'', Ptr (NotificationChannelList_shape E), NotificationChannelList_DeepCopyObject E),
     (''PlannedMaintenance'', Ptr (PlannedMaintenance_shape E), PlannedMaintenance_DeepCopyObject E),
     (''PlannedMaintenanceList'', Ptr (PlannedMaintenanceList_shape E), PlannedMaintenanceList_DeepCopyObject E),
     (''Role'', Ptr (Role_shape E), Role_DeepCopyObject E),
     (''RoleList'', Ptr (RoleList_shape E), RoleList_DeepCopyObject E),
     (''RoutePolicy'', Ptr (RoutePolicy_shape E), RoutePolicy_DeepCopyObject E),
     (''RoutePolicyList'', Ptr (RoutePolicyList_shape E), RoutePolicyList_DeepCopyObject E),
     (''Rule'', Ptr (Rule_shape E), Rule_DeepCopyObject E),
     (''RuleList'', Ptr (RuleList_shape E), RuleList_DeepCopyObject E),
     (''SavedView'', Ptr (SavedView_shape E), SavedView_DeepCopyObject E),
     (''SavedViewList'', Ptr (SavedViewList_shape E), SavedViewList_DeepCopyObject E),
     (''ServiceAccount'', Ptr (ServiceAccount_shape E), ServiceAccount_DeepCopyObject E),
     (''ServiceAccountList'', Ptr (ServiceAccountList_shape E), ServiceAccountList_DeepCopyObject E),
     (''User'', Ptr (User_shape E), User_DeepCopyObject E),
     (''UserList'', Ptr (UserList_shape E), UserList_DeepCopyObject E)]"

subsection \<open>They are deep\<close>

lemma ValueSource_deep [copies_deep]: "ext_ok E \<Longrightarrow> deep_copier (ValueSource_shape E) (ValueSource_DeepCopyInto E)"
  by (simp add: ValueSource_shape_def ValueSource_DeepCopyInto_def field_copier_def copier_rules copies_deep copies_flat)

lemma Endpoint_deep [copies_deep]: "ext_ok E \<Longrightarrow> deep_copier (Endpoint_shape E) (Endpoint_DeepCopyInto E)"
  by (simp add: Endpoint_shape_def Endpoint_DeepCopyInto_def field_copier_def copier_rules copies_deep copies_flat)

lemma HeaderAuth_deep [copies_deep]: "ext_ok E \<Longrightarrow> deep_copier (HeaderAuth_shape E) (HeaderAuth_DeepCopyInto E)"
  by (simp add: HeaderAuth_shape_def HeaderAuth_DeepCopyInto_def field_copier_def copier_rules copies_deep copies_flat)

lemma Authentication_deep [copies_deep]: "ext_ok E \<Longrightarrow> deep_copier (Authentication_shape E) (Authentication_DeepCopyInto E)"
  by (simp add: Authentication_shape_def Authentication_DeepCopyInto_def field_copier_def copier_rules copies_deep copies_flat)

lemma TLSConfig_deep [copies_deep]: "ext_ok E \<Longrightarrow> deep_copier (TLSConfig_shape E) (TLSConfig_DeepCopyInto E)"
  by (simp add: TLSConfig_shape_def TLSConfig_DeepCopyInto_def field_copier_def copier_rules copies_deep copies_flat)

lemma ProviderConfigSpec_deep [copies_deep]: "ext_ok E \<Longrightarrow> deep_copier (ProviderConfigSpec_shape E) (ProviderConfigSpec_DeepCopyInto E)"
  by (simp add: ProviderConfigSpec_shape_def ProviderConfigSpec_DeepCopyInto_def field_copier_def copier_rules copies_deep copies_flat)

lemma ProviderConfigStatus_deep [copies_deep]: "ext_ok E \<Longrightarrow> deep_copier (ProviderConfigStatus_shape E) (ProviderConfigStatus_DeepCopyInto E)"
  by (simp add: ProviderConfigStatus_shape_def ProviderConfigStatus_DeepCopyInto_def field_copier_def copier_rules copies_deep copies_flat)

lemma ClusterProviderConfig_deep [copies_deep]: "ext_ok E \<Longrightarrow> deep_copier (ClusterProviderConfig_shape E) (ClusterProviderConfig_DeepCopyInto E)"
  by (simp add: ClusterProviderConfig_shape_def ClusterProviderConfig_DeepCopyInto_def field_copier_def copier_rules copies_deep copies_flat)

lemma ClusterProviderConfigList_deep [copies_deep]: "ext_ok E \<Longrightarrow> deep_copier (ClusterProviderConfigList_shape E) (ClusterProviderConfigList_DeepCopyInto E)"
  by (simp add: ClusterProviderConfigList_shape_def ClusterProviderConfigList_DeepCopyInto_def field_copier_def copier_rules copies_deep copies_flat)

lemma ProviderConfigRef_flat [copies_flat]: "flat_shape (ProviderConfigRef_shape E)"
  by (simp add: ProviderConfigRef_shape_def copies_flat)

lemma ProviderConfigRef_deep [copies_deep]: "ext_ok E \<Longrightarrow> deep_copier (ProviderConfigRef_shape E) (ProviderConfigRef_DeepCopyInto E)"
  by (simp add: ProviderConfigRef_shape_def ProviderConfigRef_DeepCopyInto_def field_copier_def copier_rules copies_deep copies_flat)

lemma CoreSpec_deep [copies_deep]: "ext_ok E \<Longrightarrow> deep_copier (CoreSpec_shape E) (CoreSpec_DeepCopyInto E)"
  by (simp add: CoreSpec_shape_def CoreSpec_DeepCopyInto_def field_copier_def copier_rules copies_deep copies_flat)

lemma SigNozResource_deep [copies_deep]: "ext_ok E \<Longrightarrow> deep_copier (SigNozResource_shape E) (SigNozResource_DeepCopyInto E)"
  by (simp add: SigNozResource_shape_def SigNozResource_DeepCopyInto_def field_copier_def copier_rules copies_deep copies_flat)

lemma CoreStatus_deep [copies_deep]: "ext_ok E \<Longrightarrow> deep_copier (CoreStatus_shape E) (CoreStatus_DeepCopyInto E)"
  by (simp add: CoreStatus_shape_def CoreStatus_DeepCopyInto_def field_copier_def copier_rules copies_deep copies_flat)

lemma ProviderConfig_deep [copies_deep]: "ext_ok E \<Longrightarrow> deep_copier (ProviderConfig_shape E) (ProviderConfig_DeepCopyInto E)"
  by (simp add: ProviderConfig_shape_def ProviderConfig_DeepCopyInto_def field_copier_def copier_rules copies_deep copies_flat)

lemma ProviderConfigList_deep [copies_deep]: "ext_ok E \<Longrightarrow> deep_copier (ProviderConfigList_shape E) (ProviderConfigList_DeepCopyInto E)"
  by (simp add: ProviderConfigList_shape_def ProviderConfigList_DeepCopyInto_def field_copier_def copier_rules copies_deep copies_flat)

lemma AuthDomainSpec_deep [copies_deep]: "ext_ok E \<Longrightarrow> deep_copier (AuthDomainSpec_shape E) (AuthDomainSpec_DeepCopyInto E)"
  by (simp add: AuthDomainSpec_shape_def AuthDomainSpec_DeepCopyInto_def field_copier_def copier_rules copies_deep copies_flat)

lemma AuthDomainStatus_deep [copies_deep]: "ext_ok E \<Longrightarrow> deep_copier (AuthDomainStatus_shape E) (AuthDomainStatus_DeepCopyInto E)"
  by (simp add: AuthDomainStatus_shape_def AuthDomainStatus_DeepCopyInto_def field_copier_def copier_rules copies_deep copies_flat)

lemma AuthDomain_deep [copies_deep]: "ext_ok E \<Longrightarrow> deep_copier (AuthDomain_shape E) (AuthDomain_DeepCopyInto E)"
  by (simp add: AuthDomain_shape_def AuthDomain_DeepCopyInto_def field_copier_def copier_rules copies_deep copies_flat)

lemma AuthDomainList_deep [copies_deep]: "ext_ok E \<Longrightarrow> deep_copier (AuthDomainList_shape E) (AuthDomainList_DeepCopyInto E)"
  by (simp add: AuthDomainList_shape_def AuthDomainList_DeepCopyInto_def field_copier_def copier_rules copies_deep copies_flat)

lemma DashboardSpec_deep [copies_deep]: "ext_ok E \<Longrightarrow> deep_copier (DashboardSpec_shape E) (DashboardSpec_DeepCopyInto E)"
  by (simp add: DashboardSpec_shape_def DashboardSpec_DeepCopyInto_def field_copier_def copier_rules copies_deep copies_flat)

lemma DashboardStatus_deep [copies_deep]: "ext_ok E \<Longrightarrow> deep_copier (DashboardStatus_shape E) (DashboardStatus_DeepCopyInto E)"
  by (simp add: DashboardStatus_shape_def DashboardStatus_DeepCopyInto_def field_copier_def copier_rules copies_deep copies_flat)

lemma Dashboard_deep [copies_deep]: "ext_ok E \<Longrightarrow> deep_copier (Dashboard_shape E) (Dashboard_DeepCopyInto E)"
  by (simp add: Dashboard_shape_def Dashboard_DeepCopyInto_def field_copier_def copier_rules copies_deep copies_flat)

lemma DashboardList_deep [copies_deep]: "ext_ok E \<Longrightarrow> deep_copier (DashboardList_shape E) (DashboardList_DeepCopyInto E)"
  by (simp add: DashboardList_shape_def DashboardList_DeepCopyInto_def field_copier_def copier_rules copies_deep copies_flat)

lemma NotificationChannelSpec_deep [copies_deep]: "ext_ok E \<Longrightarrow> deep_copier (NotificationChannelSpec_shape E) (NotificationChannelSpec_DeepCopyInto E)"
  by (simp add: NotificationChannelSpec_shape_def NotificationChannelSpec_DeepCopyInto_def field_copier_def copier_rules copies_deep copies_flat)

lemma NotificationChannelStatus_deep [copies_deep]: "ext_ok E \<Longrightarrow> deep_copier (NotificationChannelStatus_shape E) (NotificationChannelStatus_DeepCopyInto E)"
  by (simp add: NotificationChannelStatus_shape_def NotificationChannelStatus_DeepCopyInto_def field_copier_def copier_rules copies_deep copies_flat)

lemma NotificationChannel_deep [copies_deep]: "ext_ok E \<Longrightarrow> deep_copier (NotificationChannel_shape E) (NotificationChannel_DeepCopyInto E)"
  by (simp add: NotificationChannel_shape_def NotificationChannel_DeepCopyInto_def field_copier_def copier_rules copies_deep copies_flat)

lemma NotificationChannelList_deep [copies_deep]: "ext_ok E \<Longrightarrow> deep_copier (NotificationChannelList_shape E) (NotificationChannelList_DeepCopyInto E)"
  by (simp add: NotificationChannelList_shape_def NotificationChannelList_DeepCopyInto_def field_copier_def copier_rules copies_deep copies_flat)

lemma PlannedMaintenanceSpec_deep [copies_deep]: "ext_ok E \<Longrightarrow> deep_copier (PlannedMaintenanceSpec_shape E) (PlannedMaintenanceSpec_DeepCopyInto E)"
  by (simp add: PlannedMaintenanceSpec_shape_def PlannedMaintenanceSpec_DeepCopyInto_def field_copier_def copier_rules copies_deep copies_flat)

lemma PlannedMaintenanceStatus_deep [copies_deep]: "ext_ok E \<Longrightarrow> deep_copier (PlannedMaintenanceStatus_shape E) (PlannedMaintenanceStatus_DeepCopyInto E)"
  by (simp add: PlannedMaintenanceStatus_shape_def PlannedMaintenanceStatus_DeepCopyInto_def field_copier_def copier_rules copies_deep copies_flat)

lemma PlannedMaintenance_deep [copies_deep]: "ext_ok E \<Longrightarrow> deep_copier (PlannedMaintenance_shape E) (PlannedMaintenance_DeepCopyInto E)"
  by (simp add: PlannedMaintenance_shape_def PlannedMaintenance_DeepCopyInto_def field_copier_def copier_rules copies_deep copies_flat)

lemma PlannedMaintenanceList_deep [copies_deep]: "ext_ok E \<Longrightarrow> deep_copier (PlannedMaintenanceList_shape E) (PlannedMaintenanceList_DeepCopyInto E)"
  by (simp add: PlannedMaintenanceList_shape_def PlannedMaintenanceList_DeepCopyInto_def field_copier_def copier_rules copies_deep copies_flat)

lemma RoleSpec_deep [copies_deep]: "ext_ok E \<Longrightarrow> deep_copier (RoleSpec_shape E) (RoleSpec_DeepCopyInto E)"
  by (simp add: RoleSpec_shape_def RoleSpec_DeepCopyInto_def field_copier_def copier_rules copies_deep copies_flat)

lemma RoleStatus_deep [copies_deep]: "ext_ok E \<Longrightarrow> deep_copier (RoleStatus_shape E) (RoleStatus_DeepCopyInto E)"
  by (simp add: RoleStatus_shape_def RoleStatus_DeepCopyInto_def field_copier_def copier_rules copies_deep copies_flat)

lemma Role_deep [copies_deep]: "ext_ok E \<Longrightarrow> deep_copier (Role_shape E) (Role_DeepCopyInto E)"
  by (simp add: Role_shape_def Role_DeepCopyInto_def field_copier_def copier_rules copies_deep copies_flat)

lemma RoleList_deep [copies_deep]: "ext_ok E \<Longrightarrow> deep_copier (RoleList_shape E) (RoleList_DeepCopyInto E)"
  by (simp add: RoleList_shape_def RoleList_DeepCopyInto_def field_copier_def copier_rules copies_deep copies_flat)

lemma RoutePolicySpec_deep [copies_deep]: "ext_ok E \<Longrightarrow> deep_copier (RoutePolicySpec_shape E) (RoutePolicySpec_DeepCopyInto E)"
  by (simp add: RoutePolicySpec_shape_def RoutePolicySpec_DeepCopyInto_def field_copier_def copier_rules copies_deep copies_flat)

lemma RoutePolicyStatus_deep [copies_deep]: "ext_ok E \<Longrightarrow> deep_copier (RoutePolicyStatus_shape E) (RoutePolicyStatus_DeepCopyInto E)"
  by (simp add: RoutePolicyStatus_shape_def RoutePolicyStatus_DeepCopyInto_def field_copier_def copier_rules copies_deep copies_flat)

lemma RoutePolicy_deep [copies_deep]: "ext_ok E \<Longrightarrow> deep_copier (RoutePolicy_shape E) (RoutePolicy_DeepCopyInto E)"
  by (simp add: RoutePolicy_shape_def RoutePolicy_DeepCopyInto_def field_copier_def copier_rules copies_deep copies_flat)

lemma RoutePolicyList_deep [copies_deep]: "ext_ok E \<Longrightarrow> deep_copier (RoutePolicyList_shape E) (RoutePolicyList_DeepCopyInto E)"
  by (simp add: RoutePolicyList_shape_def RoutePolicyList_DeepCopyInto_def field_copier_def copier_rules copies_deep copies_flat)

lemma RuleSpec_deep [copies_deep]: "ext_ok E \<Longrightarrow> deep_copier (RuleSpec_shape E) (RuleSpec_DeepCopyInto E)"
  by (simp add: RuleSpec_shape_def RuleSpec_DeepCopyInto_def field_copier_def copier_rules copies_deep copies_flat)

lemma RuleStatus_deep [copies_deep]: "ext_ok E \<Longrightarrow> deep_copier (RuleStatus_shape E) (RuleStatus_DeepCopyInto E)"
  by (simp add: RuleStatus_shape_def RuleStatus_DeepCopyInto_def field_copier_def copier_rules copies_deep copies_flat)

lemma Rule_deep [copies_deep]: "ext_ok E \<Longrightarrow> deep_copier (Rule_shape E) (Rule_DeepCopyInto E)"
  by (simp add: Rule_shape_def Rule_DeepCopyInto_def field_copier_def copier_rules copies_deep copies_flat)

lemma RuleList_deep [copies_deep]: "ext_ok E \<Longrightarrow> deep_copier (RuleList_shape E) (RuleList_DeepCopyInto E)"
  by (simp add: RuleList_shape_def RuleList_DeepCopyInto_def field_copier_def copier_rules copies_deep copies_flat)

lemma SavedViewSpec_deep [copies_deep]: "ext_ok E \<Longrightarrow> deep_copier (SavedViewSpec_shape E) (SavedViewSpec_DeepCopyInto E)"
  by (simp add: SavedViewSpec_shape_def SavedViewSpec_DeepCopyInto_def field_copier_def copier_rules copies_deep copies_flat)

lemma SavedViewStatus_deep [copies_deep]: "ext_ok E \<Longrightarrow> deep_copier (SavedViewStatus_shape E) (SavedViewStatus_DeepCopyInto E)"
  by (simp add: SavedViewStatus_shape_def SavedViewStatus_DeepCopyInto_def field_copier_def copier_rules copies_deep copies_flat)

lemma SavedView_deep [copies_deep]: "ext_ok E \<Longrightarrow> deep_copier (SavedView_shape E) (SavedView_DeepCopyInto E)"
  by (simp add: SavedView_shape_def SavedView_DeepCopyInto_def field_copier_def copier_rules copies_deep copies_flat)

lemma SavedViewList_deep [copies_deep]: "ext_ok E \<Longrightarrow> deep_copier (SavedViewList_shape E) (SavedViewList_DeepCopyInto E)"
  by (simp add: SavedViewList_shape_def SavedViewList_DeepCopyInto_def field_copier_def copier_rules copies_deep copies_flat)

lemma ServiceAccountSpec_deep [copies_deep]: "ext_ok E \<Longrightarrow> deep_copier (ServiceAccountSpec_shape E) (ServiceAccountSpec_DeepCopyInto E)"
  by (simp add: ServiceAccountSpec_shape_def ServiceAccountSpec_DeepCopyInto_def field_copier_def copier_rules copies_deep copies_flat)

lemma ServiceAccountStatus_deep [copies_deep]: "ext_ok E \<Longrightarrow> deep_copier (ServiceAccountStatus_shape E) (ServiceAccountStatus_DeepCopyInto E)"
  by (simp add: ServiceAccountStatus_shape_def ServiceAccountStatus_DeepCopyInto_def field_copier_def copier_rules copies_deep copies_flat)

lemma ServiceAccount_deep [copies_deep]: "ext_ok E \<Longrightarrow> deep_copier (ServiceAccount_shape E) (ServiceAccount_DeepCopyInto E)"
  by (simp add: ServiceAccount_shape_def ServiceAccount_DeepCopyInto_def field_copier_def copier_rules copies_deep copies_flat)

lemma ServiceAccountList_deep [copies_deep]: "ext_ok E \<Longrightarrow> deep_copier (ServiceAccountList_shape E) (ServiceAccountList_DeepCopyInto E)"
  by (simp add: ServiceAccountList_shape_def ServiceAccountList_DeepCopyInto_def field_copier_def copier_rules copies_deep copies_flat)

lemma UserSpec_deep [copies_deep]: "ext_ok E \<Longrightarrow> deep_copier (UserSpec_shape E) (UserSpec_DeepCopyInto E)"
  by (simp add: UserSpec_shape_def UserSpec_DeepCopyInto_def field_copier_def copier_rules copies_deep copies_flat)

lemma UserStatus_deep [copies_deep]: "ext_ok E \<Longrightarrow> deep_copier (UserStatus_shape E) (UserStatus_DeepCopyInto E)"
  by (simp add: UserStatus_shape_def UserStatus_DeepCopyInto_def field_copier_def copier_rules copies_deep copies_flat)

lemma User_deep [copies_deep]: "ext_ok E \<Longrightarrow> deep_copier (User_shape E) (User_DeepCopyInto E)"
  by (simp add: User_shape_def User_DeepCopyInto_def field_copier_def copier_rules copies_deep copies_flat)

lemma UserList_deep [copies_deep]: "ext_ok E \<Longrightarrow> deep_copier (UserList_shape E) (UserList_DeepCopyInto E)"
  by (simp add: UserList_shape_def UserList_DeepCopyInto_def field_copier_def copier_rules copies_deep copies_flat)

lemma api_copies_deep: "ext_ok E \<Longrightarrow> all_deep (api_copies E)"
  by (simp add: api_copies_def copier_DeepCopy copier_DeepCopyObject copies_deep
      ValueSource_DeepCopy_def Endpoint_DeepCopy_def HeaderAuth_DeepCopy_def Authentication_DeepCopy_def
      TLSConfig_DeepCopy_def ProviderConfigSpec_DeepCopy_def ProviderConfigStatus_DeepCopy_def
      ClusterProviderConfig_DeepCopy_def ClusterProviderConfigList_DeepCopy_def ProviderConfigRef_DeepCopy_def
      CoreSpec_DeepCopy_def SigNozResource_DeepCopy_def CoreStatus_DeepCopy_def ProviderConfig_DeepCopy_def
      ProviderConfigList_DeepCopy_def AuthDomainSpec_DeepCopy_def AuthDomainStatus_DeepCopy_def
      AuthDomain_DeepCopy_def AuthDomainList_DeepCopy_def DashboardSpec_DeepCopy_def DashboardStatus_DeepCopy_def
      Dashboard_DeepCopy_def DashboardList_DeepCopy_def NotificationChannelSpec_DeepCopy_def
      NotificationChannelStatus_DeepCopy_def NotificationChannel_DeepCopy_def NotificationChannelList_DeepCopy_def
      PlannedMaintenanceSpec_DeepCopy_def PlannedMaintenanceStatus_DeepCopy_def PlannedMaintenance_DeepCopy_def
      PlannedMaintenanceList_DeepCopy_def RoleSpec_DeepCopy_def RoleStatus_DeepCopy_def Role_DeepCopy_def
      RoleList_DeepCopy_def RoutePolicySpec_DeepCopy_def RoutePolicyStatus_DeepCopy_def RoutePolicy_DeepCopy_def
      RoutePolicyList_DeepCopy_def RuleSpec_DeepCopy_def RuleStatus_DeepCopy_def Rule_DeepCopy_def
      RuleList_DeepCopy_def SavedViewSpec_DeepCopy_def SavedViewStatus_DeepCopy_def SavedView_DeepCopy_def
      SavedViewList_DeepCopy_def ServiceAccountSpec_DeepCopy_def ServiceAccountStatus_DeepCopy_def
      ServiceAccount_DeepCopy_def ServiceAccountList_DeepCopy_def UserSpec_DeepCopy_def UserStatus_DeepCopy_def
      User_DeepCopy_def UserList_DeepCopy_def)

lemma object_copies_deep: "ext_ok E \<Longrightarrow> all_deep (object_copies E)"
  by (simp add: object_copies_def copier_DeepCopy copier_DeepCopyObject copies_deep
      ClusterProviderConfig_DeepCopy_def ClusterProviderConfig_DeepCopyObject_def
      ClusterProviderConfigList_DeepCopy_def ClusterProviderConfigList_DeepCopyObject_def
      ProviderConfig_DeepCopy_def ProviderConfig_DeepCopyObject_def
      ProviderConfigList_DeepCopy_def ProviderConfigList_DeepCopyObject_def
      AuthDomain_DeepCopy_def AuthDomain_DeepCopyObject_def
      AuthDomainList_DeepCopy_def AuthDomainList_DeepCopyObject_def
      Dashboard_DeepCopy_def Dashboard_DeepCopyObject_def
      DashboardList_DeepCopy_def DashboardList_DeepCopyObject_def
      NotificationChannel_DeepCopy_def NotificationChannel_DeepCopyObject_def
      NotificationChannelList_DeepCopy_def NotificationChannelList_DeepCopyObject_def
      PlannedMaintenance_DeepCopy_def PlannedMaintenance_DeepCopyObject_def
      PlannedMaintenanceList_DeepCopy_def PlannedMaintenanceList_DeepCopyObject_def
      Role_DeepCopy_def Role_DeepCopyObject_def RoleList_DeepCopy_def RoleList_DeepCopyObject_def
      RoutePolicy_DeepCopy_def RoutePolicy_DeepCopyObject_def
      RoutePolicyList_DeepCopy_def RoutePolicyList_DeepCopyObject_def Rule_DeepCopy_def Rule_DeepCopyObject_def
      RuleList_DeepCopy_def RuleList_DeepCopyObject_def SavedView_DeepCopy_def SavedView_DeepCopyObject_def
      SavedViewList_DeepCopy_def SavedViewList_DeepCopyObject_def
      ServiceAccount_DeepCopy_def ServiceAccount_DeepCopyObject_def
      ServiceAccountList_DeepCopy_def ServiceAccountList_DeepCopyObject_def
      User_DeepCopy_def User_DeepCopyObject_def UserList_DeepCopy_def UserList_DeepCopyObject_def)

end
