(* ===== verification/Copies.thy ===== *)
theory Copies
  imports CopyApi
begin

text \<open>
  What the deep copies of the API types give: a copy reads as the original did, and nothing written
  later through the original shows in it. The operator takes such copies of a resource before it is
  patched (\<open>DeepCopyObject\<close> in \<open>common_reconciler.go\<close>, the base of \<open>client.MergeFrom\<close>) and of a status
  before a pass changes it (\<open>DeepCopy\<close> in both reconcilers), and its cache hands out copies. The other
  theories treat these copies as values; here it is shown that they may.
\<close>

text \<open>Every \<open>DeepCopy\<close> and \<open>DeepCopyObject\<close> of the package, with the type it copies.\<close>

definition deep_copies :: "ext \<Rightarrow> (string \<times> shape \<times> copier) list" where
  "deep_copies E = concat [user_copies E, authdomain_copies E, dashboard_copies E, savedview_copies E,
     plannedmaintenance_copies E, role_copies E, routepolicy_copies E, rule_copies E, serviceaccount_copies E,
     notificationchannel_copies E, api_copies E, object_copies E]"

lemmas copies_tables_deep = user_copies_deep authdomain_copies_deep dashboard_copies_deep savedview_copies_deep
  plannedmaintenance_copies_deep role_copies_deep routepolicy_copies_deep rule_copies_deep serviceaccount_copies_deep
  notificationchannel_copies_deep api_copies_deep object_copies_deep

lemma deep_copies_deep: "ext_ok E \<Longrightarrow> (n, s, f) \<in> set (deep_copies E) \<Longrightarrow> deep_copier s f"
proof -
  assume "ext_ok E"
  then have "all_deep (deep_copies E)" by (simp add: deep_copies_def copies_tables_deep)
  then show "(n, s, f) \<in> set (deep_copies E) \<Longrightarrow> deep_copier s f" by (auto simp: list_all_iff)
qed

subsection \<open>Copies are separate\<close>

lemma separate_copy:
  assumes "deep_copier s f" and "wf_heap h" and "fits s t" and "reads_as UNIV (cells h) v t" and "f v h = (v', h')"
  shows "wf_heap h' \<and> (\<forall>a < fresh h. cells h' a = cells h a) \<and> reads_as UNIV (cells h') v t
    \<and> (\<forall>m. (\<forall>a \<ge> fresh h. m a = cells h' a) \<longrightarrow> reads_as UNIV m v' t)"
proof -
  have e: "extends h h'" using deep_copierD [OF assms] by blast
  then show ?thesis
    using reads_extends(1) [OF e assms(2) subset_UNIV assms(4)] copy_is_separate [OF assms] by (auto simp: extends_def)
qed

text \<open>
  (C11) Every deep copy of an API type is separate from its original, whether it is the resource a
  patch is computed against, the status a pass is compared with, or a part of a typed spec. Taking
  the copy writes to no existing memory, so the original reads as before; and the copy keeps reading
  what the original read when it was taken, whatever is written afterwards to any memory that existed
  then, such as the annotations and conditions a pass changes.
\<close>

theorem every_deep_copy_is_separate:
  assumes "ext_ok E" and "(n, s, f) \<in> set (deep_copies E)" and "wf_heap h" and "fits s t"
    and "reads_as UNIV (cells h) v t" and "f v h = (v', h')"
  shows "wf_heap h' \<and> (\<forall>a < fresh h. cells h' a = cells h a) \<and> reads_as UNIV (cells h') v t
    \<and> (\<forall>m. (\<forall>a \<ge> fresh h. m a = cells h' a) \<longrightarrow> reads_as UNIV m v' t)"
  by (rule separate_copy [OF deep_copies_deep [OF assms(1,2)] assms(3-6)])

text \<open>A small memory: a service account with an annotation, and the contents it reads.\<close>

definition small_ext :: ext where
  "small_ext = \<lparr>
     ext_shape = (\<lambda>n. if n = ''metav1.ObjectMeta'' then Struct [(''annotations'', Map Flat)] else Flat),
     ext_copy = (\<lambda>n. if n = ''metav1.ObjectMeta'' then DeepCopyInto [(''annotations'', make_map assign)] else assign)\<rparr>"

lemma small_ext_ok: "ext_ok small_ext"
  by (simp add: ext_ok_def small_ext_def copier_rules field_copier_def)

abbreviation word_of_text :: "string \<Rightarrow> rval" where
  "word_of_text s \<equiv> RAtom (AString s)"

abbreviation text_content :: "string \<Rightarrow> content" where
  "text_content s \<equiv> TAtom (AString s)"

definition account_heap :: heap where
  "account_heap = \<lparr>cells = Map.empty(
       0 \<mapsto> CBox (RStruct [(''TypeMeta'', word_of_text ''ServiceAccount''), (''metadata'', RStruct [(''annotations'', RRef 1)]),
         (''spec'', RStruct [
            (''CoreSpec'', RStruct [(''providerConfigRef'', RStruct [(''name'', word_of_text ''pc''), (''kind'', word_of_text [])]),
               (''interval'', RNil), (''retryInterval'', RNil), (''timeout'', RNil), (''suspend'', RAtom (ABool False)),
               (''reclaimPolicy'', word_of_text ''Delete'')]),
            (''objectTemplate'', RStruct [(''spec'', RNil), (''jsonSpec'', RRef 2)])]),
         (''status'', RStruct [(''CoreStatus'', RStruct [(''conditions'', RNil), (''signozResource'', RNil),
            (''observedGeneration'', RAtom (AInt 0)), (''observedHash'', word_of_text []), (''reconciledAt'', word_of_text [])])])]),
       1 \<mapsto> CMap [(''a'', word_of_text ''1'')],
       2 \<mapsto> CBox (word_of_text ''{}'')), fresh = 3\<rparr>"

definition account_content :: content where
  "account_content = TBox (TStruct [(''TypeMeta'', text_content ''ServiceAccount''),
     (''metadata'', TStruct [(''annotations'', TMap [(''a'', text_content ''1'')])]),
     (''spec'', TStruct [
        (''CoreSpec'', TStruct [(''providerConfigRef'', TStruct [(''name'', text_content ''pc''), (''kind'', text_content [])]),
           (''interval'', TNil), (''retryInterval'', TNil), (''timeout'', TNil), (''suspend'', TAtom (ABool False)),
           (''reclaimPolicy'', text_content ''Delete'')]),
        (''objectTemplate'', TStruct [(''spec'', TNil), (''jsonSpec'', TBox (text_content ''{}''))])]),
     (''status'', TStruct [(''CoreStatus'', TStruct [(''conditions'', TNil), (''signozResource'', TNil),
        (''observedGeneration'', TAtom (AInt 0)), (''observedHash'', text_content []), (''reconciledAt'', text_content [])])])])"

lemma account_fits: "fits (Ptr (ServiceAccount_shape small_ext)) account_content"
  by (simp add: account_content_def ServiceAccount_shape_def ServiceAccountSpec_shape_def ServiceAccountStatus_shape_def
      CoreSpec_shape_def ProviderConfigRef_shape_def CoreStatus_shape_def small_ext_def ServiceAccountObjectTemplate_def)

lemma account_reads: "reads_as UNIV (cells account_heap) (RRef 0) account_content"
  unfolding account_content_def account_heap_def
  by (rule read_box; (simp; fail)?)
     (auto intro!: reads_as_reads_all_reads_entries.intros)

lemma account_wf: "wf_heap account_heap"
  by (auto simp: wf_heap_def account_heap_def)

lemma account_listed:
  "(''ServiceAccount'', Ptr (ServiceAccount_shape E), ServiceAccount_DeepCopyObject E) \<in> set (deep_copies E)"
  by (simp add: deep_copies_def object_copies_def)

theorem every_deep_copy_is_separate_witness:
  "\<exists>v' h'. ServiceAccount_DeepCopyObject small_ext (RRef 0) account_heap = (v', h')
    \<and> reads_as UNIV ((cells h')(1 \<mapsto> CMap [(''a'', word_of_text ''2'')])) v' account_content"
proof -
  obtain v' h' where run: "ServiceAccount_DeepCopyObject small_ext (RRef 0) account_heap = (v', h')"
    by (cases "ServiceAccount_DeepCopyObject small_ext (RRef 0) account_heap")
  have fresh: "fresh account_heap = 3" by (simp add: account_heap_def)
  from every_deep_copy_is_separate [OF small_ext_ok account_listed account_wf account_fits account_reads run]
  have "reads_as UNIV ((cells h')(1 \<mapsto> CMap [(''a'', word_of_text ''2'')])) v' account_content"
    by (auto simp: fresh)
  with run show ?thesis by blast
qed

end
