(* ===== verification/Spec2Isabelle.thy ===== *)
theory Spec2Isabelle
  imports Divergences Uniqueness Settling Startup Providers TypedDrift PageBound Copies
begin

text \<open>
  A verification of the SigNoz operator, a Kubernetes operator in Go that mirrors ten custom
  resource kinds (User, AuthDomain, Dashboard, SavedView, PlannedMaintenance, Role, RoutePolicy,
  Rule, ServiceAccount, NotificationChannel) into a SigNoz backend over its HTTP API.

  \<^bold>\<open>The program.\<close> For each kind a controller (\<open>internal/controller/resources\<close>) receives requests,
  reads the resource and hands it to the one reconciler all kinds share
  (\<open>internal/resources/reconcilers/common_reconciler.go\<close>). The reconciler resolves the provider
  configuration the resource refers to (\<open>internal/providerconfig\<close>), builds an HTTP client from it
  (\<open>internal/clients\<close>), and drives the object in SigNoz through the kind's adapter
  (\<open>internal/resources/adapters\<close>) and the kind's description (\<open>internal/resources/objects\<close>), which
  compares JSON bodies (\<open>internal/jsonbody\<close>). The outcome goes into the status conditions
  (\<open>internal/resources/condition.go\<close>). Two more controllers resolve the provider configurations
  themselves. \<open>cmd\<close> wires all of this from flags and the environment.

  \<^bold>\<open>The model.\<close> A pass is a state transformer (HOL-Library's \<open>state\<close> monad) over \<open>sys\<close>: the object the
  Go code mutates through a pointer, an opaque outside \<open>'w\<close>, and the list of the calls issued so
  far. Kubernetes, SigNoz and the clock are functions on the outside, held in the records
  \<open>ports\<close> and \<open>reader\<close>; results about calls hold for every such outside. An error is a value of
  \<open>go_error\<close>, and \<open>x, err := f()\<close> is a sum or an option. Third-party packages are the fields of
  \<open>libs\<close> (encoding/json, gjson, go-cmp, net/url, crypto, strconv) and \<open>klib\<close> (apimachinery and
  controller-runtime); what the code relies on of them is stated in the locales \<open>gjson_lib\<close>,
  \<open>go_cmp\<close> and \<open>kube_lib\<close>, which \<open>RefLibs\<close>, \<open>CmpRef\<close> and \<open>Conditions\<close> interpret on executable
  functions. \<open>json.Marshal\<close> at the typed spec of a kind is the parameter \<open>ms\<close> of the reconciler's
  theories; \<open>TypedSpecs\<close> puts \<open>marshal\<close>, its definition over Go's struct types, in its place. There a
  resource is a value; \<open>Copies\<close> shows on an explicit heap that the deep copies the code takes
  justify this.

  \<^bold>\<open>Theories.\<close>
  \<^item> \<open>Prelude\<close>: weakest preconditions of the state monad (collection \<open>wp_simps\<close>), Go strings.
  \<^item> \<open>Errors\<close>: \<open>internal/errors\<close>, the error chain, reasons, codes, HTTP statuses.
  \<^item> \<open>Json\<close>, \<open>JsonBody\<close>, \<open>CmpRef\<close>: the libraries' interface; \<open>internal/jsonbody\<close>; a reference
    \<open>cmp.Diff\<close> that keeps the laws of \<open>go_cmp\<close>.
  \<^item> \<open>Api\<close>: the types of \<open>api/resources/v1alpha1\<close> and their methods.
  \<^item> \<open>World\<close>, \<open>Trace\<close>: the outside, the calls, and the calculus of what an operation emits.
  \<^item> \<open>Conditions\<close>: \<open>internal/resources/condition.go\<close> and \<open>reason.go\<close>.
  \<^item> \<open>Objects\<close>: the ten kinds of \<open>internal/resources/objects\<close>; locale \<open>object_contract\<close>, interpreted
    for each.
  \<^item> \<open>Client\<close>: \<open>internal/clients/signoz.go\<close> and \<open>internal/providerconfig/resolved.go\<close>.
  \<^item> \<open>Resolver\<close>, \<open>ProviderConfig\<close>: the resolver with its cache (locale \<open>resolver_contract\<close>), and the
    reconcilers of the two configuration kinds.
  \<^item> \<open>Adapters\<close>: the ten adapters and their shared transport; locale \<open>adapter_contract\<close>, interpreted
    for each.
  \<^item> \<open>Reconciler\<close>: every handler of the common reconciler.
  \<^item> \<open>Passes\<close>, \<open>Convergence\<close>: lemmas on whole passes and on each branch, proved once in the locales
    \<open>reconciler_calls\<close> and \<open>reconciler_pass\<close>, which put the contracts together.
  \<^item> \<open>Controllers\<close>, \<open>Config\<close>: the controllers, their indexes and watches, the wiring of \<open>cmd/main.go\<close>
    and \<open>cmd/config.go\<close>; there \<open>reconciler_calls\<close> and \<open>reconciler_pass\<close> are interpreted for every
    kind (\<open>kinds\<close>, \<open>kind_passes\<close>).
  \<^item> \<open>Runs\<close>: the history of a resource over many passes, each possibly cut short, as an inductive
    relation.
  \<^item> \<open>JsonText\<close>, \<open>RefLibs\<close>, \<open>Scenario\<close>: an executable JSON parser and printer, concrete libraries,
    and a scripted outside, on which passes are evaluated.
  \<^item> \<open>JsonPrint\<close>: the compact texts of a JSON value, and that the parser reads each of them back.
  \<^item> \<open>GoTypes\<close>: Go's struct types with their JSON tags, their values, \<open>json.Marshal\<close> (\<open>encode\<close>, the
    document, and \<open>marshal\<close>, its text), and admission by the schema markers.
  \<^item> \<open>Specs\<close>, \<open>ChannelSpec\<close>, \<open>RuleTypes\<close>, \<open>SavedViewTypes\<close>, \<open>DashboardTypes\<close>: the structs of
    \<open>api/resources/v1alpha1/zz_generated_*_types.go\<close>, one definition each. \<open>TypedSpecs\<close>,
    \<open>TypedDrift\<close>: the kinds with their typed specs in place.
  \<^item> \<open>DeepCopy\<close>: a heap, the statements deep copies are made of, and what makes one deep.
    \<open>CopySpecs\<close>, \<open>CopyApi\<close>: every \<open>DeepCopyInto\<close>, \<open>DeepCopy\<close> and \<open>DeepCopyObject\<close> of
    \<open>zz_generated.deepcopy.go\<close>, each given by its own statements and proved deep. \<open>Copies\<close>: what every one
    of them guarantees, the copies the reconcilers take among them.
  \<^item> \<open>Startup\<close>: \<open>run\<close> of \<open>cmd/main.go\<close>, from the flags to the start of the manager.
  \<^item> \<open>Uniqueness\<close>: what a whole life of a resource leaves in SigNoz, as reachable states of an
    inductive relation, over any outside that keeps the laws collected in \<open>honest_backend\<close>.
  \<^item> \<open>Listing\<close>: what those laws ask of the list endpoints of SigNoz, in terms of requests and answers,
    and that every kind's lookup then sees exactly the objects that are stored.
  \<^item> \<open>Settling\<close>: convergence, from a bound resource whose object matches to passes that only read.
  \<^item> \<open>Guarantees\<close>, \<open>Branches\<close>, \<open>Providers\<close>, \<open>Drift\<close>, \<open>Transport\<close>, \<open>PageBound\<close>, \<open>Divergences\<close> and this
    theory: the properties, with those of \<open>TypedSpecs\<close>, \<open>TypedDrift\<close>, \<open>Copies\<close>, \<open>Uniqueness\<close>,
    \<open>Settling\<close> and \<open>Startup\<close>.

  \<^bold>\<open>What is shown.\<close> Order: a create request is sent at most once per pass, directly after an accepted
  patch that records the attempt, also over histories of interrupted passes; the finalizer comes
  first and the status last; a finalizer is removed only when nothing is known to be left behind.
  Idempotency: whatever calls fail and whatever is lost between passes, SigNoz never holds two
  objects of one resource, as long as SigNoz lists what it stores and answers lookups in full.
  Reporting: every pass records an outcome that all conditions agree on, and no resource is
  forgotten. Branches: what each handler does with a gone, changed, ambiguous, pinned, found or
  suspended object, and that a settled one is only read.
  Convergence: once the object matches, one accepted pass settles the resource, and every later
  pass only reads. Drift: the comparison finds exactly the
  fields that differ, the update payload is exactly the updatable part, and an update that SigNoz
  applies leaves no drift. Typed specs: a body conforms to its kind, nothing of a spec is lost in it,
  the identity is where the kind looks for it, and an edit changes the hash. Copies: every deep copy
  reads the same and shares no memory. Transport: what requests carry, what of an answer is believed, and that
  lookups miss nothing and end. Providers: each reference is read once, errors carry documented codes, and
  a change wakes exactly the resources that depend on it.

  \<^bold>\<open>Bounds.\<close> The page walk is a total function: a page's total is a signed 64-bit number, so the offset,
  kept as an integer, stays below \<open>2 ^ 63\<close> where the walk goes on. The JSON parser of \<open>JsonText\<close> takes
  fuel, the length of its input; it serves evaluation only. Durations are integers of nanoseconds
  that are compared and passed on, never added.

  \<^bold>\<open>Not modelled.\<close> Logging calls and metrics; the leader election, health checks and certificate
  handling of controller-runtime; the CEL rules of the schema and the registration of the types in
  a scheme; mocks and tests; the generators and manifests. The text of a \<open>float64\<close> is a parameter
  (\<open>fmt\<close>), and a number is the rational its text denotes. The order in which a deep copy takes
  addresses is not that of Go's allocator, which no result depends on.
  Concurrency is that of controller-runtime, which never runs two passes over one resource at a
  time.
\<close>

subsection \<open>Outcomes\<close>

text \<open>
  Writing an outcome to the status makes every condition say it, with its reason, message and
  generation: Synced and Ready always present, Terminal, Recoverable and Suspended present exactly
  when they hold. Writing it again, later, changes nothing.
\<close>

theorem outcome_is_shown_and_stable:
  assumes "kube_lib K"
  shows "shows_outcome (SetConditionsOnOutcome K t g out reason message st) out reason message g
    \<and> SetConditionsOnOutcome K t' g out reason message (SetConditionsOnOutcome K t g out reason message st)
        = SetConditionsOnOutcome K t g out reason message st"
  using kube_lib.outcome_shown [OF assms] kube_lib.shown_stable [OF assms] by blast

theorem outcome_is_shown_and_stable_witness:
  "shows_outcome (SetConditionsOnOutcome ref_klib 5 1 OutcomeTerminal SReasonRejected ''m'' (o_CoreStatus (new_resource [])))
     OutcomeTerminal SReasonRejected ''m'' 1"
  using outcome_is_shown_and_stable [OF refk.kube_lib_axioms] by blast

text \<open>
  (C33) What an answer means for a resource: a success status is no error; 400 and 409 end in
  Terminal, rejected; 401 and 403 in Recoverable, unauthorized; every other status in Recoverable,
  to be retried. No answer stops a resource except one that says the request itself is wrong.
\<close>

theorem http_status_decides_outcome:
  "case http_error cmpct status body of
     None \<Rightarrow> 200 \<le> status \<and> status < 300
   | Some e \<Rightarrow> \<not> (200 \<le> status \<and> status < 300) \<and>
       GetOutcomeAndSetConditionsOnErr K t g e st =
         (let (out, reason) =
            (if status = 400 \<or> status = 409 then (OutcomeTerminal, SReasonRejected)
             else if status = 401 \<or> status = 403 then (OutcomeRecoverable, SReasonUnauthorized)
             else (OutcomeRecoverable, SReasonBackendError))
          in (out, SetConditionsOnOutcome K t g out reason (Error e) st))"
proof (cases "http_error cmpct status body")
  case None
  then show ?thesis using http_error_None_iff [of cmpct status body] by simp
next
  case (Some e)
  have "errors_As e \<noteq> None"
    using Some by (auto simp: http_error_def NewFromHTTPResponse_def Let_def split: if_splits)
  then show ?thesis
    using Some http_error_reason [OF Some] http_error_None_iff [of cmpct status body]
    by (auto simp: GetOutcomeAndSetConditionsOnErr_def error_predicates Let_def)
qed

end
